(* ===== verification/CI_Prelude.thy ===== *)
theory CI_Prelude
  imports Main "HOL-Library.AList" "HOL-Library.Sublist" "HOL-Library.Word"
begin

text \<open>
  Shared vocabulary of the development: Python exceptions and fallible results,
  stateful fallible actions (the state survives a raised exception, as Python objects do),
  dictionaries with insertion order, and the string operations the sources use.
  A Python \<open>str\<close> is a \<^typ>\<open>string\<close> whose code points are below 256; an \<open>int\<close> is an
  unbounded \<^typ>\<open>int\<close>; a point in time or a duration is a number of microseconds.
\<close>

section \<open>Collections of the development\<close>

named_theorems py_defs \<open>definitions of the Python operations, for unfolding\<close>
named_theorems frame_simps \<open>fields an operation leaves unchanged\<close>

type_synonym time = int
type_synonym byte = "8 word"

section \<open>Exceptions and results\<close>

datatype py_exc =
    ValueError string
  | RuntimeError string
  | SystemError string
  | KeyError
  | IndexError
  | TypeError
  | AttributeError
  | AssertionError
  | OverflowError
  | EOFError
  | OSError
  | ConnectionResetError
  | S3Error
  | CalledProcessError
  | ValidationError
  | HTTPError
  | StructError

type_synonym 'a res = "py_exc + 'a"

definition res_bind :: "'a res \<Rightarrow> ('a \<Rightarrow> 'b res) \<Rightarrow> 'b res" where
  "res_bind m f = (case m of Inl e \<Rightarrow> Inl e | Inr x \<Rightarrow> f x)"

lemma res_bind_simps [simp]:
  "res_bind (Inl e) f = Inl e"
  "res_bind (Inr x) f = f x"
  by (simp_all add: res_bind_def)

lemma res_bind_Inr_iff: "res_bind m f = Inr y \<longleftrightarrow> (\<exists>x. m = Inr x \<and> f x = Inr y)"
  by (cases m) auto

lemma res_bind_Inl_iff:
  "res_bind m f = Inl e \<longleftrightarrow> m = Inl e \<or> (\<exists>x. m = Inr x \<and> f x = Inl e)"
  by (cases m) auto

fun res_map_list :: "('a \<Rightarrow> 'b res) \<Rightarrow> 'a list \<Rightarrow> 'b list res" where
  "res_map_list f [] = Inr []"
| "res_map_list f (x # xs) =
     res_bind (f x) (\<lambda>y. res_bind (res_map_list f xs) (\<lambda>ys. Inr (y # ys)))"

definition is_ok :: "'a res \<Rightarrow> bool" where
  "is_ok r = (case r of Inl _ \<Rightarrow> False | Inr _ \<Rightarrow> True)"

lemma is_ok_simps [simp]: "is_ok (Inr x)" "\<not> is_ok (Inl e)"
  by (simp_all add: is_ok_def)

lemma is_ok_iff: "is_ok r \<longleftrightarrow> (\<exists>x. r = Inr x)"
  by (cases r) auto

section \<open>Stateful actions that may raise\<close>

text \<open>
  An action maps a state to the value it returns or the exception it raises, together with the
  state it leaves behind. Changes made before an exception stay in place.
\<close>

type_synonym ('s, 'a) act = "'s \<Rightarrow> 'a res \<times> 's"

definition act_return :: "'a \<Rightarrow> ('s, 'a) act" where
  "act_return x s = (Inr x, s)"

definition act_raise :: "py_exc \<Rightarrow> ('s, 'a) act" where
  "act_raise e s = (Inl e, s)"

definition act_bind :: "('s, 'a) act \<Rightarrow> ('a \<Rightarrow> ('s, 'b) act) \<Rightarrow> ('s, 'b) act" where
  "act_bind m f s = (case m s of (Inl e, s') \<Rightarrow> (Inl e, s') | (Inr x, s') \<Rightarrow> f x s')"

definition act_modify :: "('s \<Rightarrow> 's) \<Rightarrow> ('s, unit) act" where
  "act_modify f s = (Inr (), f s)"

definition act_get :: "('s \<Rightarrow> 'a) \<Rightarrow> ('s, 'a) act" where
  "act_get f s = (Inr (f s), s)"

definition act_lift :: "'a res \<Rightarrow> ('s, 'a) act" where
  "act_lift r s = (r, s)"

text \<open>\<open>try: m except: h\<close>, the handler runs on the state the failing body left.\<close>

definition act_catch :: "('s, 'a) act \<Rightarrow> (py_exc \<Rightarrow> ('s, 'a) act) \<Rightarrow> ('s, 'a) act" where
  "act_catch m h s = (case m s of (Inl e, s') \<Rightarrow> h e s' | (Inr x, s') \<Rightarrow> (Inr x, s'))"

lemmas act_defs [py_defs] =
  act_return_def act_raise_def act_bind_def act_modify_def act_get_def act_lift_def act_catch_def

fun act_iter :: "('a \<Rightarrow> ('s, unit) act) \<Rightarrow> 'a list \<Rightarrow> ('s, unit) act" where
  "act_iter f [] = act_return ()"
| "act_iter f (x # xs) = act_bind (f x) (\<lambda>_. act_iter f xs)"

lemma act_bind_eq_Inr:
  "act_bind m f s = (Inr y, s'') \<longleftrightarrow> (\<exists>x s'. m s = (Inr x, s') \<and> f x s' = (Inr y, s''))"
  by (auto simp: act_bind_def split: prod.splits sum.splits)

lemma act_bind_modify [simp]: "act_bind (act_modify f) k s = k () (f s)"
  by (simp add: act_defs)

lemma act_bind_get [simp]: "act_bind (act_get g) k s = k (g s) s"
  by (simp add: act_defs)

lemma act_bind_prims [simp]:
  "act_bind (act_return x) k s = k x s"
  "act_bind (act_raise e) k s = (Inl e, s)"
  "act_bind (act_lift (Inr x)) k s = k x s"
  "act_bind (act_lift (Inl e)) k s = (Inl e, s)"
  by (simp_all add: act_defs)

lemma act_bind_ok: "fst (m s) = Inr x \<Longrightarrow> act_bind m f s = f x (snd (m s))"
  by (cases "m s") (simp add: act_bind_def)

lemma act_bind_err: "fst (m s) = Inl e \<Longrightarrow> act_bind m f s = (Inl e, snd (m s))"
  by (cases "m s") (simp add: act_bind_def)

lemma act_catch_ok: "fst (m s) = Inr x \<Longrightarrow> act_catch m h s = m s"
  by (cases "m s") (simp add: act_catch_def)

lemma act_catch_err: "fst (m s) = Inl e \<Longrightarrow> act_catch m h s = h e (snd (m s))"
  by (cases "m s") (simp add: act_catch_def)

text \<open>An invariant every step of a loop keeps is kept by the loop, even when it raises.\<close>

lemma act_iter_invariant:
  assumes "\<And>x s. x \<in> set xs \<Longrightarrow> P s \<Longrightarrow> P (snd (f x s))" and "P s"
  shows "P (snd (act_iter f xs s))"
  using assms
proof (induction xs arbitrary: s)
  case Nil
  then show ?case by (simp add: act_return_def)
next
  case (Cons x xs)
  obtain r s' where fx: "f x s = (r, s')" by fastforce
  with Cons.prems have "P s'" by (metis list.set_intros(1) snd_conv)
  moreover have "P (snd (act_iter f xs s'))" if "P s'"
    using that Cons.IH Cons.prems(1) by simp
  ultimately show ?case
    using fx by (cases r) (simp_all add: act_bind_def)
qed

text \<open>
  Actions that only take the state to a later one, for a preorder on states: closed under all the
  ways the sources compose actions, exceptions included.
\<close>

definition act_within :: "('s \<Rightarrow> 's \<Rightarrow> bool) \<Rightarrow> ('s, 'a) act \<Rightarrow> bool" where
  "act_within R m \<longleftrightarrow> (\<forall>s. R s (snd (m s)))"

locale act_preorder =
  fixes R :: "'s \<Rightarrow> 's \<Rightarrow> bool"
  assumes R_refl: "R s s"
    and R_trans: "R s t \<Longrightarrow> R t u \<Longrightarrow> R s u"
begin

lemma within_return: "act_within R (act_return x)"
  by (simp add: act_within_def act_return_def R_refl)

lemma within_raise: "act_within R (act_raise e)"
  by (simp add: act_within_def act_raise_def R_refl)

lemma within_lift: "act_within R (act_lift r)"
  by (simp add: act_within_def act_lift_def R_refl)

lemma within_get: "act_within R (act_get f)"
  by (simp add: act_within_def act_get_def R_refl)

lemma within_modify: "(\<And>s. R s (f s)) \<Longrightarrow> act_within R (act_modify f)"
  by (simp add: act_within_def act_modify_def)

lemma within_bind: "act_within R m \<Longrightarrow> (\<And>x. act_within R (f x)) \<Longrightarrow> act_within R (act_bind m f)"
  unfolding act_within_def act_bind_def by (auto split: prod.splits sum.splits) (metis R_trans snd_conv)+

lemma within_catch: "act_within R m \<Longrightarrow> (\<And>e. act_within R (h e)) \<Longrightarrow> act_within R (act_catch m h)"
  unfolding act_within_def act_catch_def by (auto split: prod.splits sum.splits) (metis R_trans snd_conv)+

lemma within_if: "(b \<Longrightarrow> act_within R m) \<Longrightarrow> (\<not> b \<Longrightarrow> act_within R n) \<Longrightarrow> act_within R (if b then m else n)"
  by simp

lemma within_iter: "(\<And>x. x \<in> set xs \<Longrightarrow> act_within R (f x)) \<Longrightarrow> act_within R (act_iter f xs)"
  by (induction xs) (simp_all add: within_return within_bind)

lemma withinD: "act_within R m \<Longrightarrow> R s (snd (m s))"
  by (simp add: act_within_def)

lemmas within_intros =
  within_return within_raise within_lift within_get within_modify within_bind within_catch within_if within_iter

end

section \<open>Dictionaries\<close>

text \<open>
  A Python \<open>dict\<close> keeps its insertion order; assigning to a present key keeps its position.
  This is what association lists with \<^const>\<open>AList.update\<close> and \<^const>\<open>AList.delete\<close> do.
\<close>

type_synonym ('k, 'v) dict = "('k \<times> 'v) list"

abbreviation dict_get :: "('k, 'v) dict \<Rightarrow> 'k \<Rightarrow> 'v option" where
  "dict_get d k \<equiv> map_of d k"

abbreviation dict_set :: "'k \<Rightarrow> 'v \<Rightarrow> ('k, 'v) dict \<Rightarrow> ('k, 'v) dict" where
  "dict_set \<equiv> AList.update"

abbreviation dict_del :: "'k \<Rightarrow> ('k, 'v) dict \<Rightarrow> ('k, 'v) dict" where
  "dict_del \<equiv> AList.delete"

abbreviation dict_keys :: "('k, 'v) dict \<Rightarrow> 'k list" where
  "dict_keys d \<equiv> map fst d"

abbreviation dict_values :: "('k, 'v) dict \<Rightarrow> 'v list" where
  "dict_values d \<equiv> map snd d"

abbreviation dict_ok :: "('k, 'v) dict \<Rightarrow> bool" where
  "dict_ok d \<equiv> distinct (map fst d)"

definition dict_index :: "('k, 'v) dict \<Rightarrow> 'k \<Rightarrow> 'v res" where
  "dict_index d k = (case dict_get d k of None \<Rightarrow> Inl KeyError | Some v \<Rightarrow> Inr v)"

definition dict_get_or :: "('k, 'v) dict \<Rightarrow> 'k \<Rightarrow> 'v \<Rightarrow> 'v" where
  "dict_get_or d k v = (case dict_get d k of None \<Rightarrow> v | Some w \<Rightarrow> w)"

lemma dict_get_set [simp]: "dict_get (dict_set k v d) k' = (if k' = k then Some v else dict_get d k')"
  by (simp add: update_conv')

lemma dict_get_del [simp]: "dict_get (dict_del k d) k' = (if k' = k then None else dict_get d k')"
  by (simp add: delete_conv')

lemma dict_ok_set [simp]: "dict_ok d \<Longrightarrow> dict_ok (dict_set k v d)"
  by (rule distinct_update)

lemma dict_ok_del [simp]: "dict_ok d \<Longrightarrow> dict_ok (dict_del k d)"
  by (rule distinct_delete)

lemma dict_keys_set [simp]: "fst ` set (dict_set k v d) = insert k (fst ` set d)"
  by (induction d) auto

lemma dict_keys_del [simp]: "fst ` set (dict_del k d) = fst ` set d - {k}"
  by (induction d) auto

lemma dict_get_None_iff: "dict_get d k = None \<longleftrightarrow> k \<notin> fst ` set d"
  by (rule map_of_eq_None_iff)

lemma dict_get_mem: "dict_get d k = Some v \<Longrightarrow> (k, v) \<in> set d"
  by (rule map_of_SomeD)

lemma dict_ok_mem: "dict_ok d \<Longrightarrow> (k, v) \<in> set d \<Longrightarrow> dict_get d k = Some v"
  by (rule map_of_is_SomeI)

section \<open>Lists\<close>

text \<open>Python's \<open>xs[i]\<close>: negative indices count from the end, anything else out of range raises.\<close>

definition py_pos :: "int \<Rightarrow> 'a list \<Rightarrow> nat res" where
  "py_pos i xs =
     (let n = int (length xs); j = (if i < 0 then n + i else i)
      in if 0 \<le> j \<and> j < n then Inr (nat j) else Inl IndexError)"

lemma py_pos_in_range [simp]: "0 \<le> i \<Longrightarrow> i < int (length xs) \<Longrightarrow> py_pos i xs = Inr (nat i)"
  by (simp add: py_pos_def)

lemma py_pos_less: "py_pos i xs = Inr j \<Longrightarrow> j < length xs"
  by (auto simp: py_pos_def Let_def split: if_splits)

lemma py_pos_cong: "length xs = length ys \<Longrightarrow> py_pos i xs = py_pos i ys"
  by (simp add: py_pos_def)

end
