(* ===== verification/Py_Strings.thy ===== *)
theory Py_Strings
  imports CI_Prelude
begin

text \<open>
  The operations of Python's \<open>str\<close> and \<open>int\<close> the sources use: \<open>split\<close>, \<open>join\<close>,
  \<open>splitlines\<close>, \<open>strip\<close>, \<open>lower\<close>, \<open>startswith\<close>, \<open>str(int)\<close>, \<open>int(str)\<close> and
  \<open>hex\<close>, with the round trips between them that the components rest on.
\<close>

section \<open>Splitting and joining\<close>

abbreviation str_startswith :: "string \<Rightarrow> string \<Rightarrow> bool" where
  "str_startswith s p \<equiv> prefix p s"

fun str_split :: "char \<Rightarrow> string \<Rightarrow> string list" where
  "str_split c [] = [[]]"
| "str_split c (x # xs) =
     (if x = c then [] # str_split c xs
      else (case str_split c xs of [] \<Rightarrow> [[x]] | y # ys \<Rightarrow> (x # y) # ys))"

fun str_join :: "string \<Rightarrow> string list \<Rightarrow> string" where
  "str_join sep [] = []"
| "str_join sep [x] = x"
| "str_join sep (x # y # ys) = x @ sep @ str_join sep (y # ys)"

lemma str_split_neq_Nil [simp]: "str_split c s \<noteq> []"
  by (induction s) (auto split: list.splits)

lemma str_join_Cons: "ys \<noteq> [] \<Longrightarrow> str_join sep (x # ys) = x @ sep @ str_join sep ys"
  by (cases ys) auto

lemma str_join_split: "str_join [c] (str_split c s) = s"
proof (induction s)
  case Nil
  then show ?case by simp
next
  case (Cons x xs)
  obtain y ys where sp: "str_split c xs = y # ys"
    by (meson neq_Nil_conv str_split_neq_Nil)
  then show ?case
    using Cons by (cases ys) (auto simp: str_join_Cons)
qed

lemma str_split_no_sep: "p \<in> set (str_split c s) \<Longrightarrow> c \<notin> set p"
  by (induction s arbitrary: p) (auto split: list.splits if_splits)

lemma str_split_fresh: "c \<notin> set s \<Longrightarrow> str_split c s = [s]"
  by (induction s) auto

lemma str_split_append: "c \<notin> set s \<Longrightarrow> str_split c (s @ c # t) = s # str_split c t"
  by (induction s) auto

lemma str_split_join:
  "ps \<noteq> [] \<Longrightarrow> (\<forall>p \<in> set ps. c \<notin> set p) \<Longrightarrow> str_split c (str_join [c] ps) = ps"
proof (induction ps)
  case Nil
  then show ?case by simp
next
  case (Cons p ps)
  then show ?case
    by (cases ps) (auto simp: str_split_fresh str_split_append)
qed

section \<open>Whitespace, case and lines\<close>

definition py_isspace :: "char \<Rightarrow> bool" where
  "py_isspace c = (let n = (of_char c :: nat) in (9 \<le> n \<and> n \<le> 13) \<or> (28 \<le> n \<and> n \<le> 32) \<or> n = 133 \<or> n = 160)"

definition str_strip :: "string \<Rightarrow> string" where
  "str_strip s = rev (dropWhile py_isspace (rev (dropWhile py_isspace s)))"

definition char_lower :: "char \<Rightarrow> char" where
  "char_lower c = (let n = (of_char c :: nat) in
     if (65 \<le> n \<and> n \<le> 90) \<or> (192 \<le> n \<and> n \<le> 222 \<and> n \<noteq> 215) then char_of (n + 32) else c)"

definition str_lower :: "string \<Rightarrow> string" where
  "str_lower s = map char_lower s"

text \<open>The line boundaries of \<open>str.splitlines\<close>; carriage return and line feed together are one.\<close>

definition py_line_break :: "char \<Rightarrow> bool" where
  "py_line_break c = (let n = (of_char c :: nat) in (10 \<le> n \<and> n \<le> 13) \<or> (28 \<le> n \<and> n \<le> 30) \<or> n = 133)"

fun splitlines_aux :: "string \<Rightarrow> string \<Rightarrow> string list" where
  "splitlines_aux acc [] = (if acc = [] then [] else [rev acc])"
| "splitlines_aux acc [c] = (if py_line_break c then [rev acc] else [rev (c # acc)])"
| "splitlines_aux acc (c # d # s) =
     (if c = CHR 0x0D \<and> d = CHR 0x0A then rev acc # splitlines_aux [] s
      else if py_line_break c then rev acc # splitlines_aux [] (d # s)
      else splitlines_aux (c # acc) (d # s))"

definition str_splitlines :: "string \<Rightarrow> string list" where
  "str_splitlines s = splitlines_aux [] s"

text \<open>\<open>str.replace\<close> of a single character by a string.\<close>

definition str_replace_char :: "char \<Rightarrow> string \<Rightarrow> string \<Rightarrow> string" where
  "str_replace_char c r s = concat (map (\<lambda>x. if x = c then r else [x]) s)"

lemma splitlines_aux_line:
  "(\<forall>c \<in> set l. \<not> py_line_break c) \<Longrightarrow>
   splitlines_aux acc (l @ CHR 0x0A # s) = (rev acc @ l) # splitlines_aux [] s"
proof (induction l arbitrary: acc)
  case Nil
  then show ?case by (cases s) (auto simp: py_line_break_def Let_def)
next
  case (Cons c l)
  have "\<not> py_line_break c" using Cons.prems by simp
  moreover from this have "c \<noteq> CHR 0x0D" by (auto simp: py_line_break_def)
  moreover obtain d r where "l @ CHR 0x0A # s = d # r" by (cases l) auto
  ultimately show ?case using Cons by auto
qed

text \<open>A text written as newline-terminated lines is read back line by line.\<close>

lemma str_splitlines_unlines:
  assumes "\<forall>l \<in> set ls. \<forall>c \<in> set l. \<not> py_line_break c"
  shows "str_splitlines (concat (map (\<lambda>l. l @ [CHR 0x0A]) ls)) = ls"
  unfolding str_splitlines_def
  using assms by (induction ls) (simp_all add: splitlines_aux_line)

section \<open>Numbers\<close>

definition digit_char :: "nat \<Rightarrow> char" where
  "digit_char d = (if d < 10 then char_of (48 + d) else char_of (87 + d))"

definition char_digit :: "char \<Rightarrow> nat option" where
  "char_digit c = (let n = (of_char c :: nat) in
     if 48 \<le> n \<and> n \<le> 57 then Some (n - 48)
     else if 97 \<le> n \<and> n \<le> 122 then Some (n - 87)
     else if 65 \<le> n \<and> n \<le> 90 then Some (n - 55)
     else None)"

text \<open>The digits of a number in a base, most significant first.\<close>

function show_base :: "nat \<Rightarrow> nat \<Rightarrow> string" where
  "show_base b n = (if n < b \<or> b < 2 then [digit_char n] else show_base b (n div b) @ [digit_char (n mod b)])"
  by pat_completeness auto
termination
  by (relation "measure snd") auto

declare show_base.simps [simp del]

fun read_base_aux :: "nat \<Rightarrow> nat \<Rightarrow> string \<Rightarrow> nat option" where
  "read_base_aux b acc [] = Some acc"
| "read_base_aux b acc (c # s) =
     (case char_digit c of None \<Rightarrow> None
      | Some d \<Rightarrow> if d < b then read_base_aux b (acc * b + d) s else None)"

definition read_base :: "nat \<Rightarrow> string \<Rightarrow> nat option" where
  "read_base b s = (if s = [] then None else read_base_aux b 0 s)"

abbreviation show_nat :: "nat \<Rightarrow> string" where
  "show_nat \<equiv> show_base 10"

definition show_int :: "int \<Rightarrow> string" where
  "show_int i = (if i < 0 then CHR ''-'' # show_nat (nat (- i)) else show_nat (nat i))"

definition py_hex :: "int \<Rightarrow> string" where
  "py_hex i = (if i < 0 then ''-0x'' @ show_base 16 (nat (- i)) else ''0x'' @ show_base 16 (nat i))"

lemma char_digit_digit_char [simp]: "d < 36 \<Longrightarrow> char_digit (digit_char d) = Some d"
  by (auto simp: char_digit_def digit_char_def)

lemma digit_char_inj: "d < 36 \<Longrightarrow> e < 36 \<Longrightarrow> digit_char d = digit_char e \<longleftrightarrow> d = e"
  by (metis char_digit_digit_char option.inject)

lemma read_base_aux_append:
  "read_base_aux b acc (s @ t) = (case read_base_aux b acc s of None \<Rightarrow> None | Some a \<Rightarrow> read_base_aux b a t)"
  by (induction s arbitrary: acc) (auto split: option.splits)

lemma read_show_base_aux:
  assumes "2 \<le> b" "b \<le> 36"
  shows "read_base_aux b 0 (show_base b n) = Some n"
proof (induction n rule: less_induct)
  case (less n)
  show ?case
  proof (cases "n < b")
    case True
    with assms show ?thesis by (simp add: show_base.simps[of b n])
  next
    case False
    with assms have "n div b < n" by simp
    from less.IH [OF this] False assms show ?thesis
      by (simp add: show_base.simps[of b n] read_base_aux_append order.strict_trans2[OF mod_less_divisor])
  qed
qed

lemma show_base_neq_Nil [simp]: "show_base b n \<noteq> []"
  by (subst show_base.simps) simp

lemma read_show_base: "2 \<le> b \<Longrightarrow> b \<le> 36 \<Longrightarrow> read_base b (show_base b n) = Some n"
  by (simp add: read_base_def read_show_base_aux)

lemma show_base_inj: "2 \<le> b \<Longrightarrow> b \<le> 36 \<Longrightarrow> show_base b m = show_base b n \<longleftrightarrow> m = n"
  by (metis option.inject read_show_base)

lemma show_nat_inj [simp]: "show_nat m = show_nat n \<longleftrightarrow> m = n"
  by (simp add: show_base_inj)

lemma show_base_digits:
  assumes "2 \<le> b"
  shows "c \<in> set (show_base b n) \<Longrightarrow> \<exists>d < b. c = digit_char d"
proof (induction n rule: less_induct)
  case (less n)
  show ?case
  proof (cases "n < b")
    case True
    with less.prems assms show ?thesis by (auto simp: show_base.simps[of b n])
  next
    case False
    with assms have lt: "n div b < n" by simp
    have "c \<in> set (show_base b (n div b)) \<or> c = digit_char (n mod b)"
      using less.prems False assms by (auto simp: show_base.simps[of b n])
    moreover have "n mod b < b" using assms by simp
    ultimately show ?thesis using less.IH[OF lt] by blast
  qed
qed

text \<open>
  \<open>int(s)\<close>: surrounding whitespace, an optional sign, then digits that single underscores
  may separate.
\<close>

fun strip_underscores :: "string \<Rightarrow> string option" where
  "strip_underscores [] = Some []"
| "strip_underscores [c] = (if c = CHR ''_'' then None else Some [c])"
| "strip_underscores (c # d # s) =
     (if c = CHR ''_'' then None
      else if d = CHR ''_'' then
        (case s of [] \<Rightarrow> None | _ \<Rightarrow> map_option ((#) c) (strip_underscores s))
      else map_option ((#) c) (strip_underscores (d # s)))"

definition py_int :: "string \<Rightarrow> int res" where
  "py_int s =
     (let t = str_strip s;
          (neg, u) = (case t of [] \<Rightarrow> (False, [])
                      | c # r \<Rightarrow> if c = CHR ''-'' then (True, r) else if c = CHR ''+'' then (False, r) else (False, t))
      in case Option.bind (strip_underscores u) (read_base 10) of
           None \<Rightarrow> Inl (ValueError ''invalid literal for int() with base 10'')
         | Some n \<Rightarrow> Inr (if neg then - int n else int n))"

lemma digit_char_neq:
  "d < 36 \<Longrightarrow> digit_char d \<noteq> CHR ''-'' \<and> digit_char d \<noteq> CHR ''+'' \<and> digit_char d \<noteq> CHR ''_'' \<and>
    \<not> py_isspace (digit_char d)"
proof -
  assume d: "d < 36"
  have "char_digit (digit_char d) \<noteq> None" using d by simp
  moreover have "char_digit CHR ''-'' = None" "char_digit CHR ''+'' = None" "char_digit CHR ''_'' = None"
    by (simp_all add: char_digit_def)
  moreover have "\<not> py_isspace (digit_char d)"
    using d by (auto simp: py_isspace_def digit_char_def Let_def)
  ultimately show ?thesis by metis
qed

lemma dropWhile_none: "(\<forall>c \<in> set s. \<not> P c) \<Longrightarrow> dropWhile P s = s"
  by (cases s) auto

lemma str_strip_id: "(\<forall>c \<in> set s. \<not> py_isspace c) \<Longrightarrow> str_strip s = s"
  by (simp add: str_strip_def dropWhile_none)

lemma strip_underscores_id: "CHR ''_'' \<notin> set s \<Longrightarrow> strip_underscores s = Some s"
  by (induction s rule: strip_underscores.induct) auto

lemma show_nat_chars:
  assumes "c \<in> set (show_nat n)"
  shows "c \<noteq> CHR ''-'' \<and> c \<noteq> CHR ''+'' \<and> c \<noteq> CHR ''_'' \<and> \<not> py_isspace c"
proof -
  obtain d where "d < 10" "c = digit_char d" using show_base_digits[of 10 c n] assms by auto
  then show ?thesis using digit_char_neq[of d] by simp
qed

lemma show_nat_plain:
  "strip_underscores (show_nat n) = Some (show_nat n)"
  "\<forall>c \<in> set (show_nat n). \<not> py_isspace c"
  "\<exists>c r. show_nat n = c # r \<and> c \<noteq> CHR ''-'' \<and> c \<noteq> CHR ''+''"
proof -
  show "strip_underscores (show_nat n) = Some (show_nat n)"
    by (rule strip_underscores_id) (use show_nat_chars in blast)
  show "\<forall>c \<in> set (show_nat n). \<not> py_isspace c" using show_nat_chars by blast
  obtain c r where "show_nat n = c # r" by (cases "show_nat n") auto
  then show "\<exists>c r. show_nat n = c # r \<and> c \<noteq> CHR ''-'' \<and> c \<noteq> CHR ''+''"
    using show_nat_chars[of c n] by auto
qed

text \<open>\<open>int(str(i)) == i\<close>.\<close>

lemma py_int_show_int [simp]: "py_int (show_int i) = Inr i"
proof (cases "i < 0")
  case True
  have "str_strip (CHR ''-'' # show_nat (nat (- i))) = CHR ''-'' # show_nat (nat (- i))"
    by (rule str_strip_id) (use show_nat_plain(2) in \<open>auto simp: py_isspace_def\<close>)
  with True show ?thesis
    by (simp add: py_int_def show_int_def show_nat_plain(1) read_show_base)
next
  case False
  obtain c r where "show_nat (nat i) = c # r" "c \<noteq> CHR ''-''" "c \<noteq> CHR ''+''"
    using show_nat_plain(3) by blast
  moreover have "str_strip (show_nat (nat i)) = show_nat (nat i)"
    by (rule str_strip_id) (rule show_nat_plain(2))
  moreover have "Option.bind (strip_underscores (show_nat (nat i))) (read_base 10) = Some (nat i)"
    by (simp add: show_nat_plain(1) read_show_base)
  ultimately show ?thesis
    using False by (simp add: py_int_def show_int_def)
qed

end
