(* ===== verification/PDU.thy ===== *)
theory PDU
  imports Py_Strings
begin

text \<open>
  The power delivery units of \<open>executor/server/.../pdu\<close>: \<open>PDUState\<close>, \<open>PDUPort\<close> with the
  minimum off time that \<open>PDUPort.set\<close> enforces, and the dummy driver. The interface the ports
  rely on is the locale \<open>pdu_driver\<close>; it is interpreted on the dummy driver here and on
  the virtual PDU in theory \<open>VPDU\<close>.
\<close>

section \<open>States and actions\<close>

datatype PDUState = PDU_UNKNOWN | PDU_OFF | PDU_ON | PDU_REBOOT

primrec PDUState_value :: "PDUState \<Rightarrow> int" where
  "PDUState_value PDU_UNKNOWN = 0"
| "PDUState_value PDU_OFF = 1"
| "PDUState_value PDU_ON = 2"
| "PDUState_value PDU_REBOOT = 3"

definition PDUState_members :: "PDUState list" where
  "PDUState_members = [PDU_UNKNOWN, PDU_OFF, PDU_ON, PDU_REBOOT]"

definition valid_actions :: "PDUState list" where
  "valid_actions = [s \<leftarrow> PDUState_members. PDUState_value s > 0]"

definition is_valid_action :: "PDUState \<Rightarrow> bool" where
  "is_valid_action s = (s \<in> set valid_actions)"

lemma PDUState_value_inj [simp]: "PDUState_value s = PDUState_value t \<longleftrightarrow> s = t"
  by (cases s; cases t) simp_all

lemma is_valid_action_iff: "is_valid_action s \<longleftrightarrow> s \<noteq> PDU_UNKNOWN"
  by (cases s) (simp_all add: is_valid_action_def valid_actions_def PDUState_members_def)

section \<open>Ports\<close>

record PDUPort =
  port_id :: int
  port_label :: "string option"
  min_off_time :: time
  last_shutdown :: time

text \<open>
  What the port sees of the world: the clock, the state of the PDU behind the driver and the
  commands given to the driver so far, with the time at which each was given.
\<close>

record 'd pdu_world =
  w_clock :: time
  w_dev :: 'd
  w_cmds :: "(time \<times> int \<times> PDUState) list"

definition PDUPort_new :: "int \<Rightarrow> string option \<Rightarrow> time \<Rightarrow> PDUPort" where
  "PDUPort_new pid lbl now =
     \<lparr>port_id = pid, port_label = lbl, min_off_time = 5000000, last_shutdown = now\<rparr>"

definition PDUPort_state :: "(int \<Rightarrow> ('d, PDUState) act) \<Rightarrow> PDUPort \<Rightarrow> ('d pdu_world, PDUState) act" where
  "PDUPort_state get_port_state p w =
     (case get_port_state (port_id p) (w_dev w) of (r, d) \<Rightarrow> (r, w\<lparr>w_dev := d\<rparr>))"

text \<open>How long \<open>set\<close> sleeps before a port that is off is turned on.\<close>

definition off_time_to_wait :: "PDUPort \<Rightarrow> time \<Rightarrow> PDUState \<Rightarrow> PDUState \<Rightarrow> time" where
  "off_time_to_wait p now cur_state state =
     (if cur_state = PDU_OFF \<and> state = PDU_ON then
        (let time_spent_off = now - last_shutdown p
         in if time_spent_off < min_off_time p then min_off_time p - time_spent_off else 0)
      else 0)"

text \<open>
  \<open>PDUPort.set\<close>. The two delays are the time that passes between reading the clock and giving
  the command (on top of the sleep) and the time the driver needs for it.
\<close>

definition PDUPort_set ::
  "(int \<Rightarrow> ('d, PDUState) act) \<Rightarrow> (int \<Rightarrow> PDUState \<Rightarrow> ('d, unit) act) \<Rightarrow> nat \<Rightarrow> nat \<Rightarrow> PDUState
   \<Rightarrow> PDUPort \<times> 'd pdu_world \<Rightarrow> unit res \<times> (PDUPort \<times> 'd pdu_world)" where
  "PDUPort_set get_port_state set_port_state lag dur state pw =
     (let (p, w) = pw in
      case PDUPort_state get_port_state p w of
        (Inl e, w1) \<Rightarrow> (Inl e, (p, w1))
      | (Inr cur_state, w1) \<Rightarrow>
          if cur_state = state then (Inr (), (p, w1))
          else
            let t = w_clock w1 + off_time_to_wait p (w_clock w1) cur_state state + int lag;
                (r, d) = set_port_state (port_id p) state (w_dev w1);
                w2 = w1\<lparr>w_clock := t + int dur, w_dev := d, w_cmds := w_cmds w1 @ [(t, port_id p, state)]\<rparr>
            in case r of
                 Inl e \<Rightarrow> (Inl e, (p, w2))
               | Inr _ \<Rightarrow> (Inr (), (if state = PDU_OFF then p\<lparr>last_shutdown := w_clock w2\<rparr> else p, w2)))"

definition PDUPort_eq :: "('pdu \<Rightarrow> 'pdu \<Rightarrow> bool) \<Rightarrow> 'pdu \<times> PDUPort \<Rightarrow> 'pdu \<times> PDUPort \<Rightarrow> bool" where
  "PDUPort_eq pdu_eq a b =
     (pdu_eq (fst a) (fst b) \<and> port_id (snd a) = port_id (snd b) \<and>
      port_label (snd a) = port_label (snd b) \<and> min_off_time (snd a) = min_off_time (snd b))"

text \<open>A port is driven by a sequence of requests, each with its two delays.\<close>

fun PDUPort_run ::
  "(int \<Rightarrow> ('d, PDUState) act) \<Rightarrow> (int \<Rightarrow> PDUState \<Rightarrow> ('d, unit) act) \<Rightarrow> (nat \<times> nat \<times> PDUState) list
   \<Rightarrow> PDUPort \<times> 'd pdu_world \<Rightarrow> PDUPort \<times> 'd pdu_world" where
  "PDUPort_run get_st set_st [] pw = pw"
| "PDUPort_run get_st set_st ((lag, dur, s) # rs) pw =
     PDUPort_run get_st set_st rs (snd (PDUPort_set get_st set_st lag dur s pw))"

lemma off_time_to_wait_nonneg [simp]: "0 \<le> off_time_to_wait p now c s"
  by (simp add: off_time_to_wait_def Let_def)

lemma off_time_enforced:
  "now + off_time_to_wait p now PDU_OFF PDU_ON - last_shutdown p \<ge> min_off_time p"
  by (simp add: off_time_to_wait_def Let_def)

lemma PDUPort_set_ids [simp]:
  "port_id (fst (snd (PDUPort_set g s lag dur st pw))) = port_id (fst pw)"
  "min_off_time (fst (snd (PDUPort_set g s lag dur st pw))) = min_off_time (fst pw)"
  by (auto simp: PDUPort_set_def Let_def split: prod.splits sum.splits)

section \<open>The interface of a driver\<close>

text \<open>
  What \<open>PDUPort\<close> and the executor expect of a driver: reading a port has no effect, and a port
  set to ON or OFF reads back that state while every other port reads as before.
\<close>

locale pdu_driver =
  fixes get_st :: "int \<Rightarrow> ('d, PDUState) act"
    and set_st :: "int \<Rightarrow> PDUState \<Rightarrow> ('d, unit) act"
    and dev_ok :: "'d \<Rightarrow> bool"
    and has_port :: "'d \<Rightarrow> int \<Rightarrow> bool"
  assumes get_total: "dev_ok d \<Longrightarrow> has_port d p \<Longrightarrow> \<exists>s. get_st p d = (Inr s, d)"
    and set_total: "dev_ok d \<Longrightarrow> has_port d p \<Longrightarrow> s = PDU_ON \<or> s = PDU_OFF \<Longrightarrow>
      \<exists>d'. set_st p s d = (Inr (), d') \<and> dev_ok d' \<and> (\<forall>q. has_port d' q = has_port d q) \<and>
           get_st p d' = (Inr s, d') \<and>
           (\<forall>q. has_port d q \<longrightarrow> q \<noteq> p \<longrightarrow> fst (get_st q d') = fst (get_st q d))"
begin

definition port_ready :: "PDUPort \<times> 'd pdu_world \<Rightarrow> bool" where
  "port_ready pw = (dev_ok (w_dev (snd pw)) \<and> has_port (w_dev (snd pw)) (port_id (fst pw)))"

text \<open>Setting a port succeeds, and the port then reads the state that was asked for.\<close>

lemma set_reads_back:
  assumes "port_ready (p, w)" "s = PDU_ON \<or> s = PDU_OFF"
  shows "\<exists>p' w'. PDUPort_set get_st set_st lag dur s (p, w) = (Inr (), (p', w')) \<and>
      port_ready (p', w') \<and> PDUPort_state get_st p' w' = (Inr s, w')"
proof -
  from assms(1) have ok: "dev_ok (w_dev w)" and hp: "has_port (w_dev w) (port_id p)"
    by (simp_all add: port_ready_def)
  obtain c where get: "get_st (port_id p) (w_dev w) = (Inr c, w_dev w)"
    using get_total[OF ok hp] by blast
  obtain d' where "set_st (port_id p) s (w_dev w) = (Inr (), d')" "dev_ok d'"
      "\<forall>q. has_port d' q = has_port (w_dev w) q" "get_st (port_id p) d' = (Inr s, d')"
    using set_total[OF ok hp assms(2)] by blast
  with get ok hp show ?thesis
    by (cases "c = s") (auto simp: PDUPort_set_def PDUPort_state_def port_ready_def Let_def)
qed

lemma set_frame:
  assumes "port_ready (p, w)" "s = PDU_ON \<or> s = PDU_OFF"
    "PDUPort_set get_st set_st lag dur s (p, w) = (r, (p', w'))"
    "has_port (w_dev w) q" "q \<noteq> port_id p"
  shows "fst (get_st q (w_dev w')) = fst (get_st q (w_dev w))"
proof -
  from assms(1) have ok: "dev_ok (w_dev w)" and hp: "has_port (w_dev w) (port_id p)"
    by (simp_all add: port_ready_def)
  obtain c where get: "get_st (port_id p) (w_dev w) = (Inr c, w_dev w)"
    using get_total[OF ok hp] by blast
  obtain d' where "set_st (port_id p) s (w_dev w) = (Inr (), d')"
      "fst (get_st q d') = fst (get_st q (w_dev w))"
    using set_total[OF ok hp assms(2)] assms(4,5) by blast
  with get assms(3) show ?thesis
    by (cases "c = s") (auto simp: PDUPort_set_def PDUPort_state_def Let_def)
qed

text \<open>
  The history of a port: what the port last asked for is what the PDU reads, and its
  \<open>last_shutdown\<close> is not before the last OFF command.
\<close>

definition port_hist :: "PDUPort \<times> 'd pdu_world \<Rightarrow> bool" where
  "port_hist pw = (port_ready pw \<and> last_shutdown (fst pw) \<le> w_clock (snd pw) \<and>
     (case rev (w_cmds (snd pw)) of [] \<Rightarrow> True
      | (t, q, s) # _ \<Rightarrow> PDUPort_state get_st (fst pw) (snd pw) = (Inr s, snd pw) \<and>
           (s = PDU_OFF \<longrightarrow> t \<le> last_shutdown (fst pw))))"

end

text \<open>Every ON command that directly follows an OFF command comes at least \<open>m\<close> after it.\<close>

fun cmds_spaced :: "time \<Rightarrow> (time \<times> int \<times> PDUState) list \<Rightarrow> bool" where
  "cmds_spaced m ((t1, p1, s1) # (t2, p2, s2) # cs) =
     ((s1 = PDU_OFF \<and> s2 = PDU_ON \<longrightarrow> m \<le> t2 - t1) \<and> cmds_spaced m ((t2, p2, s2) # cs))"
| "cmds_spaced m _ = True"

lemma cmds_spaced_snoc:
  "cmds_spaced m (cs @ [(t1, p1, s1), (t, p, s)]) \<longleftrightarrow>
     cmds_spaced m (cs @ [(t1, p1, s1)]) \<and> (s1 = PDU_OFF \<and> s = PDU_ON \<longrightarrow> m \<le> t - t1)"
proof (induction cs)
  case Nil
  then show ?case by simp
next
  case (Cons c cs)
  then show ?case by (cases c; cases cs) auto
qed

context pdu_driver
begin

lemma run_step:
  assumes "port_hist (p, w)" "cmds_spaced (min_off_time p) (w_cmds w)" "s = PDU_ON \<or> s = PDU_OFF"
    "PDUPort_set get_st set_st lag dur s (p, w) = (r, (p', w'))"
  shows "port_hist (p', w') \<and> cmds_spaced (min_off_time p) (w_cmds w')"
proof -
  from assms(1) have ok: "dev_ok (w_dev w)" and hp: "has_port (w_dev w) (port_id p)"
      and le: "last_shutdown p \<le> w_clock w"
    by (simp_all add: port_ready_def port_hist_def)
  obtain c where get: "get_st (port_id p) (w_dev w) = (Inr c, w_dev w)"
    using get_total[OF ok hp] by blast
  obtain d' where set: "set_st (port_id p) s (w_dev w) = (Inr (), d')" "dev_ok d'"
      "\<forall>q. has_port d' q = has_port (w_dev w) q" "get_st (port_id p) d' = (Inr s, d')"
    using set_total[OF ok hp assms(3)] by blast
  show ?thesis
  proof (cases "c = s")
    case True
    with get assms(4) have "p' = p \<and> w' = w"
      by (auto simp: PDUPort_set_def PDUPort_state_def Let_def)
    with assms(1,2) show ?thesis by simp
  next
    case False
    let ?t = "w_clock w + off_time_to_wait p (w_clock w) c s + int lag"
    from False get set(1) assms(4) have
      p': "p' = (if s = PDU_OFF then p\<lparr>last_shutdown := ?t + int dur\<rparr> else p)" and
      w': "w' = w\<lparr>w_clock := ?t + int dur, w_dev := d', w_cmds := w_cmds w @ [(?t, port_id p, s)]\<rparr>"
      by (auto simp: PDUPort_set_def PDUPort_state_def Let_def split: prod.splits)
    have mono: "w_clock w \<le> ?t" by simp
    have "port_hist (p', w')"
      using set hp le mono p' w'
      by (auto simp: port_hist_def port_ready_def PDUPort_state_def intro: order_trans)
    moreover have "cmds_spaced (min_off_time p) (w_cmds w')"
    proof (cases "rev (w_cmds w)")
      case Nil
      then show ?thesis by (simp add: w')
    next
      case (Cons x xs)
      obtain t0 q0 s0 where x: "x = (t0, q0, s0)" by (cases x)
      from assms(1) Cons x get have "c = s0" and "s0 = PDU_OFF \<longrightarrow> t0 \<le> last_shutdown p"
        by (auto simp: port_hist_def PDUPort_state_def)
      then have "s0 = PDU_OFF \<and> s = PDU_ON \<longrightarrow> min_off_time p \<le> ?t - t0"
        using off_time_enforced[of p "w_clock w"] by auto
      moreover from Cons x have "w_cmds w = rev xs @ [(t0, q0, s0)]" by simp
      ultimately show ?thesis using assms(2) by (simp add: w' cmds_spaced_snoc)
    qed
    ultimately show ?thesis by simp
  qed
qed

lemma run_spaced:
  assumes "port_hist (p, w)" "cmds_spaced (min_off_time p) (w_cmds w)"
    and "\<forall>(lag, dur, s) \<in> set rs. s = PDU_ON \<or> s = PDU_OFF"
  shows "cmds_spaced (min_off_time p) (w_cmds (snd (PDUPort_run get_st set_st rs (p, w))))"
  using assms
proof (induction rs arbitrary: p w)
  case Nil
  then show ?case by simp
next
  case (Cons r rs)
  obtain lag dur s where r: "r = (lag, dur, s)" by (cases r)
  obtain x p' w' where st: "PDUPort_set get_st set_st lag dur s (p, w) = (x, (p', w'))"
    by (metis prod.exhaust)
  have "s = PDU_ON \<or> s = PDU_OFF" using Cons.prems(3) r by auto
  from run_step[OF Cons.prems(1,2) this st]
  have "port_hist (p', w')" "cmds_spaced (min_off_time p) (w_cmds w')" by simp_all
  moreover have "min_off_time p' = min_off_time p"
    using PDUPort_set_ids(2)[of get_st set_st lag dur s "(p, w)"] by (simp add: st)
  ultimately have "cmds_spaced (min_off_time p) (w_cmds (snd (PDUPort_run get_st set_st rs (p', w'))))"
    using Cons.IH[of p' w'] Cons.prems(3) by simp
  then show ?case by (simp add: r st)
qed

end

section \<open>The dummy driver\<close>

record DummyPDU =
  dummy_name :: string
  dummy_ports :: "(string \<times> PDUState) list"

definition DummyPDU_init :: "string \<Rightarrow> string list option \<Rightarrow> DummyPDU" where
  "DummyPDU_init name ports =
     \<lparr>dummy_name = name,
      dummy_ports = map (\<lambda>lbl. (lbl, PDU_ON)) (case ports of None \<Rightarrow> [] | Some ps \<Rightarrow> ps)\<rparr>"

definition DummyPDU_set_port_state :: "int \<Rightarrow> PDUState \<Rightarrow> (DummyPDU, unit) act" where
  "DummyPDU_set_port_state pid state d =
     (case py_pos pid (dummy_ports d) of
        Inl e \<Rightarrow> (Inl e, d)
      | Inr i \<Rightarrow> (Inr (), d\<lparr>dummy_ports := (dummy_ports d)[i := (fst (dummy_ports d ! i), state)]\<rparr>))"

definition DummyPDU_get_port_state :: "int \<Rightarrow> (DummyPDU, PDUState) act" where
  "DummyPDU_get_port_state pid d =
     (case py_pos pid (dummy_ports d) of
        Inl e \<Rightarrow> (Inl e, d)
      | Inr i \<Rightarrow> (Inr (snd (dummy_ports d ! i)), d))"

definition dummy_has_port :: "DummyPDU \<Rightarrow> int \<Rightarrow> bool" where
  "dummy_has_port d p = (0 \<le> p \<and> p < int (length (dummy_ports d)))"

interpretation dummy: pdu_driver DummyPDU_get_port_state DummyPDU_set_port_state "\<lambda>_. True" dummy_has_port
proof unfold_locales
  fix d p assume "dummy_has_port d p"
  then show "\<exists>s. DummyPDU_get_port_state p d = (Inr s, d)"
    by (auto simp: DummyPDU_get_port_state_def dummy_has_port_def)
next
  fix d p s assume hp: "dummy_has_port d p"
  let ?ps = "(dummy_ports d)[nat p := (fst (dummy_ports d ! nat p), s)]"
  have "DummyPDU_set_port_state p s d = (Inr (), d\<lparr>dummy_ports := ?ps\<rparr>)"
    using hp by (simp add: DummyPDU_set_port_state_def dummy_has_port_def)
  moreover have "DummyPDU_get_port_state p (d\<lparr>dummy_ports := ?ps\<rparr>) = (Inr s, d\<lparr>dummy_ports := ?ps\<rparr>)"
    using hp by (simp add: DummyPDU_get_port_state_def dummy_has_port_def nat_less_iff)
  moreover have "fst (DummyPDU_get_port_state q (d\<lparr>dummy_ports := ?ps\<rparr>)) = fst (DummyPDU_get_port_state q d)"
    if "dummy_has_port d q" "q \<noteq> p" for q
    using that hp by (simp add: DummyPDU_get_port_state_def dummy_has_port_def nat_eq_iff)
  ultimately show "\<exists>d'. DummyPDU_set_port_state p s d = (Inr (), d') \<and> True \<and>
      (\<forall>q. dummy_has_port d' q = dummy_has_port d q) \<and> DummyPDU_get_port_state p d' = (Inr s, d') \<and>
      (\<forall>q. dummy_has_port d q \<longrightarrow> q \<noteq> p \<longrightarrow>
        fst (DummyPDU_get_port_state q d') = fst (DummyPDU_get_port_state q d))"
    by (intro exI[of _ "d\<lparr>dummy_ports := ?ps\<rparr>"]) (simp add: dummy_has_port_def)
qed

end
