(* ===== verification/PDU_SNMP.thy ===== *)
theory PDU_SNMP
  imports PDU
begin

text \<open>
  The SNMP drivers of \<open>pdu/drivers\<close>: the retry wrapper, \<open>SnmpPDU\<close>, the pre-baked models,
  \<open>ManualSnmpPDU\<close>, and \<open>PDU.create\<close>. The library \<open>easysnmp\<close> is a parameter: its three
  calls are actions on an arbitrary world. \<open>PDUState\<close> is an \<open>IntEnum\<close>, so the keys and
  values of the inverse mapping are plain integers.
\<close>

section \<open>Retrying\<close>

definition retriable_errors :: "string list" where
  "retriable_errors =
     [''<built-in function set> returned NULL without setting an error'',
      ''<built-in function get> returned NULL without setting an error'',
      ''<built-in function walk> returned NULL without setting an error'']"

definition retriable :: "'a res \<Rightarrow> bool" where
  "retriable r = (case r of Inl (SystemError m) \<Rightarrow> m \<in> set retriable_errors | _ \<Rightarrow> False)"

fun retry_loop :: "nat \<Rightarrow> ('w, 'a) act \<Rightarrow> ('w, 'a) act" where
  "retry_loop 0 func w = (Inl (ValueError ''The function failed 3 times in a row''), w)"
| "retry_loop (Suc n) func w =
     (case func w of (r, w') \<Rightarrow> if retriable r then retry_loop n func w' else (r, w'))"

definition retry_on_known_errors :: "('w, 'a) act \<Rightarrow> ('w, 'a) act" where
  "retry_on_known_errors func = retry_loop 3 func"

section \<open>Classes and objects\<close>

text \<open>
  The class attributes a driver may define. \<open>None\<close> is an attribute that does not exist,
  \<open>Some None\<close> one that is set to Python's \<open>None\<close>.
\<close>

record snmp_class =
  c_system_id :: "string option option"
  c_outlet_labels :: "string option option"
  c_outlet_status :: "string option option"
  c_outlet_ctrl :: "string option option"
  c_state_mapping :: "(PDUState, int) dict option"
  c_inverse_state_mapping :: "(int, int) dict option"
  c_delay :: "nat option"

record SnmpPDU =
  snmp_name :: string
  hostname :: string
  community :: string
  system_id :: string
  outlet_labels :: string
  outlet_status :: string
  outlet_ctrl :: "string option"
  state_mapping :: "(PDUState, int) dict"
  inverse_state_mapping :: "(int, int) dict"
  state_transition_delay_seconds :: nat

definition oid_enterprise :: string where
  "oid_enterprise = ''1.3.6.1.4.1''"

text \<open>\<open>assert self.attr\<close>: no such attribute raises, and so does a false value.\<close>

definition assert_attr :: "string option option \<Rightarrow> string res" where
  "assert_attr a =
     (case a of None \<Rightarrow> Inl AttributeError
      | Some None \<Rightarrow> Inl AssertionError
      | Some (Some v) \<Rightarrow> if v = [] then Inl AssertionError else Inr v)"

definition invert_mapping :: "(PDUState, int) dict \<Rightarrow> (int, int) dict" where
  "invert_mapping m = fold (\<lambda>(key, v) d. dict_set v (PDUState_value key) d) m []"

definition SnmpPDU_init :: "snmp_class \<Rightarrow> string \<Rightarrow> string option \<Rightarrow> string option \<Rightarrow> SnmpPDU res" where
  "SnmpPDU_init cls name host comm =
     (if host = None \<or> host = Some [] then Inl (ValueError ''SnmpPDU requires a \"hostname\" configuration key'')
      else
        res_bind (assert_attr (c_system_id cls)) (\<lambda>sid.
        res_bind (assert_attr (c_outlet_labels cls)) (\<lambda>labels.
        res_bind (assert_attr (c_outlet_status cls)) (\<lambda>status.
          case c_state_mapping cls of
            None \<Rightarrow> Inl AttributeError
          | Some sm \<Rightarrow>
              if set (dict_keys sm) \<noteq> {PDU_ON, PDU_OFF, PDU_REBOOT} then Inl AssertionError
              else
                res_bind
                  (case c_inverse_state_mapping cls of
                     None \<Rightarrow> Inr (invert_mapping sm)
                   | Some im \<Rightarrow>
                       if set (dict_keys im) \<noteq> PDUState_value ` {PDU_ON, PDU_OFF, PDU_REBOOT}
                       then Inl AssertionError else Inr im)
                  (\<lambda>im. Inr
                    \<lparr>snmp_name = name, hostname = the host,
                     community = (case comm of None \<Rightarrow> ''private'' | Some c \<Rightarrow> c),
                     system_id = sid, outlet_labels = labels, outlet_status = status,
                     outlet_ctrl = (case c_outlet_ctrl cls of None \<Rightarrow> Some status | Some c \<Rightarrow> c),
                     state_mapping = sm, inverse_state_mapping = im,
                     state_transition_delay_seconds = (case c_delay cls of None \<Rightarrow> 1 | Some d \<Rightarrow> d)\<rparr>)))))"

definition outlet_system_id :: "SnmpPDU \<Rightarrow> string" where
  "outlet_system_id p = oid_enterprise @ ''.'' @ system_id p"

definition outlet_labels_oid :: "SnmpPDU \<Rightarrow> string" where
  "outlet_labels_oid p = outlet_system_id p @ ''.'' @ outlet_labels p"

text \<open>A port is named by an integer or by a string; the OIDs insist on an integer.\<close>

datatype port_spec = PortInt int | PortStr string

definition outlet_status_oid :: "SnmpPDU \<Rightarrow> port_spec \<Rightarrow> string res" where
  "outlet_status_oid p port =
     (case port of PortStr _ \<Rightarrow> Inl AssertionError
      | PortInt i \<Rightarrow> Inr (outlet_system_id p @ ''.'' @ outlet_status p @ ''.'' @ show_int i))"

definition outlet_ctrl_oid :: "SnmpPDU \<Rightarrow> port_spec \<Rightarrow> string res" where
  "outlet_ctrl_oid p port =
     (case port of PortStr _ \<Rightarrow> Inl AssertionError
      | PortInt i \<Rightarrow> Inr (outlet_system_id p @ ''.'' @
           (case outlet_ctrl p of None \<Rightarrow> ''None'' | Some c \<Rightarrow> c) @ ''.'' @ show_int i))"

definition is_int :: "port_spec \<Rightarrow> bool" where
  "is_int s = (case s of PortInt _ \<Rightarrow> True | PortStr t \<Rightarrow> is_ok (py_int t))"

section \<open>Operations\<close>

definition SnmpPDU_ports ::
  "(string \<Rightarrow> string \<Rightarrow> string \<Rightarrow> ('w, string list) act) \<Rightarrow> SnmpPDU \<Rightarrow> time \<Rightarrow> ('w, PDUPort list) act" where
  "SnmpPDU_ports snmp_walk p now w =
     (case snmp_walk (outlet_labels_oid p) (hostname p) (community p) w of
        (Inl (SystemError m), w') \<Rightarrow>
          (Inl (ValueError (''The snmp_walk() call failed with the following error: '' @ m)), w')
      | (Inl e, w') \<Rightarrow> (Inl e, w')
      | (Inr names, w') \<Rightarrow>
          (Inr (map (\<lambda>(i, name). PDUPort_new (int i + 1) (Some name) now) (enumerate 0 names)), w'))"

definition port_spec_to_int ::
  "(string \<Rightarrow> string \<Rightarrow> string \<Rightarrow> ('w, string list) act) \<Rightarrow> SnmpPDU \<Rightarrow> port_spec \<Rightarrow> ('w, port_spec) act" where
  "port_spec_to_int snmp_walk p spec =
     (if is_int spec then act_return spec
      else act_bind (SnmpPDU_ports snmp_walk p 0)
        (\<lambda>ports. case find (\<lambda>port. map_option PortStr (port_label port) = Some spec) ports of
                   Some port \<Rightarrow> act_return (PortInt (port_id port))
                 | None \<Rightarrow> act_raise (ValueError ''can not be interpreted as a valid port'')))"

definition SnmpPDU_set_port_state ::
  "(string \<Rightarrow> string \<Rightarrow> string \<Rightarrow> ('w, string list) act) \<Rightarrow>
   (string \<Rightarrow> int \<Rightarrow> string \<Rightarrow> string \<Rightarrow> ('w, bool) act) \<Rightarrow>
   SnmpPDU \<Rightarrow> port_spec \<Rightarrow> PDUState \<Rightarrow> ('w, bool) act" where
  "SnmpPDU_set_port_state snmp_walk snmp_set p spec state =
     retry_on_known_errors
       (act_bind (port_spec_to_int snmp_walk p spec)
         (\<lambda>port. act_bind (act_lift (outlet_ctrl_oid p port))
           (\<lambda>oid. act_bind (act_lift (dict_index (state_mapping p) state))
             (\<lambda>code. snmp_set oid code (hostname p) (community p)))))"

definition SnmpPDU_get_port_state ::
  "(string \<Rightarrow> string \<Rightarrow> string \<Rightarrow> ('w, string list) act) \<Rightarrow>
   (string \<Rightarrow> string \<Rightarrow> string \<Rightarrow> ('w, string) act) \<Rightarrow>
   SnmpPDU \<Rightarrow> port_spec \<Rightarrow> ('w, int) act" where
  "SnmpPDU_get_port_state snmp_walk snmp_get p spec =
     retry_on_known_errors
       (act_bind (port_spec_to_int snmp_walk p spec)
         (\<lambda>port. act_bind (act_lift (outlet_status_oid p port))
           (\<lambda>oid. act_bind (snmp_get oid (hostname p) (community p))
             (\<lambda>v. act_bind (act_lift (py_int v))
               (\<lambda>value. act_lift (dict_index (inverse_state_mapping p) value))))))"

definition SnmpPDU_eq :: "SnmpPDU \<Rightarrow> SnmpPDU \<Rightarrow> bool" where
  "SnmpPDU_eq a b =
     (snmp_name a = snmp_name b \<and> hostname a = hostname b \<and> community a = community b \<and>
      system_id a = system_id b \<and> outlet_labels a = outlet_labels b \<and>
      outlet_status a = outlet_status b \<and> outlet_ctrl a = outlet_ctrl b \<and>
      map_of (state_mapping a) = map_of (state_mapping b) \<and>
      map_of (inverse_state_mapping a) = map_of (inverse_state_mapping b))"

section \<open>The models\<close>

definition SnmpPDU_class :: snmp_class where
  "SnmpPDU_class =
     \<lparr>c_system_id = None, c_outlet_labels = None, c_outlet_status = None, c_outlet_ctrl = None,
      c_state_mapping = None, c_inverse_state_mapping = None, c_delay = None\<rparr>"

definition ApcMasterswitchPDU :: snmp_class where
  "ApcMasterswitchPDU = SnmpPDU_class
     \<lparr>c_system_id := Some (Some ''318.1.1.4''), c_outlet_labels := Some (Some ''4.2.1.4''),
      c_outlet_status := Some (Some ''4.2.1.3''),
      c_state_mapping := Some [(PDU_ON, 1), (PDU_OFF, 2), (PDU_REBOOT, 3)]\<rparr>"

definition PDU41004 :: snmp_class where
  "PDU41004 = SnmpPDU_class
     \<lparr>c_system_id := Some (Some ''3808.1.1.3.3''), c_outlet_labels := Some (Some ''3.1.1.2''),
      c_outlet_status := Some (Some ''3.1.1.4''),
      c_state_mapping := Some [(PDU_ON, 1), (PDU_OFF, 2), (PDU_REBOOT, 3)], c_delay := Some 5\<rparr>"

definition PDU15SWHVIEC12ATNET :: snmp_class where
  "PDU15SWHVIEC12ATNET = SnmpPDU_class
     \<lparr>c_system_id := Some (Some ''3808.1.1.5''), c_outlet_labels := Some (Some ''6.3.1.2''),
      c_outlet_status := Some (Some ''6.3.1.3''), c_outlet_ctrl := Some (Some ''6.5.1.3''),
      c_state_mapping := Some [(PDU_ON, 2), (PDU_OFF, 3), (PDU_REBOOT, 4)],
      c_inverse_state_mapping := Some
        [(1, PDUState_value PDU_ON), (2, PDUState_value PDU_OFF), (3, PDUState_value PDU_REBOOT)],
      c_delay := Some 5\<rparr>"

text \<open>
  \<open>ManualSnmpPDU\<close> takes its attributes from the configuration. \<open>populate_state_mapping\<close>
  recognises the names \<open>on\<close>, \<open>off\<close> and \<open>reboot\<close> in any case; it fills both mappings with
  the state as the key.
\<close>

record snmp_config =
  cfg_hostname :: "string option"
  cfg_community :: "string option"
  cfg_system_id :: "string option"
  cfg_outlet_labels :: "string option"
  cfg_outlet_status :: "string option"
  cfg_outlet_ctrl :: "string option"
  cfg_state_mapping :: "(string, string) dict option"
  cfg_inverse_state_mapping :: "(string, string) dict option"

fun populate_state_mapping :: "(PDUState, int) dict \<Rightarrow> (string, string) dict \<Rightarrow> (PDUState, int) dict res" where
  "populate_state_mapping m [] = Inr m"
| "populate_state_mapping m ((state, internal_value) # d) =
     res_bind (py_int internal_value) (\<lambda>v.
       populate_state_mapping
         (if str_lower state = ''on'' then dict_set PDU_ON v m
          else if str_lower state = ''off'' then dict_set PDU_OFF v m
          else if str_lower state = ''reboot'' then dict_set PDU_REBOOT v m
          else m) d)"

definition ManualSnmpPDU_init :: "string \<Rightarrow> snmp_config \<Rightarrow> SnmpPDU res" where
  "ManualSnmpPDU_init name cfg =
     res_bind (populate_state_mapping [] (case cfg_state_mapping cfg of None \<Rightarrow> [] | Some d \<Rightarrow> d)) (\<lambda>sm.
     res_bind
       (case cfg_inverse_state_mapping cfg of
          None \<Rightarrow> Inr None
        | Some d \<Rightarrow> res_bind (populate_state_mapping [] d)
            (\<lambda>im. Inr (Some (map (\<lambda>(k, v). (PDUState_value k, v)) im)))) (\<lambda>im.
       SnmpPDU_init
         \<lparr>c_system_id = Some (cfg_system_id cfg), c_outlet_labels = Some (cfg_outlet_labels cfg),
          c_outlet_status = Some (cfg_outlet_status cfg),
          c_outlet_ctrl = Some (case cfg_outlet_ctrl cfg of None \<Rightarrow> cfg_outlet_status cfg | Some c \<Rightarrow> Some c),
          c_state_mapping = Some sm, c_inverse_state_mapping = im, c_delay = None\<rparr>
         name (cfg_hostname cfg) (cfg_community cfg)))"

datatype pdu_driver_class = SnmpDriver snmp_class | DummyDriver | VirtualDriver

definition supported_pdus :: "(string, pdu_driver_class) dict" where
  "supported_pdus =
     [(''apc_masterswitch'', SnmpDriver ApcMasterswitchPDU),
      (''cyberpower_pdu41004'', SnmpDriver PDU41004),
      (''cyberpower_pdu15swhviec12atnet'', SnmpDriver PDU15SWHVIEC12ATNET),
      (''dummy'', DummyDriver),
      (''vpdu'', VirtualDriver),
      (''snmp'', SnmpDriver SnmpPDU_class)]"

datatype pdu_object = SnmpObj SnmpPDU | DummyObj DummyPDU | VirtualObj string string int

text \<open>
  \<open>VirtualPDU.__init__\<close> splits \<open>host:port\<close> (exactly two fields, the second an integer) before
  it connects; connecting is a parameter that returns the number of ports or raises.
\<close>

definition VirtualPDU_init :: "(string \<Rightarrow> int \<Rightarrow> int res) \<Rightarrow> string \<Rightarrow> string option \<Rightarrow> pdu_object res" where
  "VirtualPDU_init connect name host =
     (case str_split CHR '':'' (case host of None \<Rightarrow> ''localhost:9191'' | Some h \<Rightarrow> h) of
        [h, p] \<Rightarrow> res_bind (py_int p) (\<lambda>port. res_bind (connect h port) (\<lambda>_. Inr (VirtualObj name h port)))
      | _ \<Rightarrow> Inl (ValueError ''wrong number of values to unpack''))"

definition PDU_create ::
  "(string \<Rightarrow> int \<Rightarrow> int res) \<Rightarrow> string \<Rightarrow> string \<Rightarrow> snmp_config \<Rightarrow> string list option \<Rightarrow> pdu_object res" where
  "PDU_create connect model_name pdu_name cfg ports =
     (case dict_get supported_pdus model_name of
        None \<Rightarrow> Inl (ValueError (''Unknown model name '' @ model_name))
      | Some (SnmpDriver cls) \<Rightarrow>
          res_bind (SnmpPDU_init cls pdu_name (cfg_hostname cfg) (cfg_community cfg)) (\<lambda>p. Inr (SnmpObj p))
      | Some DummyDriver \<Rightarrow> Inr (DummyObj (DummyPDU_init pdu_name ports))
      | Some VirtualDriver \<Rightarrow> VirtualPDU_init connect pdu_name (cfg_hostname cfg))"

section \<open>Lemmas\<close>

text \<open>The world after \<open>k\<close> attempts.\<close>

abbreviation after_attempts :: "('w, 'a) act \<Rightarrow> nat \<Rightarrow> 'w \<Rightarrow> 'w" where
  "after_attempts func k w \<equiv> ((\<lambda>w. snd (func w)) ^^ k) w"

lemma retry_loop_stops:
  "k < n \<Longrightarrow> (\<forall>i<k. retriable (fst (func (after_attempts func i w)))) \<Longrightarrow>
   \<not> retriable (fst (func (after_attempts func k w))) \<Longrightarrow>
   retry_loop n func w = func (after_attempts func k w)"
proof (induction k arbitrary: n w)
  case 0
  then show ?case by (cases n) (auto split: prod.splits)
next
  case (Suc k)
  then obtain m where n: "n = Suc m" by (cases n) auto
  let ?w = "snd (func w)"
  have step: "after_attempts func (Suc i) w = after_attempts func i ?w" for i
    by (simp add: funpow_Suc_right del: funpow.simps)
  have "retry_loop m func ?w = func (after_attempts func k ?w)"
  proof (rule Suc.IH)
    show "\<forall>i<k. retriable (fst (func (after_attempts func i ?w)))"
      using Suc.prems(2) by (metis Suc_less_eq step)
    show "\<not> retriable (fst (func (after_attempts func k ?w)))"
      using Suc.prems(3) unfolding step .
  qed (use Suc.prems(1) n in simp)
  moreover have "retriable (fst (func w))" using Suc.prems(2) by force
  ultimately show ?case by (simp only: n step) (auto split: prod.splits)
qed

lemma retry_loop_fails:
  "(\<forall>i<n. retriable (fst (func (after_attempts func i w)))) \<Longrightarrow>
   retry_loop n func w = (Inl (ValueError ''The function failed 3 times in a row''), after_attempts func n w)"
proof (induction n arbitrary: w)
  case 0
  then show ?case by simp
next
  case (Suc n)
  let ?w = "snd (func w)"
  have step: "after_attempts func (Suc i) w = after_attempts func i ?w" for i
    by (simp add: funpow_Suc_right del: funpow.simps)
  have "retriable (fst (func w))" using Suc.prems by force
  moreover have "\<forall>i<n. retriable (fst (func (after_attempts func i ?w)))"
    using Suc.prems by (metis Suc_less_eq step)
  ultimately show ?case
    using Suc.IH[of ?w] by (simp only: step) (auto split: prod.splits)
qed

lemma invert_mapping_get:
  "distinct (dict_values m) \<Longrightarrow> (s, v) \<in> set m \<Longrightarrow> dict_get (invert_mapping m) v = Some (PDUState_value s)"
proof -
  have gen: "(\<forall>(s, v) \<in> set m. dict_get (fold (\<lambda>(key, v) d. dict_set v (PDUState_value key) d) m acc) v
        = Some (PDUState_value s)) \<and>
      (\<forall>v. v \<notin> set (dict_values m) \<longrightarrow>
        dict_get (fold (\<lambda>(key, v) d. dict_set v (PDUState_value key) d) m acc) v = dict_get acc v)"
    if "distinct (dict_values m)" for m :: "(PDUState, int) dict" and acc
    using that
  proof (induction m arbitrary: acc)
    case Nil
    then show ?case by simp
  next
    case (Cons x m)
    then show ?case
      by (cases x) (fastforce simp: image_iff)
  qed
  assume "distinct (dict_values m)" "(s, v) \<in> set m"
  with gen[of m "[]"] show ?thesis by (auto simp: invert_mapping_def)
qed

lemma SnmpPDU_init_inverse:
  assumes "SnmpPDU_init cls name host comm = Inr p" "c_inverse_state_mapping cls = None"
  shows "inverse_state_mapping p = invert_mapping (state_mapping p)"
  using assms
  by (auto simp: SnmpPDU_init_def res_bind_Inr_iff split: if_splits option.splits)

section \<open>Properties\<close>

text \<open>
  The retry wrapper calls the driver at most three times: it returns what the first attempt
  that does not fail with one of the three known \<open>SystemError\<close>s returned (or raised), and if
  three attempts in a row fail that way it raises \<open>ValueError\<close>.
\<close>

theorem retry_three_attempts:
  "(\<forall>k<3. (\<forall>i<k. retriable (fst (func (after_attempts func i w)))) \<longrightarrow>
      \<not> retriable (fst (func (after_attempts func k w))) \<longrightarrow>
      retry_on_known_errors func w = func (after_attempts func k w)) \<and>
   ((\<forall>i<3. retriable (fst (func (after_attempts func i w)))) \<longrightarrow>
      retry_on_known_errors func w =
        (Inl (ValueError ''The function failed 3 times in a row''), after_attempts func 3 w))"
  unfolding retry_on_known_errors_def
  by (intro conjI allI impI; (rule retry_loop_stops retry_loop_fails; assumption))

definition flaky :: "(nat, nat) act" where
  "flaky n = (if n < 2 then (Inl (SystemError (hd retriable_errors)), Suc n) else (Inr n, Suc n))"

theorem retry_three_attempts_witness:
  "retry_on_known_errors flaky 0 = (Inr 2, 3) \<and>
   retry_on_known_errors (\<lambda>n. (Inl (SystemError (hd retriable_errors)), Suc n) :: nat res \<times> nat) 0 =
     (Inl (ValueError ''The function failed 3 times in a row''), 3)"
proof -
  have r: "retriable (Inl (SystemError (hd retriable_errors)) :: nat res)"
    by (simp add: retriable_def retriable_errors_def)
  have "\<forall>i<2. retriable (fst (flaky (after_attempts flaky i 0)))"
    by (auto simp: flaky_def r less_Suc_eq numeral_2_eq_2)
  moreover have a: "after_attempts flaky 2 0 = 2" by (simp add: flaky_def numeral_2_eq_2)
  moreover have "\<not> retriable (fst (flaky 2))" by (simp add: flaky_def retriable_def)
  ultimately have "retry_on_known_errors flaky 0 = flaky 2"
    using retry_three_attempts[of flaky 0] by (auto dest!: conjunct1 spec[of _ 2] simp del: funpow.simps)
  then show ?thesis
    using retry_three_attempts[of "\<lambda>n. (Inl (SystemError (hd retriable_errors)), Suc n) :: nat res \<times> nat" 0] r
    by (simp add: flaky_def numeral_3_eq_3)
qed

text \<open>
  Reading a port back: on a driver whose status codes are its control codes, if the control
  code for a state is what the agent reports in the status OID, then \<open>get_port_state\<close> returns
  that state.
\<close>

theorem snmp_reads_back_state:
  assumes "SnmpPDU_init cls name host comm = Inr p" "c_inverse_state_mapping cls = None"
    and "distinct (dict_values (state_mapping p))" "dict_get (state_mapping p) s = Some code"
    and "outlet_status_oid p (PortInt i) = Inr oid"
    and "snmp_get oid (hostname p) (community p) w = (Inr (show_int code), w')"
  shows "SnmpPDU_get_port_state snmp_walk snmp_get p (PortInt i) w = (Inr (PDUState_value s), w')"
proof -
  have "dict_get (inverse_state_mapping p) code = Some (PDUState_value s)"
    using assms(3,4) SnmpPDU_init_inverse[OF assms(1,2)]
    by (simp add: invert_mapping_get dict_get_mem)
  then show ?thesis
    using assms(5,6)
    by (simp add: SnmpPDU_get_port_state_def retry_on_known_errors_def numeral_3_eq_3 retriable_def
        port_spec_to_int_def is_int_def py_defs dict_index_def)
qed

theorem snmp_reads_back_state_witness:
  "\<exists>p. SnmpPDU_init ApcMasterswitchPDU ''apc'' (Some ''10.0.0.2'') None = Inr p \<and>
     SnmpPDU_get_port_state (\<lambda>_ _ _. act_return []) (\<lambda>_ _ _ w. (Inr (show_int 2), w)) p (PortInt 3) () =
       (Inr (PDUState_value PDU_OFF), ())"
proof -
  define p where "p = \<lparr>snmp_name = ''apc'', hostname = ''10.0.0.2'', community = ''private'',
     system_id = ''318.1.1.4'', outlet_labels = ''4.2.1.4'', outlet_status = ''4.2.1.3'',
     outlet_ctrl = Some ''4.2.1.3'', state_mapping = [(PDU_ON, 1), (PDU_OFF, 2), (PDU_REBOOT, 3)],
     inverse_state_mapping = invert_mapping [(PDU_ON, 1), (PDU_OFF, 2), (PDU_REBOOT, 3)],
     state_transition_delay_seconds = 1\<rparr>"
  have init: "SnmpPDU_init ApcMasterswitchPDU ''apc'' (Some ''10.0.0.2'') None = Inr p"
    by (auto simp: SnmpPDU_init_def ApcMasterswitchPDU_def SnmpPDU_class_def assert_attr_def p_def)
  obtain oid where oid: "outlet_status_oid p (PortInt 3) = Inr oid" by (simp add: outlet_status_oid_def)
  have "SnmpPDU_get_port_state (\<lambda>_ _ _. act_return []) (\<lambda>_ _ _ w. (Inr (show_int 2), w)) p (PortInt 3) () =
       (Inr (PDUState_value PDU_OFF), ())"
  proof (rule snmp_reads_back_state[OF init _ _ _ oid])
    show "c_inverse_state_mapping ApcMasterswitchPDU = None"
      by (simp add: ApcMasterswitchPDU_def SnmpPDU_class_def)
    show "distinct (dict_values (state_mapping p))" by (simp add: p_def)
    show "dict_get (state_mapping p) PDU_OFF = Some 2" by (simp add: p_def)
  qed simp
  with init show ?thesis by blast
qed

text \<open>
  The model name \<open>snmp\<close>, which the PDU documentation offers as the generic SNMP driver,
  can never be instantiated: \<open>PDU.create\<close> maps it to the abstract class \<open>SnmpPDU\<close>, whose
  constructor raises \<open>AttributeError\<close> for every configuration that has a hostname.
\<close>

theorem generic_snmp_never_created:
  "PDU_create connect ''snmp'' name cfg ports =
     (if cfg_hostname cfg = None \<or> cfg_hostname cfg = Some []
      then Inl (ValueError ''SnmpPDU requires a \"hostname\" configuration key'') else Inl AttributeError)"
  by (simp add: PDU_create_def supported_pdus_def SnmpPDU_init_def SnmpPDU_class_def assert_attr_def)

end
