(* ===== verification/Job_Timeouts.thy ===== *)
theory Job_Timeouts
  imports CI_Prelude Complex_Main
begin

text \<open>
  The targets and timeouts of a job (\<open>job.py\<close>: \<open>Target\<close>, \<open>Timeout\<close>, \<open>Timeouts\<close>). The
  marshmallow schemas are third-party code: the \<open>make\<close> functions below are the
  \<open>post_load\<close> hooks, which receive the validated fields; \<open>from_job\<close> takes the validation
  as a parameter. Durations are microseconds, the resolution of \<open>timedelta\<close>; the float fields
  of a timeout are taken as exact rationals.
\<close>

section \<open>Targets\<close>

record Target =
  tg_id :: "string option"
  tg_tags :: "string list"

definition Target_init :: "string option \<Rightarrow> string list option \<Rightarrow> Target" where
  "Target_init i tags = \<lparr>tg_id = i, tg_tags = (case tags of None \<Rightarrow> [] | Some ts \<Rightarrow> ts)\<rparr>"

text \<open>The validated fields of a target: each may be absent.\<close>

type_synonym target_data = "string option \<times> string list option"

definition Target_make :: "target_data \<Rightarrow> Target res" where
  "Target_make data =
     (if fst data = None \<and> snd data = None
      then Inl (ValueError ''The target is neither identified by tags or id.'')
      else Inr (Target_init (fst data) (snd data)))"

definition Target_from_job :: "('y \<Rightarrow> target_data res) \<Rightarrow> 'y \<Rightarrow> Target res" where
  "Target_from_job load data = res_bind (load data) Target_make"

section \<open>One timeout\<close>

definition round_half_even :: "rat \<Rightarrow> int" where
  "round_half_even r =
     (let f = \<lfloor>r\<rfloor>; d = r - of_int f
      in if d < 1 / 2 then f else if 1 / 2 < d then f + 1 else if even f then f else f + 1)"

definition us_per_day :: int where
  "us_per_day = 86400000000"

definition timedelta_max :: time where
  "timedelta_max = 999999999 * us_per_day + (us_per_day - 1)"

text \<open>\<open>timedelta(days, hours, minutes, seconds, milliseconds)\<close>; more than 999999999 days overflow.\<close>

definition timedelta :: "rat \<Rightarrow> rat \<Rightarrow> rat \<Rightarrow> rat \<Rightarrow> rat \<Rightarrow> time res" where
  "timedelta days hours minutes seconds milliseconds =
     (let us = round_half_even
            ((((days * 24 + hours) * 60 + minutes) * 60 + seconds) * 1000000 + milliseconds * 1000);
          d = us div us_per_day
      in if - 999999999 \<le> d \<and> d \<le> 999999999 then Inr us else Inl OverflowError)"

record Timeout =
  t_name :: "string option"
  t_timeout :: time
  t_retries :: int
  t_started_at :: "time option"
  t_retried :: int

definition Timeout_init :: "string option \<Rightarrow> time \<Rightarrow> int \<Rightarrow> Timeout" where
  "Timeout_init name timeout retries =
     \<lparr>t_name = name, t_timeout = timeout, t_retries = retries, t_started_at = None, t_retried = 0\<rparr>"

text \<open>The fields of a timeout after validation: all of them have a default.\<close>

record timeout_data =
  td_days :: rat
  td_hours :: rat
  td_minutes :: rat
  td_seconds :: rat
  td_milliseconds :: rat
  td_retries :: int

definition Timeout_make :: "string option \<Rightarrow> timeout_data \<Rightarrow> Timeout res" where
  "Timeout_make name data =
     res_bind (timedelta (td_days data) (td_hours data) (td_minutes data) (td_seconds data) (td_milliseconds data))
       (\<lambda>t. Inr (Timeout_init name t (td_retries data)))"

definition Timeout_from_job :: "('y \<Rightarrow> timeout_data res) \<Rightarrow> string \<Rightarrow> 'y \<Rightarrow> Timeout res" where
  "Timeout_from_job load name data = res_bind (load data) (Timeout_make (Some name))"

definition active_for :: "time \<Rightarrow> Timeout \<Rightarrow> time option" where
  "active_for now t = (case t_started_at t of Some s \<Rightarrow> Some (now - s) | None \<Rightarrow> None)"

definition is_started :: "Timeout \<Rightarrow> bool" where
  "is_started t = (t_started_at t \<noteq> None)"

definition timeout_has_expired :: "time \<Rightarrow> Timeout \<Rightarrow> bool" where
  "timeout_has_expired now t = (case active_for now t of None \<Rightarrow> False | Some a \<Rightarrow> a > t_timeout t)"

definition timeout_start :: "time \<Rightarrow> Timeout \<Rightarrow> Timeout" where
  "timeout_start now t = t\<lparr>t_started_at := Some now\<rparr>"

definition timeout_reset :: "time option \<Rightarrow> time \<Rightarrow> Timeout \<Rightarrow> Timeout" where
  "timeout_reset when now t =
     (let when' = (case when of None \<Rightarrow> now | Some w \<Rightarrow> w) in t\<lparr>t_started_at := Some when'\<rparr>)"

definition timeout_stop :: "Timeout \<Rightarrow> Timeout" where
  "timeout_stop t = t\<lparr>t_started_at := None\<rparr>"

definition timeout_retry :: "Timeout \<Rightarrow> bool \<times> Timeout" where
  "timeout_retry t =
     (let t1 = timeout_stop t; t2 = t1\<lparr>t_retried := t_retried t1 + 1\<rparr>
      in (t_retried t2 \<le> t_retries t2, t2))"

lemmas timeout_defs [py_defs] =
  active_for_def is_started_def timeout_has_expired_def timeout_start_def timeout_reset_def
  timeout_stop_def timeout_retry_def

section \<open>The timeouts of a job\<close>

datatype TimeoutType = OVERALL | INFRA_SETUP | INFRA_TEARDOWN | BOOT_CYCLE | CONSOLE | FIRST_CONSOLE_MSG

primrec TimeoutType_value :: "TimeoutType \<Rightarrow> string" where
  "TimeoutType_value OVERALL = ''overall''"
| "TimeoutType_value INFRA_SETUP = ''infra_setup''"
| "TimeoutType_value INFRA_TEARDOWN = ''infra_teardown''"
| "TimeoutType_value BOOT_CYCLE = ''boot_cycle''"
| "TimeoutType_value CONSOLE = ''console_activity''"
| "TimeoutType_value FIRST_CONSOLE_MSG = ''first_console_activity''"

definition TimeoutType_members :: "TimeoutType list" where
  "TimeoutType_members = [OVERALL, INFRA_SETUP, INFRA_TEARDOWN, BOOT_CYCLE, CONSOLE, FIRST_CONSOLE_MSG]"

record Timeouts =
  overall :: Timeout
  infra_setup :: Timeout
  infra_teardown :: Timeout
  boot_cycle :: Timeout
  console_activity :: Timeout
  first_console_activity :: Timeout
  watchdogs :: "(string, Timeout) dict"

text \<open>
  Python iterates over references to the timeout objects; a reference is the attribute that
  holds the object, or its key in \<open>watchdogs\<close>.
\<close>

datatype timeout_ref = Attr TimeoutType | WatchdogKey string

primrec getattr_timeout :: "TimeoutType \<Rightarrow> Timeouts \<Rightarrow> Timeout" where
  "getattr_timeout OVERALL ts = overall ts"
| "getattr_timeout INFRA_SETUP ts = infra_setup ts"
| "getattr_timeout INFRA_TEARDOWN ts = infra_teardown ts"
| "getattr_timeout BOOT_CYCLE ts = boot_cycle ts"
| "getattr_timeout CONSOLE ts = console_activity ts"
| "getattr_timeout FIRST_CONSOLE_MSG ts = first_console_activity ts"

primrec setattr_timeout :: "TimeoutType \<Rightarrow> Timeout \<Rightarrow> Timeouts \<Rightarrow> Timeouts" where
  "setattr_timeout OVERALL t ts = ts\<lparr>overall := t\<rparr>"
| "setattr_timeout INFRA_SETUP t ts = ts\<lparr>infra_setup := t\<rparr>"
| "setattr_timeout INFRA_TEARDOWN t ts = ts\<lparr>infra_teardown := t\<rparr>"
| "setattr_timeout BOOT_CYCLE t ts = ts\<lparr>boot_cycle := t\<rparr>"
| "setattr_timeout CONSOLE t ts = ts\<lparr>console_activity := t\<rparr>"
| "setattr_timeout FIRST_CONSOLE_MSG t ts = ts\<lparr>first_console_activity := t\<rparr>"

definition update_timeout :: "timeout_ref \<Rightarrow> (Timeout \<Rightarrow> Timeout) \<Rightarrow> Timeouts \<Rightarrow> Timeouts" where
  "update_timeout r f ts =
     (case r of
        Attr a \<Rightarrow> setattr_timeout a (f (getattr_timeout a ts)) ts
      | WatchdogKey k \<Rightarrow> ts\<lparr>watchdogs := map (\<lambda>(k', t). (k', if k' = k then f t else t)) (watchdogs ts)\<rparr>)"

definition default_timeout :: "TimeoutType \<Rightarrow> Timeout" where
  "default_timeout ty = Timeout_init (Some (TimeoutType_value ty)) timedelta_max 0"

text \<open>One turn of the loop of \<open>Timeouts.__init__\<close>.\<close>

definition pick_timeout :: "(string, Timeout) dict \<Rightarrow> TimeoutType \<Rightarrow> Timeout res" where
  "pick_timeout d ty =
     (let t = (case dict_get d (TimeoutType_value ty) of None \<Rightarrow> default_timeout ty | Some t \<Rightarrow> t)
      in if ty \<in> {OVERALL, INFRA_TEARDOWN} \<and> t_retries t \<noteq> 0
         then Inl (ValueError ''Neither the overall nor the teardown timeout can have retries'')
         else Inr t)"

definition Timeouts_init :: "(string, Timeout) dict \<Rightarrow> (string, Timeout) dict option \<Rightarrow> Timeouts res" where
  "Timeouts_init d wds =
     res_bind (pick_timeout d OVERALL) (\<lambda>ov.
     res_bind (pick_timeout d INFRA_SETUP) (\<lambda>is.
     res_bind (pick_timeout d INFRA_TEARDOWN) (\<lambda>it.
     res_bind (pick_timeout d BOOT_CYCLE) (\<lambda>bc.
     res_bind (pick_timeout d CONSOLE) (\<lambda>ca.
     res_bind (pick_timeout d FIRST_CONSOLE_MSG) (\<lambda>fc.
       Inr \<lparr>overall = ov, infra_setup = is, infra_teardown = it, boot_cycle = bc, console_activity = ca,
            first_console_activity = fc, watchdogs = (case wds of None \<Rightarrow> [] | Some w \<Rightarrow> w)\<rparr>))))))"

text \<open>The validated fields of \<open>timeouts\<close>: the timeouts that were given, and the watchdogs if given.\<close>

record timeouts_data =
  tsd_items :: "(string, Timeout) dict"
  tsd_watchdogs :: "(string, Timeout) dict option"

definition Timeouts_make :: "(string, Timeout) dict \<Rightarrow> timeouts_data \<Rightarrow> Timeouts res" where
  "Timeouts_make defaults data =
     Timeouts_init (fold (\<lambda>(k, t) d. dict_set k t d) (tsd_items data) defaults)
       (map_option (map (\<lambda>(name, wd). (name, wd\<lparr>t_name := Some name\<rparr>))) (tsd_watchdogs data))"

definition Timeouts_from_job ::
  "('y \<Rightarrow> timeouts_data res) \<Rightarrow> 'y \<Rightarrow> (string, Timeout) dict option \<Rightarrow> Timeouts res" where
  "Timeouts_from_job load data defaults =
     res_bind (load data) (Timeouts_make (case defaults of None \<Rightarrow> [] | Some d \<Rightarrow> d))"

definition Timeouts_iter :: "Timeouts \<Rightarrow> (timeout_ref \<times> Timeout) list" where
  "Timeouts_iter ts =
     map (\<lambda>a. (Attr a, getattr_timeout a ts)) TimeoutType_members @
     map (\<lambda>(k, t). (WatchdogKey k, t)) (watchdogs ts)"

text \<open>
  Every \<open>has_expired\<close> reads the clock anew: \<open>now i\<close> is the clock when the \<open>i\<close>-th timeout
  of the iteration is looked at.
\<close>

fun expired_from :: "(nat \<Rightarrow> time) \<Rightarrow> nat \<Rightarrow> (timeout_ref \<times> Timeout) list \<Rightarrow> timeout_ref list" where
  "expired_from now i [] = []"
| "expired_from now i ((r, t) # xs) =
     (if timeout_has_expired (now i) t then r # expired_from now (Suc i) xs
      else expired_from now (Suc i) xs)"

definition expired_list :: "(nat \<Rightarrow> time) \<Rightarrow> Timeouts \<Rightarrow> timeout_ref list" where
  "expired_list now ts = expired_from now 0 (Timeouts_iter ts)"

definition has_expired :: "(nat \<Rightarrow> time) \<Rightarrow> Timeouts \<Rightarrow> bool" where
  "has_expired now ts = (length (expired_list now ts) > 0)"

definition get_timeout :: "timeout_ref \<Rightarrow> Timeouts \<Rightarrow> Timeout option" where
  "get_timeout r ts =
     (case r of Attr a \<Rightarrow> Some (getattr_timeout a ts) | WatchdogKey k \<Rightarrow> dict_get (watchdogs ts) k)"

section \<open>Lemmas\<close>

lemma getattr_setattr [simp]:
  "getattr_timeout a (setattr_timeout b t ts) = (if a = b then t else getattr_timeout a ts)"
  by (cases a; cases b) simp_all

lemma watchdogs_setattr [simp]: "watchdogs (setattr_timeout a t ts) = watchdogs ts"
  by (cases a) simp_all

lemma getattr_watchdogs_update [simp]: "getattr_timeout a (ts\<lparr>watchdogs := w\<rparr>) = getattr_timeout a ts"
  by (cases a) simp_all

lemma dict_get_map_key:
  "dict_get (map (\<lambda>(k', t). (k', if k' = k then f t else t)) d) k'' =
     (if k'' = k then map_option f (dict_get d k) else dict_get d k'')"
  by (induction d) auto

lemma get_timeout_update [simp]:
  "get_timeout r' (update_timeout r f ts) =
     (if r' = r then map_option f (get_timeout r ts) else get_timeout r' ts)"
  by (auto simp: get_timeout_def update_timeout_def dict_get_map_key split: timeout_ref.splits)

lemma watchdog_keys_update [simp]:
  "dict_keys (watchdogs (update_timeout r f ts)) = dict_keys (watchdogs ts)"
  by (auto simp: update_timeout_def comp_def split: timeout_ref.splits prod.splits)

lemma Timeouts_iter_refs [simp]:
  "map fst (Timeouts_iter (update_timeout r f ts)) = map fst (Timeouts_iter ts)"
proof -
  have "map fst (Timeouts_iter ts) = map Attr TimeoutType_members @ map WatchdogKey (dict_keys (watchdogs ts))" for ts
    by (simp add: Timeouts_iter_def comp_def split_beta)
  then show ?thesis by (simp only: watchdog_keys_update)
qed

lemma Timeouts_iter_mem:
  assumes "dict_ok (watchdogs ts)"
  shows "(r, t) \<in> set (Timeouts_iter ts) \<longleftrightarrow> get_timeout r ts = Some t"
proof (cases r)
  case (Attr a)
  have "a \<in> set TimeoutType_members" by (cases a) (simp_all add: TimeoutType_members_def)
  then show ?thesis using Attr by (auto simp: Timeouts_iter_def get_timeout_def)
next
  case (WatchdogKey k)
  then show ?thesis
    using map_of_eq_Some_iff[OF assms, of k t] by (auto simp: Timeouts_iter_def get_timeout_def)
qed

text \<open>The expired timeouts under a clock that does not move during the iteration.\<close>

lemma expired_list_const:
  "expired_list (\<lambda>_. now) ts = map fst (filter (\<lambda>(r, t). timeout_has_expired now t) (Timeouts_iter ts))"
proof -
  have "expired_from (\<lambda>_. now) i xs = map fst (filter (\<lambda>(r, t). timeout_has_expired now t) xs)" for i xs
    by (induction xs arbitrary: i) auto
  then show ?thesis by (simp add: expired_list_def)
qed

lemma timeout_has_expired_mono:
  "timeout_has_expired now t \<Longrightarrow> now \<le> now' \<Longrightarrow> timeout_has_expired now' t"
  by (auto simp: py_defs split: option.splits)

lemma expired_from_mono:
  assumes "\<And>i j. now i \<le> now' j"
  shows "set (expired_from now i xs) \<subseteq> set (expired_from now' j xs)"
proof (induction xs arbitrary: i j)
  case (Cons x xs)
  obtain r t where x: "x = (r, t)" by (cases x)
  have "timeout_has_expired (now i) t \<Longrightarrow> timeout_has_expired (now' j) t"
    using assms timeout_has_expired_mono by blast
  then show ?case using Cons[of "Suc i" "Suc j"] by (auto simp: x)
qed simp

lemma expired_list_mem:
  assumes "dict_ok (watchdogs ts)" "r \<in> set (expired_list now ts)"
  obtains t i where "get_timeout r ts = Some t" "timeout_has_expired (now i) t"
proof -
  have "\<exists>t i. (r, t) \<in> set xs \<and> timeout_has_expired (now i) t"
    if "r \<in> set (expired_from now i xs)" for xs i
    using that by (induction xs arbitrary: i) (auto split: if_splits, blast+)
  then show thesis
    using assms that unfolding expired_list_def by (metis Timeouts_iter_mem)
qed

lemma expired_from_distinct:
  "distinct (map fst xs) \<Longrightarrow> distinct (expired_from now i xs)"
proof (induction xs arbitrary: i)
  case (Cons x xs)
  have "set (expired_from now i xs) \<subseteq> fst ` set xs" for i
    by (induction xs arbitrary: i) (auto split: if_splits, blast+)
  then show ?case using Cons by (cases x) auto
qed simp

lemma timeout_retry_facts [simp]:
  "t_started_at (snd (timeout_retry t)) = None"
  "t_retried (snd (timeout_retry t)) = t_retried t + 1"
  "t_retries (snd (timeout_retry t)) = t_retries t"
  "t_timeout (snd (timeout_retry t)) = t_timeout t"
  "t_name (snd (timeout_retry t)) = t_name t"
  "fst (timeout_retry t) \<longleftrightarrow> t_retried t < t_retries t"
  by (auto simp: py_defs Let_def)

lemma fold_dict_set_get:
  "dict_ok kvs \<Longrightarrow> dict_get (fold (\<lambda>(k, v) d. dict_set k v d) kvs d) k =
     (case dict_get kvs k of Some v \<Rightarrow> Some v | None \<Rightarrow> dict_get d k)"
proof (induction kvs arbitrary: d)
  case (Cons x kvs)
  then show ?case
    by (cases x) (auto simp: dict_get_None_iff image_iff split: option.splits dest: dict_get_mem)
qed simp

lemma TimeoutType_value_inj: "TimeoutType_value a = TimeoutType_value b \<longleftrightarrow> a = b"
  by (cases a; cases b) simp_all

text \<open>What every set of timeouts of a job satisfies.\<close>

definition timeouts_wf :: "Timeouts \<Rightarrow> bool" where
  "timeouts_wf ts \<longleftrightarrow> dict_ok (watchdogs ts) \<and> t_retries (overall ts) = 0 \<and> t_retries (infra_teardown ts) = 0"

lemma pick_timeout_Inr:
  "pick_timeout d ty = Inr t \<longleftrightarrow>
     t = (case dict_get d (TimeoutType_value ty) of None \<Rightarrow> default_timeout ty | Some t \<Rightarrow> t) \<and>
     (ty \<in> {OVERALL, INFRA_TEARDOWN} \<longrightarrow> t_retries t = 0)"
  by (auto simp: pick_timeout_def Let_def split: if_splits)

lemma Timeouts_init_getattr:
  "Timeouts_init d wds = Inr ts \<Longrightarrow> pick_timeout d ty = Inr (getattr_timeout ty ts)"
  by (cases ty) (auto simp: Timeouts_init_def res_bind_Inr_iff)

lemma Timeouts_init_watchdogs:
  "Timeouts_init d wds = Inr ts \<Longrightarrow> watchdogs ts = (case wds of None \<Rightarrow> [] | Some w \<Rightarrow> w)"
  by (auto simp: Timeouts_init_def res_bind_Inr_iff)

lemma Timeouts_init_ok_iff:
  "is_ok (Timeouts_init d wds) \<longleftrightarrow> (\<forall>ty \<in> {OVERALL, INFRA_TEARDOWN}. is_ok (pick_timeout d ty))"
proof -
  have "is_ok (pick_timeout d ty)" if "ty \<notin> {OVERALL, INFRA_TEARDOWN}" for ty
    using that by (auto simp: pick_timeout_def Let_def)
  then have "\<exists>t. pick_timeout d INFRA_SETUP = Inr t" "\<exists>t. pick_timeout d BOOT_CYCLE = Inr t"
    "\<exists>t. pick_timeout d CONSOLE = Inr t" "\<exists>t. pick_timeout d FIRST_CONSOLE_MSG = Inr t"
    by (simp_all add: is_ok_iff)
  then show ?thesis
    by (auto simp: Timeouts_init_def is_ok_iff res_bind_Inr_iff)
qed

section \<open>Properties\<close>

text \<open>
  The retry counter of a timeout: of the calls to \<open>retry()\<close> on a timeout, exactly the first
  \<open>retries - retried\<close> allow another try; each call stops the timeout and keeps its duration.
\<close>

theorem timeout_retry_limit:
  "let t' = ((\<lambda>t. snd (timeout_retry t)) ^^ k) t
   in (fst (timeout_retry t') \<longleftrightarrow> t_retried t + int k < t_retries t) \<and>
      (is_started t' = (k = 0 \<and> is_started t)) \<and> t_retried t' = t_retried t + int k \<and> t_timeout t' = t_timeout t"
proof -
  have *: "t_retried (((\<lambda>t. snd (timeout_retry t)) ^^ k) t) = t_retried t + int k"
    "t_retries (((\<lambda>t. snd (timeout_retry t)) ^^ k) t) = t_retries t"
    "t_timeout (((\<lambda>t. snd (timeout_retry t)) ^^ k) t) = t_timeout t"
    by (induction k) simp_all
  then show ?thesis
    by (cases k) (auto simp: Let_def is_started_def)
qed

text \<open>
  \<open>expired_list\<close> is right: when the clock reads \<open>now\<close> throughout, a timeout is in the list
  exactly if it was started and has been active for longer than its duration; and a timeout that
  is listed stays listed at every later time, so the loop that left because something expired
  finds it again.
\<close>

theorem expired_list_correct:
  assumes "dict_ok (watchdogs ts)"
  shows "(r \<in> set (expired_list (\<lambda>_. now) ts) \<longleftrightarrow>
      (\<exists>t s. get_timeout r ts = Some t \<and> t_started_at t = Some s \<and> t_timeout t < now - s)) \<and>
    ((\<forall>i j. clk i \<le> clk' j) \<longrightarrow> set (expired_list clk ts) \<subseteq> set (expired_list clk' ts))"
proof
  show "r \<in> set (expired_list (\<lambda>_. now) ts) \<longleftrightarrow>
      (\<exists>t s. get_timeout r ts = Some t \<and> t_started_at t = Some s \<and> t_timeout t < now - s)"
    using Timeouts_iter_mem[OF assms]
    by (auto simp: expired_list_const image_iff py_defs split: option.splits)
  show "(\<forall>i j. clk i \<le> clk' j) \<longrightarrow> set (expired_list clk ts) \<subseteq> set (expired_list clk' ts)"
    unfolding expired_list_def by (intro impI expired_from_mono) blast
qed

definition example_timeouts :: Timeouts where
  "example_timeouts =
     \<lparr>overall = (Timeout_init (Some ''overall'') 21600000000 0)\<lparr>t_started_at := Some 0\<rparr>,
      infra_setup = default_timeout INFRA_SETUP, infra_teardown = default_timeout INFRA_TEARDOWN,
      boot_cycle = (Timeout_init (Some ''boot_cycle'') 60000000 2)\<lparr>t_started_at := Some 1000000\<rparr>,
      console_activity = default_timeout CONSOLE,
      first_console_activity = default_timeout FIRST_CONSOLE_MSG,
      watchdogs = [(''wd'', (Timeout_init (Some ''wd'') 5000000 1)\<lparr>t_started_at := Some 58000000\<rparr>)]\<rparr>"

theorem expired_list_correct_witness:
  "Attr BOOT_CYCLE \<in> set (expired_list (\<lambda>_. 62000000) example_timeouts) \<and>
   WatchdogKey ''wd'' \<notin> set (expired_list (\<lambda>_. 62000000) example_timeouts) \<and>
   set (expired_list (\<lambda>_. 62000000) example_timeouts) \<subseteq> set (expired_list (\<lambda>_. 62000001) example_timeouts)"
proof -
  have ok: "dict_ok (watchdogs example_timeouts)" by (simp add: example_timeouts_def)
  note fact = expired_list_correct[OF ok, of _ 62000000 "\<lambda>_. 62000000" "\<lambda>_. 62000001"]
  show ?thesis
    using fact[of "Attr BOOT_CYCLE"] fact[of "WatchdogKey ''wd''"]
    by (simp add: example_timeouts_def get_timeout_def Timeout_init_def)
qed

text \<open>
  Reading the timeouts of a job: the loading succeeds exactly if neither the overall nor the
  teardown timeout asks for retries, and then each timeout is the one the job gives, else the
  default one, else one that is (practically) infinite without retries.
\<close>

theorem timeouts_from_job:
  assumes "dict_ok (tsd_items data)" "load y = Inr data"
  shows "(\<exists>ts. Timeouts_from_job load y (Some defaults) = Inr ts \<and>
            (\<forall>ty. getattr_timeout ty ts =
              (case dict_get (tsd_items data) (TimeoutType_value ty) of Some t \<Rightarrow> t
               | None \<Rightarrow> (case dict_get defaults (TimeoutType_value ty) of Some t \<Rightarrow> t
               | None \<Rightarrow> Timeout_init (Some (TimeoutType_value ty)) timedelta_max 0)))) \<longleftrightarrow>
         (\<forall>ty \<in> {OVERALL, INFRA_TEARDOWN}.
            (case dict_get (tsd_items data) (TimeoutType_value ty) of Some t \<Rightarrow> t_retries t = 0
               | None \<Rightarrow> (case dict_get defaults (TimeoutType_value ty) of Some t \<Rightarrow> t_retries t = 0 | None \<Rightarrow> True)))"
    (is "?L \<longleftrightarrow> ?R")
proof -
  let ?d = "fold (\<lambda>(k, t) d. dict_set k t d) (tsd_items data) defaults"
  let ?w = "map_option (map (\<lambda>(name, wd). (name, wd\<lparr>t_name := Some name\<rparr>))) (tsd_watchdogs data)"
  have from_job: "Timeouts_from_job load y (Some defaults) = Timeouts_init ?d ?w"
    by (simp add: Timeouts_from_job_def assms Timeouts_make_def)
  have "is_ok (pick_timeout ?d ty) \<longleftrightarrow>
      (case dict_get (tsd_items data) (TimeoutType_value ty) of Some t \<Rightarrow> t_retries t = 0
        | None \<Rightarrow> (case dict_get defaults (TimeoutType_value ty) of Some t \<Rightarrow> t_retries t = 0 | None \<Rightarrow> True))"
    if "ty \<in> {OVERALL, INFRA_TEARDOWN}" for ty
    using that assms(1)
    by (auto simp: pick_timeout_def Let_def fold_dict_set_get default_timeout_def Timeout_init_def split: option.splits)
  then have R: "?R \<longleftrightarrow> is_ok (Timeouts_init ?d ?w)" by (simp add: Timeouts_init_ok_iff)
  have "getattr_timeout ty ts =
      (case dict_get (tsd_items data) (TimeoutType_value ty) of Some t \<Rightarrow> t
       | None \<Rightarrow> (case dict_get defaults (TimeoutType_value ty) of Some t \<Rightarrow> t
       | None \<Rightarrow> Timeout_init (Some (TimeoutType_value ty)) timedelta_max 0))"
    if "Timeouts_init ?d ?w = Inr ts" for ts ty
    using Timeouts_init_getattr[OF that, of ty] assms(1)
    by (auto simp: pick_timeout_Inr fold_dict_set_get default_timeout_def split: option.splits)
  then show ?thesis unfolding from_job R is_ok_iff by blast
qed


theorem timeouts_from_job_witness:
  "\<exists>ts. Timeouts_from_job (\<lambda>_. Inr \<lparr>tsd_items = [(''boot_cycle'', Timeout_init (Some ''boot_cycle'') 60000000 2)],
          tsd_watchdogs = None\<rparr>) () (Some [(''overall'', Timeout_init (Some ''overall'') 21600000000 0)]) = Inr ts \<and>
     t_timeout (overall ts) = 21600000000 \<and> t_retries (boot_cycle ts) = 2"
proof -
  let ?data = "\<lparr>tsd_items = [(''boot_cycle'', Timeout_init (Some ''boot_cycle'') 60000000 2)], tsd_watchdogs = None\<rparr>"
  let ?def = "[(''overall'', Timeout_init (Some ''overall'') 21600000000 0)]"
  have "\<exists>ts. Timeouts_from_job (\<lambda>_. Inr ?data) () (Some ?def) = Inr ts \<and>
      (\<forall>ty. getattr_timeout ty ts =
        (case dict_get (tsd_items ?data) (TimeoutType_value ty) of Some t \<Rightarrow> t
         | None \<Rightarrow> (case dict_get ?def (TimeoutType_value ty) of Some t \<Rightarrow> t
         | None \<Rightarrow> Timeout_init (Some (TimeoutType_value ty)) timedelta_max 0)))"
    by (subst timeouts_from_job) (simp_all add: Timeout_init_def)
  then obtain ts where ts: "Timeouts_from_job (\<lambda>_. Inr ?data) () (Some ?def) = Inr ts"
    "\<And>ty. getattr_timeout ty ts =
        (case dict_get (tsd_items ?data) (TimeoutType_value ty) of Some t \<Rightarrow> t
         | None \<Rightarrow> (case dict_get ?def (TimeoutType_value ty) of Some t \<Rightarrow> t
         | None \<Rightarrow> Timeout_init (Some (TimeoutType_value ty)) timedelta_max 0))"
    by blast
  have "t_timeout (overall ts) = 21600000000" using ts(2)[of OVERALL] by (simp add: Timeout_init_def)
  moreover have "t_retries (boot_cycle ts) = 2" using ts(2)[of BOOT_CYCLE] by (simp add: Timeout_init_def)
  ultimately show ?thesis using ts(1) by blast
qed

end
