(* ===== verification/Job_Patterns.thy ===== *)
theory Job_Patterns
  imports Job_Timeouts
begin

text \<open>
  The console patterns and watchdogs of a job (\<open>job.py\<close>: \<open>Pattern\<close>, \<open>Watchdog\<close>,
  \<open>ConsoleState\<close>). Jobs may use any regular expression, so the definitions take
  \<open>re.search\<close> as a parameter: \<open>search p l\<close> says whether the expression \<open>p\<close> is found in the
  line \<open>l\<close>. A watchdog refers to its timeout by its key in \<open>timeouts.watchdogs\<close>: the two Python
  objects are the same one. Byte strings are \<^typ>\<open>string\<close>s.
\<close>

type_synonym regex_search = "string \<Rightarrow> string \<Rightarrow> bool"

section \<open>Patterns\<close>

record Pattern =
  regex :: string

definition Pattern_init :: "(string \<Rightarrow> bool) \<Rightarrow> string \<Rightarrow> Pattern res" where
  "Pattern_init compiles r =
     (if compiles r then Inr \<lparr>regex = r\<rparr>
      else Inl (ValueError (''Console pattern '' @ r @ '' is not a valid regular expression'')))"

definition Pattern_make :: "(string \<Rightarrow> bool) \<Rightarrow> string option \<Rightarrow> Pattern res" where
  "Pattern_make compiles data =
     (case data of
        Some r \<Rightarrow> if r \<noteq> [] then Pattern_init compiles r
                  else Inl (ValueError ''Console patterns require the 'regex' attribute'')
      | None \<Rightarrow> Inl (ValueError ''Console patterns require the 'regex' attribute''))"

definition Pattern_from_job :: "(string \<Rightarrow> bool) \<Rightarrow> ('y \<Rightarrow> string option res) \<Rightarrow> 'y \<Rightarrow> Pattern res" where
  "Pattern_from_job compiles load data = res_bind (load data) (Pattern_make compiles)"

section \<open>Watchdogs\<close>

record Watchdog =
  start_pattern :: Pattern
  reset_pattern :: Pattern
  stop_pattern :: Pattern
  wd_timeout :: "string option"

definition Watchdog_init :: "Pattern \<Rightarrow> Pattern \<Rightarrow> Pattern \<Rightarrow> Watchdog" where
  "Watchdog_init start reset stop =
     \<lparr>start_pattern = start, reset_pattern = reset, stop_pattern = stop, wd_timeout = None\<rparr>"

text \<open>The validated fields of a watchdog: \<open>start\<close>, \<open>reset\<close> and \<open>stop\<close>, each possibly absent.\<close>

definition Watchdog_make :: "Pattern option \<times> Pattern option \<times> Pattern option \<Rightarrow> Watchdog res" where
  "Watchdog_make data =
     (case data of
        (Some start, Some reset, Some stop) \<Rightarrow> Inr (Watchdog_init start reset stop)
      | _ \<Rightarrow> Inl (ValueError ''The fields start, reset, and stop need to be specified for watchdogs''))"

definition Watchdog_from_job ::
  "('y \<Rightarrow> (Pattern option \<times> Pattern option \<times> Pattern option) res) \<Rightarrow> 'y \<Rightarrow> Watchdog res" where
  "Watchdog_from_job load data = res_bind (load data) Watchdog_make"

definition Watchdog_set_timeout :: "string option \<Rightarrow> Watchdog \<Rightarrow> Watchdog" where
  "Watchdog_set_timeout t wd = wd\<lparr>wd_timeout := t\<rparr>"

definition Watchdog_process_line ::
  "regex_search \<Rightarrow> time \<Rightarrow> string \<Rightarrow> Watchdog \<Rightarrow> Timeouts \<Rightarrow> string set \<times> Timeouts" where
  "Watchdog_process_line search now line wd ts =
     (case wd_timeout wd of
        None \<Rightarrow> ({}, ts)
      | Some key \<Rightarrow>
          (case get_timeout (WatchdogKey key) ts of
             None \<Rightarrow> ({}, ts)
           | Some t \<Rightarrow>
               if \<not> is_started t then
                 if search (regex (start_pattern wd)) line
                 then ({''start''}, update_timeout (WatchdogKey key) (timeout_start now) ts)
                 else ({}, ts)
               else
                 if search (regex (reset_pattern wd)) line
                 then ({''reset''}, update_timeout (WatchdogKey key) (timeout_reset None now) ts)
                 else if search (regex (stop_pattern wd)) line
                 then ({''stop''}, update_timeout (WatchdogKey key) timeout_stop ts)
                 else ({}, ts)))"

definition Watchdog_stop :: "Watchdog \<Rightarrow> Timeouts \<Rightarrow> Timeouts" where
  "Watchdog_stop wd ts =
     (case wd_timeout wd of None \<Rightarrow> ts | Some key \<Rightarrow> update_timeout (WatchdogKey key) timeout_stop ts)"

section \<open>The console state\<close>

record ConsoleState =
  cs_session_end :: Pattern
  cs_session_reboot :: "Pattern option"
  cs_job_success :: "Pattern option"
  cs_job_warn :: "Pattern option"
  cs_machine_unfit_for_service :: "Pattern option"
  cs_watchdogs :: "(string, Watchdog) dict"
  cs_patterns :: "(string, string) dict"
  cs_matched :: "string set"

definition add_pattern :: "string \<Rightarrow> Pattern option \<Rightarrow> (string, string) dict \<Rightarrow> (string, string) dict" where
  "add_pattern name p d = (case p of None \<Rightarrow> d | Some p \<Rightarrow> dict_set name (regex p) d)"

definition ConsoleState_init ::
  "Pattern \<Rightarrow> Pattern option \<Rightarrow> Pattern option \<Rightarrow> Pattern option \<Rightarrow> Pattern option \<Rightarrow>
   (string, Watchdog) dict option \<Rightarrow> ConsoleState" where
  "ConsoleState_init session_end session_reboot job_success job_warn unfit wds =
     \<lparr>cs_session_end = session_end, cs_session_reboot = session_reboot, cs_job_success = job_success,
      cs_job_warn = job_warn, cs_machine_unfit_for_service = unfit,
      cs_watchdogs = (case wds of None \<Rightarrow> [] | Some w \<Rightarrow> w),
      cs_patterns = add_pattern ''machine_unfit_for_service'' unfit
        (add_pattern ''job_warn'' job_warn
          (add_pattern ''job_success'' job_success
            (add_pattern ''session_reboot'' session_reboot [(''session_end'', regex session_end)]))),
      cs_matched = {}\<rparr>"

text \<open>The default is \<open>^\[[\d \.]{12}\] reboot: Power Down$\<close>, anchored at a kernel time stamp.\<close>

definition default_session_end :: string where
  "default_session_end =
     (let bs = [CHR 0x5C]
      in ''^'' @ bs @ ''[['' @ bs @ ''d '' @ bs @ ''.]{12}'' @ bs @ ''] reboot: Power Down$'')"

record console_data =
  cd_session_end :: "Pattern option"
  cd_session_reboot :: "Pattern option"
  cd_job_success :: "Pattern option"
  cd_job_warn :: "Pattern option"
  cd_unfit :: "Pattern option"
  cd_watchdogs :: "(string, Watchdog) dict option"

definition ConsoleState_make :: "(string \<Rightarrow> bool) \<Rightarrow> console_data \<Rightarrow> ConsoleState res" where
  "ConsoleState_make compiles data =
     res_bind (Pattern_init compiles default_session_end) (\<lambda>dflt.
       Inr (ConsoleState_init (case cd_session_end data of None \<Rightarrow> dflt | Some p \<Rightarrow> p)
         (cd_session_reboot data) (cd_job_success data) (cd_job_warn data) (cd_unfit data) (cd_watchdogs data)))"

definition ConsoleState_from_job :: "(string \<Rightarrow> bool) \<Rightarrow> ('y \<Rightarrow> console_data res) \<Rightarrow> 'y \<Rightarrow> ConsoleState res" where
  "ConsoleState_from_job compiles load data = res_bind (load data) (ConsoleState_make compiles)"

text \<open>
  The loop over the watchdogs; \<open>clk name\<close> is the clock when the watchdog \<open>name\<close> looks at the line.
\<close>

fun process_watchdogs ::
  "regex_search \<Rightarrow> (string \<Rightarrow> time) \<Rightarrow> string \<Rightarrow> (string, Watchdog) dict \<Rightarrow> Timeouts \<Rightarrow> string set \<times> Timeouts" where
  "process_watchdogs search clk line [] ts = ({}, ts)"
| "process_watchdogs search clk line ((name, wd) # wds) ts =
     (let (m, ts1) = Watchdog_process_line search (clk name) line wd ts;
          (ms, ts2) = process_watchdogs search clk line wds ts1
      in ((\<lambda>x. name @ ''.'' @ x) ` m \<union> ms, ts2))"

definition matching_patterns :: "regex_search \<Rightarrow> string \<Rightarrow> (string, string) dict \<Rightarrow> string set" where
  "matching_patterns search line ps = set (map fst (filter (\<lambda>(name, r). search r line) ps))"

definition ConsoleState_process_line ::
  "regex_search \<Rightarrow> (string \<Rightarrow> time) \<Rightarrow> string \<Rightarrow> ConsoleState \<times> Timeouts \<Rightarrow> string set \<times> ConsoleState \<times> Timeouts" where
  "ConsoleState_process_line search clk line st =
     (let (cs, ts) = st;
          matched = matching_patterns search line (cs_patterns cs);
          cs1 = cs\<lparr>cs_matched := cs_matched cs \<union> matched\<rparr>;
          (wmatched, ts1) = process_watchdogs search clk line (cs_watchdogs cs1) ts
      in (matched \<union> wmatched, cs1, ts1))"

definition ConsoleState_reset_per_boot_state :: "ConsoleState \<Rightarrow> ConsoleState" where
  "ConsoleState_reset_per_boot_state cs = cs\<lparr>cs_matched := cs_matched cs - {''session_reboot''}\<rparr>"

definition session_has_ended :: "ConsoleState \<Rightarrow> bool" where
  "session_has_ended cs = (''session_end'' \<in> cs_matched cs \<or> ''unfit_for_service'' \<in> cs_matched cs)"

definition cs_needs_reboot :: "ConsoleState \<Rightarrow> bool" where
  "cs_needs_reboot cs = (''session_reboot'' \<in> cs_matched cs)"

definition machine_is_unfit_for_service :: "ConsoleState \<Rightarrow> bool" where
  "machine_is_unfit_for_service cs = (''machine_unfit_for_service'' \<in> cs_matched cs)"

definition job_status :: "ConsoleState \<Rightarrow> string" where
  "job_status cs =
     (if ''session_end'' \<notin> cs_matched cs then ''INCOMPLETE''
      else if ''job_success'' \<in> set (dict_keys (cs_patterns cs)) then
        if ''job_success'' \<in> cs_matched cs then
          if ''job_warn'' \<in> cs_matched cs then ''WARN'' else ''PASS''
        else ''FAIL''
      else ''COMPLETE'')"

text \<open>A console log, line by line; \<open>clk i\<close> gives the clock readings for its \<open>i\<close>-th line.\<close>

fun process_lines ::
  "regex_search \<Rightarrow> (nat \<Rightarrow> string \<Rightarrow> time) \<Rightarrow> nat \<Rightarrow> string list \<Rightarrow> ConsoleState \<times> Timeouts
   \<Rightarrow> string set \<times> ConsoleState \<times> Timeouts" where
  "process_lines search clk i [] st = ({}, st)"
| "process_lines search clk i (l # ls) st =
     (let (m, st1) = ConsoleState_process_line search (clk i) l st;
          (ms, st2) = process_lines search clk (Suc i) ls st1
      in (m \<union> ms, st2))"

section \<open>Lemmas\<close>

lemma cs_patterns_init:
  "set (cs_patterns (ConsoleState_init se sr js jw uf wds)) =
     {(''session_end'', regex se)} \<union>
     (case sr of None \<Rightarrow> {} | Some p \<Rightarrow> {(''session_reboot'', regex p)}) \<union>
     (case js of None \<Rightarrow> {} | Some p \<Rightarrow> {(''job_success'', regex p)}) \<union>
     (case jw of None \<Rightarrow> {} | Some p \<Rightarrow> {(''job_warn'', regex p)}) \<union>
     (case uf of None \<Rightarrow> {} | Some p \<Rightarrow> {(''machine_unfit_for_service'', regex p)})"
  by (cases sr; cases js; cases jw; cases uf) (auto simp: ConsoleState_init_def add_pattern_def)

lemma cs_patterns_dict_ok: "dict_ok (cs_patterns (ConsoleState_init se sr js jw uf wds))"
  by (auto simp: ConsoleState_init_def add_pattern_def split: option.split)

lemma matching_patterns_mem:
  "name \<in> matching_patterns search line ps \<longleftrightarrow> (\<exists>r. (name, r) \<in> set ps \<and> search r line)"
  by (force simp: matching_patterns_def)

lemma process_line_simps [simp]:
  "fst (snd (ConsoleState_process_line search clk line (cs, ts))) =
     cs\<lparr>cs_matched := cs_matched cs \<union> matching_patterns search line (cs_patterns cs)\<rparr>"
  "snd (snd (ConsoleState_process_line search clk line (cs, ts))) =
     snd (process_watchdogs search clk line (cs_watchdogs cs) ts)"
  by (simp_all add: ConsoleState_process_line_def Let_def split: prod.split)

text \<open>The console state after a log: the patterns that matched accumulate, nothing else changes.\<close>

lemma process_lines_cs:
  "fst (snd (process_lines search clk i ls (cs, ts))) =
     cs\<lparr>cs_matched := cs_matched cs \<union> (\<Union>l \<in> set ls. matching_patterns search l (cs_patterns cs))\<rparr>"
proof (induction ls arbitrary: i cs ts)
  case Nil
  then show ?case by simp
next
  case (Cons l ls)
  obtain m cs1 ts1 where pl: "ConsoleState_process_line search (clk i) l (cs, ts) = (m, cs1, ts1)"
    by (cases "ConsoleState_process_line search (clk i) l (cs, ts)") auto
  then have "cs1 = cs\<lparr>cs_matched := cs_matched cs \<union> matching_patterns search l (cs_patterns cs)\<rparr>"
    using process_line_simps(1)[of search "clk i" l cs ts] by simp
  with pl Cons[of "Suc i" cs1 ts1] show ?case
    by (auto simp: Un_assoc split: prod.split)
qed

lemma process_lines_matched:
  "name \<in> cs_matched (fst (snd (process_lines search clk i ls (cs, ts)))) \<longleftrightarrow>
     name \<in> cs_matched cs \<or> (\<exists>l \<in> set ls. \<exists>r. (name, r) \<in> set (cs_patterns cs) \<and> search r l)"
  by (auto simp: process_lines_cs matching_patterns_mem)

text \<open>Only the timeouts of watchdogs are touched by console output.\<close>

lemma watchdog_line_frame [simp]:
  "getattr_timeout a (snd (Watchdog_process_line search now line wd ts)) = getattr_timeout a ts"
  "dict_keys (watchdogs (snd (Watchdog_process_line search now line wd ts))) = dict_keys (watchdogs ts)"
  by (auto simp: Watchdog_process_line_def update_timeout_def comp_def split_beta split: option.splits)

lemma process_watchdogs_frame [simp]:
  "getattr_timeout a (snd (process_watchdogs search clk line wds ts)) = getattr_timeout a ts"
  "dict_keys (watchdogs (snd (process_watchdogs search clk line wds ts))) = dict_keys (watchdogs ts)"
  by (induction wds arbitrary: ts) (auto simp: split_beta Let_def)

lemma process_lines_frame [simp]:
  "getattr_timeout a (snd (snd (process_lines search clk i ls (cs, ts)))) = getattr_timeout a ts"
  "dict_keys (watchdogs (snd (snd (process_lines search clk i ls (cs, ts))))) = dict_keys (watchdogs ts)"
  by (induction ls arbitrary: i cs ts) (simp_all add: split_beta Let_def, (metis prod.collapse process_line_simps(2) process_watchdogs_frame)+)


lemma ConsoleState_init_simps [simp]:
  "cs_matched (ConsoleState_init se sr js jw uf wds) = {}"
  "cs_watchdogs (ConsoleState_init se sr js jw uf wds) = (case wds of None \<Rightarrow> [] | Some w \<Rightarrow> w)"
  by (simp_all add: ConsoleState_init_def)

lemma job_success_key_iff:
  "''job_success'' \<in> set (dict_keys (cs_patterns (ConsoleState_init se sr js jw uf wds))) \<longleftrightarrow> js \<noteq> None"
  by (auto simp: cs_patterns_init split: option.splits)

abbreviation some_line :: "regex_search \<Rightarrow> string list \<Rightarrow> Pattern \<Rightarrow> bool" where
  "some_line search ls p \<equiv> \<exists>l \<in> set ls. search (regex p) l"

section \<open>Properties\<close>

text \<open>
  C1. The verdict of a job is determined by its console log: whatever the regular expressions,
  the watchdogs, and the order and timing of the lines, the status is INCOMPLETE if no line
  matches \<open>session_end\<close>; otherwise COMPLETE if the job has no success pattern, FAIL if no line
  matches it, and else WARN or PASS according to whether a line matches \<open>job_warn\<close>.
\<close>

theorem job_status_of_log:
  "job_status (fst (snd (process_lines search clk 0 ls (ConsoleState_init se sr js jw uf wds, ts)))) =
     (if \<not> some_line search ls se then ''INCOMPLETE''
      else case js of
        None \<Rightarrow> ''COMPLETE''
      | Some p \<Rightarrow> if \<not> some_line search ls p then ''FAIL''
                  else case jw of
                    None \<Rightarrow> ''PASS''
                  | Some q \<Rightarrow> if some_line search ls q then ''WARN'' else ''PASS'')"
proof -
  let ?cs = "ConsoleState_init se sr js jw uf wds"
  let ?cs' = "fst (snd (process_lines search clk 0 ls (?cs, ts)))"
  have pats: "cs_patterns ?cs' = cs_patterns ?cs" by (simp add: process_lines_cs)
  have "''session_end'' \<in> cs_matched ?cs' \<longleftrightarrow> some_line search ls se"
    "''job_success'' \<in> cs_matched ?cs' \<longleftrightarrow> (case js of None \<Rightarrow> False | Some p \<Rightarrow> some_line search ls p)"
    "''job_warn'' \<in> cs_matched ?cs' \<longleftrightarrow> (case jw of None \<Rightarrow> False | Some p \<Rightarrow> some_line search ls p)"
    unfolding process_lines_matched cs_patterns_init by (auto split: option.splits)
  then show ?thesis
    unfolding job_status_def pats job_success_key_iff by (auto split: option.split)
qed

text \<open>
  A machine that reports itself unfit does not end the session: the session of a job has
  ended exactly if a line matched \<open>session_end\<close>, even though \<open>session_has_ended\<close> also asks for
  an \<open>unfit_for_service\<close> match, a name no pattern is ever recorded under.
\<close>

theorem session_ends_only_by_session_end:
  "session_has_ended (fst (snd (process_lines search clk 0 ls (ConsoleState_init se sr js jw uf wds, ts)))) \<longleftrightarrow>
     some_line search ls se"
  unfolding session_has_ended_def process_lines_matched cs_patterns_init by (auto split: option.splits)

text \<open>
  A watchdog is a two-state machine over the console lines: while stopped it only reacts to
  its start pattern; while running, a line that matches the reset pattern restarts it from now
  (even if it also matches the stop pattern), and a line that only matches the stop pattern stops
  it. No other timeout changes, and a watchdog without a timeout never does anything.
\<close>

theorem watchdog_line_behaviour:
  assumes "wd_timeout wd = Some key" "get_timeout (WatchdogKey key) ts = Some t"
  shows "let (m, ts') = Watchdog_process_line search now line wd ts
         in m = (if \<not> is_started t then (if search (regex (start_pattern wd)) line then {''start''} else {})
                 else if search (regex (reset_pattern wd)) line then {''reset''}
                 else if search (regex (stop_pattern wd)) line then {''stop''} else {}) \<and>
            get_timeout (WatchdogKey key) ts' =
              Some (t\<lparr>t_started_at :=
                 (if m = {''start''} \<or> m = {''reset''} then Some now
                  else if m = {''stop''} then None else t_started_at t)\<rparr>) \<and>
            (\<forall>r. r \<noteq> WatchdogKey key \<longrightarrow> get_timeout r ts' = get_timeout r ts)"
  using assms by (auto simp: Watchdog_process_line_def py_defs Let_def)

theorem watchdog_line_behaviour_witness:
  "let wd = \<lparr>start_pattern = \<lparr>regex = ''START''\<rparr>, reset_pattern = \<lparr>regex = ''PING''\<rparr>,
             stop_pattern = \<lparr>regex = ''STOP''\<rparr>, wd_timeout = Some ''wd''\<rparr>;
       (m, ts') = Watchdog_process_line (\<lambda>p l. p = l) 60000000 ''PING'' wd example_timeouts
   in m = {''reset''} \<and> map_option t_started_at (get_timeout (WatchdogKey ''wd'') ts') = Some (Some 60000000)"
proof -
  let ?wd = "\<lparr>start_pattern = \<lparr>regex = ''START''\<rparr>, reset_pattern = \<lparr>regex = ''PING''\<rparr>,
             stop_pattern = \<lparr>regex = ''STOP''\<rparr>, wd_timeout = Some ''wd''\<rparr>"
  have t: "get_timeout (WatchdogKey ''wd'') example_timeouts =
      Some ((Timeout_init (Some ''wd'') 5000000 1)\<lparr>t_started_at := Some 58000000\<rparr>)"
    by (simp add: get_timeout_def example_timeouts_def)
  show ?thesis
    using watchdog_line_behaviour[of ?wd "''wd''" example_timeouts _ "\<lambda>p l. p = l" 60000000 "''PING''", OF _ t]
    by (auto simp: is_started_def split: prod.splits)
qed

end
