(* ===== verification/Json.thy ===== *)
theory Json
  imports Py_Strings
begin

text \<open>
  What the sources use of Python's \<open>json\<close> module: \<open>dumps\<close> with its default settings (ASCII
  output, separators \<open>", "\<close> and \<open>": "\<close>) and \<open>loads\<close>. Floating-point numbers are kept as their
  literal. Strings are restricted to code points below 256, so a \<open>\u\<close> escape above that has no
  counterpart here and is rejected. The main fact is the round trip \<open>loads(dumps(j)) == j\<close>.
\<close>

datatype json =
    JNull
  | JBool bool
  | JInt int
  | JFloat string
  | JStr string
  | JList "json list"
  | JObj "(string \<times> json) list"

section \<open>Strings\<close>

definition hex_pair :: "char \<Rightarrow> string" where
  "hex_pair c = (let n = (of_char c :: nat) in [digit_char (n div 16), digit_char (n mod 16)])"

definition json_escape :: "char \<Rightarrow> string" where
  "json_escape c =
     (let bs = CHR 0x5C; n = (of_char c :: nat) in
      if c = bs then [bs, bs]
      else if c = CHR 0x22 then [bs, CHR 0x22]
      else if n = 8 then [bs, CHR ''b'']
      else if n = 12 then [bs, CHR ''f'']
      else if n = 10 then [bs, CHR ''n'']
      else if n = 13 then [bs, CHR ''r'']
      else if n = 9 then [bs, CHR ''t'']
      else if 32 \<le> n \<and> n \<le> 126 then [c]
      else bs # CHR ''u'' # CHR ''0'' # CHR ''0'' # hex_pair c)"

definition json_str :: "string \<Rightarrow> string" where
  "json_str s = CHR 0x22 # concat (map json_escape s) @ [CHR 0x22]"

definition simple_escape :: "char \<Rightarrow> char option" where
  "simple_escape c =
     (if c = CHR 0x22 \<or> c = CHR 0x5C \<or> c = CHR ''/'' then Some c
      else if c = CHR ''b'' then Some (char_of (8::nat))
      else if c = CHR ''f'' then Some (char_of (12::nat))
      else if c = CHR ''n'' then Some (char_of (10::nat))
      else if c = CHR ''r'' then Some (char_of (13::nat))
      else if c = CHR ''t'' then Some (char_of (9::nat))
      else None)"

text \<open>\<open>scanstring\<close>, after the opening quote: the string and what follows the closing quote.\<close>

fun scan_string :: "string \<Rightarrow> (string \<times> string) option" where
  "scan_string [] = None"
| "scan_string (c # s) =
     (if c = CHR 0x22 then Some ([], s)
      else if c = CHR 0x5C then
        (case s of
           [] \<Rightarrow> None
         | e # s1 \<Rightarrow>
             if e = CHR ''u'' then
               (case s1 of
                  h1 # h2 # h3 # h4 # s2 \<Rightarrow>
                    (case read_base 16 [h1, h2, h3, h4] of
                       None \<Rightarrow> None
                     | Some n \<Rightarrow>
                         if n < 256 then map_option (\<lambda>(t, r). (char_of n # t, r)) (scan_string s2) else None)
                | _ \<Rightarrow> None)
             else
               (case simple_escape e of
                  None \<Rightarrow> None
                | Some d \<Rightarrow> map_option (\<lambda>(t, r). (d # t, r)) (scan_string s1)))
      else if (of_char c :: nat) < 32 then None
      else map_option (\<lambda>(t, r). (c # t, r)) (scan_string s))"

section \<open>Numbers\<close>

definition is_digit :: "char \<Rightarrow> bool" where
  "is_digit c = (48 \<le> (of_char c :: nat) \<and> (of_char c :: nat) \<le> 57)"

text \<open>The longest literal \<open>-?(0|[1-9]\d*)(\.\d+)?([eE][-+]?\d+)?\<close> at the start of a string.\<close>

definition scan_int :: "string \<Rightarrow> (string \<times> string) option" where
  "scan_int s =
     (let (sg, u) = (case s of c # r \<Rightarrow> if c = CHR ''-'' then ([c], r) else ([], s) | [] \<Rightarrow> ([], []))
      in case u of
           [] \<Rightarrow> None
         | c # r \<Rightarrow> if c = CHR ''0'' then Some (sg @ [c], r)
                    else if is_digit c then Some (sg @ takeWhile is_digit u, dropWhile is_digit u)
                    else None)"

definition scan_frac :: "string \<Rightarrow> string \<times> string" where
  "scan_frac s =
     (case s of c # d # r \<Rightarrow> if c = CHR ''.'' \<and> is_digit d
                              then (c # takeWhile is_digit (d # r), dropWhile is_digit (d # r)) else ([], s)
      | _ \<Rightarrow> ([], s))"

definition scan_exp :: "string \<Rightarrow> string \<times> string" where
  "scan_exp s =
     (case s of
        c # r \<Rightarrow>
          if c = CHR ''e'' \<or> c = CHR ''E'' then
            (let (sg, u) = (case r of d # r' \<Rightarrow> if d = CHR ''-'' \<or> d = CHR ''+'' then ([d], r') else ([], r)
                            | [] \<Rightarrow> ([], []))
             in if u \<noteq> [] \<and> is_digit (hd u) then (c # sg @ takeWhile is_digit u, dropWhile is_digit u) else ([], s))
          else ([], s)
      | [] \<Rightarrow> ([], s))"

definition read_int :: "string \<Rightarrow> int" where
  "read_int s = (case py_int s of Inr i \<Rightarrow> i | Inl _ \<Rightarrow> 0)"

definition scan_number :: "string \<Rightarrow> (json \<times> string) option" where
  "scan_number s =
     (case scan_int s of
        None \<Rightarrow> None
      | Some (i, r) \<Rightarrow>
          let (f, r1) = scan_frac r; (e, r2) = scan_exp r1
          in if f = [] \<and> e = [] then Some (JInt (read_int i), r2) else Some (JFloat (i @ f @ e), r2))"

section \<open>Values\<close>

definition json_ws :: "char \<Rightarrow> bool" where
  "json_ws c = (c \<in> {CHR '' '', CHR 0x09, CHR 0x0A, CHR 0x0D})"

abbreviation skip_ws :: "string \<Rightarrow> string" where
  "skip_ws \<equiv> dropWhile json_ws"

fun json_dumps :: "json \<Rightarrow> string"
  and json_items :: "json list \<Rightarrow> string"
  and json_members :: "(string \<times> json) list \<Rightarrow> string" where
  "json_dumps JNull = ''null''"
| "json_dumps (JBool b) = (if b then ''true'' else ''false'')"
| "json_dumps (JInt i) = show_int i"
| "json_dumps (JFloat s) = s"
| "json_dumps (JStr s) = json_str s"
| "json_dumps (JList js) = CHR ''['' # json_items js @ '']''"
| "json_dumps (JObj kvs) = CHR ''{'' # json_members kvs @ ''}''"
| "json_items [] = []"
| "json_items (j # js) = json_dumps j @ (if js = [] then [] else '', '' @ json_items js)"
| "json_members [] = []"
| "json_members ((k, j) # kvs) =
     json_str k @ '': '' @ json_dumps j @ (if kvs = [] then [] else '', '' @ json_members kvs)"

definition json_const :: "string \<Rightarrow> (json \<times> string) option" where
  "json_const s =
     (if prefix ''null'' s then Some (JNull, drop 4 s)
      else if prefix ''true'' s then Some (JBool True, drop 4 s)
      else if prefix ''false'' s then Some (JBool False, drop 5 s)
      else if prefix ''NaN'' s then Some (JFloat ''NaN'', drop 3 s)
      else if prefix ''Infinity'' s then Some (JFloat ''Infinity'', drop 8 s)
      else if prefix ''-Infinity'' s then Some (JFloat ''-Infinity'', drop 9 s)
      else None)"

text \<open>
  \<open>scan_once\<close>, with fuel for the nesting and the lengths of lists; the length of the text is
  enough. Objects become dictionaries: the last of two equal keys wins.
\<close>

fun scan_once :: "nat \<Rightarrow> string \<Rightarrow> (json \<times> string) option"
  and scan_items :: "nat \<Rightarrow> string \<Rightarrow> (json list \<times> string) option"
  and scan_members :: "nat \<Rightarrow> string \<Rightarrow> ((string \<times> json) list \<times> string) option" where
  "scan_once 0 s = None"
| "scan_once (Suc n) s =
     (case s of
        [] \<Rightarrow> None
      | c # r \<Rightarrow>
          if c = CHR 0x22 then map_option (\<lambda>(t, r'). (JStr t, r')) (scan_string r)
          else if c = CHR ''{'' then
            (let u = skip_ws r in
             if u \<noteq> [] \<and> hd u = CHR ''}'' then Some (JObj [], tl u)
             else map_option (\<lambda>(kvs, r'). (JObj (fold (\<lambda>(k, v) d. dict_set k v d) kvs []), r')) (scan_members n u))
          else if c = CHR ''['' then
            (let u = skip_ws r in
             if u \<noteq> [] \<and> hd u = CHR '']'' then Some (JList [], tl u)
             else map_option (\<lambda>(js, r'). (JList js, r')) (scan_items n u))
          else (case json_const s of Some x \<Rightarrow> Some x | None \<Rightarrow> scan_number s))"
| "scan_items 0 s = None"
| "scan_items (Suc n) s =
     (case scan_once n s of
        None \<Rightarrow> None
      | Some (v, r) \<Rightarrow>
          (case skip_ws r of
             [] \<Rightarrow> None
           | c # r' \<Rightarrow>
               if c = CHR '']'' then Some ([v], r')
               else if c = CHR '','' then map_option (\<lambda>(vs, r''). (v # vs, r'')) (scan_items n (skip_ws r'))
               else None))"
| "scan_members 0 s = None"
| "scan_members (Suc n) s =
     (case s of
        [] \<Rightarrow> None
      | q # s0 \<Rightarrow>
          if q \<noteq> CHR 0x22 then None
          else case scan_string s0 of
            None \<Rightarrow> None
          | Some (k, r) \<Rightarrow>
              (case skip_ws r of
                 [] \<Rightarrow> None
               | col # r1 \<Rightarrow>
                   if col \<noteq> CHR '':'' then None
                   else case scan_once n (skip_ws r1) of
                     None \<Rightarrow> None
                   | Some (v, r2) \<Rightarrow>
                       (case skip_ws r2 of
                          [] \<Rightarrow> None
                        | c # r3 \<Rightarrow>
                            if c = CHR ''}'' then Some ([(k, v)], r3)
                            else if c = CHR '','' then
                              map_option (\<lambda>(kvs, r4). ((k, v) # kvs, r4)) (scan_members n (skip_ws r3))
                            else None)))"

definition json_loads :: "string \<Rightarrow> json res" where
  "json_loads s =
     (case scan_once (Suc (length s)) (skip_ws s) of
        None \<Rightarrow> Inl (ValueError ''JSONDecodeError'')
      | Some (j, r) \<Rightarrow> if skip_ws r = [] then Inr j else Inl (ValueError ''Extra data''))"

text \<open>\<open>d.get(k)\<close> on a parsed value: only objects have it.\<close>

definition json_get :: "string \<Rightarrow> json \<Rightarrow> json res" where
  "json_get k j = (case j of JObj kvs \<Rightarrow> Inr (case dict_get kvs k of None \<Rightarrow> JNull | Some v \<Rightarrow> v) | _ \<Rightarrow> Inl AttributeError)"

section \<open>Round trip\<close>

lemma read_hex_pair: "read_base 16 (CHR ''0'' # CHR ''0'' # hex_pair c) = Some (of_char c)"
proof -
  have n: "(of_char c :: nat) < 256" by simp
  then have d: "(of_char c :: nat) div 16 < 16" by (simp add: less_mult_imp_div_less)
  have z: "char_digit CHR ''0'' = Some 0" by (simp add: char_digit_def)
  show ?thesis
    using d by (simp add: read_base_def hex_pair_def Let_def z)
qed

lemma scan_string_escape:
  assumes "scan_string s = Some (t, r)"
  shows "scan_string (json_escape c @ s) = Some (c # t, r)"
proof -
  have c: "char_of (of_char c :: nat) = c" by simp
  have q: "(of_char CHR 0x22 :: nat) = 34" "(of_char CHR 0x5C :: nat) = 92" by simp_all
  obtain h l where hp: "hex_pair c = [h, l]" by (simp add: hex_pair_def Let_def)
  have u: "scan_string (CHR 0x5C # CHR ''u'' # CHR ''0'' # CHR ''0'' # hex_pair c @ s) = Some (c # t, r)"
    using assms read_hex_pair[of c] by (simp add: hp)
  have e: "(of_char c :: nat) = k \<Longrightarrow> c = char_of k" for k using c by metis
  show ?thesis
    using assms u
    by (auto simp: json_escape_def Let_def simple_escape_def dest: e)
qed

lemma scan_string_dumps: "scan_string (concat (map json_escape s) @ CHR 0x22 # r) = Some (s, r)"
  by (induction s) (simp_all add: scan_string_escape)

lemma show_nat_hd: "hd (show_nat n) = CHR ''0'' \<longleftrightarrow> n = 0"
proof (induction n rule: less_induct)
  case (less n)
  have "char_of (48::nat) = CHR ''0''" by (simp add: char_of_eq_iff)
  then have z: "CHR ''0'' = digit_char 0" by (simp add: digit_char_def)
  show ?case
  proof (cases "n < 10")
    case True
    then show ?thesis by (simp add: show_base.simps[of 10 n] z digit_char_inj)
  next
    case False
    then have "hd (show_nat n) = hd (show_nat (n div 10))" by (simp add: show_base.simps[of 10 n])
    with less[of "n div 10"] False show ?thesis by simp
  qed
qed

lemma show_nat_digits: "\<forall>c \<in> set (show_nat n). is_digit c"
  using show_base_digits[of 10 _ n] by (force simp: is_digit_def digit_char_def)

lemma scan_int_show:
  assumes "r = [] \<or> \<not> is_digit (hd r)"
  shows "scan_int (show_int i @ r) = Some (show_int i, r)"
proof -
  have tw: "takeWhile is_digit (show_nat n @ r) = show_nat n" "dropWhile is_digit (show_nat n @ r) = r" for n
    using show_nat_digits[of n] assms by (simp_all add: takeWhile_append dropWhile_append takeWhile_eq_Nil_iff)
       (cases r; auto)+
  have pos: "(case show_nat n @ r of [] \<Rightarrow> None | c # r' \<Rightarrow> if c = CHR ''0'' then Some (sg @ [c], r')
        else if is_digit c then Some (sg @ takeWhile is_digit (show_nat n @ r), dropWhile is_digit (show_nat n @ r)) else None)
      = Some (sg @ show_nat n, r)" for n sg
  proof (cases "show_nat n")
    case (Cons c t)
    have "t = []" if "c = CHR ''0''"
    proof -
      have "n = 0" using show_nat_hd[of n] Cons that by simp
      then show ?thesis using Cons by (simp add: show_base.simps[of 10 0])
    qed
    moreover have "is_digit c" using show_nat_digits[of n] Cons by simp
    ultimately show ?thesis using Cons tw[of n] by simp
  qed simp
  obtain c t where ct: "show_nat (nat i) = c # t" "c \<noteq> CHR ''-''" using show_nat_plain(3) by blast
  show ?thesis
  proof (cases "i < 0")
    case True
    then show ?thesis using pos[of "''-''" "nat (- i)"] by (simp add: scan_int_def show_int_def)
  next
    case False
    then show ?thesis using pos[of "[]" "nat i"] ct tw[of "nat i"]
      by (auto simp: scan_int_def show_int_def split: if_splits)
  qed
qed

text \<open>What may follow a value inside a printed text.\<close>

definition delim :: "string \<Rightarrow> bool" where
  "delim r \<longleftrightarrow> r = [] \<or> hd r \<in> {CHR '','', CHR '']'', CHR ''}''}"

lemma scan_number_show: "delim r \<Longrightarrow> scan_number (show_int i @ r) = Some (JInt i, r)"
proof -
  assume d: "delim r"
  then have "r = [] \<or> \<not> is_digit (hd r)" by (auto simp: delim_def is_digit_def)
  moreover have "scan_frac r = ([], r)" "scan_exp r = ([], r)"
    using d by (auto simp: delim_def scan_frac_def scan_exp_def split: list.split)
  ultimately show ?thesis by (simp add: scan_number_def scan_int_show read_int_def)
qed

text \<open>Values \<open>dumps\<close> can be given: no floats, and every object has distinct keys.\<close>

fun json_ok :: "json \<Rightarrow> bool"
  and json_all_ok :: "json list \<Rightarrow> bool"
  and json_members_ok :: "(string \<times> json) list \<Rightarrow> bool" where
  "json_ok (JFloat s) \<longleftrightarrow> False"
| "json_ok (JList js) \<longleftrightarrow> json_all_ok js"
| "json_ok (JObj kvs) \<longleftrightarrow> distinct (map fst kvs) \<and> json_members_ok kvs"
| "json_ok JNull \<longleftrightarrow> True"
| "json_ok (JBool b) \<longleftrightarrow> True"
| "json_ok (JInt i) \<longleftrightarrow> True"
| "json_ok (JStr s) \<longleftrightarrow> True"
| "json_all_ok [] \<longleftrightarrow> True"
| "json_all_ok (j # js) \<longleftrightarrow> json_ok j \<and> json_all_ok js"
| "json_members_ok [] \<longleftrightarrow> True"
| "json_members_ok ((k, j) # kvs) \<longleftrightarrow> json_ok j \<and> json_members_ok kvs"

lemma fold_dict_set_distinct:
  "distinct (map fst kvs) \<Longrightarrow> fst ` set kvs \<inter> fst ` set d = {} \<Longrightarrow>
   fold (\<lambda>(k, v) d. dict_set k v d) kvs d = d @ kvs"
proof (induction kvs arbitrary: d)
  case (Cons x kvs)
  obtain k v where x: "x = (k, v)" by (cases x)
  have "k \<notin> fst ` set d" using Cons.prems x by auto
  then have "dict_set k v d = d @ [(k, v)]" by (induction d) auto
  then show ?case using Cons by (auto simp: x)
qed simp

lemma dumps_head:
  assumes "json_ok j"
  shows "\<exists>c t. json_dumps j = c # t \<and> \<not> json_ws c \<and> c \<noteq> CHR '']'' \<and> c \<noteq> CHR ''}''"
proof (cases j)
  case (JInt i)
  have "\<exists>c t. show_int i = c # t \<and> (is_digit c \<or> c = CHR ''-'')"
    using show_nat_digits[of "nat i"] by (cases "show_nat (nat i)") (auto simp: show_int_def)
  moreover have "is_digit c \<or> c = CHR ''-'' \<Longrightarrow> \<not> json_ws c \<and> c \<noteq> CHR '']'' \<and> c \<noteq> CHR ''}''" for c
    by (auto simp: is_digit_def json_ws_def)
  ultimately show ?thesis using JInt by auto
next
  case (JFloat s)
  then show ?thesis using assms by simp
qed (simp_all add: json_str_def json_ws_def)

fun json_fuel :: "json \<Rightarrow> nat"
  and items_fuel :: "json list \<Rightarrow> nat"
  and members_fuel :: "(string \<times> json) list \<Rightarrow> nat" where
  "json_fuel (JList js) = Suc (items_fuel js)"
| "json_fuel (JObj kvs) = Suc (members_fuel kvs)"
| "json_fuel JNull = 1"
| "json_fuel (JBool b) = 1"
| "json_fuel (JInt i) = 1"
| "json_fuel (JFloat s) = 1"
| "json_fuel (JStr s) = 1"
| "items_fuel [] = 0"
| "items_fuel (j # js) = Suc (json_fuel j + items_fuel js)"
| "members_fuel [] = 0"
| "members_fuel ((k, j) # kvs) = Suc (json_fuel j + members_fuel kvs)"

lemma fuel_le_length:
  "json_ok j \<Longrightarrow> json_fuel j \<le> length (json_dumps j)"
  "json_all_ok js \<Longrightarrow> items_fuel js \<le> Suc (length (json_items js))"
  "json_members_ok kvs \<Longrightarrow> members_fuel kvs \<le> Suc (length (json_members kvs))"
proof (induction j and js and kvs rule: json_dumps_json_items_json_members.induct)
  case (3 i)
  then show ?case by (simp add: show_int_def Suc_le_eq)
qed (auto simp: json_str_def)

lemma skip_ws_delim [simp]: "delim r \<Longrightarrow> skip_ws r = r"
  by (cases r) (auto simp: delim_def json_ws_def)

lemma delim_simps [simp]: "delim []" "delim (CHR '','' # r)" "delim (CHR '']'' # r)" "delim (CHR ''}'' # r)"
  by (simp_all add: delim_def)

lemma ws_simps [simp]: "json_ws CHR '' ''" "\<not> json_ws CHR '':''" "\<not> json_ws CHR '','' " "\<not> json_ws CHR '']''"
  "\<not> json_ws CHR ''}''" "\<not> json_ws CHR 0x22"
  by (simp_all add: json_ws_def)

lemma skip_ws_dumps [simp]: "json_ok j \<Longrightarrow> skip_ws (json_dumps j @ r) = json_dumps j @ r"
  using dumps_head[of j] by auto

lemma is_digit_neq:
  "is_digit c \<Longrightarrow> CHR ''n'' \<noteq> c \<and> CHR ''t'' \<noteq> c \<and> CHR ''f'' \<noteq> c \<and> CHR ''N'' \<noteq> c \<and> CHR ''I'' \<noteq> c \<and> CHR ''-'' \<noteq> c"
  by (intro conjI notI) (auto simp: is_digit_def)

lemma json_const_digit: "is_digit c \<Longrightarrow> json_const (c # s) = None"
  using is_digit_neq[of c] by (simp add: json_const_def)

lemma json_const_minus: "is_digit c \<Longrightarrow> json_const (CHR ''-'' # c # s) = None"
  using is_digit_neq[of c] by (simp add: json_const_def)

lemma show_int_head:
  "\<exists>c t. show_int i = c # t \<and> c \<notin> {CHR 0x22, CHR ''{'', CHR ''[''} \<and> json_const (show_int i @ r) = None"
proof -
  have nd: "\<exists>c t. show_nat n = c # t \<and> is_digit c" for n
    using show_nat_digits[of n] by (cases "show_nat n") simp_all
  have ex: "is_digit c \<Longrightarrow> c \<notin> {CHR 0x22, CHR ''{'', CHR ''[''}" for c
    by (auto simp: is_digit_def)
  show ?thesis
  proof (cases "i < 0")
    case True
    obtain c t where "show_nat (nat (- i)) = c # t" "is_digit c" using nd by blast
    then show ?thesis using True json_const_minus[of c "t @ r"] by (simp add: show_int_def)
  next
    case False
    obtain c t where "show_nat (nat i) = c # t" "is_digit c" using nd by blast
    then show ?thesis using False ex[of c] json_const_digit[of c "t @ r"] by (simp add: show_int_def)
  qed
qed

lemma scan_once_int: "delim r \<Longrightarrow> scan_once (Suc n) (show_int i @ r) = Some (JInt i, r)"
  using show_int_head[of i r] scan_number_show[of r i] by auto

lemma scan_dumps:
  "json_ok j \<Longrightarrow> json_fuel j \<le> n \<Longrightarrow> delim r \<Longrightarrow> scan_once n (json_dumps j @ r) = Some (j, r)"
  "js \<noteq> [] \<Longrightarrow> json_all_ok js \<Longrightarrow> items_fuel js \<le> n \<Longrightarrow>
     scan_items n (json_items js @ CHR '']'' # r) = Some (js, r)"
  "kvs \<noteq> [] \<Longrightarrow> json_members_ok kvs \<Longrightarrow> members_fuel kvs \<le> n \<Longrightarrow>
     scan_members n (json_members kvs @ CHR ''}'' # r) = Some (kvs, r)"
proof (induction j and js and kvs arbitrary: n r and n r and n r
    rule: json_dumps_json_items_json_members.induct)
  case 1
  then show ?case by (cases n) (simp_all add: json_const_def)
next
  case (2 b)
  then show ?case by (cases n) (simp_all add: json_const_def)
next
  case (3 i)
  then show ?case by (cases n) (simp_all only: json_dumps.simps scan_once_int json_fuel.simps)
next
  case (5 s)
  then show ?case by (cases n) (simp_all add: json_str_def scan_string_dumps)
next
  case (6 js)
  then obtain m where n: "n = Suc m" by (cases n) auto
  show ?case
  proof (cases js)
    case (Cons j js')
    obtain c t where "json_dumps j = c # t" "\<not> json_ws c" "c \<noteq> CHR '']''"
      using dumps_head[of j] 6 Cons by auto
    then show ?thesis using 6 n Cons by (simp del: scan_items.simps)
  qed (simp add: n)
next
  case (7 kvs)
  then obtain m where n: "n = Suc m" by (cases n) auto
  show ?case
  proof (cases kvs)
    case (Cons x kvs')
    obtain k j where x: "x = (k, j)" by (cases x)
    have "fold (\<lambda>(k, v) d. dict_set k v d) kvs [] = kvs"
      using fold_dict_set_distinct[of kvs "[]"] 7 by simp
    then show ?thesis using 7 n Cons x by (simp add: json_str_def del: scan_members.simps)
  qed (simp add: n)
next
  case (9 j js)
  then obtain m where n: "n = Suc m" by (cases n) auto
  show ?case
  proof (cases js)
    case (Cons j' js')
    obtain c t where "json_dumps j' = c # t" "\<not> json_ws c"
      using dumps_head[of j'] 9 Cons by auto
    then show ?thesis using 9 n Cons by simp
  qed (use 9 n in simp)
next
  case (11 k j kvs)
  then obtain m where n: "n = Suc m" by (cases n) auto
  show ?case
  proof (cases kvs)
    case (Cons x kvs')
    obtain k' j' where x: "x = (k', j')" by (cases x)
    then show ?thesis using 11 n Cons by (simp add: json_str_def scan_string_dumps)
  qed (use 11 n in \<open>simp add: json_str_def scan_string_dumps\<close>)
qed simp_all

lemma json_loads_dumps [simp]: "json_ok j \<Longrightarrow> json_loads (json_dumps j) = Inr j"
  using scan_dumps(1)[of j "Suc (length (json_dumps j))" "[]"] fuel_le_length(1)[of j] skip_ws_dumps[of j "[]"]
  by (simp add: json_loads_def del: scan_once.simps)

text \<open>The output of \<open>dumps\<close> is ASCII.\<close>

lemma json_escape_ascii: "c \<in> set (json_escape d) \<Longrightarrow> (of_char c :: nat) < 128"
proof -
  have "n < 16 \<Longrightarrow> (of_char (digit_char n) :: nat) < 128" for n
    by (simp add: digit_char_def)
  moreover have "(of_char d :: nat) div 16 < 16" by (simp add: less_mult_imp_div_less)
  ultimately show "c \<in> set (json_escape d) \<Longrightarrow> (of_char c :: nat) < 128"
    by (auto simp: json_escape_def Let_def hex_pair_def split: if_splits)
qed

lemma json_dumps_ascii:
  "json_ok j \<Longrightarrow> c \<in> set (json_dumps j) \<Longrightarrow> (of_char c :: nat) < 128"
  "json_all_ok js \<Longrightarrow> c \<in> set (json_items js) \<Longrightarrow> (of_char c :: nat) < 128"
  "json_members_ok kvs \<Longrightarrow> c \<in> set (json_members kvs) \<Longrightarrow> (of_char c :: nat) < 128"
proof (induction j and js and kvs rule: json_dumps_json_items_json_members.induct)
  case (3 i)
  then show ?case using show_nat_digits by (fastforce simp: show_int_def is_digit_def split: if_splits)
qed (auto simp: json_str_def json_escape_ascii split: if_splits)

end
