(* ===== verification/Wire_Codecs.thy ===== *)
theory Wire_Codecs
  imports Json
begin

text \<open>
  The parts of Python's standard library the wire format of the executor is made of:
  \<open>struct.pack("!I")\<close>, \<open>base64.b85encode\<close>/\<open>b85decode\<close>, UTF-8 decoding and the ISO format of
  (naive) dates, each with its round trip. A byte string is a \<^typ>\<open>string\<close>.
\<close>

section \<open>Big-endian 32-bit integers\<close>

definition be_bytes :: "nat \<Rightarrow> string" where
  "be_bytes n = [char_of (n div 16777216), char_of (n div 65536), char_of (n div 256), char_of n]"

definition be_value :: "string \<Rightarrow> nat" where
  "be_value s = foldl (\<lambda>a c. a * 256 + of_char c) 0 s"

definition pack_I :: "nat \<Rightarrow> string res" where
  "pack_I n = (if n < 2 ^ 32 then Inr (be_bytes n) else Inl StructError)"

definition unpack_I :: "string \<Rightarrow> nat res" where
  "unpack_I s = (if length s = 4 then Inr (be_value s) else Inl StructError)"

lemma be_value_bytes: "n < 2 ^ 32 \<Longrightarrow> be_value (be_bytes n) = n"
proof -
  assume n: "n < 2 ^ 32"
  define q1 where "q1 = n div 256"
  define q2 where "q2 = q1 div 256"
  define q3 where "q3 = q2 div 256"
  have qs: "n div 65536 = q2" "n div 16777216 = q3"
    by (simp_all add: q1_def q2_def q3_def div_mult2_eq [symmetric])
  have "q3 < 256" using n by (simp add: qs(2) [symmetric] div_less_iff_less_mult)
  moreover have "n = q1 * 256 + n mod 256" "q1 = q2 * 256 + q1 mod 256" "q2 = q3 * 256 + q2 mod 256"
    by (simp_all add: q1_def q2_def q3_def)
  ultimately show ?thesis
    by (simp add: be_value_def be_bytes_def qs q1_def [symmetric])
qed

lemma unpack_pack_I: "pack_I n = Inr s \<Longrightarrow> unpack_I s = Inr n"
  by (auto simp: pack_I_def unpack_I_def be_value_bytes be_bytes_def split: if_splits)
     (use be_value_bytes[of n] in \<open>simp add: be_bytes_def\<close>)

lemma be_bytes_value:
  "be_bytes (be_value [a, b, c, d]) = [a, b, c, d]"
proof -
  have lt: "(of_char x :: nat) < 256" for x by simp
  let ?a = "of_char a :: nat" and ?b = "of_char b :: nat" and ?c = "of_char c :: nat" and ?d = "of_char d :: nat"
  let ?v = "((?a * 256 + ?b) * 256 + ?c) * 256 + ?d"
  have dv: "(x * 256 + of_char y) div 256 = x" for x :: nat and y by simp
  have v1: "?v div 256 = (?a * 256 + ?b) * 256 + ?c" by (rule dv)
  have v2: "?v div 65536 = ?a * 256 + ?b"
  proof -
    have "?v div 65536 = ?v div 256 div 256" by (simp only: div_mult2_eq [symmetric]) simp
    then show ?thesis by (simp only: v1 dv)
  qed
  have v3: "?v div 16777216 = ?a"
  proof -
    have "?v div 16777216 = ?v div 65536 div 256" by (simp only: div_mult2_eq [symmetric]) simp
    then show ?thesis by (simp only: v2 dv)
  qed
  have cm: "char_of (k * 256 + of_char x) = x" for k :: nat and x
    by (metis char_of_mod_256 char_of_char mod_less mod_mult_self3 lt)
  have "be_value [a, b, c, d] = ?v" by (simp add: be_value_def)
  then show ?thesis
    by (simp only: be_bytes_def v1 v2 v3 cm char_of_char)
qed

section \<open>Base 85\<close>

definition b85_alphabet :: string where
  "b85_alphabet =
     ''0123456789ABCDEFGHIJKLMNOPQRSTUVWXYZabcdefghijklmnopqrstuvwxyz!#$%&()*+-;<=>?@^_'' @
     [CHR 0x60] @ ''{|}~''"

definition b85_dec :: "char \<Rightarrow> nat option" where
  "b85_dec c = dict_get (zip b85_alphabet [0..<85]) c"

fun digits85 :: "nat \<Rightarrow> nat \<Rightarrow> nat list" where
  "digits85 0 n = []"
| "digits85 (Suc k) n = digits85 k (n div 85) @ [n mod 85]"

definition encode_word :: "nat \<Rightarrow> string" where
  "encode_word w = map (\<lambda>d. b85_alphabet ! d) (digits85 5 w)"

fun b85encode :: "string \<Rightarrow> string" where
  "b85encode (a # b # c # d # s) = encode_word (be_value [a, b, c, d]) @ b85encode s"
| "b85encode [] = []"
| "b85encode s = take (length s + 1) (encode_word (be_value (s @ replicate (4 - length s) (char_of (0::nat)))))"

fun decode_chunk :: "nat \<Rightarrow> string \<Rightarrow> nat res" where
  "decode_chunk acc [] = Inr acc"
| "decode_chunk acc (c # s) =
     (case b85_dec c of
        None \<Rightarrow> Inl (ValueError ''bad base85 character'')
      | Some d \<Rightarrow> decode_chunk (acc * 85 + d) s)"

definition decode_word :: "string \<Rightarrow> string res" where
  "decode_word s =
     res_bind (decode_chunk 0 s) (\<lambda>n.
       if n < 2 ^ 32 then Inr (be_bytes n) else Inl (ValueError ''base85 overflow in hunk''))"

fun b85decode :: "string \<Rightarrow> string res" where
  "b85decode (a # b # c # d # e # s) =
     res_bind (decode_word [a, b, c, d, e]) (\<lambda>x. res_bind (b85decode s) (\<lambda>y. Inr (x @ y)))"
| "b85decode [] = Inr []"
| "b85decode s =
     res_bind (decode_word (s @ replicate (5 - length s) CHR ''~'')) (\<lambda>x. Inr (take (length s - 1) x))"

lemma b85_alphabet_facts: "length b85_alphabet = 85" "distinct b85_alphabet" "b85_alphabet ! 84 = CHR ''~''"
  by (simp_all add: b85_alphabet_def)

lemma b85_dec_nth: "d < 85 \<Longrightarrow> b85_dec (b85_alphabet ! d) = Some d"
  using map_of_zip_nth[of b85_alphabet "[0..<85]" d] b85_alphabet_facts
  by (simp add: b85_dec_def)

lemma digits85_length [simp]: "length (digits85 k n) = k"
  by (induction k arbitrary: n) simp_all

lemma digits85_less: "d \<in> set (digits85 k n) \<Longrightarrow> d < 85"
  by (induction k arbitrary: n) auto

lemma decode_chunk_digits:
  "\<forall>d \<in> set ds. d < 85 \<Longrightarrow>
   decode_chunk acc (map (\<lambda>d. b85_alphabet ! d) ds) = Inr (foldl (\<lambda>a d. a * 85 + d) acc ds)"
  by (induction ds arbitrary: acc) (auto simp: b85_dec_nth)

lemma foldl_digits85: "foldl (\<lambda>a d. a * 85 + d) acc (digits85 k n) = acc * 85 ^ k + n mod 85 ^ k"
proof (induction k arbitrary: n)
  case (Suc k)
  have "n mod 85 ^ Suc k = n div 85 mod 85 ^ k * 85 + n mod 85"
    by (simp add: mod_mult2_eq mult.commute)
  then show ?case using Suc by (simp add: algebra_simps)
qed simp

lemma be_value_less: "be_value [a, b, c, d] < 2 ^ 32"
proof -
  have lt: "(of_char x :: nat) \<le> 255" for x using of_char_of[of "of_char x :: nat"] by (simp add: less_Suc_eq_le [symmetric])
  show ?thesis using lt[of a] lt[of b] lt[of c] lt[of d] by (simp add: be_value_def)
qed

lemma decode_encode_word: "w < 2 ^ 32 \<Longrightarrow> decode_word (encode_word w) = Inr (be_bytes w)"
  by (simp add: decode_word_def encode_word_def decode_chunk_digits digits85_less foldl_digits85 del: digits85.simps)

lemma take_digits85: "take m (digits85 (m + p) w) = digits85 m (w div 85 ^ p)"
proof (induction p arbitrary: w)
  case (Suc p)
  have "take m (digits85 (m + Suc p) w) = take m (digits85 (m + p) (w div 85))" by simp
  also have "\<dots> = digits85 m (w div 85 div 85 ^ p)" by (rule Suc)
  finally show ?case by (simp add: div_mult2_eq)
qed simp

lemma foldl_replicate84: "foldl (\<lambda>a d. a * 85 + d) acc (replicate p 84) = acc * 85 ^ p + (85 ^ p - 1 :: nat)"
proof (induction p arbitrary: acc)
  case (Suc p)
  have "(1::nat) \<le> 85 ^ p" by simp
  then show ?case using Suc by (simp add: algebra_simps)
qed simp

lemma b85_alphabet_replicate: "replicate p CHR ''~'' = map (\<lambda>d. b85_alphabet ! d) (replicate p 84)"
  by (simp add: b85_alphabet_facts)

text \<open>A word of which only \<open>4 - p\<close> bytes count: the missing digits are decoded as the largest ones.\<close>

lemma decode_padded:
  assumes w: "w < 2 ^ 32" "256 ^ p dvd w" and p: "p \<le> 3"
  shows "decode_word (take (5 - p) (encode_word w) @ replicate p CHR ''~'') =
           Inr (be_bytes (w div 85 ^ p * 85 ^ p + (85 ^ p - 1)))"
    and "(w div 85 ^ p * 85 ^ p + (85 ^ p - 1)) div 256 ^ p = w div 256 ^ p"
proof -
  let ?v = "w div 85 ^ p * 85 ^ p + (85 ^ p - 1)"
  obtain k where k: "w = 256 ^ p * k" using w(2) by blast
  have pos: "(85::nat) ^ p \<le> 256 ^ p" by (simp add: power_mono)
  have "w mod 85 ^ p < 85 ^ p" by simp
  then have lo: "w \<le> ?v" using div_mult_mod_eq[of w "85 ^ p"] by linarith
  have hi: "?v < w + 256 ^ p"
    using pos div_mult_mod_eq[of w "85 ^ p"] zero_less_power[of "85::nat" p] by linarith
  have k32: "k < 256 ^ (4 - p)"
  proof -
    have "256 ^ p * k < 256 ^ p * 256 ^ (4 - p)" using w(1) p by (simp add: k power_add [symmetric])
    then show ?thesis by simp
  qed
  have eq: "?v div 256 ^ p = k"
  proof (rule div_nat_eqI)
    show "256 ^ p * k \<le> ?v" using lo k by simp
    show "?v < 256 ^ p * Suc k" using hi k by (simp add: algebra_simps)
  qed
  then show "?v div 256 ^ p = w div 256 ^ p" by (simp add: k)
  have v32: "?v < 2 ^ 32"
  proof -
    have "?v < 256 ^ p * Suc k" using hi k by (simp add: algebra_simps)
    also have "\<dots> \<le> 256 ^ p * 256 ^ (4 - p)" using k32 by (intro mult_le_mono2) simp
    also have "\<dots> = 2 ^ 32" using p by (simp add: power_add [symmetric])
    finally show ?thesis .
  qed
  have m: "w div 85 ^ p mod 85 ^ (5 - p) = w div 85 ^ p"
  proof -
    have "w < 85 ^ p * 85 ^ (5 - p)" using w(1) p by (simp add: power_add [symmetric])
    then show ?thesis by (simp add: less_mult_imp_div_less mult.commute)
  qed
  have t: "take (5 - p) (digits85 5 w) = digits85 (5 - p) (w div 85 ^ p)"
    using take_digits85[of "5 - p" p w] p by simp
  have "take (5 - p) (encode_word w) @ replicate p CHR ''~'' =
      map (\<lambda>d. b85_alphabet ! d) (digits85 (5 - p) (w div 85 ^ p) @ replicate p 84)"
    by (simp only: encode_word_def take_map t b85_alphabet_replicate map_append)
  moreover have "\<forall>d \<in> set (digits85 (5 - p) (w div 85 ^ p) @ replicate p 84). d < 85"
    by (auto dest: digits85_less)
  ultimately have "decode_chunk 0 (take (5 - p) (encode_word w) @ replicate p CHR ''~'') = Inr ?v"
    by (simp only: decode_chunk_digits foldl_append foldl_digits85 foldl_replicate84 m) simp
  then show "decode_word (take (5 - p) (encode_word w) @ replicate p CHR ''~'') = Inr (be_bytes ?v)"
    using v32 by (simp add: decode_word_def)
qed

lemma be_bytes_take:
  assumes "v div 256 ^ p = w div 256 ^ p" "p \<in> {1, 2, 3}"
  shows "take (4 - p) (be_bytes v) = take (4 - p) (be_bytes w)"
proof -
  have d: "n div 16777216 = n div 256 div 65536" "n div 65536 = n div 256 div 256"
    "n div 16777216 = n div 65536 div 256" for n :: nat
    by (simp_all add: div_mult2_eq [symmetric])
  show ?thesis
    using assms by (auto simp: be_bytes_def numeral_3_eq_3 numeral_2_eq_2 d)
qed

abbreviation nul :: char where
  "nul \<equiv> char_of (0::nat)"

lemma be_value_pad:
  "256 dvd be_value [a, b, c, nul]" "65536 dvd be_value [a, b, nul, nul]" "16777216 dvd be_value [a, nul, nul, nul]"
proof -
  have "be_value [a, b, c, nul] = 256 * ((of_char a * 256 + of_char b) * 256 + of_char c)"
    "be_value [a, b, nul, nul] = 65536 * (of_char a * 256 + of_char b)"
    "be_value [a, nul, nul, nul] = 16777216 * of_char a"
    by (simp_all add: be_value_def)
  then show "256 dvd be_value [a, b, c, nul]" "65536 dvd be_value [a, b, nul, nul]" "16777216 dvd be_value [a, nul, nul, nul]"
    by (metis dvd_triv_left)+
qed

lemma b85_short:
  assumes "s = [a] \<or> s = [a, b] \<or> s = [a, b, c]"
  shows "b85decode (b85encode s) = Inr s"
proof -
  let ?p = "4 - length s"
  let ?w = "be_value (s @ replicate ?p nul)"
  let ?v = "?w div 85 ^ ?p * 85 ^ ?p + (85 ^ ?p - 1)"
  have w: "?w < 2 ^ 32" "256 ^ ?p dvd ?w" "be_bytes ?w = s @ replicate ?p nul"
    using assms be_value_pad be_value_less be_bytes_value by (auto simp: numeral_3_eq_3 numeral_2_eq_2)
  have p: "?p \<le> 3" "?p \<in> {1, 2, 3}" "5 - ?p = length s + 1" "4 - ?p = length s" using assms by auto
  have enc: "b85encode s = take (5 - ?p) (encode_word ?w)" using assms by (auto simp: numeral_eq_Suc)
  have len: "length (b85encode s) = length s + 1" using enc p(3) by (simp add: encode_word_def)
  then have dec: "b85decode (b85encode s) =
      res_bind (decode_word (b85encode s @ replicate ?p CHR ''~'')) (\<lambda>x. Inr (take (length s) x))"
    using assms
    by (cases "b85encode s" rule: b85decode.cases) auto
  have "take (length s) (be_bytes ?v) = take (length s) (be_bytes ?w)"
    using be_bytes_take[OF decode_padded(2)[OF w(1,2) p(1)] p(2)] p(4) by simp
  then show ?thesis
    unfolding dec unfolding enc decode_padded(1)[OF w(1,2) p(1)] using w(3) by simp
qed

lemma b85_roundtrip [simp]: "b85decode (b85encode s) = Inr s"
proof (induction s rule: b85encode.induct)
  case (1 a b c d s)
  have "length (encode_word (be_value [a, b, c, d])) = Suc (Suc (Suc (Suc (Suc 0))))"
    by (simp add: encode_word_def)
  then obtain e0 e1 e2 e3 e4 where e: "encode_word (be_value [a, b, c, d]) = [e0, e1, e2, e3, e4]"
    unfolding length_Suc_conv length_0_conv by blast
  have "decode_word [e0, e1, e2, e3, e4] = Inr [a, b, c, d]"
    using decode_encode_word[OF be_value_less[of a b c d]] by (simp add: e be_bytes_value)
  then show ?case using 1 by (simp add: e)
qed (simp_all add: b85_short del: b85encode.simps(3-5))

lemma b85encode_ascii: "c \<in> set (b85encode s) \<Longrightarrow> (of_char c :: nat) < 128"
proof -
  have al: "\<forall>c \<in> set b85_alphabet. (of_char c :: nat) < 128" by (simp add: b85_alphabet_def)
  have w: "c \<in> set (encode_word w) \<Longrightarrow> (of_char c :: nat) < 128" for c w
    using al by (auto simp: encode_word_def b85_alphabet_facts dest!: digits85_less)
  show "c \<in> set (b85encode s) \<Longrightarrow> (of_char c :: nat) < 128"
    by (induction s rule: b85encode.induct) (auto dest: w in_set_takeD)
qed

section \<open>UTF-8\<close>

text \<open>Decoding, restricted to the code points below 256 (one- and two-byte sequences).\<close>

fun utf8_decode :: "string \<Rightarrow> string res" where
  "utf8_decode [] = Inr []"
| "utf8_decode (c # s) =
     (if (of_char c :: nat) < 128 then res_bind (utf8_decode s) (\<lambda>t. Inr (c # t))
      else case s of
        [] \<Rightarrow> Inl (ValueError ''UnicodeDecodeError'')
      | d # s' \<Rightarrow>
          let n = (of_char c :: nat); m = (of_char d :: nat)
          in if (n = 194 \<or> n = 195) \<and> 128 \<le> m \<and> m < 192
             then res_bind (utf8_decode s') (\<lambda>t. Inr (char_of ((n - 192) * 64 + (m - 128)) # t))
             else Inl (ValueError ''UnicodeDecodeError''))"

lemma utf8_decode_ascii: "\<forall>c \<in> set s. (of_char c :: nat) < 128 \<Longrightarrow> utf8_decode s = Inr s"
  by (induction s) simp_all

section \<open>Dates\<close>

record datetime =
  dt_year :: nat
  dt_month :: nat
  dt_day :: nat
  dt_hour :: nat
  dt_minute :: nat
  dt_second :: nat
  dt_microsecond :: nat

definition days_in_month :: "nat \<Rightarrow> nat \<Rightarrow> nat" where
  "days_in_month y m =
     (if m = 2 then (if y mod 4 = 0 \<and> (y mod 100 \<noteq> 0 \<or> y mod 400 = 0) then 29 else 28)
      else if m \<in> {4, 6, 9, 11} then 30 else 31)"

definition datetime_valid :: "datetime \<Rightarrow> bool" where
  "datetime_valid d \<longleftrightarrow>
     1 \<le> dt_year d \<and> dt_year d \<le> 9999 \<and> 1 \<le> dt_month d \<and> dt_month d \<le> 12 \<and>
     1 \<le> dt_day d \<and> dt_day d \<le> days_in_month (dt_year d) (dt_month d) \<and>
     dt_hour d < 24 \<and> dt_minute d < 60 \<and> dt_second d < 60 \<and> dt_microsecond d < 1000000"

text \<open>\<open>%0kd\<close> for a number of at most \<open>k\<close> digits.\<close>

fun pad_digits :: "nat \<Rightarrow> nat \<Rightarrow> string" where
  "pad_digits 0 n = []"
| "pad_digits (Suc k) n = pad_digits k (n div 10) @ [digit_char (n mod 10)]"

definition isoformat :: "datetime \<Rightarrow> string" where
  "isoformat d =
     pad_digits 4 (dt_year d) @ ''-'' @ pad_digits 2 (dt_month d) @ ''-'' @ pad_digits 2 (dt_day d) @ ''T'' @
     pad_digits 2 (dt_hour d) @ '':'' @ pad_digits 2 (dt_minute d) @ '':'' @ pad_digits 2 (dt_second d) @
     (if dt_microsecond d = 0 then [] else ''.'' @ pad_digits 6 (dt_microsecond d))"

definition read_digits :: "nat \<Rightarrow> string \<Rightarrow> (nat \<times> string) option" where
  "read_digits k s =
     (if k \<le> length s \<and> list_all is_digit (take k s)
      then Some (foldl (\<lambda>a c. a * 10 + (of_char c - 48)) 0 (take k s), drop k s) else None)"

definition expect :: "char \<Rightarrow> string \<Rightarrow> string option" where
  "expect c s = (case s of x # r \<Rightarrow> if x = c then Some r else None | [] \<Rightarrow> None)"

text \<open>The fraction of a second: three or six digits, then the end.\<close>

definition read_fraction :: "string \<Rightarrow> nat option" where
  "read_fraction s =
     (if length s = 3 then map_option (\<lambda>(n, _). n * 1000) (read_digits 3 s)
      else if length s = 6 then map_option fst (read_digits 6 s) else None)"

text \<open>\<open>HH[:MM[:SS[.fff[fff]]]]\<close>\<close>

definition read_time :: "string \<Rightarrow> (nat \<times> nat \<times> nat \<times> nat) option" where
  "read_time s =
     Option.bind (read_digits 2 s) (\<lambda>(h, s1).
       if s1 = [] then Some (h, 0, 0, 0)
       else Option.bind (expect CHR '':'' s1) (\<lambda>s2. Option.bind (read_digits 2 s2) (\<lambda>(mi, s3).
         if s3 = [] then Some (h, mi, 0, 0)
         else Option.bind (expect CHR '':'' s3) (\<lambda>s4. Option.bind (read_digits 2 s4) (\<lambda>(sec, s5).
           if s5 = [] then Some (h, mi, sec, 0)
           else Option.bind (expect CHR ''.'' s5) (\<lambda>s6. map_option (\<lambda>us. (h, mi, sec, us)) (read_fraction s6)))))))"

definition fromisoformat :: "string \<Rightarrow> datetime res" where
  "fromisoformat s =
     (case Option.bind (read_digits 4 s) (\<lambda>(y, s1). Option.bind (expect CHR ''-'' s1) (\<lambda>s2.
           Option.bind (read_digits 2 s2) (\<lambda>(m, s3). Option.bind (expect CHR ''-'' s3) (\<lambda>s4.
           Option.bind (read_digits 2 s4) (\<lambda>(d, s5).
             map_option (\<lambda>(h, mi, sec, us).
               \<lparr>dt_year = y, dt_month = m, dt_day = d, dt_hour = h, dt_minute = mi, dt_second = sec, dt_microsecond = us\<rparr>)
               (if s5 = [] then Some (0, 0, 0, 0) else if tl s5 = [] then Some (0, 0, 0, 0) else read_time (tl s5)))))))
      of None \<Rightarrow> Inl (ValueError ''Invalid isoformat string'')
       | Some d \<Rightarrow> if datetime_valid d then Inr d else Inl (ValueError ''value out of range''))"

lemma pad_digits_length [simp]: "length (pad_digits k n) = k"
  by (induction k arbitrary: n) simp_all

lemma digit_char_digit: "d < 10 \<Longrightarrow> is_digit (digit_char d)" "d < 10 \<Longrightarrow> (of_char (digit_char d) :: nat) - 48 = d"
  by (simp_all add: is_digit_def digit_char_def)

lemma pad_digits_digits: "list_all is_digit (pad_digits k n)"
  by (induction k arbitrary: n) (simp_all add: digit_char_digit)

lemma pad_digits_value:
  "n < 10 ^ k \<Longrightarrow> foldl (\<lambda>a c. a * 10 + (of_char c - 48)) 0 (pad_digits k n) = n"
proof (induction k arbitrary: n)
  case (Suc k)
  then have "n div 10 < 10 ^ k" by (simp add: less_mult_imp_div_less mult.commute)
  with Suc.IH[of "n div 10"] show ?case by (simp add: digit_char_digit)
qed simp

lemma read_pad_digits [simp]: "n < 10 ^ k \<Longrightarrow> read_digits k (pad_digits k n @ s) = Some (n, s)"
  using pad_digits_digits[of k n] by (simp add: read_digits_def pad_digits_value)

lemma expect_Cons [simp]: "expect c (c # s) = Some s"
  by (simp add: expect_def)

lemma fromisoformat_isoformat [simp]:
  assumes "datetime_valid d"
  shows "fromisoformat (isoformat d) = Inr d"
proof -
  have b: "dt_year d < 10 ^ 4" "dt_month d < 10 ^ 2" "dt_day d < 10 ^ 2" "dt_hour d < 10 ^ 2"
    "dt_minute d < 10 ^ 2" "dt_second d < 10 ^ 2" "dt_microsecond d < 10 ^ 6"
    using assms by (auto simp: datetime_valid_def days_in_month_def split: if_splits)
  have nil: "read_digits 6 (pad_digits 6 (dt_microsecond d)) = Some (dt_microsecond d, [])"
    "read_digits 2 (pad_digits 2 (dt_second d)) = Some (dt_second d, [])"
    using read_pad_digits[OF b(7), of "[]"] read_pad_digits[OF b(6), of "[]"] by simp_all
  show ?thesis
    using assms b nil
    by (cases d) (auto simp: fromisoformat_def isoformat_def read_time_def read_fraction_def
        del: pad_digits.simps power_numeral)
qed

end
