(* ===== verification/Message.thy ===== *)
theory Message
  imports Wire_Codecs
begin

text \<open>
  The protocol between the executor and its client (\<open>message.py\<close>, the same file on both
  sides): log levels, job statuses, message types, the framing of messages on a stream
  socket and the three kinds of messages. The receiving side of a socket is the list of the
  (non-empty) segments that arrive before the peer closes the connection.
\<close>

section \<open>Levels, statuses, types\<close>

datatype LogLevel = LDEBUG | LINFO | LWARN | LERROR

primrec LogLevel_value :: "LogLevel \<Rightarrow> int" where
  "LogLevel_value LDEBUG = 0"
| "LogLevel_value LINFO = 1"
| "LogLevel_value LWARN = 2"
| "LogLevel_value LERROR = 3"

datatype JobStatus = PASS | WARN | COMPLETE | FAIL | INCOMPLETE | UNKNOWN | SETUP_FAIL

primrec JobStatus_name :: "JobStatus \<Rightarrow> string" where
  "JobStatus_name PASS = ''PASS''"
| "JobStatus_name WARN = ''WARN''"
| "JobStatus_name COMPLETE = ''COMPLETE''"
| "JobStatus_name FAIL = ''FAIL''"
| "JobStatus_name INCOMPLETE = ''INCOMPLETE''"
| "JobStatus_name UNKNOWN = ''UNKNOWN''"
| "JobStatus_name SETUP_FAIL = ''SETUP_FAIL''"

definition JobStatus_members :: "JobStatus list" where
  "JobStatus_members = [PASS, WARN, COMPLETE, FAIL, INCOMPLETE, UNKNOWN, SETUP_FAIL]"

primrec status_code :: "JobStatus \<Rightarrow> int" where
  "status_code PASS = 0"
| "status_code WARN = 1"
| "status_code COMPLETE = 2"
| "status_code FAIL = 3"
| "status_code INCOMPLETE = 4"
| "status_code UNKNOWN = 5"
| "status_code SETUP_FAIL = 6"

text \<open>\<open>getattr(cls, status, cls.UNKNOWN)\<close>, for names that are not attributes every class has.\<close>

definition JobStatus_from_str :: "string \<Rightarrow> JobStatus" where
  "JobStatus_from_str s =
     (case find (\<lambda>m. JobStatus_name m = s) JobStatus_members of Some m \<Rightarrow> m | None \<Rightarrow> UNKNOWN)"

datatype MessageType = MCONTROL | MJOB_IO | MSESSION_END

primrec MessageType_value :: "MessageType \<Rightarrow> string" where
  "MessageType_value MCONTROL = ''ctrl''"
| "MessageType_value MJOB_IO = ''job_io''"
| "MessageType_value MSESSION_END = ''session_end''"

definition MessageType_of :: "json \<Rightarrow> MessageType res" where
  "MessageType_of j =
     (case find (\<lambda>m. JStr (MessageType_value m) = j) [MCONTROL, MJOB_IO, MSESSION_END] of
        Some m \<Rightarrow> Inr m | None \<Rightarrow> Inl (ValueError ''not a valid MessageType''))"

section \<open>Receiving\<close>

fun sock_recv :: "nat \<Rightarrow> string list \<Rightarrow> string \<times> string list" where
  "sock_recv n [] = ([], [])"
| "sock_recv n (seg # segs) =
     (if seg = [] then sock_recv n segs
      else if length seg \<le> n then (seg, segs) else (take n seg, drop n seg # segs))"

definition write_at :: "nat \<Rightarrow> string \<Rightarrow> string \<Rightarrow> string" where
  "write_at off d buf = take off buf @ d @ drop (off + length d) buf"

lemma sock_recv_length: "length (fst (sock_recv n segs)) \<le> n"
  by (induction n segs rule: sock_recv.induct) auto

text \<open>
  The loop of \<open>Message.recv\<close>. The view starts \<open>off\<close> bytes into the buffer and has \<open>vlen\<close> bytes;
  \<open>recv_into\<close> refuses to receive more bytes than the view has. The statement
  \<open>view = view[cur:]\<close> moves the view by the total received so far, not by the last count.
\<close>

function recv_loop :: "nat \<Rightarrow> string \<Rightarrow> nat \<Rightarrow> nat \<Rightarrow> nat \<Rightarrow> string list \<Rightarrow> string res \<times> string list" where
  "recv_loop len buf off vlen cur segs =
     (if cur < len then
        if vlen < len - cur then (Inl (ValueError ''nbytes is greater than the length of the buffer''), segs)
        else
          let (d, segs') = sock_recv (len - cur) segs; received = length d
          in if received = 0 then (Inl EOFError, segs')
             else let cur' = cur + received
                  in recv_loop len (write_at off d buf) (off + min cur' vlen) (vlen - cur') cur' segs'
      else (Inr buf, segs))"
  by pat_completeness auto
termination
  by (relation "measure (\<lambda>(len, buf, off, vlen, cur, segs). len - cur)") (auto intro!: diff_less_mono2)

declare recv_loop.simps [simp del]

definition Message_recv :: "nat \<Rightarrow> (string list, string) act" where
  "Message_recv len segs = recv_loop len (replicate len (char_of (0::nat))) 0 len 0 segs"

section \<open>Messages\<close>

record Message =
  msg_type :: MessageType
  msg_payload :: json
  msg_date :: datetime

definition next_message :: "(string list, Message) act" where
  "next_message =
     act_bind (Message_recv 4) (\<lambda>hdr.
     act_bind (act_lift (unpack_I hdr)) (\<lambda>len.
     act_bind (Message_recv len) (\<lambda>frame.
       act_lift (
         res_bind (utf8_decode frame) (\<lambda>txt.
         res_bind (json_loads txt) (\<lambda>msg.
         res_bind (json_get ''msg_type'' msg) (\<lambda>t.
         res_bind (MessageType_of t) (\<lambda>ty.
         res_bind (json_get ''payload'' msg) (\<lambda>payload.
         res_bind (json_get ''date'' msg) (\<lambda>date.
         res_bind (case date of JStr s \<Rightarrow> fromisoformat s | _ \<Rightarrow> Inl TypeError) (\<lambda>d.
           Inr \<lparr>msg_type = ty, msg_payload = payload, msg_date = d\<rparr>)))))))))))"

definition Message_json :: "Message \<Rightarrow> json" where
  "Message_json m =
     JObj [(''msg_type'', JStr (MessageType_value (msg_type m))), (''date'', JStr (isoformat (msg_date m))),
           (''payload'', msg_payload m)]"

definition Message_frame :: "Message \<Rightarrow> string res" where
  "Message_frame m =
     (let payload = json_dumps (Message_json m)
      in res_bind (pack_I (length payload)) (\<lambda>hdr. Inr (hdr @ payload)))"

text \<open>\<open>sock.send\<close> may accept only the first \<open>n\<close> bytes; it returns their number, which the callers drop.\<close>

definition Message_send :: "nat \<Rightarrow> Message \<Rightarrow> (string, nat) act" where
  "Message_send n m out =
     (case Message_frame m of
        Inl e \<Rightarrow> (Inl e, out)
      | Inr f \<Rightarrow> (Inr (length (take n f)), out @ take n f))"

definition ControlMessage_create :: "datetime \<Rightarrow> string \<Rightarrow> LogLevel \<Rightarrow> Message" where
  "ControlMessage_create now message severity =
     \<lparr>msg_type = MCONTROL,
      msg_payload = JObj [(''msg'', JStr message), (''severity'', JInt (LogLevel_value severity))],
      msg_date = now\<rparr>"

definition ControlMessage_message :: "Message \<Rightarrow> json res" where
  "ControlMessage_message m = json_get ''msg'' (msg_payload m)"

definition ControlMessage_severity :: "Message \<Rightarrow> json res" where
  "ControlMessage_severity m = json_get ''severity'' (msg_payload m)"

definition JobIOMessage_create :: "datetime \<Rightarrow> string \<Rightarrow> Message" where
  "JobIOMessage_create now buffer =
     \<lparr>msg_type = MJOB_IO, msg_payload = JStr (b85encode buffer), msg_date = now\<rparr>"

definition JobIOMessage_buffer :: "Message \<Rightarrow> string res" where
  "JobIOMessage_buffer m = (case msg_payload m of JStr s \<Rightarrow> b85decode s | _ \<Rightarrow> Inl AttributeError)"

text \<open>The optional bucket is given by its access URL and name; the caller made the credentials.\<close>

definition SessionEndMessage_create :: "datetime \<Rightarrow> JobStatus \<Rightarrow> (string \<times> string) option \<Rightarrow> Message" where
  "SessionEndMessage_create now status job_bucket =
     \<lparr>msg_type = MSESSION_END,
      msg_payload = JObj ((''status'', JStr (JobStatus_name status)) #
        (case job_bucket of
           None \<Rightarrow> []
         | Some (url, name) \<Rightarrow>
             [(''job_bucket'', JObj [(''minio_access_url'', JStr url), (''bucket_name'', JStr name)])])),
      msg_date = now\<rparr>"

definition SessionEndMessage_status :: "Message \<Rightarrow> JobStatus res" where
  "SessionEndMessage_status m =
     res_bind (json_get ''status'' (msg_payload m)) (\<lambda>s.
       case s of JStr t \<Rightarrow> Inr (JobStatus_from_str t) | _ \<Rightarrow> Inl TypeError)"

definition SessionEndMessage_job_bucket :: "Message \<Rightarrow> (json \<times> json) option res" where
  "SessionEndMessage_job_bucket m =
     res_bind (json_get ''job_bucket'' (msg_payload m)) (\<lambda>b.
       if b = JNull then Inr None
       else res_bind (json_get ''minio_access_url'' b) (\<lambda>url.
            res_bind (json_get ''bucket_name'' b) (\<lambda>name. Inr (Some (url, name)))))"

section \<open>Lemmas\<close>

lemma JobStatus_from_str_name [simp]: "JobStatus_from_str (JobStatus_name s) = s"
  by (cases s) (simp_all add: JobStatus_from_str_def JobStatus_members_def)

lemma MessageType_of_value [simp]: "MessageType_of (JStr (MessageType_value t)) = Inr t"
  by (cases t) (simp_all add: MessageType_of_def)

fun drop_bytes :: "nat \<Rightarrow> string list \<Rightarrow> string list" where
  "drop_bytes n [] = []"
| "drop_bytes n (seg # segs) = (if length seg \<le> n then drop_bytes (n - length seg) segs else drop n seg # segs)"

abbreviation segments :: "string list \<Rightarrow> bool" where
  "segments segs \<equiv> [] \<notin> set segs"

lemma drop_bytes_0 [simp]: "segments segs \<Longrightarrow> drop_bytes 0 segs = segs"
  by (cases segs) auto

lemma concat_drop_bytes [simp]: "concat (drop_bytes n segs) = drop n (concat segs)"
  by (induction n segs rule: drop_bytes.induct) auto

lemma segments_drop_bytes [simp]: "segments segs \<Longrightarrow> segments (drop_bytes n segs)"
  by (induction n segs rule: drop_bytes.induct) auto

text \<open>The third call to \<open>recv_into\<close> is never made: the view is too short by then.\<close>

lemma Message_recv_third:
  assumes "a \<noteq> []" "b \<noteq> []" "length a + length b < n"
  shows "Message_recv n (a # b # segs) =
           (Inl (ValueError ''nbytes is greater than the length of the buffer''), segs)"
proof -
  have "sock_recv (n - length a) (b # segs) = (b, segs)" using assms by simp
  moreover have "n - (length a + (length a + length b)) < n - (length a + length b)"
    using assms by (intro diff_less_mono2) auto
  ultimately show ?thesis
    using assms
    by (simp add: Message_recv_def recv_loop.simps[of n _ 0] recv_loop.simps[of n _ "length a"]
        recv_loop.simps[of n _ _ _ "length a + length b"] Let_def)
qed

text \<open>
  What \<open>recv\<close> does, for every way the bytes may be cut into segments: at most two of them are
  ever read.
\<close>

lemma Message_recv_spec:
  assumes "segments segs"
  shows "Message_recv n segs =
    (if n \<le> length (concat (take 2 segs)) then (Inr (take n (concat segs)), drop_bytes n segs)
     else if length segs < 2 then (Inl EOFError, [])
     else (Inl (ValueError ''nbytes is greater than the length of the buffer''), drop 2 segs))"
proof (cases segs)
  case Nil
  then show ?thesis by (cases n) (simp_all add: Message_recv_def recv_loop.simps)
next
  case (Cons a as)
  then have a: "a \<noteq> []" using assms by auto
  show ?thesis
  proof (cases "n \<le> length a")
    case True
    then show ?thesis using Cons a assms
      by (cases "n = 0"; cases "n = length a")
         (auto simp: Message_recv_def recv_loop.simps write_at_def)
  next
    case False
    then have na: "length a < n" by simp
    let ?buf = "a @ replicate (n - length a) (char_of (0::nat))"
    have one: "Message_recv n segs = recv_loop n ?buf (length a) (n - length a) (length a) as"
      using na a Cons by (subst Message_recv_def, subst recv_loop.simps)
        (auto simp: write_at_def drop_replicate Let_def)
    show ?thesis
    proof (cases as)
      case Nil
      then show ?thesis using one na Cons by (simp add: recv_loop.simps)
    next
      case (Cons b bs)
      then have b: "b \<noteq> []" using assms \<open>segs = a # as\<close> by auto
      show ?thesis
      proof (cases "n \<le> length a + length b")
        case True
        then show ?thesis using one na a b Cons assms \<open>segs = a # as\<close>
          by (cases "n = length a + length b")
             (simp_all add: recv_loop.simps write_at_def)
      next
        case False
        then show ?thesis using Message_recv_third[OF a b, of n bs] Cons \<open>segs = a # as\<close> by simp
      qed
    qed
  qed
qed

lemma Message_recv_ok:
  assumes "segments segs" "n \<le> length (concat (take 2 segs))"
  shows "Message_recv n segs = (Inr (take n (concat segs)), drop_bytes n segs)"
  using assms by (simp add: Message_recv_spec)

lemma Message_json_ok: "json_ok (msg_payload m) \<Longrightarrow> json_ok (Message_json m)"
  by (simp add: Message_json_def)

lemma Message_frame_Inr:
  "Message_frame m = Inr f \<Longrightarrow>
   \<exists>hdr. f = hdr @ json_dumps (Message_json m) \<and> length hdr = 4 \<and>
     unpack_I hdr = Inr (length (json_dumps (Message_json m)))"
  by (auto simp: Message_frame_def Let_def res_bind_Inr_iff unpack_pack_I)
     (auto simp: pack_I_def be_bytes_def split: if_splits)

lemma Message_frame_ex:
  assumes "length (json_dumps (Message_json m)) < 500"
  obtains f where "Message_frame m = Inr f"
  using assms by (simp add: Message_frame_def Let_def pack_I_def)

lemma json_str_length: "length (json_str s) \<le> 6 * length s + 2"
proof -
  have "length (json_escape c) \<le> 6" for c by (simp add: json_escape_def hex_pair_def Let_def)
  then have "length (concat (map json_escape s)) \<le> 6 * length s"
    by (induction s) (auto simp: algebra_simps add_le_mono)
  then show ?thesis by (simp add: json_str_def)
qed

lemma b85encode_length: "length (b85encode s) \<le> 2 * length s"
  by (induction s rule: b85encode.induct) (simp_all add: encode_word_def)

lemma json_str_length_const:
  "length (json_str ''msg_type'') = 10" "length (json_str ''date'') = 6" "length (json_str ''payload'') = 9"
  by code_simp+

lemma decode_Message_json:
  assumes "json_ok (msg_payload m)" "datetime_valid (msg_date m)"
  shows "res_bind (utf8_decode (json_dumps (Message_json m))) (\<lambda>txt.
         res_bind (json_loads txt) (\<lambda>msg.
         res_bind (json_get ''msg_type'' msg) (\<lambda>t.
         res_bind (MessageType_of t) (\<lambda>ty.
         res_bind (json_get ''payload'' msg) (\<lambda>payload.
         res_bind (json_get ''date'' msg) (\<lambda>date.
         res_bind (case date of JStr s \<Rightarrow> fromisoformat s | _ \<Rightarrow> Inl TypeError) (\<lambda>d.
           Inr \<lparr>msg_type = ty, msg_payload = payload, msg_date = d\<rparr>))))))) = Inr m"
proof -
  have "utf8_decode (json_dumps (Message_json m)) = Inr (json_dumps (Message_json m))"
    using json_dumps_ascii(1) Message_json_ok[OF assms(1)] by (intro utf8_decode_ascii) blast
  then show ?thesis
    using json_loads_dumps[OF Message_json_ok[OF assms(1)]] assms(2)
    by (simp add: Message_json_def json_get_def)
qed

lemma next_message_reads:
  assumes m: "json_ok (msg_payload m)" "datetime_valid (msg_date m)" "Message_frame m = Inr f"
    and s: "segments segs" "concat segs = f @ rest"
    and l: "4 \<le> length (concat (take 2 segs))" "length f - 4 \<le> length (concat (take 2 (drop_bytes 4 segs)))"
  shows "next_message segs = (Inr m, drop_bytes (length f - 4) (drop_bytes 4 segs))"
proof -
  let ?p = "json_dumps (Message_json m)"
  obtain hdr where h: "f = hdr @ ?p" "length hdr = 4" "unpack_I hdr = Inr (length ?p)"
    using Message_frame_Inr[OF m(3)] by blast
  have r1: "Message_recv 4 segs = (Inr hdr, drop_bytes 4 segs)"
    using Message_recv_ok[OF s(1) l(1)] by (simp add: s(2) h)
  have r2: "Message_recv (length ?p) (drop_bytes 4 segs) = (Inr ?p, drop_bytes (length ?p) (drop_bytes 4 segs))"
    using Message_recv_ok[of "drop_bytes 4 segs" "length ?p"] l(2) s by (simp add: h)
  show ?thesis
    unfolding next_message_def using r1 r2 h decode_Message_json[OF m(1,2)]
    by (simp add: act_bind_def act_lift_def del: json_dumps.simps)
qed

section \<open>Properties\<close>

text \<open>
  C6. Messages survive the wire: any message with a JSON payload that is sent in full is read
  back by \<open>next_message\<close> exactly, and what follows it on the stream is left for the next call,
  provided that the header and the body each arrive in at most two segments.
\<close>

theorem message_roundtrip:
  assumes "json_ok (msg_payload m)" "datetime_valid (msg_date m)" "Message_frame m = Inr f"
    and "segments segs" "concat segs = f @ rest"
    and "4 \<le> length (concat (take 2 segs))" "length f - 4 \<le> length (concat (take 2 (drop_bytes 4 segs)))"
  shows "\<exists>segs'. next_message segs = (Inr m, segs') \<and> concat segs' = rest"
  using next_message_reads[OF assms] Message_frame_Inr[OF assms(3)] assms(5) by auto

definition epoch :: datetime where
  "epoch = \<lparr>dt_year = 1970, dt_month = 1, dt_day = 1, dt_hour = 0, dt_minute = 0, dt_second = 0, dt_microsecond = 0\<rparr>"

theorem message_roundtrip_witness:
  "\<exists>f segs'. Message_frame (ControlMessage_create epoch ''Boot the machine'' LINFO) = Inr f \<and>
     next_message [take 3 f, drop 3 f @ ''next''] = (Inr (ControlMessage_create epoch ''Boot the machine'' LINFO), segs') \<and>
     concat segs' = ''next''"
proof -
  let ?m = "ControlMessage_create epoch ''Boot the machine'' LINFO"
  have ok: "json_ok (msg_payload ?m)" "datetime_valid (msg_date ?m)"
    by (simp_all add: ControlMessage_create_def epoch_def datetime_valid_def days_in_month_def)
  have "length (json_dumps (Message_json ?m)) < 500" by code_simp
  then obtain f where f: "Message_frame ?m = Inr f" by (rule Message_frame_ex)
  obtain hdr where h: "f = hdr @ json_dumps (Message_json ?m)" "length hdr = 4"
    using Message_frame_Inr[OF f] by blast
  have ne: "take 3 f \<noteq> []" "drop 3 f \<noteq> []" using h by auto
  have "\<exists>segs'. next_message [take 3 f, drop 3 f @ ''next''] = (Inr ?m, segs') \<and> concat segs' = ''next''"
    by (rule message_roundtrip[OF ok f]) (use h ne in \<open>auto simp: numeral_2_eq_2\<close>)
  with f show ?thesis by blast
qed

text \<open>
  C20. Receiving a frame that is spread over three segments or more raises \<open>ValueError\<close>,
  although no byte is missing: the view on the buffer is advanced by the total received so far
  instead of by the size of the last segment.
\<close>

theorem recv_three_segments_fails:
  assumes "a \<noteq> []" "b \<noteq> []" "length a + length b < n"
  shows "\<exists>segs'. Message_recv n (a # b # segs) =
           (Inl (ValueError ''nbytes is greater than the length of the buffer''), segs')"
  using Message_recv_third[OF assms] by blast

theorem recv_three_segments_fails_witness:
  "\<exists>segs'. Message_recv 6 [''ab'', ''cd'', ''ef''] =
     (Inl (ValueError ''nbytes is greater than the length of the buffer''), segs')"
  by (rule recv_three_segments_fails) simp_all

text \<open>
  C7. The console output of a machine reaches the client unchanged, whatever bytes it has:
  wrapping a buffer in a \<open>JobIOMessage\<close>, sending it in one segment, reading it and unwrapping it
  gives the buffer back; and the same holds for the final status and the bucket of the job.
\<close>

theorem payloads_roundtrip:
  assumes "datetime_valid now" "Message_frame (JobIOMessage_create now buf) = Inr f"
    and "Message_frame (SessionEndMessage_create now st bucket) = Inr g"
  shows "(case next_message [f] of (Inr m, _) \<Rightarrow> JobIOMessage_buffer m = Inr buf | _ \<Rightarrow> False) \<and>
         (case next_message [g] of
            (Inr m, _) \<Rightarrow>
              SessionEndMessage_status m = Inr st \<and>
              SessionEndMessage_job_bucket m = Inr (map_option (\<lambda>(url, name). (JStr url, JStr name)) bucket)
          | _ \<Rightarrow> False)"
proof -
  have one: "next_message [f] = (Inr m, drop_bytes (length f - 4) (drop_bytes 4 [f]))"
    if "json_ok (msg_payload m)" "datetime_valid (msg_date m)" "Message_frame m = Inr f" for m f
  proof (rule next_message_reads[where rest = "[]"])
    note frame = Message_frame_Inr[OF that(3)]
    obtain hdr where "f = hdr @ json_dumps (Message_json m)" "length hdr = 4" using frame by blast
    then show "[] \<notin> set [f]" "4 \<le> length (concat (take 2 [f]))"
      "length f - 4 \<le> length (concat (take 2 (drop_bytes 4 [f])))" by auto
  qed (use that in simp_all)
  have "json_ok (msg_payload (SessionEndMessage_create now st bucket))"
    by (cases bucket) (auto simp: SessionEndMessage_create_def)
  then show ?thesis
    using one[OF _ _ assms(2)] one[OF _ _ assms(3)] assms(1)
    by (cases bucket)
       (auto simp: JobIOMessage_create_def JobIOMessage_buffer_def SessionEndMessage_create_def
        SessionEndMessage_status_def SessionEndMessage_job_bucket_def json_get_def)
qed

theorem payloads_roundtrip_witness:
  "\<exists>f g. Message_frame (JobIOMessage_create epoch ''login:'') = Inr f \<and>
     Message_frame (SessionEndMessage_create epoch PASS None) = Inr g \<and>
     (case next_message [f] of (Inr m, _) \<Rightarrow> JobIOMessage_buffer m = Inr ''login:'' | _ \<Rightarrow> False) \<and>
     (case next_message [g] of
        (Inr m, _) \<Rightarrow>
          SessionEndMessage_status m = Inr PASS \<and>
          SessionEndMessage_job_bucket m = Inr (map_option (\<lambda>(url, name). (JStr url, JStr name)) None)
      | _ \<Rightarrow> False)"
proof -
  have v: "datetime_valid epoch" by (simp add: epoch_def datetime_valid_def days_in_month_def)
  have "length (isoformat epoch) = 19" by (simp add: isoformat_def epoch_def)
  then have "length (json_dumps (Message_json (JobIOMessage_create epoch ''login:''))) < 500"
    using json_str_length[of "isoformat epoch"] json_str_length[of "b85encode ''login:''"]
      b85encode_length[of "''login:''"] json_str_length[of "''job_io''"]
    by (simp add: Message_json_def JobIOMessage_create_def json_str_length_const del: b85encode.simps)
  then obtain f where f: "Message_frame (JobIOMessage_create epoch ''login:'') = Inr f"
    by (rule Message_frame_ex)
  have "length (json_dumps (Message_json (SessionEndMessage_create epoch PASS None))) < 500" by code_simp
  then obtain g where g: "Message_frame (SessionEndMessage_create epoch PASS None) = Inr g"
    by (rule Message_frame_ex)
  note fg = f g
  show ?thesis
    by (rule exI[of _ f], rule exI[of _ g]) (rule conjI[OF fg(1) conjI[OF fg(2) payloads_roundtrip[OF v fg]]])
qed

end
