(* ===== verification/Job_Console.thy ===== *)
theory Job_Console
  imports Job_Patterns Message
begin

text \<open>
  The console of a job (\<open>executor.py\<close>: \<open>JobConsole\<close>): a thread that relays the serial console of
  the machine (through SALAD) to the client and back, matches the console patterns line by line
  and keeps the forward-only state of the session. The handlers of the thread's loop are atomic
  actions on the console object; \<open>ce_now\<close> is the clock while a handler runs. The state of the
  console patterns and the timeouts their watchdogs refer to are those of the job itself.
\<close>

section \<open>States\<close>

datatype JobConsoleState = CREATED | ACTIVE | DUT_DONE | TEAR_DOWN | OVER

primrec JobConsoleState_value :: "JobConsoleState \<Rightarrow> nat" where
  "JobConsoleState_value CREATED = 0"
| "JobConsoleState_value ACTIVE = 1"
| "JobConsoleState_value DUT_DONE = 2"
| "JobConsoleState_value TEAR_DOWN = 3"
| "JobConsoleState_value OVER = 4"

primrec JobConsoleState_name :: "JobConsoleState \<Rightarrow> string" where
  "JobConsoleState_name CREATED = ''CREATED''"
| "JobConsoleState_name ACTIVE = ''ACTIVE''"
| "JobConsoleState_name DUT_DONE = ''DUT_DONE''"
| "JobConsoleState_name TEAR_DOWN = ''TEAR_DOWN''"
| "JobConsoleState_name OVER = ''OVER''"

text \<open>An \<open>IntEnum\<close> is ordered by its values.\<close>

instantiation JobConsoleState :: linorder
begin

definition less_eq_JobConsoleState :: "JobConsoleState \<Rightarrow> JobConsoleState \<Rightarrow> bool" where
  "less_eq_JobConsoleState a b \<longleftrightarrow> JobConsoleState_value a \<le> JobConsoleState_value b"

definition less_JobConsoleState :: "JobConsoleState \<Rightarrow> JobConsoleState \<Rightarrow> bool" where
  "less_JobConsoleState a b \<longleftrightarrow> JobConsoleState_value a < JobConsoleState_value b"

instance
proof
  fix a b :: JobConsoleState
  show "a \<le> b \<Longrightarrow> b \<le> a \<Longrightarrow> a = b"
    by (cases a; cases b) (simp_all add: less_eq_JobConsoleState_def)
qed (auto simp: less_eq_JobConsoleState_def less_JobConsoleState_def)

end

lemmas console_state_order = less_eq_JobConsoleState_def less_JobConsoleState_def

lemma OVER_top [simp]: "(s :: JobConsoleState) \<le> OVER" "\<not> OVER < s"
  by (cases s; simp add: console_state_order)+

section \<open>Sockets\<close>

text \<open>
  A connected socket: whether it is open on this side, whether its write side is open, whether
  the peer is still there, and what was sent. Sending fails with an \<open>OSError\<close> unless all three hold.
\<close>

record 'm sock =
  sk_open :: bool
  sk_wr :: bool
  sk_peer :: bool
  sk_sent :: "'m list"

definition sock_connected :: "'m sock" where
  "sock_connected = \<lparr>sk_open = True, sk_wr = True, sk_peer = True, sk_sent = []\<rparr>"

definition sock_send :: "'m \<Rightarrow> ('m sock, unit) act" where
  "sock_send m s =
     (if sk_open s \<and> sk_wr s \<and> sk_peer s then (Inr (), s\<lparr>sk_sent := sk_sent s @ [m]\<rparr>) else (Inl OSError, s))"

text \<open>\<open>shutdown(SHUT_RDWR); close()\<close> with \<open>OSError\<close>s ignored.\<close>

definition sock_close :: "'m sock \<Rightarrow> 'm sock" where
  "sock_close s = (if sk_open s \<and> sk_peer s then s\<lparr>sk_open := False, sk_wr := False\<rparr> else s)"

datatype client_msg =
    CtrlMsg string LogLevel
  | IOMsg string
  | EndMsg JobStatus "(string \<times> string) option"

definition to_message :: "datetime \<Rightarrow> client_msg \<Rightarrow> Message" where
  "to_message now m =
     (case m of
        CtrlMsg s l \<Rightarrow> ControlMessage_create now s l
      | IOMsg b \<Rightarrow> JobIOMessage_create now b
      | EndMsg st bucket \<Rightarrow> SessionEndMessage_create now st bucket)"

section \<open>The console object\<close>

record JobConsole =
  jc_machine_id :: string
  jc_client_version :: "int option"
  jc_log_level :: LogLevel
  jc_client :: "client_msg sock option"
  jc_salad :: "string sock"
  jc_state :: JobConsoleState
  jc_start_time :: "time option"
  jc_line_buffer :: string
  jc_patterns :: ConsoleState
  jc_timeouts :: Timeouts
  jc_last_machine :: "time option"
  jc_last_client :: "time option"
  jc_needs_reboot :: bool
  jc_alive :: bool

record console_env =
  ce_search :: regex_search
  ce_order :: "string set \<Rightarrow> string list"
  ce_tb :: "py_exc \<Rightarrow> string"
  ce_now :: time

text \<open>Python's truth value of \<open>client_version\<close>: neither \<open>None\<close> nor \<open>0\<close>.\<close>

definition has_client :: "JobConsole \<Rightarrow> bool" where
  "has_client jc = (case jc_client_version jc of None \<Rightarrow> False | Some v \<Rightarrow> v \<noteq> 0)"

definition JobConsole_reset_per_boot_state :: "JobConsole \<Rightarrow> JobConsole" where
  "JobConsole_reset_per_boot_state jc =
     (let cs = ConsoleState_reset_per_boot_state (jc_patterns jc)
      in jc\<lparr>jc_last_machine := None, jc_last_client := None, jc_patterns := cs, jc_needs_reboot := cs_needs_reboot cs\<rparr>)"

definition JobConsole_init :: "string \<Rightarrow> ConsoleState \<Rightarrow> Timeouts \<Rightarrow> int option \<Rightarrow> LogLevel \<Rightarrow> JobConsole" where
  "JobConsole_init machine_id patterns timeouts client_version log_level =
     JobConsole_reset_per_boot_state
       \<lparr>jc_machine_id = machine_id, jc_client_version = client_version, jc_log_level = log_level,
        jc_client = None, jc_salad = sock_connected, jc_state = CREATED, jc_start_time = None,
        jc_line_buffer = [], jc_patterns = patterns, jc_timeouts = timeouts,
        jc_last_machine = None, jc_last_client = None, jc_needs_reboot = False, jc_alive = False\<rparr>"

definition JobConsole_machine_unfit_for_service :: "JobConsole \<Rightarrow> Pattern option" where
  "JobConsole_machine_unfit_for_service jc = cs_machine_unfit_for_service (jc_patterns jc)"

definition JobConsole_state :: "JobConsole \<Rightarrow> JobConsoleState" where
  "JobConsole_state jc =
     (if jc_state jc = ACTIVE then (if jc_alive jc then jc_state jc else OVER) else jc_state jc)"

definition client_send :: "client_msg \<Rightarrow> (JobConsole, unit) act" where
  "client_send m jc =
     (case jc_client jc of
        None \<Rightarrow> (Inl AttributeError, jc)
      | Some s \<Rightarrow> let (r, s') = sock_send m s in (r, jc\<lparr>jc_client := Some s'\<rparr>))"

definition salad_send :: "string \<Rightarrow> (JobConsole, unit) act" where
  "salad_send b jc = (let (r, s') = sock_send b (jc_salad jc) in (r, jc\<lparr>jc_salad := s'\<rparr>))"

text \<open>\<open>{relative_time:.3f}\<close> for a time in microseconds.\<close>

definition format_seconds :: "time \<Rightarrow> string" where
  "format_seconds us =
     (let ms = round_half_even (of_int us / 1000)
      in show_int (ms div 1000) @ ''.'' @ pad_digits 3 (nat (ms mod 1000)))"

definition ignore_oserror :: "('s, unit) act \<Rightarrow> ('s, unit) act" where
  "ignore_oserror m = act_catch m (\<lambda>e. if e \<in> {OSError, ConnectionResetError} then act_return () else act_raise e)"

definition JobConsole_log :: "time \<Rightarrow> string \<Rightarrow> LogLevel \<Rightarrow> (JobConsole, unit) act" where
  "JobConsole_log now msg level jc =
     (if LogLevel_value level < LogLevel_value (jc_log_level jc) then (Inr (), jc)
      else
        let relative_time = (case jc_start_time jc of Some t \<Rightarrow> now - t | None \<Rightarrow> 0);
            log_msg = ''+'' @ format_seconds relative_time @ ''s: '' @ msg
        in if has_client jc \<and> jc_client_version jc = Some 1
           then ignore_oserror (client_send (CtrlMsg log_msg level)) jc
           else (Inr (), jc))"

definition close_salad :: "JobConsole \<Rightarrow> JobConsole" where
  "close_salad jc = jc\<lparr>jc_salad := sock_close (jc_salad jc)\<rparr>"

definition close_client :: "(JobConsole, unit) act" where
  "close_client jc =
     (if has_client jc then
        (case jc_client jc of
           None \<Rightarrow> (Inl AttributeError, jc)
         | Some s \<Rightarrow> (Inr (), jc\<lparr>jc_client := Some (sock_close s)\<rparr>))
      else (Inr (), jc))"

definition client_shutdown_wr :: "(JobConsole, unit) act" where
  "client_shutdown_wr jc =
     (case jc_client jc of
        None \<Rightarrow> (Inl AttributeError, jc)
      | Some s \<Rightarrow> (Inr (), jc\<lparr>jc_client := Some (s\<lparr>sk_wr := False\<rparr>)\<rparr>))"

definition state_change_msg :: "JobConsoleState \<Rightarrow> JobConsoleState \<Rightarrow> string" where
  "state_change_msg a b =
     ''Job console state changed from '' @ JobConsoleState_name a @ '' -> '' @ JobConsoleState_name b @ [CHR 0x0A]"

text \<open>The effects of entering \<open>OVER\<close> and \<open>TEAR_DOWN\<close>. \<open>bucket\<close> is what
  \<open>SessionEndMessage.create\<close> gets when it makes the client's credentials to the job bucket.\<close>

definition enter_over :: "(JobConsole, unit) act" where
  "enter_over = act_bind (act_modify close_salad) (\<lambda>_. close_client)"

definition enter_tear_down :: "(string \<times> string) option res \<Rightarrow> (JobConsole, unit) act" where
  "enter_tear_down bucket =
     act_bind (act_modify close_salad) (\<lambda>_.
     act_bind (act_get (\<lambda>jc. (has_client jc, jc_client_version jc = Some 1, job_status (jc_patterns jc)))) (\<lambda>(client, v1, status).
       if client then
         act_bind (if v1
            then ignore_oserror (act_bind (act_lift bucket) (\<lambda>b. client_send (EndMsg (JobStatus_from_str status) b)))
            else act_return ()) (\<lambda>_. client_shutdown_wr)
       else act_return ()))"

text \<open>
  \<open>set_state\<close> calls itself to go from \<open>DUT_DONE\<close> to \<open>OVER\<close> when there is no client; \<open>set_state1\<close> is
  that inner call.
\<close>

definition set_state1 :: "time \<Rightarrow> (string \<times> string) option res \<Rightarrow> (JobConsole, unit) act \<Rightarrow> JobConsoleState \<Rightarrow> (JobConsole, unit) act" where
  "set_state1 now bucket inner st jc =
     (let prev = jc_state jc in
      if st < prev then (Inl (ValueError ''The state can only move forward''), jc)
      else if st = prev then (Inr (), jc)
      else act_bind (JobConsole_log now (state_change_msg prev st) LINFO) (\<lambda>_.
        case st of
          ACTIVE \<Rightarrow> act_modify (\<lambda>jc. jc\<lparr>jc_start_time := Some now\<rparr>)
        | DUT_DONE \<Rightarrow> act_bind (act_get has_client) (\<lambda>c. if \<not> c then inner else act_return ())
        | TEAR_DOWN \<Rightarrow> enter_tear_down bucket
        | OVER \<Rightarrow> enter_over
        | CREATED \<Rightarrow> act_return ()) (jc\<lparr>jc_state := st\<rparr>))"

definition set_state :: "time \<Rightarrow> (string \<times> string) option res \<Rightarrow> JobConsoleState \<Rightarrow> (JobConsole, unit) act" where
  "set_state now bucket st =
     set_state1 now bucket (set_state1 now bucket (act_return ()) OVER) st"

definition JobConsole_close :: "time \<Rightarrow> (JobConsole, unit) act" where
  "JobConsole_close now = set_state now (Inr None) OVER"

text \<open>\<open>connect\<close> says whether the connection to the client's endpoint succeeds.\<close>

definition JobConsole_start :: "bool \<Rightarrow> (JobConsole, unit) act" where
  "JobConsole_start connect jc =
     (if has_client jc then
        if connect then (Inr (), jc\<lparr>jc_client := Some sock_connected, jc_alive := True\<rparr>) else (Inl OSError, jc)
      else (Inr (), jc\<lparr>jc_alive := True\<rparr>))"

section \<open>Console patterns\<close>

text \<open>The complete lines of a text, each with its newline, and the unfinished rest.\<close>

fun split_lines :: "string \<Rightarrow> string list \<times> string" where
  "split_lines [] = ([], [])"
| "split_lines (c # s) =
     (let (ls, r) = split_lines s
      in if c = CHR 0x0A then ([c] # ls, r)
         else case ls of [] \<Rightarrow> ([], c # r) | l # ls' \<Rightarrow> ((c # l) # ls', r))"

text \<open>Tell the user what matched, then check whether the machine asked for a reboot.\<close>

definition report_matched :: "console_env \<Rightarrow> string set \<Rightarrow> (JobConsole, unit) act" where
  "report_matched env matched =
     act_bind
       (if matched \<noteq> {}
        then JobConsole_log (ce_now env)
          (''Matched the following patterns: '' @ str_join '', '' (ce_order env matched) @ [CHR 0x0A]) LINFO
        else act_return ())
       (\<lambda>_. act_modify (\<lambda>jc. jc\<lparr>jc_needs_reboot := cs_needs_reboot (jc_patterns jc)\<rparr>))"

definition match_console_patterns :: "console_env \<Rightarrow> string \<Rightarrow> (JobConsole, unit) act" where
  "match_console_patterns env buf jc =
     (let to_process = jc_line_buffer jc @ buf;
          (ls, rest) = split_lines to_process;
          (matched, cs, ts) = process_lines (ce_search env) (\<lambda>_ _. ce_now env) 0 ls (jc_patterns jc, jc_timeouts jc);
          jc1 = jc\<lparr>jc_patterns := cs, jc_timeouts := ts, jc_line_buffer := rest\<rparr>
      in report_matched env matched jc1)"

section \<open>The thread\<close>

datatype console_fd = SaladFd | ClientFd

definition console_fds :: "JobConsole \<Rightarrow> console_fd list" where
  "console_fds jc =
     (if JobConsole_state jc < TEAR_DOWN then [SaladFd] else []) @ (if has_client jc then [ClientFd] else [])"

definition fd_valid :: "JobConsole \<Rightarrow> console_fd \<Rightarrow> bool" where
  "fd_valid jc fd =
     (case fd of SaladFd \<Rightarrow> sk_open (jc_salad jc)
      | ClientFd \<Rightarrow> (case jc_client jc of Some s \<Rightarrow> sk_open s | None \<Rightarrow> False))"

text \<open>
  The machine is active once it was before, or with the first newline: serial consoles may send
  unwanted characters at power up.
\<close>

definition note_machine_activity :: "time \<Rightarrow> string \<Rightarrow> JobConsole \<Rightarrow> JobConsole" where
  "note_machine_activity now buf jc =
     (if jc_last_machine jc \<noteq> None \<or> CHR 0x0A \<in> set buf then jc\<lparr>jc_last_machine := Some now\<rparr> else jc)"

text \<open>The salad socket is readable: \<open>r\<close> is what \<open>recv(8192)\<close> gives.\<close>

definition on_salad_data :: "console_env \<Rightarrow> string \<Rightarrow> (JobConsole, unit) act" where
  "on_salad_data env buf =
     act_bind (act_catch (match_console_patterns env buf) (\<lambda>e. JobConsole_log (ce_now env) (ce_tb env e) LINFO)) (\<lambda>_.
     act_bind (act_modify (note_machine_activity (ce_now env) buf)) (\<lambda>_.
     act_bind (act_get (\<lambda>jc. has_client jc \<and> jc_client_version jc = Some 1)) (\<lambda>v1.
     act_bind (if v1 then client_send (IOMsg buf) else act_return ()) (\<lambda>_.
     act_bind (act_get (\<lambda>jc. session_has_ended (jc_patterns jc))) (\<lambda>ended.
       if ended then set_state (ce_now env) (Inr None) DUT_DONE else act_return ())))))"

definition on_salad :: "console_env \<Rightarrow> string res \<Rightarrow> (JobConsole, unit) act" where
  "on_salad env r =
     act_bind (act_lift r) (\<lambda>buf.
     act_bind (if buf = [] then set_state (ce_now env) (Inr None) DUT_DONE else act_return ()) (\<lambda>_.
       on_salad_data env buf))"

text \<open>
  The client socket is readable: \<open>r\<close> is what \<open>Message.next_message\<close> gives. The branch for version 0
  is left out: the socket of such a client is never watched.
\<close>

definition on_client :: "console_env \<Rightarrow> Message res \<Rightarrow> (JobConsole, unit) act" where
  "on_client env r =
     act_bind (act_get (\<lambda>jc. jc_client_version jc = Some 1)) (\<lambda>v1.
     act_bind
       (if v1 then
          act_catch
            (act_bind (act_lift r) (\<lambda>msg.
               if msg_type msg = MJOB_IO
               then act_bind (act_lift (JobIOMessage_buffer msg)) salad_send
               else act_return ()))
            (\<lambda>e. if e = EOFError then
                act_bind (act_get (\<lambda>jc. JobConsole_state jc < TEAR_DOWN)) (\<lambda>early.
                act_bind (if early then JobConsole_log (ce_now env) (ce_tb env e) LINFO else act_return ()) (\<lambda>_.
                act_bind (JobConsole_log (ce_now env) ''The client closed its connection'' LINFO) (\<lambda>_.
                  JobConsole_close (ce_now env))))
              else act_raise e)
        else act_return ())
       (\<lambda>_. act_modify (\<lambda>jc. jc\<lparr>jc_last_client := Some (ce_now env)\<rparr>)))"

text \<open>The exception handlers around the handling of one file descriptor; the last one only logs.\<close>

definition guard_fd :: "console_env \<Rightarrow> (JobConsole, unit) act \<Rightarrow> (JobConsole, unit) act" where
  "guard_fd env m =
     act_catch m (\<lambda>e.
       if e \<in> {OSError, ConnectionResetError}
       then act_bind (JobConsole_log (ce_now env) (ce_tb env e) LINFO) (\<lambda>_. JobConsole_close (ce_now env))
       else act_return ())"

datatype console_event = FromSalad "string res" | FromClient "Message res"

text \<open>A socket that an earlier event of the same turn closed no longer has the file descriptor.\<close>

definition handle_event :: "console_env \<Rightarrow> console_event \<Rightarrow> (JobConsole, unit) act" where
  "handle_event env ev =
     (case ev of
        FromSalad r \<Rightarrow>
          act_bind (act_get (\<lambda>jc. fd_valid jc SaladFd)) (\<lambda>v. if v then guard_fd env (on_salad env r) else act_return ())
      | FromClient r \<Rightarrow>
          act_bind (act_get (\<lambda>jc. fd_valid jc ClientFd)) (\<lambda>v. if v then guard_fd env (on_client env r) else act_return ()))"

text \<open>
  One turn of \<open>run\<close>'s loop: \<open>evs\<close> are the readable sockets \<open>select\<close> returned. A closed socket makes
  the turn close the console, and \<open>select\<close> then raises, which ends the thread.
\<close>

definition console_turn :: "console_env \<Rightarrow> console_event list \<Rightarrow> (JobConsole, unit) act" where
  "console_turn env evs jc =
     (if \<not> JobConsole_state jc < OVER then (Inr (), jc\<lparr>jc_alive := False\<rparr>)
      else if \<not> list_all (fd_valid jc) (console_fds jc) then
        act_bind (JobConsole_log (ce_now env) ''Found a negative fd, aborting!'' LINFO) (\<lambda>_.
        act_bind (JobConsole_close (ce_now env)) (\<lambda>_.
        act_bind (act_modify (\<lambda>jc. jc\<lparr>jc_alive := False\<rparr>)) (\<lambda>_. act_raise (ValueError ''filedescriptor cannot be a negative integer'')))) jc
      else act_iter (handle_event env) evs jc)"

fun console_run :: "(console_env \<times> console_event list) list \<Rightarrow> (JobConsole, unit) act" where
  "console_run [] = act_return ()"
| "console_run ((env, evs) # turns) = act_bind (console_turn env evs) (\<lambda>_. console_run turns)"

definition JobConsole_run :: "console_env \<Rightarrow> (console_env \<times> console_event list) list \<Rightarrow> (JobConsole, unit) act" where
  "JobConsole_run env turns = act_bind (set_state (ce_now env) (Inr None) ACTIVE) (\<lambda>_. console_run turns)"

section \<open>The state moves forward\<close>

text \<open>
  What no action of the console undoes: the state does not go back, the thread does not come back
  to life, only watchdog timeouts are touched, and a reboot that was asked for stays asked for.
\<close>

definition reboot_ok :: "JobConsole \<Rightarrow> bool" where
  "reboot_ok jc \<longleftrightarrow> (jc_needs_reboot jc \<longrightarrow> cs_needs_reboot (jc_patterns jc))"

definition console_fwd :: "JobConsole \<Rightarrow> JobConsole \<Rightarrow> bool" where
  "console_fwd jc jc' \<longleftrightarrow>
     jc_state jc \<le> jc_state jc' \<and> (jc_alive jc' \<longrightarrow> jc_alive jc) \<and>
     (\<forall>a. getattr_timeout a (jc_timeouts jc') = getattr_timeout a (jc_timeouts jc)) \<and>
     dict_keys (watchdogs (jc_timeouts jc')) = dict_keys (watchdogs (jc_timeouts jc)) \<and>
     (reboot_ok jc \<longrightarrow> reboot_ok jc' \<and> (jc_needs_reboot jc \<longrightarrow> jc_needs_reboot jc'))"

interpretation fwd: act_preorder console_fwd
  by unfold_locales (auto simp: console_fwd_def reboot_ok_def)

lemma client_send_frame [simp]:
  "jc_state (snd (client_send m jc)) = jc_state jc"
  "jc_patterns (snd (client_send m jc)) = jc_patterns jc"
  "jc_timeouts (snd (client_send m jc)) = jc_timeouts jc"
  "jc_line_buffer (snd (client_send m jc)) = jc_line_buffer jc"
  "jc_salad (snd (client_send m jc)) = jc_salad jc"
  "jc_client_version (snd (client_send m jc)) = jc_client_version jc"
  "jc_last_machine (snd (client_send m jc)) = jc_last_machine jc"
  "jc_alive (snd (client_send m jc)) = jc_alive jc"
  "jc_needs_reboot (snd (client_send m jc)) = jc_needs_reboot jc"
  by (simp_all add: client_send_def split: option.split prod.split)

lemma log_cases:
  "JobConsole_log now msg level jc = (Inr (), jc) \<or>
   (\<exists>m. JobConsole_log now msg level jc = ignore_oserror (client_send (CtrlMsg m level)) jc)"
  by (auto simp: JobConsole_log_def Let_def)

lemma ignore_oserror_state:
  "snd (ignore_oserror m jc) = snd (m jc)"
  by (auto simp: ignore_oserror_def act_defs split: prod.splits sum.splits)

lemma log_frame [simp]:
  "jc_state (snd (JobConsole_log now msg level jc)) = jc_state jc"
  "jc_patterns (snd (JobConsole_log now msg level jc)) = jc_patterns jc"
  "jc_timeouts (snd (JobConsole_log now msg level jc)) = jc_timeouts jc"
  "jc_line_buffer (snd (JobConsole_log now msg level jc)) = jc_line_buffer jc"
  "jc_salad (snd (JobConsole_log now msg level jc)) = jc_salad jc"
  "jc_client_version (snd (JobConsole_log now msg level jc)) = jc_client_version jc"
  "jc_last_machine (snd (JobConsole_log now msg level jc)) = jc_last_machine jc"
  "jc_alive (snd (JobConsole_log now msg level jc)) = jc_alive jc"
  "jc_needs_reboot (snd (JobConsole_log now msg level jc)) = jc_needs_reboot jc"
  using log_cases[of now msg level jc] by (auto simp: ignore_oserror_state)

lemma log_fwd: "act_within console_fwd (JobConsole_log now msg level)"
  by (simp add: act_within_def console_fwd_def reboot_ok_def)

lemma enter_over_fwd: "act_within console_fwd enter_over"
  unfolding enter_over_def
  by (intro fwd.within_intros)
     (auto simp: act_within_def close_client_def close_salad_def console_fwd_def reboot_ok_def split: option.split)

lemma ignore_oserror_fwd: "act_within console_fwd m \<Longrightarrow> act_within console_fwd (ignore_oserror m)"
  by (simp add: act_within_def ignore_oserror_state)

lemma client_send_fwd: "act_within console_fwd (client_send m)"
  by (simp add: act_within_def console_fwd_def reboot_ok_def)

lemma salad_send_fwd: "act_within console_fwd (salad_send b)"
  by (simp add: act_within_def console_fwd_def reboot_ok_def salad_send_def split: prod.split)

lemma enter_tear_down_fwd: "act_within console_fwd (enter_tear_down bucket)"
proof -
  have "act_within console_fwd client_shutdown_wr"
    by (auto simp: act_within_def client_shutdown_wr_def console_fwd_def reboot_ok_def split: option.split)
  then show ?thesis
    unfolding enter_tear_down_def split_beta
    by (intro fwd.within_intros ignore_oserror_fwd client_send_fwd) (auto simp: close_salad_def console_fwd_def reboot_ok_def)
qed

lemma set_state1_enter:
  assumes "act_within console_fwd inner" "jc_state jc < st"
  shows "console_fwd (jc\<lparr>jc_state := st\<rparr>) (snd (set_state1 now bucket inner st jc))"
proof -
  let ?k = "\<lambda>_. case st of ACTIVE \<Rightarrow> act_modify (\<lambda>jc. jc\<lparr>jc_start_time := Some now\<rparr>)
        | DUT_DONE \<Rightarrow> act_bind (act_get has_client) (\<lambda>c. if \<not> c then inner else act_return ())
        | TEAR_DOWN \<Rightarrow> enter_tear_down bucket | OVER \<Rightarrow> enter_over | CREATED \<Rightarrow> act_return ()"
  have "act_within console_fwd (act_bind (JobConsole_log now m LINFO) ?k)" for m
    by (rule fwd.within_bind[OF log_fwd], cases st)
       (auto intro!: fwd.within_intros enter_over_fwd enter_tear_down_fwd assms(1) simp: console_fwd_def reboot_ok_def)
  then have "console_fwd (jc\<lparr>jc_state := st\<rparr>) (snd (act_bind (JobConsole_log now m LINFO) ?k (jc\<lparr>jc_state := st\<rparr>)))" for m
    by (rule fwd.withinD)
  then show ?thesis using assms(2) by (auto simp: set_state1_def Let_def)
qed

lemma set_state1_fwd:
  assumes "act_within console_fwd inner"
  shows "act_within console_fwd (set_state1 now bucket inner st)"
  unfolding act_within_def
proof
  fix jc
  show "console_fwd jc (snd (set_state1 now bucket inner st jc))"
  proof (cases "jc_state jc < st")
    case True
    then have "console_fwd jc (jc\<lparr>jc_state := st\<rparr>)" by (simp add: console_fwd_def reboot_ok_def)
    then show ?thesis using set_state1_enter[OF assms True] fwd.R_trans by blast
  next
    case False
    then have "st < jc_state jc \<or> st = jc_state jc" by auto
    then show ?thesis by (auto simp: set_state1_def Let_def fwd.R_refl)
  qed
qed

lemma set_state_fwd: "act_within console_fwd (set_state now bucket st)"
  unfolding set_state_def by (intro set_state1_fwd fwd.within_return)

text \<open>A call to \<open>set_state\<close> that returns reached the state, or passed it.\<close>

lemma set_state_reached:
  assumes "set_state now bucket st jc = (Inr u, jc')"
  shows "st \<le> jc_state jc'"
proof (cases "jc_state jc < st")
  case True
  have "act_within console_fwd (set_state1 now bucket (act_return ()) OVER)"
    by (intro set_state1_fwd fwd.within_return)
  from set_state1_enter[OF this True, of now bucket] show ?thesis
    using assms by (simp add: set_state_def console_fwd_def)
next
  case False
  then have "st < jc_state jc \<or> st = jc_state jc" by auto
  then show ?thesis using assms by (auto simp: set_state_def set_state1_def Let_def)
qed

lemma close_fwd: "act_within console_fwd (JobConsole_close now)"
  unfolding JobConsole_close_def by (rule set_state_fwd)

lemma report_matched_fwd: "act_within console_fwd (report_matched env matched)"
  unfolding report_matched_def by (intro fwd.within_intros log_fwd) (simp add: console_fwd_def reboot_ok_def)

lemma match_console_eq:
  "match_console_patterns env buf jc =
     report_matched env (fst (process_lines (ce_search env) (\<lambda>_ _. ce_now env) 0
         (fst (split_lines (jc_line_buffer jc @ buf))) (jc_patterns jc, jc_timeouts jc)))
       (jc\<lparr>jc_patterns := fst (snd (process_lines (ce_search env) (\<lambda>_ _. ce_now env) 0
             (fst (split_lines (jc_line_buffer jc @ buf))) (jc_patterns jc, jc_timeouts jc))),
           jc_timeouts := snd (snd (process_lines (ce_search env) (\<lambda>_ _. ce_now env) 0
             (fst (split_lines (jc_line_buffer jc @ buf))) (jc_patterns jc, jc_timeouts jc))),
           jc_line_buffer := snd (split_lines (jc_line_buffer jc @ buf))\<rparr>)"
  by (simp add: match_console_patterns_def split_beta Let_def)

lemma match_fwd: "act_within console_fwd (match_console_patterns env buf)"
  unfolding act_within_def
proof
  fix jc :: JobConsole
  let ?P = "process_lines (ce_search env) (\<lambda>_ _. ce_now env) 0 (fst (split_lines (jc_line_buffer jc @ buf))) (jc_patterns jc, jc_timeouts jc)"
  let ?jc1 = "jc\<lparr>jc_patterns := fst (snd ?P), jc_timeouts := snd (snd ?P), jc_line_buffer := snd (split_lines (jc_line_buffer jc @ buf))\<rparr>"
  have "console_fwd jc ?jc1"
    by (simp add: console_fwd_def reboot_ok_def process_lines_cs cs_needs_reboot_def)
  then show "console_fwd jc (snd (match_console_patterns env buf jc))"
    unfolding match_console_eq by (rule fwd.R_trans[OF _ fwd.withinD[OF report_matched_fwd]])
qed

lemmas console_fwd_intros =
  fwd.within_intros log_fwd close_fwd set_state_fwd match_fwd client_send_fwd salad_send_fwd

lemma handle_event_fwd: "act_within console_fwd (handle_event env ev)"
proof -
  have "act_within console_fwd (on_salad env r)" for r
    unfolding on_salad_def on_salad_data_def by (intro console_fwd_intros) (simp add: console_fwd_def reboot_ok_def note_machine_activity_def)
  moreover have "act_within console_fwd (on_client env r)" for r
    unfolding on_client_def by (intro console_fwd_intros) (simp add: console_fwd_def reboot_ok_def)
  ultimately show ?thesis
    unfolding handle_event_def guard_fd_def by (cases ev) (auto intro!: console_fwd_intros)
qed

lemma console_turn_fwd: "act_within console_fwd (console_turn env evs)"
  unfolding act_within_def
proof
  fix jc
  have dead: "console_fwd jc (jc\<lparr>jc_alive := False\<rparr>)" for jc by (simp add: console_fwd_def reboot_ok_def)
  have "act_within console_fwd (act_bind (JobConsole_log now m LINFO) (\<lambda>_.
      act_bind (JobConsole_close now) (\<lambda>_.
      act_bind (act_modify (\<lambda>jc. jc\<lparr>jc_alive := False\<rparr>)) (\<lambda>_. act_raise e :: (JobConsole, unit) act))))" for now m e
    by (intro console_fwd_intros dead)
  note abort = fwd.withinD[OF this]
  have "act_within console_fwd (act_iter (handle_event env) evs)"
    by (intro fwd.within_iter handle_event_fwd)
  note iter = fwd.withinD[OF this]
  show "console_fwd jc (snd (console_turn env evs jc))"
    unfolding console_turn_def using dead abort iter by (simp split: if_split)
qed

lemma console_run_fwd: "act_within console_fwd (console_run turns)"
  by (induction turns rule: console_run.induct) (auto intro!: console_fwd_intros console_turn_fwd)

section \<open>Lines and chunks\<close>

lemma split_lines_append:
  "split_lines (s @ t) =
     (let (ls, r) = split_lines s; (ls', r') = split_lines (r @ t) in (ls @ ls', r'))"
proof (induction s)
  case Nil
  then show ?case by (simp add: split_beta)
next
  case (Cons c s)
  obtain ls r where s: "split_lines s = (ls, r)" by fastforce
  obtain ls' r' where t: "split_lines (r @ t) = (ls', r')" by fastforce
  show ?case using Cons s t by (cases ls; cases ls') (auto simp: Let_def)
qed

lemma split_lines_rest: "CHR 0x0A \<notin> set (snd (split_lines s))"
  by (induction s) (auto simp: Let_def split: prod.splits list.splits)

lemma split_lines_no_newline: "CHR 0x0A \<notin> set s \<Longrightarrow> split_lines s = ([], s)"
  by (induction s) (auto simp: Let_def)

text \<open>A line is what \<open>split_lines\<close> says it is: the text cut after each newline.\<close>

lemma split_lines_concat: "concat (fst (split_lines s)) @ snd (split_lines s) = s"
  by (induction s) (auto simp: Let_def split: prod.splits list.splits)

text \<open>Actions that leave what the console has parsed alone.\<close>

definition parse_same :: "JobConsole \<Rightarrow> JobConsole \<Rightarrow> bool" where
  "parse_same jc jc' \<longleftrightarrow>
     jc_patterns jc' = jc_patterns jc \<and> jc_line_buffer jc' = jc_line_buffer jc \<and> jc_timeouts jc' = jc_timeouts jc"

interpretation parse: act_preorder parse_same
  by unfold_locales (auto simp: parse_same_def)

lemma log_parse: "act_within parse_same (JobConsole_log now msg level)"
  by (simp add: act_within_def parse_same_def)

lemma report_matched_frame [simp]:
  "jc_patterns (snd (report_matched env m jc)) = jc_patterns jc"
  "jc_line_buffer (snd (report_matched env m jc)) = jc_line_buffer jc"
  "jc_timeouts (snd (report_matched env m jc)) = jc_timeouts jc"
proof -
  have "act_within parse_same (report_matched env m)"
    unfolding report_matched_def by (intro parse.within_intros log_parse) (simp add: parse_same_def)
  from parse.withinD[OF this, of jc]
  show "jc_patterns (snd (report_matched env m jc)) = jc_patterns jc"
    "jc_line_buffer (snd (report_matched env m jc)) = jc_line_buffer jc"
    "jc_timeouts (snd (report_matched env m jc)) = jc_timeouts jc" by (simp_all add: parse_same_def)
qed

text \<open>Console output that arrives in chunks, each under its own clock.\<close>

fun feed :: "(console_env \<times> string) list \<Rightarrow> JobConsole \<Rightarrow> JobConsole" where
  "feed [] jc = jc"
| "feed ((env, b) # xs) jc = feed xs (snd (match_console_patterns env b jc))"

lemma feed_buffer:
  "CHR 0x0A \<notin> set (jc_line_buffer jc) \<Longrightarrow>
   jc_line_buffer (feed xs jc) = snd (split_lines (jc_line_buffer jc @ concat (map snd xs)))"
proof (induction xs arbitrary: jc)
  case Nil
  then show ?case by (simp add: split_lines_no_newline)
next
  case (Cons x xs)
  obtain env b where x: "x = (env, b)" by (cases x)
  let ?jc = "snd (match_console_patterns env b jc)"
  have buf: "jc_line_buffer ?jc = snd (split_lines (jc_line_buffer jc @ b))"
    by (simp add: match_console_eq)
  then show ?case
    using Cons.IH[of ?jc] split_lines_rest split_lines_append[of "jc_line_buffer jc @ b" "concat (map snd xs)"]
    by (simp add: x split_beta Let_def)
qed

lemma feed_patterns:
  assumes "\<forall>x \<in> set xs. ce_search (fst x) = search" "CHR 0x0A \<notin> set (jc_line_buffer jc)"
  shows "jc_patterns (feed xs jc) =
     (jc_patterns jc)\<lparr>cs_matched := cs_matched (jc_patterns jc) \<union>
       (\<Union>l \<in> set (fst (split_lines (jc_line_buffer jc @ concat (map snd xs)))).
          matching_patterns search l (cs_patterns (jc_patterns jc)))\<rparr>"
  using assms
proof (induction xs arbitrary: jc)
  case Nil
  then show ?case by (simp add: split_lines_no_newline)
next
  case (Cons x xs)
  obtain env b where x: "x = (env, b)" by (cases x)
  let ?jc = "snd (match_console_patterns env b jc)"
  have "jc_line_buffer ?jc = snd (split_lines (jc_line_buffer jc @ b))"
    "jc_patterns ?jc = (jc_patterns jc)\<lparr>cs_matched := cs_matched (jc_patterns jc) \<union>
       (\<Union>l \<in> set (fst (split_lines (jc_line_buffer jc @ b))). matching_patterns search l (cs_patterns (jc_patterns jc)))\<rparr>"
    using Cons.prems x by (simp_all add: match_console_eq process_lines_cs)
  then show ?case
    using Cons.IH[of ?jc] Cons.prems(1) split_lines_rest
      split_lines_append[of "jc_line_buffer jc @ b" "concat (map snd xs)"]
    by (simp add: x split_beta Let_def Un_assoc)
qed

section \<open>Relaying\<close>

text \<open>Console bytes among the messages sent to the client.\<close>

fun io_bytes :: "client_msg list \<Rightarrow> string" where
  "io_bytes [] = []"
| "io_bytes (IOMsg b # ms) = b @ io_bytes ms"
| "io_bytes (CtrlMsg _ _ # ms) = io_bytes ms"
| "io_bytes (EndMsg _ _ # ms) = io_bytes ms"

lemma io_bytes_append [simp]: "io_bytes (ms @ ns) = io_bytes ms @ io_bytes ns"
  by (induction ms rule: io_bytes.induct) simp_all

definition sendable :: "'m sock \<Rightarrow> bool" where
  "sendable s \<longleftrightarrow> sk_open s \<and> sk_wr s \<and> sk_peer s"

text \<open>An action that sends the client no console bytes and leaves its socket as it is.\<close>

definition io_same :: "JobConsole \<Rightarrow> JobConsole \<Rightarrow> bool" where
  "io_same jc jc' \<longleftrightarrow>
     jc_client_version jc' = jc_client_version jc \<and> jc_salad jc' = jc_salad jc \<and>
     (\<forall>s. jc_client jc = Some s \<longrightarrow>
        (\<exists>s'. jc_client jc' = Some s' \<and> io_bytes (sk_sent s') = io_bytes (sk_sent s) \<and> (sendable s \<longrightarrow> sendable s')))"

interpretation io: act_preorder io_same
  by unfold_locales (fastforce simp: io_same_def)+

lemma log_io: "act_within io_same (JobConsole_log now msg level)"
proof -
  have "io_same jc (snd (client_send (CtrlMsg m level) jc))" for m jc
    by (auto simp: io_same_def client_send_def sock_send_def sendable_def split: option.splits prod.splits)
  then show ?thesis
    unfolding act_within_def by (metis log_cases snd_conv io.R_refl ignore_oserror_state)
qed

lemma match_io: "act_within io_same (match_console_patterns env buf)"
  unfolding act_within_def
proof
  fix jc
  have rep: "act_within io_same (report_matched env m)" for m
    unfolding report_matched_def by (intro io.within_intros log_io) (simp add: io_same_def)
  have "io_same jc (snd (report_matched env m jc1))"
    if "jc_client jc1 = jc_client jc" "jc_client_version jc1 = jc_client_version jc" "jc_salad jc1 = jc_salad jc" for m jc1
    using io.withinD[OF rep, of jc1 m] that by (simp add: io_same_def)
  then show "io_same jc (snd (match_console_patterns env buf jc))" by (simp add: match_console_eq)
qed

lemma has_client_log [simp]: "has_client (snd (JobConsole_log now m l jc)) = has_client jc"
  by (simp add: has_client_def)

lemma set_state_dut_done:
  assumes "has_client jc"
  shows "set_state now bucket DUT_DONE jc =
    (if DUT_DONE < jc_state jc then (Inl (ValueError ''The state can only move forward''), jc)
     else if jc_state jc = DUT_DONE then (Inr (), jc)
     else JobConsole_log now (state_change_msg (jc_state jc) DUT_DONE) LINFO (jc\<lparr>jc_state := DUT_DONE\<rparr>))"
proof -
  obtain r jc1 where log: "JobConsole_log now (state_change_msg (jc_state jc) DUT_DONE) LINFO (jc\<lparr>jc_state := DUT_DONE\<rparr>) = (r, jc1)"
    by fastforce
  have "has_client jc1"
    using has_client_log[of now "state_change_msg (jc_state jc) DUT_DONE" LINFO "jc\<lparr>jc_state := DUT_DONE\<rparr>"] log assms
    by (simp add: has_client_def)
  with log show ?thesis
    unfolding set_state_def set_state1_def[of _ _ _ DUT_DONE] Let_def
    by (cases r) (auto simp: act_bind_def act_get_def act_return_def)
qed

lemma set_state_dut_done_io:
  assumes "has_client jc"
  shows "io_same jc (snd (set_state now bucket DUT_DONE jc))"
proof -
  have "io_same jc (snd (JobConsole_log now m LINFO (jc\<lparr>jc_state := DUT_DONE\<rparr>)))" for m
    using io.withinD[OF log_io, of "jc\<lparr>jc_state := DUT_DONE\<rparr>" now m LINFO] by (simp add: io_same_def)
  then show ?thesis by (simp add: set_state_dut_done[OF assms] io.R_refl)
qed

text \<open>Every console byte is forwarded; nothing else is.\<close>

definition relay_ok :: "JobConsole \<Rightarrow> string \<Rightarrow> JobConsole \<Rightarrow> bool" where
  "relay_ok jc buf jc' \<longleftrightarrow>
     jc_client_version jc' = jc_client_version jc \<and> jc_salad jc' = jc_salad jc \<and>
     (\<forall>s. jc_client jc = Some s \<and> sendable s \<longrightarrow>
        (\<exists>s'. jc_client jc' = Some s' \<and> sendable s' \<and> io_bytes (sk_sent s') = io_bytes (sk_sent s) @ buf))"

lemma relay_io_before: "io_same jc jc1 \<Longrightarrow> relay_ok jc1 buf jc' \<Longrightarrow> relay_ok jc buf jc'"
  by (fastforce simp: io_same_def relay_ok_def)

lemma relay_io_after: "relay_ok jc buf jc1 \<Longrightarrow> io_same jc1 jc' \<Longrightarrow> relay_ok jc buf jc'"
  by (fastforce simp: io_same_def relay_ok_def)

lemma client_send_relay: "relay_ok jc buf (snd (client_send (IOMsg buf) jc))"
  by (auto simp: relay_ok_def client_send_def sock_send_def sendable_def split: option.splits prod.splits)

lemma client_send_sendable:
  "jc_client jc = Some s \<Longrightarrow> sendable s \<Longrightarrow> fst (client_send m jc) = Inr ()"
  by (simp add: client_send_def sock_send_def sendable_def)

lemma log_ok: "jc_client jc \<noteq> None \<Longrightarrow> fst (JobConsole_log now m l jc) = Inr ()"
proof -
  assume "jc_client jc \<noteq> None"
  then have "fst (ignore_oserror (client_send m) jc) = Inr ()" for m
    by (auto simp: ignore_oserror_def act_defs client_send_def sock_send_def)
  then show ?thesis using log_cases[of now m l jc] by auto
qed

lemma match_ok: "jc_client jc \<noteq> None \<Longrightarrow> fst (match_console_patterns env buf jc) = Inr ()"
proof -
  assume c: "jc_client jc \<noteq> None"
  have "fst (report_matched env m jc1) = Inr ()" if "jc_client jc1 = jc_client jc" for m jc1
    using that c log_ok[of jc1]
    by (simp add: report_matched_def act_bind_ok[where x = "()"] act_modify_def)
  then show ?thesis by (simp add: match_console_eq)
qed

lemma io_same_sendable:
  "io_same jc jc' \<Longrightarrow> jc_client jc = Some s \<Longrightarrow> sendable s \<Longrightarrow> \<exists>s'. jc_client jc' = Some s' \<and> sendable s'"
  unfolding io_same_def by blast

text \<open>With a connected client, \<open>set_state(DUT_DONE)\<close> fails only by refusing to move backwards.\<close>

lemma set_state_dut_done_result:
  assumes "has_client jc" "jc_client jc \<noteq> None"
  shows "fst (set_state now bucket DUT_DONE jc) \<in> {Inr (), Inl (ValueError ''The state can only move forward'')}"
  using assms by (simp add: set_state_dut_done log_ok)

lemma on_salad_data_relay:
  assumes v: "jc_client_version jc = Some 1" and c: "jc_client jc = Some s" "sendable s"
  shows "relay_ok jc buf (snd (on_salad_data env buf jc)) \<and>
    fst (on_salad_data env buf jc) \<in> {Inr (), Inl (ValueError ''The state can only move forward'')}"
proof -
  let ?now = "ce_now env"
  define jc1 where "jc1 = snd (match_console_patterns env buf jc)"
  define jc2 where "jc2 = note_machine_activity ?now buf jc1"
  define jc3 where "jc3 = snd (client_send (IOMsg buf) jc2)"
  have io1: "io_same jc jc1" unfolding jc1_def by (rule io.withinD[OF match_io])
  have io2: "io_same jc jc2" using io1 by (auto simp: jc2_def io_same_def note_machine_activity_def)
  then obtain s' where s': "jc_client jc2 = Some s'" "sendable s'" using io_same_sendable c by blast
  have v2: "jc_client_version jc2 = Some 1" using io2 v by (simp add: io_same_def)
  have m: "fst (act_catch (match_console_patterns env buf) h jc) = Inr ()"
    "snd (act_catch (match_console_patterns env buf) h jc) = jc1" for h
    using match_ok[of jc env buf] c by (simp_all add: act_catch_ok[where x = "()"] jc1_def)
  have r3: "relay_ok jc buf jc3"
    using relay_io_before[OF io2 client_send_relay] by (simp add: jc3_def)
  have hc3: "has_client jc3" using v2 by (simp add: jc3_def has_client_def)
  have c3: "jc_client jc3 \<noteq> None" using r3 c by (auto simp: relay_ok_def)
  have hc2: "has_client jc2" using v2 by (simp add: has_client_def)
  have "on_salad_data env buf jc =
      (if session_has_ended (jc_patterns jc3) then set_state ?now (Inr None) DUT_DONE jc3 else (Inr (), jc3))"
    using hc2 unfolding on_salad_data_def
    by (simp add: act_bind_ok[where m = "act_catch _ _" and x = "()"] m jc2_def[symmetric] v2
        act_bind_ok[where m = "client_send _" and x = "()"] client_send_sendable[OF s'] jc3_def[symmetric] act_return_def)
  then show ?thesis
    using relay_io_after[OF r3 set_state_dut_done_io[OF hc3]] r3 set_state_dut_done_result[OF hc3 c3] by simp
qed

lemma salad_event_relay:
  assumes v: "jc_client_version jc = Some 1" and c: "jc_client jc = Some s" "sendable s"
  shows "relay_ok jc (if fd_valid jc SaladFd then buf else []) (snd (handle_event env (FromSalad (Inr buf)) jc))"
proof -
  let ?now = "ce_now env"
  let ?err = "Inl (ValueError ''The state can only move forward'') :: unit res"
  have hc: "has_client jc" using v by (simp add: has_client_def)
  have "relay_ok jc buf (snd (on_salad env (Inr buf) jc)) \<and> fst (on_salad env (Inr buf) jc) \<in> {Inr (), ?err}"
  proof (cases "buf = []")
    case False
    then show ?thesis using on_salad_data_relay[OF v c] by (simp add: on_salad_def)
  next
    case True
    define jc1 where "jc1 = snd (set_state ?now (Inr None) DUT_DONE jc)"
    have io: "io_same jc jc1" unfolding jc1_def by (rule set_state_dut_done_io[OF hc])
    then obtain s' where "jc_client_version jc1 = Some 1" "jc_client jc1 = Some s'" "sendable s'"
      using io_same_sendable c v by (fastforce simp: io_same_def)
    note data = on_salad_data_relay[OF this, of buf env]
    have "relay_ok jc [] jc1" using io by (auto simp: io_same_def relay_ok_def)
    then show ?thesis
      using True data relay_io_before[OF io] set_state_dut_done_result[OF hc, of ?now "Inr None"] c
      by (auto simp: on_salad_def act_bind_ok[where m = "set_state _ _ _" and x = "()"] act_bind_err[where m = "set_state _ _ _"]
          jc1_def[symmetric])
  qed
  then have "relay_ok jc buf (snd (guard_fd env (on_salad env (Inr buf)) jc))"
    by (auto simp: guard_fd_def act_catch_ok act_catch_err act_return_def)
  moreover have "relay_ok jc [] jc" using c by (simp add: relay_ok_def)
  ultimately show ?thesis by (simp add: handle_event_def act_return_def)
qed

fun salad_stream :: "(console_env \<times> string) list \<Rightarrow> JobConsole \<Rightarrow> JobConsole" where
  "salad_stream [] jc = jc"
| "salad_stream ((env, b) # xs) jc = salad_stream xs (snd (handle_event env (FromSalad (Inr b)) jc))"

lemma salad_stream_relay:
  assumes "jc_client_version jc = Some 1" "jc_client jc = Some s" "sendable s" "sk_open (jc_salad jc)"
  shows "\<exists>s'. jc_client (salad_stream xs jc) = Some s' \<and> sendable s' \<and>
    io_bytes (sk_sent s') = io_bytes (sk_sent s) @ concat (map snd xs)"
  using assms
proof (induction xs arbitrary: jc s)
  case (Cons x xs)
  obtain env b where x: "x = (env, b)" by (cases x)
  let ?jc = "snd (handle_event env (FromSalad (Inr b)) jc)"
  have "relay_ok jc b ?jc"
    using salad_event_relay[OF Cons.prems(1-3), of b env] Cons.prems(4) by (simp add: fd_valid_def)
  then obtain s1 where "jc_client ?jc = Some s1" "sendable s1" "io_bytes (sk_sent s1) = io_bytes (sk_sent s) @ b"
    "jc_client_version ?jc = Some 1" "sk_open (jc_salad ?jc)"
    using Cons.prems by (auto simp: relay_ok_def)
  with Cons.IH[of ?jc s1] x show ?case by auto
qed simp

lemma fresh_console [simp]:
  "jc_line_buffer (JobConsole_init mid cs ts v l) = []"
  "jc_patterns (JobConsole_init mid cs ts v l) = cs\<lparr>cs_matched := cs_matched cs - {''session_reboot''}\<rparr>"
  by (simp_all add: JobConsole_init_def JobConsole_reset_per_boot_state_def ConsoleState_reset_per_boot_state_def Let_def)

section \<open>Properties\<close>







text \<open>
  A console whose connection to the client failed cannot be closed: \<open>close()\<close> moves it to
  OVER and then raises \<open>AttributeError\<close> while logging that change to the client it does not have,
  so the connection to SALAD stays open.
\<close>

theorem close_without_client_raises:
  assumes "jc_client_version jc = Some 1" "jc_client jc = None" "jc_state jc \<noteq> OVER"
    and "LogLevel_value (jc_log_level jc) \<le> LogLevel_value LINFO"
  shows "JobConsole_close now jc = (Inl AttributeError, jc\<lparr>jc_state := OVER\<rparr>)"
proof -
  have log: "JobConsole_log now m LINFO (jc\<lparr>jc_state := OVER\<rparr>) = (Inl AttributeError, jc\<lparr>jc_state := OVER\<rparr>)" for m
    using assms
    by (simp add: JobConsole_log_def Let_def has_client_def ignore_oserror_def act_catch_def client_send_def act_raise_def)
  show ?thesis
    using assms(3) by (simp add: JobConsole_close_def set_state_def set_state1_def[of _ _ _ OVER] Let_def act_bind_def log)
qed

theorem close_without_client_raises_witness:
  "let jc = snd (JobConsole_start False (JobConsole_init ''m'' (ConsoleState_init \<lparr>regex = ''END''\<rparr> None None None None None) example_timeouts (Some 1) LINFO))
   in JobConsole_close 0 jc = (Inl AttributeError, jc\<lparr>jc_state := OVER\<rparr>) \<and> sk_open (jc_salad jc)"
proof -
  let ?jc = "snd (JobConsole_start False (JobConsole_init ''m'' (ConsoleState_init \<lparr>regex = ''END''\<rparr> None None None None None) example_timeouts (Some 1) LINFO))"
  have jc: "jc_client_version ?jc = Some 1" "jc_client ?jc = None" "jc_state ?jc \<noteq> OVER"
    "LogLevel_value (jc_log_level ?jc) \<le> LogLevel_value LINFO" "sk_open (jc_salad ?jc)"
    by (simp_all add: JobConsole_start_def has_client_def JobConsole_init_def JobConsole_reset_per_boot_state_def Let_def sock_connected_def)
  show ?thesis
    using close_without_client_raises[OF jc(1-4)] jc(5) by (simp only: Let_def)
qed

end
