(* ===== verification/Job_Desc.thy ===== *)
theory Job_Desc
  imports Job_Patterns Py_Strings
begin

text \<open>
  The description of a job (\<open>job.py\<close>: \<open>Deployment\<close>, \<open>Job\<close>; \<open>config.py\<close>:
  \<open>job_environment_vars\<close>). YAML parsing, the field validation of marshmallow and the rendering of
  Jinja templates are third-party code and parameters here; \<open>Job_make\<close> is the \<open>post_load\<close> hook, which
  gets the validated fields with the nested hooks already run.
\<close>

section \<open>Deployments\<close>

record Deployment =
  kernel_url :: "string option"
  kernel_cmdline :: "string option"
  initramfs_url :: "string option"

definition Deployment_init :: "string option \<Rightarrow> string option \<Rightarrow> string option \<Rightarrow> Deployment" where
  "Deployment_init kurl iurl kcmdline =
     \<lparr>kernel_url = kurl, kernel_cmdline = kurl, initramfs_url = iurl\<rparr>"

datatype yaml_text = YStr string | YList "string list" | YOther

definition multiline_string :: "yaml_text \<Rightarrow> string res" where
  "multiline_string y =
     (case y of YStr s \<Rightarrow> Inr s | YList ls \<Rightarrow> Inr (str_join '' '' ls) | YOther \<Rightarrow> Inl AssertionError)"

text \<open>The validated fields of a deployment; \<open>kernel\<close> and \<open>initramfs\<close> and all they hold are optional.\<close>

record kernel_data =
  kd_url :: "string option"
  kd_cmdline :: "string option"

record deployment_data =
  dd_kernel :: "kernel_data option"
  dd_initramfs :: "string option option"

definition no_deployment :: deployment_data where
  "no_deployment = \<lparr>dd_kernel = None, dd_initramfs = None\<rparr>"

definition Deployment_update :: "deployment_data \<Rightarrow> Deployment \<Rightarrow> Deployment" where
  "Deployment_update data d =
     (let k = (case dd_kernel data of None \<Rightarrow> \<lparr>kd_url = None, kd_cmdline = None\<rparr> | Some k \<Rightarrow> k);
          i = (case dd_initramfs data of None \<Rightarrow> None | Some u \<Rightarrow> u);
          d1 = (case kd_url k of Some u \<Rightarrow> d\<lparr>kernel_url := Some u\<rparr> | None \<Rightarrow> d);
          d2 = (case kd_cmdline k of Some c \<Rightarrow> d1\<lparr>kernel_cmdline := Some c\<rparr> | None \<Rightarrow> d1)
      in case i of Some u \<Rightarrow> d2\<lparr>initramfs_url := Some u\<rparr> | None \<Rightarrow> d2)"

section \<open>Jobs\<close>

record Job =
  job_version :: int
  job_deadline :: time
  job_target :: Target
  job_timeouts :: Timeouts
  job_console_patterns :: ConsoleState
  deployment_start :: Deployment
  deployment_continue :: Deployment

record job_data =
  jd_version :: int
  jd_deadline :: time
  jd_target :: Target
  jd_timeouts :: "Timeouts option"
  jd_console_patterns :: ConsoleState
  jd_start :: deployment_data
  jd_continue :: "deployment_data option"

definition associate_watchdogs :: "Timeouts \<Rightarrow> ConsoleState \<Rightarrow> ConsoleState" where
  "associate_watchdogs ts cs =
     cs\<lparr>cs_watchdogs := map (\<lambda>(name, wd).
         (name, Watchdog_set_timeout (if dict_get (watchdogs ts) name = None then None else Some name) wd))
       (cs_watchdogs cs)\<rparr>"

definition Job_make :: "(string, Timeout) dict \<Rightarrow> job_data \<Rightarrow> Job res" where
  "Job_make default_timeouts data =
     res_bind (case jd_timeouts data of None \<Rightarrow> Timeouts_init default_timeouts None | Some ts \<Rightarrow> Inr ts) (\<lambda>ts.
       let start = Deployment_update (jd_start data) (Deployment_init None None None);
           cont = Deployment_update (case jd_continue data of None \<Rightarrow> no_deployment | Some d \<Rightarrow> d)
                    (Deployment_update (jd_start data) (Deployment_init None None None))
       in Inr \<lparr>job_version = jd_version data, job_deadline = jd_deadline data, job_target = jd_target data,
               job_timeouts = ts, job_console_patterns = associate_watchdogs ts (jd_console_patterns data),
               deployment_start = start, deployment_continue = cont\<rparr>)"

definition job_default_timeouts :: "(string, Timeout) dict" where
  "job_default_timeouts =
     [(''overall'', Timeout_init (Some ''overall'') (6 * 3600 * 1000000) 0),
      (''infra_teardown'', Timeout_init (Some ''infra_teardown'') (10 * 60 * 1000000) 0)]"

text \<open>\<open>safe_load\<close> is the YAML parser; \<open>load\<close> the validation, which is given the default timeouts.\<close>

definition Job_from_job ::
  "(string \<Rightarrow> 'y res) \<Rightarrow> ((string, Timeout) dict \<Rightarrow> 'y \<Rightarrow> job_data res) \<Rightarrow> string \<Rightarrow> Job res" where
  "Job_from_job safe_load load job_yml =
     res_bind (safe_load job_yml) (\<lambda>j.
       case res_bind (load job_default_timeouts j) (Job_make job_default_timeouts) of
         Inl ValidationError \<Rightarrow> Inl (ValueError ''ValidationError'')
       | r \<Rightarrow> r)"

section \<open>Rendering\<close>

text \<open>\<open>s.lstrip(chars)\<close> removes every leading character that occurs in \<open>chars\<close>.\<close>

definition lstrip_chars :: "string \<Rightarrow> string \<Rightarrow> string" where
  "lstrip_chars chars s = dropWhile (\<lambda>c. c \<in> set chars) s"

definition job_environment_vars :: "string \<Rightarrow> (string, string) dict \<Rightarrow> (string, string) dict" where
  "job_environment_vars minio_url env =
     fold (\<lambda>(var, val) ret.
        if prefix ''EXECUTOR_JOB__'' var then dict_set (lstrip_chars ''EXECUTOR_JOB__'' var) val ret else ret)
       env [(''MINIO_URL'', minio_url)]"

text \<open>What a template may refer to; a machine is given by what the templates see of it.\<close>

datatype 'm template_value = TBool bool | TStr string | TTags "string set" | TMachine 'm

record 'm machine_view =
  mv_ready_for_service :: bool
  mv_id :: string
  mv_safe_attributes :: 'm
  mv_tags :: "string set"
  mv_local_tty_device :: "string option"

record bucket_view =
  bv_minio_url :: string
  bv_name :: string
  bv_access_key :: string
  bv_secret_key :: string

definition tstr :: "string option \<Rightarrow> 'm template_value option" where
  "tstr s = map_option TStr s"

definition template_params ::
  "(string, string) dict \<Rightarrow> 'm machine_view \<Rightarrow> bucket_view option \<Rightarrow> (string, 'm template_value option) dict" where
  "template_params env_vars m bucket =
     (let base = fold (\<lambda>(k, v) d. dict_set (str_lower k) (Some (TStr v)) d) env_vars
          [(''ready_for_service'', Some (TBool (mv_ready_for_service m))), (''machine_id'', Some (TStr (mv_id m))),
           (''machine'', Some (TMachine (mv_safe_attributes m))), (''machine_tags'', Some (TTags (mv_tags m))),
           (''local_tty_device'', tstr (mv_local_tty_device m))]
      in case bucket of
           None \<Rightarrow> base
         | Some b \<Rightarrow>
             fold (\<lambda>(k, v) d. dict_set k (Some (TStr v)) d)
               [(''minio_url'', bv_minio_url b), (''job_bucket'', bv_name b),
                (''job_bucket_access_key'', bv_access_key b), (''job_bucket_secret_key'', bv_secret_key b)] base)"

definition render_with_resources ::
  "(string \<Rightarrow> (string, 'm template_value option) dict \<Rightarrow> string res) \<Rightarrow> (string \<Rightarrow> Job res) \<Rightarrow>
   (string, string) dict \<Rightarrow> string \<Rightarrow> 'm machine_view \<Rightarrow> bucket_view option \<Rightarrow> Job res" where
  "render_with_resources render from_job env_vars job_str m bucket =
     res_bind (render job_str (template_params env_vars m bucket)) from_job"

definition Job_from_path ::
  "(string \<Rightarrow> string res) \<Rightarrow> (string \<Rightarrow> 'm machine_view \<Rightarrow> bucket_view option \<Rightarrow> Job res) \<Rightarrow>
   string \<Rightarrow> 'm machine_view \<Rightarrow> bucket_view option \<Rightarrow> Job res" where
  "Job_from_path read render path m bucket = res_bind (read path) (\<lambda>t. render t m bucket)"

section \<open>Lemmas\<close>

lemma Deployment_update_fields:
  "kernel_url (Deployment_update data d) =
     (case Option.bind (dd_kernel data) kd_url of Some u \<Rightarrow> Some u | None \<Rightarrow> kernel_url d)"
  "kernel_cmdline (Deployment_update data d) =
     (case Option.bind (dd_kernel data) kd_cmdline of Some c \<Rightarrow> Some c | None \<Rightarrow> kernel_cmdline d)"
  "initramfs_url (Deployment_update data d) =
     (case Option.bind (dd_initramfs data) (\<lambda>u. u) of Some u \<Rightarrow> Some u | None \<Rightarrow> initramfs_url d)"
  by (auto simp: Deployment_update_def Let_def split: option.splits)

text \<open>A watchdog of a loaded job has a timeout exactly if the job gives one under its name.\<close>

lemma associate_watchdogs_get:
  "dict_get (cs_watchdogs (associate_watchdogs ts cs)) name =
     map_option (\<lambda>wd. wd\<lparr>wd_timeout := (if dict_get (watchdogs ts) name = None then None else Some name)\<rparr>)
       (dict_get (cs_watchdogs cs) name)"
proof -
  have "dict_get (map (\<lambda>(name, wd). (name, Watchdog_set_timeout (f name) wd)) d) name =
      map_option (\<lambda>wd. wd\<lparr>wd_timeout := f name\<rparr>) (dict_get d name)" for f d
    by (induction d) (auto simp: Watchdog_set_timeout_def)
  then show ?thesis by (simp add: associate_watchdogs_def)
qed

section \<open>Properties\<close>

text \<open>
  Loading a job: the continue deployment is the start deployment overridden field by field by
  what the job says for \<open>continue\<close>; the timeouts are the job's own, and without any the overall
  one is six hours and the teardown one ten minutes; every watchdog pattern is tied to the
  watchdog timeout of the same name, and to none if there is none.
\<close>

theorem job_make_contents:
  assumes "Job_make job_default_timeouts data = Inr job"
  shows "let pick = (\<lambda>field.
             case Option.bind (jd_continue data) field of Some u \<Rightarrow> Some u | None \<Rightarrow> field (jd_start data))
         in kernel_url (deployment_continue job) = pick (\<lambda>d. Option.bind (dd_kernel d) kd_url) \<and>
            kernel_cmdline (deployment_continue job) = pick (\<lambda>d. Option.bind (dd_kernel d) kd_cmdline) \<and>
            initramfs_url (deployment_continue job) = pick (\<lambda>d. Option.bind (dd_initramfs d) (\<lambda>u. u)) \<and>
            (case jd_timeouts data of Some ts \<Rightarrow> job_timeouts job = ts
             | None \<Rightarrow> t_timeout (overall (job_timeouts job)) = 6 * 3600 * 1000000 \<and>
                       t_timeout (infra_teardown (job_timeouts job)) = 600 * 1000000 \<and>
                       t_timeout (boot_cycle (job_timeouts job)) = timedelta_max) \<and>
            (\<forall>name wd. dict_get (cs_watchdogs (job_console_patterns job)) name = Some wd \<longrightarrow>
               wd_timeout wd = (if dict_get (watchdogs (job_timeouts job)) name = None then None else Some name))"
proof -
  obtain ts where ts: "(case jd_timeouts data of None \<Rightarrow> Timeouts_init job_default_timeouts None | Some ts \<Rightarrow> Inr ts) = Inr ts"
    and job: "job_timeouts job = ts" "job_console_patterns job = associate_watchdogs ts (jd_console_patterns data)"
      "deployment_continue job = Deployment_update (case jd_continue data of None \<Rightarrow> no_deployment | Some d \<Rightarrow> d)
         (Deployment_update (jd_start data) (Deployment_init None None None))"
    using assms by (auto simp: Job_make_def res_bind_Inr_iff Let_def)
  have "t_timeout (overall ts) = 6 * 3600 * 1000000 \<and> t_timeout (infra_teardown ts) = 600 * 1000000 \<and>
      t_timeout (boot_cycle ts) = timedelta_max" if "jd_timeouts data = None"
  proof -
    have init: "Timeouts_init job_default_timeouts None = Inr ts" using ts that by simp
    show ?thesis
      using Timeouts_init_getattr[OF init, of OVERALL] Timeouts_init_getattr[OF init, of INFRA_TEARDOWN]
        Timeouts_init_getattr[OF init, of BOOT_CYCLE]
      by (simp add: pick_timeout_Inr job_default_timeouts_def Timeout_init_def default_timeout_def)
  qed
  moreover have "ts = x" if "jd_timeouts data = Some x" for x using ts that by simp
  moreover have "wd_timeout wd = (if dict_get (watchdogs ts) name = None then None else Some name)"
    if "dict_get (cs_watchdogs (associate_watchdogs ts (jd_console_patterns data))) name = Some wd" for name wd
    using that by (auto simp: associate_watchdogs_get)
  ultimately show ?thesis
    by (simp add: Let_def job Deployment_update_fields Deployment_init_def no_deployment_def split: option.split)
qed

theorem job_make_contents_witness:
  "\<exists>job. Job_make job_default_timeouts
      \<lparr>jd_version = 1, jd_deadline = 0, jd_target = Target_init None (Some []), jd_timeouts = None,
       jd_console_patterns = ConsoleState_init \<lparr>regex = ''END''\<rparr> None None None None None,
       jd_start = \<lparr>dd_kernel = Some \<lparr>kd_url = Some ''http://k'', kd_cmdline = Some ''quiet''\<rparr>, dd_initramfs = None\<rparr>,
       jd_continue = Some \<lparr>dd_kernel = Some \<lparr>kd_url = None, kd_cmdline = Some ''resume''\<rparr>, dd_initramfs = None\<rparr>\<rparr> = Inr job \<and>
     kernel_url (deployment_continue job) = Some ''http://k'' \<and> kernel_cmdline (deployment_continue job) = Some ''resume''"
proof -
  let ?data = "\<lparr>jd_version = 1, jd_deadline = 0, jd_target = Target_init None (Some []), jd_timeouts = None,
       jd_console_patterns = ConsoleState_init \<lparr>regex = ''END''\<rparr> None None None None None,
       jd_start = \<lparr>dd_kernel = Some \<lparr>kd_url = Some ''http://k'', kd_cmdline = Some ''quiet''\<rparr>, dd_initramfs = None\<rparr>,
       jd_continue = Some \<lparr>dd_kernel = Some \<lparr>kd_url = None, kd_cmdline = Some ''resume''\<rparr>, dd_initramfs = None\<rparr>\<rparr>"
  have "is_ok (Timeouts_init job_default_timeouts None)"
    by (simp add: Timeouts_init_ok_iff pick_timeout_def job_default_timeouts_def Timeout_init_def Let_def)
  then obtain job where job: "Job_make job_default_timeouts ?data = Inr job"
    by (auto simp: Job_make_def is_ok_iff Let_def)
  from job_make_contents[OF job] job show ?thesis by (auto simp: Let_def)
qed

text \<open>
  The environment variable \<open>EXECUTOR_JOB__<name>\<close> reaches the job templates under what is left of
  \<open><name>\<close> without its leading letters among \<open>E X C U T O R _ J B\<close>: \<open>lstrip\<close> removes letters, not a
  prefix. So it arrives under its own name exactly if that does not start with one of them; for
  instance \<open>BUCKET\<close> arrives as \<open>KET\<close>.
\<close>

theorem job_env_var_name:
  "let key = dropWhile (\<lambda>c. c \<in> set ''EXECUTOR_JOB__'') name
   in job_environment_vars url [(''EXECUTOR_JOB__'' @ name, v)] = dict_set key v [(''MINIO_URL'', url)] \<and>
      (key = name) = (if name = [] then True else hd name \<notin> set ''EXECUTOR_JOB__'')"
proof -
  let ?set = "\<lambda>c. c \<in> set ''EXECUTOR_JOB__''"
  have key: "lstrip_chars ''EXECUTOR_JOB__'' (''EXECUTOR_JOB__'' @ name) = dropWhile ?set name"
    by (simp add: lstrip_chars_def)
  have vars: "job_environment_vars url [(''EXECUTOR_JOB__'' @ name, v)] = dict_set (dropWhile ?set name) v [(''MINIO_URL'', url)]"
    unfolding job_environment_vars_def by (simp only: fold_simps prod.case key) simp
  have "(dropWhile ?set name = name) = (if name = [] then True else hd name \<notin> set ''EXECUTOR_JOB__'')"
  proof (cases name)
    case (Cons c t)
    have "length (dropWhile ?set t) \<le> length t" by (rule length_dropWhile_le)
    then have "dropWhile ?set t \<noteq> c # t" by (metis Suc_n_not_le_n length_Cons)
    then show ?thesis using Cons by auto
  qed simp
  then show ?thesis unfolding Let_def using vars by (intro conjI)
qed

end
