(* ===== verification/Minio.thy ===== *)
theory Minio
  imports Py_Strings Json
begin

text \<open>
  The object storage (\<open>minioclient.py\<close>) and the bucket of a job (\<open>executor.py\<close>: \<open>JobBucket\<close>).
  The MinIO server, its Python package and the \<open>mcli\<close> tool are not part of the sources: the record
  \<open>minio_api\<close> has what the code calls, on an arbitrary world \<open>'w\<close>. The definitions build the
  exact command lines, policies and names.
\<close>

record 'w minio_api =
  mcli :: "string list \<Rightarrow> ('w, string) act"
  api_make_bucket :: "string \<Rightarrow> ('w, unit) act"
  api_put_object :: "string \<Rightarrow> string \<Rightarrow> string \<Rightarrow> string \<Rightarrow> ('w, unit) act"
  api_save :: "string \<Rightarrow> string \<Rightarrow> string \<Rightarrow> ('w, unit) act"
  check_bucket_name :: "string \<Rightarrow> unit res"

section \<open>Policies\<close>

record MinIOPolicyStatement =
  ps_buckets :: "string list"
  ps_actions :: "string list"
  ps_allow :: bool
  ps_source_ips :: "string list option"
  ps_not_source_ips :: "string list option"

definition policy_statement :: MinIOPolicyStatement where
  "policy_statement =
     \<lparr>ps_buckets = [''*''], ps_actions = [''s3:*''], ps_allow = True, ps_source_ips = None, ps_not_source_ips = None\<rparr>"

definition statement_resources :: "MinIOPolicyStatement \<Rightarrow> string list" where
  "statement_resources s =
     map (\<lambda>b. ''arn:aws:s3:::'' @ b) (ps_buckets s) @ map (\<lambda>b. ''arn:aws:s3:::'' @ b @ ''/*'') (ps_buckets s)"

definition jlist :: "string list \<Rightarrow> json" where
  "jlist xs = JList (map JStr xs)"

definition nonempty :: "string list option \<Rightarrow> bool" where
  "nonempty ips = (case ips of None \<Rightarrow> False | Some xs \<Rightarrow> xs \<noteq> [])"

definition statement_conditions :: "MinIOPolicyStatement \<Rightarrow> (string \<times> json) list" where
  "statement_conditions s =
     (if nonempty (ps_source_ips s)
      then [(''IpAddress'', JObj [(''aws:SourceIp'', jlist (the (ps_source_ips s)))])] else []) @
     (if nonempty (ps_not_source_ips s)
      then [(''NotIpAddress'', JObj [(''aws:SourceIp'', jlist (the (ps_not_source_ips s)))])] else [])"

definition render_statement :: "MinIOPolicyStatement \<Rightarrow> json" where
  "render_statement s =
     JObj ([(''Action'', jlist (ps_actions s)),
            (''Effect'', JStr (if ps_allow s then ''Allow'' else ''Deny'')),
            (''Resource'', jlist (statement_resources s))] @
           (if statement_conditions s \<noteq> [] then [(''Condition'', JObj (statement_conditions s))] else []))"

definition generate_policy :: "MinIOPolicyStatement list \<Rightarrow> json" where
  "generate_policy ss =
     JObj [(''Version'', JStr ''2012-10-17''), (''Statement'', JList (map render_statement ss))]"

section \<open>The client\<close>

record MinioClient =
  mc_url :: string
  mc_user :: string
  mc_secret_key :: string
  mc_alias :: "string option"

definition mcli_base :: "string list" where
  "mcli_base = [''mcli'', ''-q'', ''--no-color'']"

definition run_mcli :: "'w minio_api \<Rightarrow> string list \<Rightarrow> ('w, unit) act" where
  "run_mcli api args = act_bind (mcli api (mcli_base @ args)) (\<lambda>_. act_return ())"

definition MinioClient_init ::
  "'w minio_api \<Rightarrow> string \<Rightarrow> string \<Rightarrow> string \<Rightarrow> string option \<Rightarrow> ('w, MinioClient) act" where
  "MinioClient_init api url user secret_key alias =
     act_bind
       (case alias of
          None \<Rightarrow> act_return ()
        | Some a \<Rightarrow>
            act_catch (run_mcli api [''alias'', ''set'', a, url, user, secret_key])
              (\<lambda>e. act_raise (if e = CalledProcessError then ValueError ''Invalid credentials'' else e)))
       (\<lambda>_. act_return \<lparr>mc_url = url, mc_user = user, mc_secret_key = secret_key, mc_alias = alias\<rparr>)"

definition remove_alias :: "'w minio_api \<Rightarrow> MinioClient \<Rightarrow> ('w, unit) act" where
  "remove_alias api c =
     (case mc_alias c of None \<Rightarrow> act_return () | Some a \<Rightarrow> run_mcli api [''alias'', ''rm'', a])"

definition is_local_url :: "MinioClient \<Rightarrow> string \<Rightarrow> bool" where
  "is_local_url c url = prefix (mc_url c @ ''/'') url"

definition save_boot_artifact :: "'w minio_api \<Rightarrow> string \<Rightarrow> string \<Rightarrow> ('w, unit) act" where
  "save_boot_artifact api remote_artifact_url minio_object_name =
     api_save api ''boot'' remote_artifact_url minio_object_name"

text \<open>\<open>assert self.alias is not None\<close> at the head of an operation.\<close>

definition with_alias :: "MinioClient \<Rightarrow> (string \<Rightarrow> ('w, 'a) act) \<Rightarrow> ('w, 'a) act" where
  "with_alias c f = (case mc_alias c of None \<Rightarrow> act_raise AssertionError | Some a \<Rightarrow> f a)"

record tar_member =
  tm_name :: string
  tm_isdir :: bool
  tm_islnk :: bool
  tm_isdev :: bool
  tm_isfifo :: bool
  tm_ischr :: bool
  tm_isreg :: bool
  tm_isfile :: bool
  tm_mode :: nat
  tm_gid :: int
  tm_uid :: int
  tm_gname :: string
  tm_uname :: string
  tm_mtime :: int
  tm_content :: string

unbundle bit_operations_syntax

definition go_mode :: "tar_member \<Rightarrow> nat" where
  "go_mode m =
     (((((((if tm_isdir m then 2 ^ 31 else 0) OR (if tm_islnk m then 2 ^ 27 else 0)) OR
        (if tm_isdev m then 2 ^ 26 else 0)) OR (if tm_isfifo m then 2 ^ 25 else 0)) OR
        (if tm_ischr m then 2 ^ 21 else 0)) OR (if tm_isreg m then 2 ^ 15 else 0)) OR tm_mode m)"

definition build_mc_attrs_str :: "tar_member \<Rightarrow> string res" where
  "build_mc_attrs_str m =
     (if go_mode m < 2 ^ 32
      then Inr (''gid:'' @ show_int (tm_gid m) @ ''/gname:'' @ tm_gname m @ ''/mode:'' @ show_nat (go_mode m) @
                ''/mtime:'' @ show_int (tm_mtime m) @ ''/uid:'' @ show_int (tm_uid m) @ ''/uname:'' @ tm_uname m)
      else Inl StructError)"

definition extract_archive :: "'w minio_api \<Rightarrow> tar_member list \<Rightarrow> string \<Rightarrow> ('w, unit) act" where
  "extract_archive api archive bucket_name =
     act_iter (\<lambda>m.
       if \<not> tm_isfile m then act_return ()
       else act_bind (act_lift (build_mc_attrs_str m)) (\<lambda>attrs.
              api_put_object api bucket_name (tm_name m) (tm_content m) attrs)) archive"

definition make_bucket :: "'w minio_api \<Rightarrow> string \<Rightarrow> ('w, unit) act" where
  "make_bucket api bucket_name =
     act_catch (api_make_bucket api bucket_name)
       (\<lambda>e. act_raise (if e = S3Error then ValueError ''The bucket already exists'' else e))"

definition remove_bucket :: "'w minio_api \<Rightarrow> MinioClient \<Rightarrow> string \<Rightarrow> ('w, unit) act" where
  "remove_bucket api c bucket_name =
     with_alias c (\<lambda>a. run_mcli api [''rb'', ''--force'', a @ ''/'' @ bucket_name])"

definition add_user :: "'w minio_api \<Rightarrow> MinioClient \<Rightarrow> string \<Rightarrow> string \<Rightarrow> ('w, unit) act" where
  "add_user api c user_id password =
     with_alias c (\<lambda>a. run_mcli api [''admin'', ''user'', ''add'', a, user_id, password])"

definition remove_user :: "'w minio_api \<Rightarrow> MinioClient \<Rightarrow> string \<Rightarrow> ('w, unit) act" where
  "remove_user api c user_id =
     with_alias c (\<lambda>a. run_mcli api [''admin'', ''user'', ''remove'', a, user_id])"

definition groups_user_is_in :: "'w minio_api \<Rightarrow> MinioClient \<Rightarrow> string option \<Rightarrow> ('w, json) act" where
  "groups_user_is_in api c user_id =
     with_alias c (\<lambda>a.
       act_bind (mcli api (mcli_base @ [''--json'', ''admin'', ''user'', ''info'', a,
           (case user_id of None \<Rightarrow> mc_user c | Some u \<Rightarrow> u)])) (\<lambda>out.
       act_bind (act_lift (json_loads out)) (\<lambda>j.
         act_lift (case j of JObj kvs \<Rightarrow> Inr (case dict_get kvs ''memberOf'' of None \<Rightarrow> JList [] | Some v \<Rightarrow> v)
                   | _ \<Rightarrow> Inl AttributeError))))"

definition add_user_to_group :: "'w minio_api \<Rightarrow> MinioClient \<Rightarrow> string \<Rightarrow> string \<Rightarrow> ('w, unit) act" where
  "add_user_to_group api c user_id group_name =
     with_alias c (\<lambda>a. run_mcli api [''admin'', ''group'', ''add'', a, group_name, user_id])"

text \<open>The policy is passed in a temporary file; here the file's contents stand for its name.\<close>

definition apply_user_policy ::
  "'w minio_api \<Rightarrow> MinioClient \<Rightarrow> string \<Rightarrow> string \<Rightarrow> MinIOPolicyStatement list \<Rightarrow> ('w, unit) act" where
  "apply_user_policy api c policy_name user_id statements =
     with_alias c (\<lambda>a.
       act_bind (run_mcli api [''admin'', ''policy'', ''add'', a, policy_name, json_dumps (generate_policy statements)]) (\<lambda>_.
         run_mcli api [''admin'', ''policy'', ''set'', a, policy_name, ''user='' @ user_id]))"

definition remove_user_policy :: "'w minio_api \<Rightarrow> MinioClient \<Rightarrow> string \<Rightarrow> string \<Rightarrow> ('w, unit) act" where
  "remove_user_policy api c policy_name user_id =
     with_alias c (\<lambda>a.
       act_bind (run_mcli api [''admin'', ''policy'', ''unset'', a, policy_name, ''user='' @ user_id]) (\<lambda>_.
         run_mcli api [''admin'', ''policy'', ''remove'', a, policy_name]))"

section \<open>Bucket names\<close>

definition bucket_char :: "char \<Rightarrow> bool" where
  "bucket_char c =
     (let n = (of_char c :: nat) in
      97 \<le> n \<and> n \<le> 122 \<or> 48 \<le> n \<and> n \<le> 57 \<or> c = CHR ''-'' \<or> c = CHR ''.'')"

text \<open>\<open>ipaddress.ip_address\<close> on text without colons: four decimal octets without leading zeros.\<close>

definition is_octet :: "string \<Rightarrow> bool" where
  "is_octet s =
     (s \<noteq> [] \<and> length s \<le> 3 \<and> list_all is_digit s \<and> \<not> (hd s = CHR ''0'' \<and> length s > 1) \<and>
      (case read_base 10 s of Some n \<Rightarrow> n \<le> 255 | None \<Rightarrow> False))"

definition is_ip_address :: "string \<Rightarrow> bool" where
  "is_ip_address s = (let os = str_split CHR ''.'' s in length os = 4 \<and> list_all is_octet os)"

definition bucket_name_base :: "string \<Rightarrow> string" where
  "bucket_name_base base_name =
     (let name = map (\<lambda>c. if bucket_char c then c else CHR ''-'') base_name;
          name = (if length name < 3 then ''b--'' @ name else name);
          name = (if prefix ''xn--'' name \<or> hd name = CHR ''.'' \<or> hd name = CHR ''-'' then CHR ''x'' # name else name);
          name = (if last name = CHR ''.'' \<or> last name = CHR ''-'' then name @ ''x'' else name);
          name = (if is_ip_address name then ''ip-'' @ name else name)
      in if 63 \<le> length name then take 63 name else name)"

definition create_valid_bucket_name :: "'w minio_api \<Rightarrow> string \<Rightarrow> string res" where
  "create_valid_bucket_name api base_name =
     (let name = bucket_name_base base_name in res_bind (check_bucket_name api name) (\<lambda>_. Inr name))"

section \<open>The bucket of a job\<close>

record Credentials =
  cr_username :: string
  cr_password :: string
  cr_policy_name :: string

record JobBucket =
  jb_minio :: MinioClient
  jb_name :: string
  jb_credentials :: "(string, Credentials) dict"
  jb_tarball :: "tar_member list option"

definition JobBucket_init ::
  "'w minio_api \<Rightarrow> MinioClient \<Rightarrow> string \<Rightarrow> tar_member list option \<Rightarrow> ('w, JobBucket) act" where
  "JobBucket_init api c bucket_name tarball =
     act_bind (make_bucket api bucket_name) (\<lambda>_.
       act_return \<lparr>jb_minio = c, jb_name = bucket_name, jb_credentials = [], jb_tarball = tarball\<rparr>)"

definition JobBucket_remove :: "'w minio_api \<Rightarrow> JobBucket \<Rightarrow> ('w, unit) act" where
  "JobBucket_remove api b =
     act_bind (remove_bucket api (jb_minio b) (jb_name b)) (\<lambda>_.
       act_iter (\<lambda>cr.
         act_bind (remove_user_policy api (jb_minio b) (cr_policy_name cr) (cr_username cr)) (\<lambda>_.
           remove_user api (jb_minio b) (cr_username cr))) (dict_values (jb_credentials b)))"

text \<open>\<open>__del__\<close>: every exception is swallowed.\<close>

definition JobBucket_del :: "'w minio_api \<Rightarrow> JobBucket \<Rightarrow> ('w, unit) act" where
  "JobBucket_del api b = act_catch (JobBucket_remove api b) (\<lambda>_. act_return ())"

definition JobBucket_get_credentials :: "JobBucket \<Rightarrow> string option \<Rightarrow> Credentials option" where
  "JobBucket_get_credentials b role = (case role of None \<Rightarrow> None | Some r \<Rightarrow> dict_get (jb_credentials b) r)"

definition owner_policy :: "string \<Rightarrow> string list \<Rightarrow> MinIOPolicyStatement list" where
  "owner_policy bucket whitelisted_ips =
     policy_statement\<lparr>ps_buckets := [bucket], ps_source_ips := Some whitelisted_ips\<rparr> #
     (if whitelisted_ips \<noteq> [] then [policy_statement\<lparr>ps_allow := False, ps_not_source_ips := Some whitelisted_ips\<rparr>] else [])"

text \<open>\<open>token\<close> is what \<open>secrets.token_hex(16)\<close> returns.\<close>

definition create_owner_credentials ::
  "'w minio_api \<Rightarrow> string \<Rightarrow> JobBucket \<Rightarrow> string \<Rightarrow> string option \<Rightarrow> string option \<Rightarrow> string list option \<Rightarrow>
   string list option \<Rightarrow> ('w, Credentials \<times> JobBucket) act" where
  "create_owner_credentials api token b role user_name password groups whitelisted_ips =
     (let user = (case user_name of None \<Rightarrow> jb_name b @ ''-'' @ role | Some u \<Rightarrow> u);
          pw = (case password of None \<Rightarrow> token | Some p \<Rightarrow> p);
          gs = (case groups of None \<Rightarrow> [] | Some g \<Rightarrow> g);
          ips = (case whitelisted_ips of None \<Rightarrow> [] | Some i \<Rightarrow> i);
          policy_name = ''policy_'' @ user;
          c = jb_minio b
      in act_bind (add_user api c user pw) (\<lambda>_.
         act_bind (act_catch (apply_user_policy api c policy_name user (owner_policy (jb_name b) ips))
                     (\<lambda>e. act_bind (remove_user api c user) (\<lambda>_. act_raise e))) (\<lambda>_.
         act_bind (act_iter (\<lambda>g. add_user_to_group api c user g) gs) (\<lambda>_.
           let cr = \<lparr>cr_username = user, cr_password = pw, cr_policy_name = policy_name\<rparr>
           in act_return (cr, b\<lparr>jb_credentials := dict_set role cr (jb_credentials b)\<rparr>)))))"

definition JobBucket_setup :: "'w minio_api \<Rightarrow> JobBucket \<Rightarrow> ('w, unit) act" where
  "JobBucket_setup api b =
     (case jb_tarball b of None \<Rightarrow> act_return () | Some t \<Rightarrow> extract_archive api t (jb_name b))"

text \<open>\<open>urlparse\<close>: the scheme and the network location of an absolute URL.\<close>

definition is_netloc_char :: "char \<Rightarrow> bool" where
  "is_netloc_char c = (c \<noteq> CHR ''/'' \<and> c \<noteq> CHR ''?'' \<and> c \<noteq> CHR ''#'')"

definition url_scheme :: "string \<Rightarrow> string" where
  "url_scheme u = takeWhile (\<lambda>c. c \<noteq> CHR '':'') u"

definition url_netloc :: "string \<Rightarrow> string" where
  "url_netloc u =
     (let r = drop (length (url_scheme u) + 1) u
      in if prefix ''//'' r then takeWhile is_netloc_char (drop 2 r) else [])"

definition access_url :: "JobBucket \<Rightarrow> string option \<Rightarrow> string" where
  "access_url b role =
     (let url = mc_url (jb_minio b);
          creds = (case JobBucket_get_credentials b role of
                     Some cr \<Rightarrow> cr_username cr @ '':'' @ cr_password cr @ ''@''
                   | None \<Rightarrow> [])
      in url_scheme url @ ''://'' @ creds @ url_netloc url)"

text \<open>\<open>now\<close> and \<open>rnd\<close> are the time stamp and the random number of the fallback name.\<close>

definition JobBucket_from_job_request ::
  "'w minio_api \<Rightarrow> MinioClient \<Rightarrow> int \<Rightarrow> int \<Rightarrow> string \<Rightarrow> string \<Rightarrow> tar_member list option \<Rightarrow> ('w, JobBucket) act" where
  "JobBucket_from_job_request api c now rnd machine_id job_id tarball =
     act_bind (act_lift (create_valid_bucket_name api (''job-'' @ machine_id @ ''-'' @ job_id))) (\<lambda>bucket_name.
       act_catch (JobBucket_init api c bucket_name tarball)
         (\<lambda>e. case e of
             ValueError _ \<Rightarrow>
               JobBucket_init api c (bucket_name @ ''-'' @ show_int now @ ''-'' @ show_int rnd) tarball
           | _ \<Rightarrow> act_raise e))"

section \<open>What a policy allows\<close>

text \<open>
  The documented evaluation of S3 policies: a request is allowed if a statement with effect Allow
  matches it and none with effect Deny does; \<open>*\<close> in actions and resources matches any text.
  \<open>ip_in ip range\<close> says whether an address is in a CIDR range.
\<close>

record s3_request =
  rq_action :: string
  rq_resource :: string
  rq_ip :: string

fun glob :: "string \<Rightarrow> string \<Rightarrow> bool" where
  "glob [] s \<longleftrightarrow> s = []"
| "glob (p # ps) s \<longleftrightarrow>
     (if p = CHR ''*'' then list_ex (glob ps) (suffixes s)
      else case s of [] \<Rightarrow> False | c # t \<Rightarrow> c = p \<and> glob ps t)"

definition statement_matches :: "(string \<Rightarrow> string \<Rightarrow> bool) \<Rightarrow> s3_request \<Rightarrow> MinIOPolicyStatement \<Rightarrow> bool" where
  "statement_matches ip_in rq s \<longleftrightarrow>
     list_ex (\<lambda>a. glob a (rq_action rq)) (ps_actions s) \<and>
     list_ex (\<lambda>r. glob r (rq_resource rq)) (statement_resources s) \<and>
     (nonempty (ps_source_ips s) \<longrightarrow> list_ex (ip_in (rq_ip rq)) (the (ps_source_ips s))) \<and>
     (nonempty (ps_not_source_ips s) \<longrightarrow> \<not> list_ex (ip_in (rq_ip rq)) (the (ps_not_source_ips s)))"

definition policy_allows :: "(string \<Rightarrow> string \<Rightarrow> bool) \<Rightarrow> MinIOPolicyStatement list \<Rightarrow> s3_request \<Rightarrow> bool" where
  "policy_allows ip_in ss rq \<longleftrightarrow>
     list_ex (\<lambda>s. ps_allow s \<and> statement_matches ip_in rq s) ss \<and>
     \<not> list_ex (\<lambda>s. \<not> ps_allow s \<and> statement_matches ip_in rq s) ss"

lemma glob_star [simp]: "glob ''*'' s"
  by (auto simp: list_ex_iff suffix_def)

lemma glob_plain_append: "CHR ''*'' \<notin> set p \<Longrightarrow> glob (p @ q) s \<longleftrightarrow> (\<exists>t. s = p @ t \<and> glob q t)"
  by (induction p arbitrary: s) (auto split: list.split)

lemma glob_plain: "CHR ''*'' \<notin> set p \<Longrightarrow> glob p s \<longleftrightarrow> s = p"
  using glob_plain_append[of p "[]" s] by simp

lemma glob_prefix_star: "CHR ''*'' \<notin> set p \<Longrightarrow> glob (p @ ''*'') s \<longleftrightarrow> prefix p s"
  using glob_plain_append[of p "''*''" s] glob_star by (auto simp: prefix_def simp del: glob.simps)

abbreviation in_bucket :: "string \<Rightarrow> string \<Rightarrow> bool" where
  "in_bucket bucket resource \<equiv>
     resource = ''arn:aws:s3:::'' @ bucket \<or> prefix (''arn:aws:s3:::'' @ bucket @ ''/'') resource"

lemma glob_s3_any: "glob ''s3:*'' a \<longleftrightarrow> prefix ''s3:'' a"
  using glob_prefix_star[of "''s3:''" a] by (simp del: glob.simps)

lemma glob_arn:
  assumes "CHR ''*'' \<notin> set b"
  shows "list_ex (\<lambda>r. glob r res) (statement_resources (policy_statement\<lparr>ps_buckets := [b], ps_source_ips := ips\<rparr>)) \<longleftrightarrow>
    in_bucket b res"
proof -
  have "glob (''arn:aws:s3:::'' @ b) res \<longleftrightarrow> res = ''arn:aws:s3:::'' @ b"
    using assms by (intro glob_plain) simp
  moreover have "glob ((''arn:aws:s3:::'' @ b @ ''/'') @ ''*'') res \<longleftrightarrow> prefix (''arn:aws:s3:::'' @ b @ ''/'') res"
    using assms by (intro glob_prefix_star) simp
  ultimately show ?thesis
    by (simp add: statement_resources_def del: glob.simps)
qed

lemma glob_arn_any: "prefix ''arn:aws:s3:::'' res \<Longrightarrow>
  list_ex (\<lambda>r. glob r res) (statement_resources (policy_statement\<lparr>ps_allow := b, ps_not_source_ips := ips\<rparr>))"
  using glob_prefix_star[of "''arn:aws:s3:::''" res]
  by (simp add: statement_resources_def policy_statement_def del: glob.simps)

lemma in_bucket_arn: "in_bucket b res \<Longrightarrow> prefix ''arn:aws:s3:::'' res"
  by (auto simp: prefix_def)

section \<open>Bucket names\<close>

lemma bucket_name_stages:
  defines "ok \<equiv> list_all bucket_char"
  assumes "n0 = map (\<lambda>c. if bucket_char c then c else CHR ''-'') base"
    and "n1 = (if length n0 < 3 then ''b--'' @ n0 else n0)"
    and "n2 = (if prefix ''xn--'' n1 \<or> hd n1 = CHR ''.'' \<or> hd n1 = CHR ''-'' then CHR ''x'' # n1 else n1)"
    and "n3 = (if last n2 = CHR ''.'' \<or> last n2 = CHR ''-'' then n2 @ ''x'' else n2)"
    and "n4 = (if is_ip_address n3 then ''ip-'' @ n3 else n3)"
  shows "ok n4" "3 \<le> length n4" "hd n4 \<notin> {CHR ''.'', CHR ''-''}" "last n4 \<notin> {CHR ''.'', CHR ''-''}"
    "\<not> prefix ''xn--'' n4" "\<not> is_ip_address n4" "length n0 \<le> length n4"
proof -
  have b: "bucket_char CHR ''-''" "bucket_char CHR ''x''" "bucket_char CHR ''b''" "bucket_char CHR ''i''" "bucket_char CHR ''p''"
    by (simp_all add: bucket_char_def)
  have s1: "ok n1 \<and> 3 \<le> length n1 \<and> length n0 \<le> length n1" using b by (auto simp: ok_def assms(2,3) list_all_iff)
  have s2: "ok n2 \<and> 3 \<le> length n2 \<and> length n0 \<le> length n2 \<and> hd n2 \<notin> {CHR ''.'', CHR ''-''} \<and> \<not> prefix ''xn--'' n2"
  proof (cases "prefix ''xn--'' n1 \<or> hd n1 = CHR ''.'' \<or> hd n1 = CHR ''-''")
    case True
    have "\<not> prefix ''xn--'' (CHR ''x'' # n1)" using True by (cases n1) (auto simp: prefix_def)
    then show ?thesis using True s1 b by (auto simp: assms(4) ok_def)
  qed (use s1 in \<open>auto simp: assms(4)\<close>)
  then have s3: "ok n3 \<and> 3 \<le> length n3 \<and> length n0 \<le> length n3 \<and> hd n3 \<notin> {CHR ''.'', CHR ''-''} \<and>
      last n3 \<notin> {CHR ''.'', CHR ''-''} \<and> \<not> prefix ''xn--'' n3"
    using b by (cases n2) (auto simp: assms(5) ok_def prefix_Cons prefix_append)
  have nip: "\<not> is_ip_address (''ip-'' @ n)" for n
  proof -
    obtain o1 os where "str_split CHR ''.'' (''ip-'' @ n) = (CHR ''i'' # o1) # os"
      by (cases "str_split CHR ''.'' (CHR ''p'' # CHR ''-'' # n)") auto
    then show ?thesis by (simp add: is_ip_address_def Let_def is_octet_def is_digit_def)
  qed
  have "ok n4 \<and> 3 \<le> length n4 \<and> hd n4 \<notin> {CHR ''.'', CHR ''-''} \<and> last n4 \<notin> {CHR ''.'', CHR ''-''} \<and>
      \<not> prefix ''xn--'' n4 \<and> \<not> is_ip_address n4 \<and> length n0 \<le> length n4"
    using s3 nip b by (auto simp: assms(6) ok_def)
  then show "ok n4" "3 \<le> length n4" "hd n4 \<notin> {CHR ''.'', CHR ''-''}" "last n4 \<notin> {CHR ''.'', CHR ''-''}"
    "\<not> prefix ''xn--'' n4" "\<not> is_ip_address n4" "length n0 \<le> length n4" by auto
qed

lemma bucket_name_base_eq:
  "\<exists>n. bucket_name_base base = take 63 n \<and> list_all bucket_char n \<and> 3 \<le> length n \<and>
     hd n \<notin> {CHR ''.'', CHR ''-''} \<and> last n \<notin> {CHR ''.'', CHR ''-''} \<and> \<not> prefix ''xn--'' n \<and>
     \<not> is_ip_address n \<and> length base \<le> length n"
proof -
  define n0 where "n0 = map (\<lambda>c. if bucket_char c then c else CHR ''-'') base"
  define n1 where "n1 = (if length n0 < 3 then ''b--'' @ n0 else n0)"
  define n2 where "n2 = (if prefix ''xn--'' n1 \<or> hd n1 = CHR ''.'' \<or> hd n1 = CHR ''-'' then CHR ''x'' # n1 else n1)"
  define n3 where "n3 = (if last n2 = CHR ''.'' \<or> last n2 = CHR ''-'' then n2 @ ''x'' else n2)"
  define n4 where "n4 = (if is_ip_address n3 then ''ip-'' @ n3 else n3)"
  note st = bucket_name_stages[OF n0_def n1_def n2_def n3_def n4_def]
  have "bucket_name_base base = take 63 n4"
    unfolding bucket_name_base_def Let_def n0_def[symmetric] n1_def[symmetric] n2_def[symmetric] n3_def[symmetric]
      n4_def[symmetric] by simp
  with st show ?thesis by (auto simp: n0_def)
qed

text \<open>A dotted address has at most fifteen characters.\<close>

lemma is_ip_address_length: "is_ip_address s \<Longrightarrow> length s \<le> 15"
proof -
  assume ip: "is_ip_address s"
  let ?os = "str_split CHR ''.'' s"
  have len: "length ?os = 4" and oct: "\<forall>x \<in> set ?os. length x \<le> 3"
    using ip by (auto simp: is_ip_address_def Let_def list_all_iff is_octet_def)
  have join: "length (str_join ''.'' os) + 1 \<le> 4 * length os" if "os \<noteq> []" "\<forall>x \<in> set os. length x \<le> 3" for os
    using that
  proof (induction os)
    case (Cons x os)
    then show ?case by (cases os) auto
  qed simp
  show ?thesis
    using join[OF _ oct] str_join_split[of "CHR ''.''" s] len by simp
qed

section \<open>Users\<close>

text \<open>
  What the code relies on of the \<open>mcli admin user\<close> commands, for an observation \<open>users\<close> of the server:
  a command that succeeds adds or removes the user, one that fails changes nothing, and no other
  command touches the users.
\<close>

definition mcli_users_spec :: "'w minio_api \<Rightarrow> ('w \<Rightarrow> string set) \<Rightarrow> bool" where
  "mcli_users_spec api users \<longleftrightarrow>
     (\<forall>a u p w. users (snd (mcli api (mcli_base @ [''admin'', ''user'', ''add'', a, u, p]) w)) =
        (if is_ok (fst (mcli api (mcli_base @ [''admin'', ''user'', ''add'', a, u, p]) w)) then insert u (users w) else users w)) \<and>
     (\<forall>a u w. users (snd (mcli api (mcli_base @ [''admin'', ''user'', ''remove'', a, u]) w)) =
        (if is_ok (fst (mcli api (mcli_base @ [''admin'', ''user'', ''remove'', a, u]) w)) then users w - {u} else users w)) \<and>
     (\<forall>x args w. x \<noteq> ''user'' \<longrightarrow> users (snd (mcli api (mcli_base @ ''admin'' # x # args) w)) = users w)"

lemma run_mcli_snd: "snd (run_mcli api args w) = snd (mcli api (mcli_base @ args) w)"
  by (cases "mcli api (mcli_base @ args) w"; cases "fst (mcli api (mcli_base @ args) w)")
     (auto simp: run_mcli_def act_bind_def act_return_def)

lemma run_mcli_ok: "is_ok (fst (run_mcli api args w)) = is_ok (fst (mcli api (mcli_base @ args) w))"
  by (cases "mcli api (mcli_base @ args) w"; cases "fst (mcli api (mcli_base @ args) w)")
     (auto simp: run_mcli_def act_bind_def act_return_def)

lemma users_add:
  assumes "mcli_users_spec api users" "mc_alias c = Some a"
  shows "users (snd (add_user api c u p w)) = (if is_ok (fst (add_user api c u p w)) then insert u (users w) else users w)"
  using assms by (simp add: add_user_def with_alias_def run_mcli_snd run_mcli_ok mcli_users_spec_def)

lemma users_remove:
  assumes "mcli_users_spec api users" "mc_alias c = Some a"
  shows "users (snd (remove_user api c u w)) = (if is_ok (fst (remove_user api c u w)) then users w - {u} else users w)"
  using assms by (simp add: remove_user_def with_alias_def run_mcli_snd run_mcli_ok mcli_users_spec_def)

lemma users_other:
  "mcli_users_spec api users \<Longrightarrow> x \<noteq> ''user'' \<Longrightarrow> users (snd (run_mcli api (''admin'' # x # args) w)) = users w"
  by (simp add: run_mcli_snd mcli_users_spec_def)

text \<open>Actions the users of the server do not notice.\<close>

definition same_users :: "('w \<Rightarrow> string set) \<Rightarrow> 'w \<Rightarrow> 'w \<Rightarrow> bool" where
  "same_users users w w' \<longleftrightarrow> users w' = users w"

interpretation users: act_preorder "same_users users"
  by unfold_locales (auto simp: same_users_def)

lemma users_policy:
  assumes "mcli_users_spec api users" "mc_alias c = Some a"
  shows "act_within (same_users users) (apply_user_policy api c n u ss)"
proof -
  have "act_within (same_users users) (run_mcli api (''admin'' # ''policy'' # args))" for args
    using users_other[OF assms(1), of "''policy''"] by (simp add: act_within_def same_users_def)
  then show ?thesis
    by (auto simp: apply_user_policy_def with_alias_def assms(2) intro!: users.within_bind)
qed

lemma users_groups:
  assumes "mcli_users_spec api users" "mc_alias c = Some a"
  shows "act_within (same_users users) (act_iter (\<lambda>g. add_user_to_group api c u g) gs)"
  using users_other[OF assms(1), of "''group''"]
  by (intro users.within_iter) (auto simp: add_user_to_group_def with_alias_def assms(2) act_within_def same_users_def)

section \<open>The policy of an owner\<close>

definition allow_stmt :: "string \<Rightarrow> string list \<Rightarrow> MinIOPolicyStatement" where
  "allow_stmt bucket ips = policy_statement\<lparr>ps_buckets := [bucket], ps_source_ips := Some ips\<rparr>"

definition deny_stmt :: "string list \<Rightarrow> MinIOPolicyStatement" where
  "deny_stmt ips = policy_statement\<lparr>ps_allow := False, ps_not_source_ips := Some ips\<rparr>"

lemma stmt_fields [simp]:
  "ps_actions (allow_stmt b ips) = [''s3:*'']" "ps_actions (deny_stmt ips) = [''s3:*'']"
  "ps_allow (allow_stmt b ips)" "\<not> ps_allow (deny_stmt ips)"
  "ps_source_ips (allow_stmt b ips) = Some ips" "ps_not_source_ips (allow_stmt b ips) = None"
  "ps_source_ips (deny_stmt ips) = None" "ps_not_source_ips (deny_stmt ips) = Some ips"
  by (simp_all add: allow_stmt_def deny_stmt_def policy_statement_def)

lemma owner_policy_stmts: "owner_policy b ips = allow_stmt b ips # (if ips \<noteq> [] then [deny_stmt ips] else [])"
  by (simp add: owner_policy_def allow_stmt_def deny_stmt_def)

lemma any_s3_action: "list_ex (\<lambda>a. glob a x) [''s3:*''] \<longleftrightarrow> prefix ''s3:'' x"
  using glob_s3_any[of x] by (simp del: glob.simps)

lemma allow_stmt_matches:
  assumes "CHR ''*'' \<notin> set b"
  shows "statement_matches ip_in rq (allow_stmt b ips) \<longleftrightarrow>
    prefix ''s3:'' (rq_action rq) \<and> in_bucket b (rq_resource rq) \<and> (ips = [] \<or> list_ex (ip_in (rq_ip rq)) ips)"
proof -
  have res: "list_ex (\<lambda>r. glob r (rq_resource rq)) (statement_resources (allow_stmt b ips)) \<longleftrightarrow> in_bucket b (rq_resource rq)"
    unfolding allow_stmt_def by (rule glob_arn[OF assms])
  show ?thesis
    unfolding statement_matches_def res stmt_fields any_s3_action nonempty_def option.case option.sel by blast
qed

lemma deny_stmt_matches:
  assumes "prefix ''arn:aws:s3:::'' (rq_resource rq)"
  shows "statement_matches ip_in rq (deny_stmt ips) \<longleftrightarrow>
    prefix ''s3:'' (rq_action rq) \<and> (ips = [] \<or> \<not> list_ex (ip_in (rq_ip rq)) ips)"
proof -
  have res: "list_ex (\<lambda>r. glob r (rq_resource rq)) (statement_resources (deny_stmt ips))"
    unfolding deny_stmt_def by (rule glob_arn_any[OF assms])
  show ?thesis
    unfolding statement_matches_def stmt_fields any_s3_action nonempty_def option.case option.sel using res by blast
qed

lemma owner_policy_allows:
  "policy_allows ip_in (owner_policy b ips @ os) rq \<longleftrightarrow>
      (statement_matches ip_in rq (allow_stmt b ips) \<or> list_ex (\<lambda>s. ps_allow s \<and> statement_matches ip_in rq s) os) \<and>
      \<not> (ips \<noteq> [] \<and> statement_matches ip_in rq (deny_stmt ips) \<or> list_ex (\<lambda>s. \<not> ps_allow s \<and> statement_matches ip_in rq s) os)"
  by (simp add: policy_allows_def owner_policy_stmts)

section \<open>Properties\<close>



text \<open>
  Bucket names: whatever the machine and job are called, the name computed for a bucket has
  3 to 63 characters among lower case letters, digits, dots and hyphens, starts with a letter or
  digit, does not start with \<open>xn--\<close> and is not an address; and it ends with a letter or
  digit unless it was cut at 63 characters.
\<close>

theorem bucket_name_valid:
  "let name = bucket_name_base base
   in list_all bucket_char name \<and> 3 \<le> length name \<and> length name \<le> 63 \<and>
      hd name \<notin> {CHR ''.'', CHR ''-''} \<and> \<not> prefix ''xn--'' name \<and> \<not> is_ip_address name \<and>
      (length name < 63 \<longrightarrow> last name \<notin> {CHR ''.'', CHR ''-''})"
proof -
  obtain n where n: "bucket_name_base base = take 63 n" "list_all bucket_char n" "3 \<le> length n"
    "hd n \<notin> {CHR ''.'', CHR ''-''}" "last n \<notin> {CHR ''.'', CHR ''-''}" "\<not> prefix ''xn--'' n" "\<not> is_ip_address n"
    using bucket_name_base_eq[of base] by blast
  let ?t = "take 63 n"
  have "list_all bucket_char ?t" using n(2) by (auto simp: list_all_iff dest: in_set_takeD)
  moreover have "hd ?t = hd n" using n(3) by (cases n) auto
  moreover have "\<not> prefix ''xn--'' ?t" using n(6) take_is_prefix[of 63 n] by (meson prefix_order.trans)
  moreover have "\<not> is_ip_address ?t"
    using n(7) is_ip_address_length[of ?t] by (cases "length n \<le> 63") auto
  moreover have "length ?t < 63 \<longrightarrow> last ?t \<notin> {CHR ''.'', CHR ''-''}" using n(5) by auto
  ultimately show ?thesis using n by (auto simp: Let_def)
qed

theorem bucket_name_valid_witness:
  "last (bucket_name_base ''job-52:54:00-'') \<notin> {CHR ''.'', CHR ''-''} \<and> length (bucket_name_base ''job-52:54:00-'') < 63"
proof -
  have "bucket_name_base ''job-52:54:00-'' = ''job-52-54-00-x''" by code_simp
  then have "length (bucket_name_base ''job-52:54:00-'') < 63" by simp
  with bucket_name_valid[of "''job-52:54:00-''"] show ?thesis unfolding Let_def by blast
qed

text \<open>
  C16. No user is left behind when the credentials of a bucket cannot be set up: if applying the
  policy fails and the clean-up command succeeds, the error is passed on, the server has the
  users it had before (the new one had a fresh name), and a success adds exactly the new user.
\<close>

theorem credentials_no_leaked_user:
  assumes spec: "mcli_users_spec api users" and al: "mc_alias (jb_minio b) = Some a"
    and user: "user = (case user_name of None \<Rightarrow> jb_name b @ ''-'' @ role | Some u \<Rightarrow> u)" "user \<notin> users w"
    and add: "add_user api (jb_minio b) user (case password of None \<Rightarrow> token | Some p \<Rightarrow> p) w = (Inr (), w1)"
    and pol: "apply_user_policy api (jb_minio b) (''policy_'' @ user) user
        (owner_policy (jb_name b) (case ips of None \<Rightarrow> [] | Some i \<Rightarrow> i)) w1 = (r, w2)"
    and rem: "is_ok (fst (remove_user api (jb_minio b) user w2))"
  shows "case create_owner_credentials api token b role user_name password groups ips w of
      (res, w') \<Rightarrow> (case r of Inl e \<Rightarrow> res = Inl e \<and> users w' = users w | Inr _ \<Rightarrow> users w' = insert user (users w))"
proof -
  have w1: "users w1 = insert user (users w)" using users_add[OF spec al, of user _ w] add by (metis fst_conv is_ok_simps(1) snd_conv)
  have w2: "users w2 = users w1"
    using users.withinD[OF users_policy[OF spec al], of w1] pol by (metis same_users_def snd_conv)
  show ?thesis
  proof (cases r)
    case (Inl e)
    obtain x w3 where rm: "remove_user api (jb_minio b) user w2 = (Inr x, w3)"
      using rem by (metis is_ok_iff prod.collapse)
    have "users w3 = users w" using users_remove[OF spec al, of user w2] rm w1 w2 user(2) by simp
    then show ?thesis
      using add pol rm Inl
      by (simp add: create_owner_credentials_def Let_def user(1)[symmetric] act_bind_def act_catch_def act_raise_def)
  next
    case (Inr x)
    obtain r3 w3 where gs: "act_iter (\<lambda>g. add_user_to_group api (jb_minio b) user g) (case groups of None \<Rightarrow> [] | Some g \<Rightarrow> g) w2 = (r3, w3)"
      by fastforce
    have "users w3 = users w2"
      using users.withinD[OF users_groups[OF spec al], of w2] gs by (metis same_users_def snd_conv)
    then show ?thesis
      using add pol gs Inr w1 w2
      by (cases r3) (simp_all add: create_owner_credentials_def Let_def user(1)[symmetric] act_bind_def act_catch_def act_return_def)
  qed
qed

text \<open>A server that keeps its users and refuses every policy.\<close>

definition no_policy_server :: "string set minio_api" where
  "no_policy_server =
     \<lparr>mcli = (\<lambda>cmd us.
        (case drop 3 cmd of
           [x1, x2, x3, al, u, p] \<Rightarrow> if [x1, x2, x3] = [''admin'', ''user'', ''add''] then (Inr [], insert u us)
                                      else (Inl CalledProcessError, us)
         | [x1, x2, x3, al, u] \<Rightarrow> if [x1, x2, x3] = [''admin'', ''user'', ''remove''] then (Inr [], us - {u})
                                   else (Inl CalledProcessError, us)
         | _ \<Rightarrow> (Inl CalledProcessError, us))),
      api_make_bucket = (\<lambda>_. act_return ()), api_put_object = (\<lambda>_ _ _ _. act_return ()),
      api_save = (\<lambda>_ _ _. act_return ()), check_bucket_name = (\<lambda>_. Inr ())\<rparr>"

theorem credentials_no_leaked_user_witness:
  "case create_owner_credentials no_policy_server ''secret''
      \<lparr>jb_minio = \<lparr>mc_url = ''http://ci-gateway:9000'', mc_user = ''root'', mc_secret_key = ''pw'', mc_alias = Some ''local''\<rparr>,
       jb_name = ''job-1'', jb_credentials = [], jb_tarball = None\<rparr> ''dut'' None None None None {''root''} of
     (res, users') \<Rightarrow> res = Inl CalledProcessError \<and> users' = {''root''}"
proof -
  let ?c = "\<lparr>mc_url = ''http://ci-gateway:9000'', mc_user = ''root'', mc_secret_key = ''pw'', mc_alias = Some ''local''\<rparr>"
  let ?b = "\<lparr>jb_minio = ?c, jb_name = ''job-1'', jb_credentials = [], jb_tarball = None\<rparr>"
  have spec: "mcli_users_spec no_policy_server (\<lambda>us. us)"
    unfolding mcli_users_spec_def no_policy_server_def mcli_base_def by (auto split: list.splits)
  have add: "add_user no_policy_server (jb_minio ?b) ''job-1-dut'' (case None of None \<Rightarrow> ''secret'' | Some p \<Rightarrow> p) {''root''}
      = (Inr (), {''job-1-dut'', ''root''})"
    by (simp add: add_user_def with_alias_def run_mcli_def no_policy_server_def mcli_base_def act_defs)
  have pol: "apply_user_policy no_policy_server (jb_minio ?b) (''policy_'' @ ''job-1-dut'') ''job-1-dut''
      (owner_policy (jb_name ?b) (case None of None \<Rightarrow> [] | Some i \<Rightarrow> i)) {''job-1-dut'', ''root''}
      = (Inl CalledProcessError, {''job-1-dut'', ''root''})"
    by (simp add: apply_user_policy_def with_alias_def run_mcli_def no_policy_server_def mcli_base_def act_defs)
  have rem: "is_ok (fst (remove_user no_policy_server (jb_minio ?b) ''job-1-dut'' {''job-1-dut'', ''root''}))"
    by (simp add: remove_user_def with_alias_def run_mcli_def no_policy_server_def mcli_base_def act_defs)
  have al: "mc_alias (jb_minio ?b) = Some ''local''" by simp
  have user: "''job-1-dut'' = (case None of None \<Rightarrow> jb_name ?b @ ''-'' @ ''dut'' | Some u \<Rightarrow> u)" "''job-1-dut'' \<notin> {''root''}"
    by simp_all
  from credentials_no_leaked_user[OF spec al user add pol rem, of None]
  show ?thesis by (simp only: sum.case)
qed

end
