(* ===== verification/VPDU.thy ===== *)
theory VPDU
  imports PDU
begin

unbundle bit_operations_syntax

text \<open>
  The virtual PDU: the server of \<open>ansible/roles/vpdu/files/vpdu.py\<close>, which runs one virtual
  machine per outlet, and the driver \<open>pdu/drivers/virtual.py\<close> that talks to it with four-byte
  commands. The driver composed with the server is shown to be a \<open>pdu_driver\<close>.
\<close>

section \<open>Wire format\<close>

definition to_bytes4 :: "int \<Rightarrow> byte list res" where
  "to_bytes4 i =
     (if 0 \<le> i \<and> i < 4294967296
      then Inr [of_int (i div 16777216), of_int (i div 65536 mod 256), of_int (i div 256 mod 256), of_int (i mod 256)]
      else Inl OverflowError)"

definition from_bytes :: "byte list \<Rightarrow> int" where
  "from_bytes bs = foldl (\<lambda>a b. a * 256 + uint b) 0 bs"

section \<open>The server\<close>

datatype PowerState = POWER_ON | POWER_OFF | POWER_ERROR

primrec PowerState_value :: "PowerState \<Rightarrow> int" where
  "PowerState_value POWER_ON = 3"
| "PowerState_value POWER_OFF = 4"
| "PowerState_value POWER_ERROR = 5"

record outlet =
  out_mac :: string
  out_disk :: string
  out_monitor_port :: nat
  out_state :: PowerState
  out_instance :: "nat option"

text \<open>
  The server's state: its outlets, the shutdown request, the number of the next virtual machine
  and whether the host can start \<open>qemu\<close> and \<open>tmux\<close> (spawning raises \<open>OSError\<close> otherwise).
\<close>

record vpdu =
  outlets :: "outlet list"
  shutdown_request :: bool
  next_dut :: nat
  can_spawn :: bool

definition gen_mac :: "nat \<Rightarrow> string" where
  "gen_mac index =
     ''52:54:00:11:22:'' @ (let h = show_base 16 index in if length h < 2 then ''0'' @ h else h)"

definition get_disk :: "string \<Rightarrow> nat \<Rightarrow> string" where
  "get_disk vpdu_dir index = vpdu_dir @ ''/dut_disk'' @ show_nat index @ ''.qcow2''"

definition vpdu_init :: "string \<Rightarrow> nat \<Rightarrow> vpdu" where
  "vpdu_init vpdu_dir num_ports =
     \<lparr>outlets = map (\<lambda>i. \<lparr>out_mac = gen_mac i, out_disk = get_disk vpdu_dir i,
                          out_monitor_port = 4444 + i, out_state = POWER_OFF, out_instance = None\<rparr>)
                    [0..<num_ports],
      shutdown_request = False, next_dut = 0, can_spawn = True\<rparr>"

definition DUT_new :: "(vpdu, nat) act" where
  "DUT_new s = (if can_spawn s then (Inr (next_dut s), s\<lparr>next_dut := Suc (next_dut s)\<rparr>) else (Inl OSError, s))"

definition set_outlet :: "nat \<Rightarrow> outlet \<Rightarrow> vpdu \<Rightarrow> vpdu" where
  "set_outlet i m s = s\<lparr>outlets := (outlets s)[i := m]\<rparr>"

text \<open>\<open>PDUTCPHandler.handle\<close>: what it writes back, or the exception it raises.\<close>

definition handle :: "byte list \<Rightarrow> (vpdu, byte list) act" where
  "handle data s =
     (if length data \<noteq> 4 then (Inr [0], s)
      else
        let payload = from_bytes data;
            cmd = payload AND 0x03;
            port = drop_bit 2 (payload AND 0x1FFC);
            shutdown = (payload AND 0x2000 = 0x2000);
            reserved = drop_bit 13 (payload AND 0xFFFFC000)
        in if reserved \<noteq> 0 then (Inl AssertionError, s)
           else
             let s = (if shutdown then s\<lparr>shutdown_request := True\<rparr> else s)
             in if \<not> (port \<ge> 0 \<and> port < int (length (outlets s))) then (Inr [0], s)
                else
                  let i = nat port; machine = outlets s ! i
                  in if cmd AND 0x03 = 3 then (Inr [of_int (PowerState_value (out_state machine))], s)
                     else if cmd AND 0x01 \<noteq> 0 then
                       (if out_state machine = POWER_ON then (Inr [1], s)
                        else case DUT_new s of
                               (Inl e, s) \<Rightarrow> (Inl e, s)
                             | (Inr n, s) \<Rightarrow>
                                 (Inr [1], set_outlet i (machine\<lparr>out_instance := Some n, out_state := POWER_ON\<rparr>) s))
                     else if cmd AND 0x02 \<noteq> 0 then
                       (if out_state machine = POWER_OFF then (Inr [1], s)
                        else if out_instance machine = None then (Inl AssertionError, s)
                        else (Inr [1], set_outlet i (machine\<lparr>out_state := POWER_OFF\<rparr>) s))
                     else if length (outlets s) < 256 then (Inr [of_nat (length (outlets s))], s)
                     else (Inl StructError, s))"

text \<open>
  One connection: \<open>socketserver\<close> closes it when the handler raises, so the client reads
  nothing; once a shutdown was requested the server stops accepting connections.
\<close>

definition vpdu_exchange :: "byte list \<Rightarrow> (vpdu, byte list) act" where
  "vpdu_exchange data s =
     (if shutdown_request s then (Inl OSError, s)
      else case handle (take 4 data) s of
             (Inl _, s') \<Rightarrow> (Inr [], s')
           | (Inr reply, s') \<Rightarrow> (Inr reply, s'))"

section \<open>The driver\<close>

definition recv1 :: "byte list \<Rightarrow> byte res" where
  "recv1 reply = (case reply of [] \<Rightarrow> Inl IndexError | b # _ \<Rightarrow> Inr b)"

definition vpdu_command :: "int \<Rightarrow> (vpdu, byte) act" where
  "vpdu_command cmd = act_bind (act_lift (to_bytes4 cmd))
     (\<lambda>bs. act_bind (vpdu_exchange bs) (\<lambda>reply. act_lift (recv1 reply)))"

definition expect_ack :: "byte \<Rightarrow> (vpdu, unit) act" where
  "expect_ack b = (if b = 1 then act_return () else act_raise AssertionError)"

definition VirtualPDU_num_ports :: "(vpdu, int) act" where
  "VirtualPDU_num_ports = act_bind (vpdu_command 0) (\<lambda>b. act_return (uint b))"

definition VirtualPDU_set_port_state :: "int \<Rightarrow> PDUState \<Rightarrow> (vpdu, unit) act" where
  "VirtualPDU_set_port_state pid state =
     act_bind
       (if state = PDU_OFF \<or> state = PDU_REBOOT
        then act_bind (vpdu_command (push_bit 2 pid OR 0x02)) expect_ack else act_return ())
       (\<lambda>_. if state = PDU_ON \<or> state = PDU_REBOOT
            then act_bind (vpdu_command (push_bit 2 pid OR 0x01)) expect_ack else act_return ())"

definition VirtualPDU_get_port_state :: "int \<Rightarrow> (vpdu, PDUState) act" where
  "VirtualPDU_get_port_state pid =
     act_bind (vpdu_command (push_bit 2 pid OR 0x03))
       (\<lambda>b. if b = 3 then act_return PDU_ON
            else if b = 4 then act_return PDU_OFF
            else if b = 5 then act_return PDU_UNKNOWN
            else act_raise AssertionError)"

section \<open>Properties of the wire format\<close>

lemma to_bytes4_length: "to_bytes4 i = Inr bs \<Longrightarrow> length bs = 4"
  by (auto simp: to_bytes4_def split: if_splits)

lemma uint_of_int_byte: "0 \<le> x \<Longrightarrow> x < 256 \<Longrightarrow> uint (of_int x :: byte) = x"
  by (simp add: uint_word_of_int_eq take_bit_int_eq_self_iff)

lemma from_to_bytes4:
  assumes "to_bytes4 i = Inr bs"
  shows "from_bytes bs = i"
proof -
  from assms have r: "0 \<le> i" "i < 4294967296"
    and bs: "bs = [of_int (i div 16777216), of_int (i div 65536 mod 256), of_int (i div 256 mod 256), of_int (i mod 256)]"
    by (auto simp: to_bytes4_def split: if_splits)
  have "uint (of_int (i div 16777216) :: byte) = i div 16777216"
    using r by (intro uint_of_int_byte) auto
  moreover have "uint (of_int (i div 65536 mod 256) :: byte) = i div 65536 mod 256"
    by (intro uint_of_int_byte) auto
  moreover have "uint (of_int (i div 256 mod 256) :: byte) = i div 256 mod 256"
    by (intro uint_of_int_byte) auto
  moreover have "uint (of_int (i mod 256) :: byte) = i mod 256"
    by (intro uint_of_int_byte) auto
  ultimately have "from_bytes bs =
      ((i div 16777216 * 256 + i div 65536 mod 256) * 256 + i div 256 mod 256) * 256 + i mod 256"
    by (simp add: from_bytes_def bs)
  also have "i div 65536 = i div 256 div 256" by (simp add: zdiv_zmult2_eq[symmetric])
  also have "i div 16777216 = i div 256 div 256 div 256" by (simp add: zdiv_zmult2_eq[symmetric])
  also have "((i div 256 div 256 div 256 * 256 + i div 256 div 256 mod 256) * 256 + i div 256 mod 256) * 256
      + i mod 256 = i" by (simp only: div_mult_mod_eq)
  finally show ?thesis .
qed

text \<open>The fields the server extracts from a command for port \<open>p\<close> with operation \<open>c\<close>.\<close>

lemma push_or_op:
  fixes p :: int
  shows "push_bit 2 p OR 1 = 4 * p + 1" "push_bit 2 p OR 2 = 4 * p + 2" "push_bit 2 p OR 3 = 4 * p + 3"
  by (simp_all add: push_bit_eq_mult or_int_rec[of "p * 4"] or_int_rec[of "2 * p"])

lemma and_3: "x AND 3 = x mod 4" for x :: int
proof -
  have "x AND 3 = take_bit 2 x" by (simp add: take_bit_eq_mask mask_eq_exp_minus_1)
  then show ?thesis by (simp add: take_bit_eq_mod)
qed

lemma port_field: "drop_bit 2 (x AND 0x1FFC) = x div 4 mod 2048" for x :: int
proof -
  have "drop_bit 2 (x AND 0x1FFC) = drop_bit 2 x AND 2047" by (simp add: drop_bit_and)
  also have "\<dots> = take_bit 11 (drop_bit 2 x)" by (simp add: take_bit_eq_mask mask_eq_exp_minus_1)
  finally show ?thesis by (simp add: take_bit_eq_mod drop_bit_eq_div)
qed

lemma and_exp: "x AND 2 ^ n = (if bit x n then 2 ^ n else 0)" for x :: int
  by (rule bit_eqI) (auto simp: bit_simps)

lemma shutdown_field: "x AND 0x2000 = 0x2000 \<longleftrightarrow> odd (x div 8192)" for x :: int
  using and_exp[of x 13] by (simp add: bit_iff_odd)

lemma reserved_field: "0 \<le> x \<Longrightarrow> x < 16384 \<Longrightarrow> drop_bit 13 (x AND 0xFFFFC000) = 0" for x :: int
proof -
  assume "0 \<le> x" "x < 16384"
  then have "x div 8192 = 0 \<or> x div 8192 = 1" by auto
  moreover have "drop_bit 13 (x AND 0xFFFFC000) = drop_bit 13 x AND drop_bit 13 0xFFFFC000"
    by (rule drop_bit_and)
  then have "drop_bit 13 (x AND 0xFFFFC000) = x div 8192 AND 0x7FFFE"
    by (simp add: drop_bit_eq_div)
  ultimately show ?thesis by auto
qed

section \<open>The driver over the server\<close>

text \<open>What the server does for a command word with port field \<open>p\<close> and operation \<open>c\<close>.\<close>

definition outlet_op :: "int \<Rightarrow> nat \<Rightarrow> (vpdu, byte list) act" where
  "outlet_op c i s =
     (if \<not> i < length (outlets s) then (Inr [0], s)
      else
        let machine = outlets s ! i
        in if c = 3 then (Inr [of_int (PowerState_value (out_state machine))], s)
           else if c = 1 then
             (if out_state machine = POWER_ON then (Inr [1], s)
              else if can_spawn s then
                (Inr [1], s\<lparr>next_dut := Suc (next_dut s),
                            outlets := (outlets s)[i := machine\<lparr>out_instance := Some (next_dut s), out_state := POWER_ON\<rparr>]\<rparr>)
              else (Inl OSError, s))
           else if c = 2 then
             (if out_state machine = POWER_OFF then (Inr [1], s)
              else if out_instance machine = None then (Inl AssertionError, s)
              else (Inr [1], s\<lparr>outlets := (outlets s)[i := machine\<lparr>out_state := POWER_OFF\<rparr>]\<rparr>))
           else if length (outlets s) < 256 then (Inr [of_nat (length (outlets s))], s)
           else (Inl StructError, s))"

lemma op_bits: "(c AND 3 :: int) = c" "(c AND 1 \<noteq> 0) = (c = 1 \<or> c = 3)" "(c AND 2 \<noteq> 0) = (c = 2 \<or> c = 3)"
  if "c \<in> {0, 1, 2, 3}"
  using that by auto

lemma handle_command:
  assumes "to_bytes4 (4 * (p + 2048 * k) + c) = Inr bs" "0 \<le> p" "p < 2048" "c \<in> {0, 1, 2, 3}" "k = 0 \<or> k = 1"
  shows "handle bs s = outlet_op c (nat p) (if k = 1 then s\<lparr>shutdown_request := True\<rparr> else s)"
proof -
  let ?x = "4 * (p + 2048 * k) + c"
  have x: "from_bytes bs = ?x" by (rule from_to_bytes4[OF assms(1)])
  have "?x mod 4 = c mod 4" by (simp add: mod_add_eq[symmetric])
  then have cmd: "?x AND 3 = c" using assms(4) by (auto simp only: and_3 insert_iff empty_iff) auto
  have "?x div 4 = p + 2048 * k" using assms(4) by auto
  then have port: "drop_bit 2 (?x AND 0x1FFC) = p" using assms(2,3) by (simp only: port_field) simp
  have "?x div 8192 = k" using assms(2-5) by auto
  then have sh: "(?x AND 0x2000 = 0x2000) = (k = 1)"
    by (simp only: shutdown_field) (use assms(5) in auto)
  have res: "drop_bit 13 (?x AND 0xFFFFC000) = 0"
    using assms(2-5) by (intro reserved_field) auto
  have "handle bs s = (let s = (if k = 1 then s\<lparr>shutdown_request := True\<rparr> else s) in
      if \<not> (p \<ge> 0 \<and> p < int (length (outlets s))) then (Inr [0], s)
      else outlet_op c (nat p) s)"
    unfolding handle_def Let_def x cmd port sh res
    using to_bytes4_length[OF assms(1)] assms(2)
    by (simp add: op_bits[OF assms(4)] outlet_op_def DUT_new_def set_outlet_def Let_def nat_less_iff)
  also have "\<dots> = outlet_op c (nat p) (if k = 1 then s\<lparr>shutdown_request := True\<rparr> else s)"
    using assms(2) by (auto simp: Let_def outlet_op_def nat_less_iff)
  finally show ?thesis .
qed

lemma command_in_range: "0 \<le> p \<Longrightarrow> p < 4096 \<Longrightarrow> 0 \<le> c \<Longrightarrow> c < 4 \<Longrightarrow> \<exists>bs. to_bytes4 (4 * p + c) = Inr bs"
  by (simp add: to_bytes4_def)

lemma vpdu_command_op:
  assumes "0 \<le> p" "p < 2048" "c \<in> {0, 1, 2, 3}" "\<not> shutdown_request s"
  shows "vpdu_command (4 * p + c) s =
    (case outlet_op c (nat p) s of (Inl _, s') \<Rightarrow> (Inl IndexError, s') | (Inr bs, s') \<Rightarrow> (recv1 bs, s'))"
proof -
  obtain bs where bs: "to_bytes4 (4 * p + c) = Inr bs"
    using command_in_range[of p c] assms(1-3) by auto
  moreover have "handle bs s = outlet_op c (nat p) s"
    using handle_command[of p 0 c bs s] bs assms by simp
  moreover have "take 4 bs = bs" using to_bytes4_length[OF bs] by simp
  ultimately show ?thesis
    using assms(4)
    by (auto simp: vpdu_command_def vpdu_exchange_def py_defs recv1_def split: prod.splits sum.splits)
qed

text \<open>The outlets are consistent: a machine that is not off has a running instance.\<close>

definition vpdu_ok :: "vpdu \<Rightarrow> bool" where
  "vpdu_ok s = (\<not> shutdown_request s \<and> can_spawn s \<and> length (outlets s) \<le> 2048 \<and>
     (\<forall>m \<in> set (outlets s). out_state m \<noteq> POWER_OFF \<longrightarrow> out_instance m \<noteq> None))"

definition vpdu_has_port :: "vpdu \<Rightarrow> int \<Rightarrow> bool" where
  "vpdu_has_port s p = (0 \<le> p \<and> p < int (length (outlets s)))"

primrec power_to_pdu :: "PowerState \<Rightarrow> PDUState" where
  "power_to_pdu POWER_ON = PDU_ON"
| "power_to_pdu POWER_OFF = PDU_OFF"
| "power_to_pdu POWER_ERROR = PDU_UNKNOWN"

lemma VirtualPDU_get_eq:
  assumes "vpdu_ok s" "vpdu_has_port s p"
  shows "VirtualPDU_get_port_state p s = (Inr (power_to_pdu (out_state (outlets s ! nat p))), s)"
proof -
  have "vpdu_command (4 * p + 3) s = (Inr (of_int (PowerState_value (out_state (outlets s ! nat p)))), s)"
    using vpdu_command_op[of p 3 s] assms
    by (auto simp: vpdu_ok_def vpdu_has_port_def outlet_op_def recv1_def nat_less_iff Let_def)
  then show ?thesis
    by (cases "out_state (outlets s ! nat p)")
      (simp_all add: VirtualPDU_get_port_state_def push_or_op py_defs)
qed

text \<open>The outlet after a command, whether or not a virtual machine had to be started.\<close>

lemma VirtualPDU_set_eq:
  assumes "vpdu_ok s" "vpdu_has_port s p" "st = PDU_ON \<or> st = PDU_OFF"
  shows "\<exists>m n. VirtualPDU_set_port_state p st s = (Inr (), s\<lparr>outlets := (outlets s)[nat p := m], next_dut := n\<rparr>) \<and>
    power_to_pdu (out_state m) = st \<and> (out_state m \<noteq> POWER_OFF \<longrightarrow> out_instance m \<noteq> None)"
proof -
  let ?m = "outlets s ! nat p"
  have i: "nat p < length (outlets s)" using assms(2) by (auto simp: vpdu_has_port_def)
  then have inst: "out_state ?m \<noteq> POWER_OFF \<Longrightarrow> out_instance ?m \<noteq> None"
    using assms(1) nth_mem[OF i] by (auto simp: vpdu_ok_def)
  have p: "0 \<le> p" "p < 2048" and ns: "\<not> shutdown_request s" "can_spawn s"
    using assms(1,2) by (auto simp: vpdu_ok_def vpdu_has_port_def)
  have same: "s = s\<lparr>outlets := (outlets s)[nat p := ?m], next_dut := next_dut s\<rparr>" by simp
  show ?thesis
  proof (cases "power_to_pdu (out_state ?m) = st")
    case True
    then have "VirtualPDU_set_port_state p st s = (Inr (), s)"
      using assms(3) i p ns vpdu_command_op[of p 1 s] vpdu_command_op[of p 2 s]
      by (cases "out_state ?m")
        (auto simp: VirtualPDU_set_port_state_def push_or_op expect_ack_def py_defs outlet_op_def recv1_def Let_def)
    with True inst same show ?thesis by metis
  next
    case False
    let ?on = "?m\<lparr>out_instance := Some (next_dut s), out_state := POWER_ON\<rparr>"
    let ?off = "?m\<lparr>out_state := POWER_OFF\<rparr>"
    show ?thesis
    proof (cases "st = PDU_ON")
      case True
      with False have "out_state ?m \<noteq> POWER_ON" by auto
      then have "VirtualPDU_set_port_state p st s =
          (Inr (), s\<lparr>outlets := (outlets s)[nat p := ?on], next_dut := Suc (next_dut s)\<rparr>)"
        using True i p ns vpdu_command_op[of p 1 s]
        by (simp add: VirtualPDU_set_port_state_def push_or_op expect_ack_def py_defs outlet_op_def recv1_def)
      then show ?thesis using True by (intro exI[of _ ?on] exI[of _ "Suc (next_dut s)"]) simp
    next
      case off: False
      with assms(3) have st: "st = PDU_OFF" by simp
      with False have no: "out_state ?m \<noteq> POWER_OFF" by auto
      then have "VirtualPDU_set_port_state p st s =
          (Inr (), s\<lparr>outlets := (outlets s)[nat p := ?off], next_dut := next_dut s\<rparr>)"
        using st i p ns inst vpdu_command_op[of p 2 s]
        by (auto simp: VirtualPDU_set_port_state_def push_or_op expect_ack_def py_defs outlet_op_def recv1_def)
      then show ?thesis using st by (intro exI[of _ ?off] exI[of _ "next_dut s"]) simp
    qed
  qed
qed

lemma vpdu_ok_set:
  assumes "vpdu_ok s" "out_state m \<noteq> POWER_OFF \<longrightarrow> out_instance m \<noteq> None"
  shows "vpdu_ok (s\<lparr>outlets := (outlets s)[i := m], next_dut := n\<rparr>)"
  using assms set_update_subset_insert[of "outlets s" i m] by (auto simp: vpdu_ok_def)

interpretation vpdu: pdu_driver VirtualPDU_get_port_state VirtualPDU_set_port_state vpdu_ok vpdu_has_port
proof unfold_locales
  fix s p assume "vpdu_ok s" "vpdu_has_port s p"
  then show "\<exists>st. VirtualPDU_get_port_state p s = (Inr st, s)"
    by (simp add: VirtualPDU_get_eq)
next
  fix s p st assume ok: "vpdu_ok s" and hp: "vpdu_has_port s p" and st: "st = PDU_ON \<or> st = PDU_OFF"
  obtain m n where set: "VirtualPDU_set_port_state p st s = (Inr (), s\<lparr>outlets := (outlets s)[nat p := m], next_dut := n\<rparr>)"
      and m: "power_to_pdu (out_state m) = st" "out_state m \<noteq> POWER_OFF \<longrightarrow> out_instance m \<noteq> None"
    using VirtualPDU_set_eq[OF ok hp st] by blast
  define s' where "s' = s\<lparr>outlets := (outlets s)[nat p := m], next_dut := n\<rparr>"
  have ok': "vpdu_ok s'" unfolding s'_def by (rule vpdu_ok_set[OF ok m(2)])
  have hp': "vpdu_has_port s' q = vpdu_has_port s q" for q
    by (simp add: vpdu_has_port_def s'_def)
  have "VirtualPDU_get_port_state p s' = (Inr st, s')"
    using VirtualPDU_get_eq[OF ok', of p] hp hp' m(1)
    by (simp add: s'_def vpdu_has_port_def nat_less_iff)
  moreover have "fst (VirtualPDU_get_port_state q s') = fst (VirtualPDU_get_port_state q s)"
    if "vpdu_has_port s q" "q \<noteq> p" for q
    using that hp VirtualPDU_get_eq[OF ok', of q] VirtualPDU_get_eq[OF ok, of q] hp'
    by (auto simp: s'_def vpdu_has_port_def nat_eq_iff)
  ultimately show "\<exists>d'. VirtualPDU_set_port_state p st s = (Inr (), d') \<and> vpdu_ok d' \<and>
      (\<forall>q. vpdu_has_port d' q = vpdu_has_port s q) \<and> VirtualPDU_get_port_state p d' = (Inr st, d') \<and>
      (\<forall>q. vpdu_has_port s q \<longrightarrow> q \<noteq> p \<longrightarrow>
        fst (VirtualPDU_get_port_state q d') = fst (VirtualPDU_get_port_state q s))"
    using set ok' hp' by (intro exI[of _ s']) (simp add: s'_def[symmetric])
qed

lemma vpdu_init_ok: "n \<le> 2048 \<Longrightarrow> vpdu_ok (vpdu_init dir n)"
  by (auto simp: vpdu_init_def vpdu_ok_def)

section \<open>Properties\<close>

text \<open>
  The virtual PDU driver, run against the virtual PDU server, does what a PDU port is for:
  on a consistent server, setting an existing outlet to ON or OFF succeeds, the outlet then reads
  that state, every other outlet reads what it read before, and the server stays consistent.
\<close>

theorem virtual_pdu_set_get:
  assumes "vpdu_ok s" "vpdu_has_port s p" "st = PDU_ON \<or> st = PDU_OFF"
  shows "\<exists>s'. VirtualPDU_set_port_state p st s = (Inr (), s') \<and> vpdu_ok s' \<and>
    VirtualPDU_get_port_state p s' = (Inr st, s') \<and>
    (\<forall>q. vpdu_has_port s q \<longrightarrow> q \<noteq> p \<longrightarrow>
      fst (VirtualPDU_get_port_state q s') = fst (VirtualPDU_get_port_state q s))"
  using vpdu.set_total[OF assms] by blast

theorem virtual_pdu_set_get_witness:
  "vpdu_ok (vpdu_init [] 16) \<and> vpdu_has_port (vpdu_init [] 16) 2 \<and>
   (\<exists>s'. VirtualPDU_set_port_state 2 PDU_ON (vpdu_init [] 16) = (Inr (), s') \<and> vpdu_ok s' \<and>
    VirtualPDU_get_port_state 2 s' = (Inr PDU_ON, s'))"
proof -
  have ok: "vpdu_ok (vpdu_init [] 16)" by (simp add: vpdu_init_ok)
  have hp: "vpdu_has_port (vpdu_init [] 16) 2" by (simp add: vpdu_has_port_def vpdu_init_def)
  show ?thesis using ok hp virtual_pdu_set_get[OF ok hp, of PDU_ON] by auto
qed



text \<open>
  A port number that does not fit the eleven bits of the port field is not rejected: a
  command for port \<open>p + 2048\<close> makes the server accept a shutdown request and act on
  outlet \<open>p\<close>, although the comment in the handler announces that the bits above the port
  are checked to be zero.
\<close>

theorem vpdu_far_port_aliases:
  assumes "vpdu_ok s" "vpdu_has_port s p" "out_state (outlets s ! nat p) = POWER_OFF"
  shows "\<exists>s'. VirtualPDU_set_port_state (p + 2048) PDU_ON s = (Inr (), s') \<and>
    shutdown_request s' \<and> out_state (outlets s' ! nat p) = POWER_ON"
proof -
  have p: "0 \<le> p" "p < 2048" and i: "nat p < length (outlets s)" and ns: "\<not> shutdown_request s" "can_spawn s"
    using assms(1,2) by (auto simp: vpdu_ok_def vpdu_has_port_def)
  obtain bs where bs: "to_bytes4 (4 * (p + 2048) + 1) = Inr bs"
    using command_in_range[of "p + 2048" 1] p by auto
  have "handle bs s = outlet_op 1 (nat p) (s\<lparr>shutdown_request := True\<rparr>)"
    using handle_command[of p 1 1 bs s] bs p by simp
  then show ?thesis
    using bs to_bytes4_length[OF bs] i ns assms(3)
    by (simp add: VirtualPDU_set_port_state_def push_or_op vpdu_command_def vpdu_exchange_def py_defs
        outlet_op_def recv1_def expect_ack_def)
qed

theorem vpdu_far_port_aliases_witness:
  "\<exists>s'. VirtualPDU_set_port_state (3 + 2048) PDU_ON (vpdu_init [] 16) = (Inr (), s') \<and>
    shutdown_request s' \<and> out_state (outlets s' ! nat 3) = POWER_ON"
proof (rule vpdu_far_port_aliases)
  show "vpdu_ok (vpdu_init [] 16)" by (simp add: vpdu_init_ok)
qed (simp_all add: vpdu_has_port_def vpdu_init_def)

end
