(* ===== verification/Executor.thy ===== *)
theory Executor
  imports Job_Console Job_Desc Minio VPDU
begin

text \<open>
  The execution of a job (\<open>executor.py\<close>: \<open>Executor._cache_remote_artifacts\<close> and \<open>execute_job\<close>). The
  thread of the executor, the thread of the console and the REST interface share their state;
  each block of \<open>execute_job\<close> between two waits is an atomic action, selected by the program counter
  \<open>x_pc\<close>, and \<open>exec_trans\<close> interleaves these with the console, the clock, cancellations and losses of
  the client. The power of the machine goes through the \<open>PDUPort\<close> model with an arbitrary driver;
  its clock is the clock of the system.
\<close>

section \<open>Names and artifacts\<close>

datatype MachineState = WAIT_FOR_CONFIG | IDLE | TRAINING | QUEUED | RUNNING

definition str_to_int :: "string \<Rightarrow> int \<Rightarrow> int" where
  "str_to_int s dflt = (case py_int s of Inr i \<Rightarrow> i | Inl _ \<Rightarrow> dflt)"

record BootConfig =
  bc_kernel :: "string option"
  bc_initrd :: "string option"
  bc_cmdline :: "string option"

type_synonym url_cache = "(string option, string option) dict"

text \<open>
  Where an artifact will be fetched from, and what has to be downloaded for that: the entries of
  the cache and the \<open>save_boot_artifact\<close> calls (URL, object name). \<open>None\<close> is Python's \<open>None\<close>, which has
  no \<open>startswith\<close>.
\<close>

definition cache_it ::
  "string \<Rightarrow> string \<Rightarrow> string option \<Rightarrow> string option \<Rightarrow> string \<Rightarrow> url_cache \<Rightarrow> ((string option \<times> string) list \<times> url_cache) res" where
  "cache_it minio_url artifact_prefix start_url url sfx cache =
     (case url of
        None \<Rightarrow> Inl AttributeError
      | Some u \<Rightarrow>
          if prefix (minio_url @ ''/'') u then Inr ([], cache)
          else Inr ([(start_url, artifact_prefix @ ''-start'')],
                    dict_set url (Some (minio_url @ ''/boot/'' @ artifact_prefix @ ''-'' @ sfx)) cache))"

definition cache_remote_artifact ::
  "string \<Rightarrow> string \<Rightarrow> string \<Rightarrow> string option \<Rightarrow> string option \<Rightarrow> url_cache \<Rightarrow> ((string option \<times> string) list \<times> url_cache) res" where
  "cache_remote_artifact minio_url machine_id artifact_name start_url continue_url cache =
     (let artifact_prefix = artifact_name @ ''-'' @ machine_id;
          c1 = dict_set continue_url continue_url (dict_set start_url start_url cache)
      in res_bind (cache_it minio_url artifact_prefix start_url start_url ''start'' c1) (\<lambda>(s1, c2).
         if start_url \<noteq> continue_url
         then res_bind (cache_it minio_url artifact_prefix start_url continue_url ''continue'' c2)
                (\<lambda>(s2, c3). Inr (s1 @ s2, c3))
         else Inr (s1, c2)))"

definition cache_remote_artifacts ::
  "string \<Rightarrow> string \<Rightarrow> Job \<Rightarrow> url_cache \<Rightarrow> ((string option \<times> string) list \<times> url_cache) res" where
  "cache_remote_artifacts minio_url machine_id job cache =
     (let deploy_strt = deployment_start job; deploy_cnt = deployment_start job
      in res_bind (cache_remote_artifact minio_url machine_id ''kernel''
                     (kernel_url deploy_strt) (kernel_url deploy_cnt) cache) (\<lambda>(s1, c1).
         res_bind (cache_remote_artifact minio_url machine_id ''initramfs''
                     (initramfs_url deploy_strt) (initramfs_url deploy_cnt) c1) (\<lambda>(s2, c2).
           Inr (s1 @ s2, c2))))"

section \<open>Printing\<close>

text \<open>\<open>str(timedelta)\<close>\<close>

definition str_timedelta :: "time \<Rightarrow> string" where
  "str_timedelta t =
     (let days = t div us_per_day; s = t mod us_per_day div 1000000; us = t mod 1000000;
          d = (if days = 0 then [] else show_int days @ (if \<bar>days\<bar> = 1 then '' day, '' else '' days, ''))
      in d @ show_int (s div 3600) @ '':'' @ pad_digits 2 (nat (s mod 3600 div 60)) @ '':'' @ pad_digits 2 (nat (s mod 60)) @
         (if us = 0 then [] else ''.'' @ pad_digits 6 (nat us)))"

definition str_opt :: "string option \<Rightarrow> string" where
  "str_opt s = (case s of None \<Rightarrow> ''None'' | Some x \<Rightarrow> x)"

definition str_timeout :: "Timeout \<Rightarrow> string" where
  "str_timeout t =
     ''<Timeout '' @ str_opt (t_name t) @ '': value='' @ str_timedelta (t_timeout t) @ '', retries='' @
     show_int (t_retried t) @ ''/'' @ show_int (t_retries t) @ ''>''"

section \<open>The state\<close>

datatype exec_pc =
    AtSetup | AtLoop | AtPowerOff | AtPowerOn | AtTimers | AtBoot | AtCut | AtAccount
  | AtEnd | AtTearDown | AtTearWait | Finished | Raised py_exc

record 'd exec =
  x_pc :: exec_pc
  x_port :: "PDUPort \<times> 'd pdu_world"
  x_console :: JobConsole
  x_job :: Job
  x_deployment :: Deployment
  x_boot_config :: "BootConfig option"
  x_cache :: url_cache
  x_ready :: bool
  x_stop :: bool
  x_cancel :: bool
  x_boots :: nat

definition x_clock :: "'d exec \<Rightarrow> time" where
  "x_clock x = w_clock (snd (x_port x))"

abbreviation x_timeouts :: "'d exec \<Rightarrow> Timeouts" where
  "x_timeouts x \<equiv> jc_timeouts (x_console x)"

text \<open>What the environment decides while the thread runs a block.\<close>

record 'd exec_env =
  ee_get :: "int \<Rightarrow> ('d, PDUState) act"
  ee_set :: "int \<Rightarrow> PDUState \<Rightarrow> ('d, unit) act"
  ee_lag :: nat
  ee_dur :: nat
  ee_minio_url :: string
  ee_download :: "(string option \<times> string) list \<Rightarrow> unit res"
  ee_bucket :: "(string \<times> string) option res"
  ee_clock :: "nat \<Rightarrow> time"

text \<open>Actions on parts of the state.\<close>

definition on_console :: "(JobConsole, 'a) act \<Rightarrow> ('d exec, 'a) act" where
  "on_console m x = (let (r, jc) = m (x_console x) in (r, x\<lparr>x_console := jc\<rparr>))"

definition upd_timeouts :: "(Timeouts \<Rightarrow> Timeouts) \<Rightarrow> ('d exec, unit) act" where
  "upd_timeouts f = act_modify (\<lambda>x. x\<lparr>x_console := (x_console x)\<lparr>jc_timeouts := f (x_timeouts x)\<rparr>\<rparr>)"

definition xlog :: "string \<Rightarrow> LogLevel \<Rightarrow> ('d exec, unit) act" where
  "xlog msg level x = on_console (JobConsole_log (x_clock x) msg level) x"

definition set_power :: "'d exec_env \<Rightarrow> PDUState \<Rightarrow> ('d exec, unit) act" where
  "set_power e st x =
     (let (r, pw) = PDUPort_set (ee_get e) (ee_set e) (ee_lag e) (ee_dur e) st (x_port x) in (r, x\<lparr>x_port := pw\<rparr>))"

definition go :: "exec_pc \<Rightarrow> ('d exec, unit) act" where
  "go pc = act_modify (\<lambda>x. x\<lparr>x_pc := pc\<rparr>)"

abbreviation nl :: string where
  "nl \<equiv> [CHR 0x0A]"

section \<open>The blocks of execute_job\<close>

definition do_setup :: "'d exec_env \<Rightarrow> ('d exec, unit) act" where
  "do_setup e =
     act_bind (act_get x_clock) (\<lambda>now.
     act_bind (upd_timeouts (\<lambda>ts. ts\<lparr>overall := timeout_start now (overall ts)\<rparr>)) (\<lambda>_.
     act_bind (xlog (''Setup the infrastructure'' @ nl) LINFO) (\<lambda>_.
     act_bind (upd_timeouts (\<lambda>ts. ts\<lparr>infra_setup := timeout_start now (infra_setup ts)\<rparr>)) (\<lambda>_.
     act_bind (act_get (\<lambda>x. cache_remote_artifacts (ee_minio_url e) (jc_machine_id (x_console x)) (x_job x) (x_cache x))) (\<lambda>r.
     act_bind (act_lift r) (\<lambda>(saves, cache).
     act_bind (act_modify (\<lambda>x. x\<lparr>x_cache := cache\<rparr>)) (\<lambda>_.
     act_bind (act_lift (ee_download e saves)) (\<lambda>_.
     act_bind (act_get (\<lambda>x. active_for (ee_clock e 0) (infra_setup (x_timeouts x)))) (\<lambda>af.
     act_bind (xlog (''Completed setup of the infrastructure, after '' @
                 (case af of None \<Rightarrow> ''None'' | Some t \<Rightarrow> str_timedelta t) @ '' s'' @ nl) LINFO) (\<lambda>_.
     act_bind (upd_timeouts (\<lambda>ts. ts\<lparr>infra_setup := timeout_stop (infra_setup ts)\<rparr>)) (\<lambda>_.
     act_bind (act_modify (\<lambda>x. x\<lparr>x_deployment := deployment_start (x_job x)\<rparr>)) (\<lambda>_.
       go AtLoop))))))))))))"

definition loop_condition :: "'d exec \<Rightarrow> bool" where
  "loop_condition x =
     (\<not> x_stop x \<and> \<not> x_cancel x \<and> \<not> timeout_has_expired (x_clock x) (overall (x_timeouts x)) \<and>
      JobConsole_state (x_console x) < DUT_DONE)"

definition do_loop :: "('d exec, unit) act" where
  "do_loop =
     act_bind (act_get loop_condition) (\<lambda>c.
       if c then
         act_bind (act_modify (\<lambda>x. x\<lparr>x_console := JobConsole_reset_per_boot_state (x_console x)\<rparr>)) (\<lambda>_. go AtPowerOff)
       else go AtEnd)"

definition do_power_off :: "'d exec_env \<Rightarrow> ('d exec, unit) act" where
  "do_power_off e = act_bind (set_power e PDU_OFF) (\<lambda>_. go AtPowerOn)"

text \<open>\<open>cache_mapping.get(url)\<close>\<close>

definition cached :: "url_cache \<Rightarrow> string option \<Rightarrow> string option" where
  "cached cache url = (case dict_get cache url of None \<Rightarrow> None | Some u \<Rightarrow> u)"

definition do_power_on :: "'d exec_env \<Rightarrow> ('d exec, unit) act" where
  "do_power_on e =
     act_bind (xlog (''Setting up the boot configuration'' @ nl) LINFO) (\<lambda>_.
     act_bind (act_modify (\<lambda>x. x\<lparr>x_boot_config := Some
        \<lparr>bc_kernel = cached (x_cache x) (kernel_url (x_deployment x)),
         bc_initrd = cached (x_cache x) (initramfs_url (x_deployment x)),
         bc_cmdline = kernel_cmdline (x_deployment x)\<rparr>\<rparr>)) (\<lambda>_.
     act_bind (act_get (\<lambda>x. min_off_time (fst (x_port x)) div 1000000)) (\<lambda>off.
     act_bind (xlog (''Power up the machine, enforcing '' @ show_int off @ '' seconds of down time'' @ nl) LINFO) (\<lambda>_.
     act_bind (act_modify (\<lambda>x. x\<lparr>x_boots := Suc (x_boots x)\<rparr>)) (\<lambda>_.
     act_bind (set_power e PDU_ON) (\<lambda>_. go AtTimers))))))"

definition do_timers :: "('d exec, unit) act" where
  "do_timers =
     act_bind (xlog (''Boot the machine'' @ nl) LINFO) (\<lambda>_.
     act_bind (act_get x_clock) (\<lambda>now.
     act_bind (upd_timeouts (\<lambda>ts. ts
        \<lparr>boot_cycle := timeout_start now (boot_cycle ts),
         first_console_activity := timeout_start now (first_console_activity ts),
         console_activity := timeout_stop (console_activity ts),
         watchdogs := map (\<lambda>(k, t). (k, timeout_stop t)) (watchdogs ts)\<rparr>)) (\<lambda>_.
       go AtBoot)))"

text \<open>
  One turn of the inner loop. \<open>ee_clock\<close> gives the readings of the clock while the timeouts are
  looked at.
\<close>

definition boot_condition :: "'d exec_env \<Rightarrow> 'd exec \<Rightarrow> bool" where
  "boot_condition e x =
     (JobConsole_state (x_console x) < DUT_DONE \<and> \<not> jc_needs_reboot (x_console x) \<and> \<not> x_stop x \<and> \<not> x_cancel x \<and>
      \<not> has_expired (ee_clock e) (x_timeouts x))"

definition do_boot :: "'d exec_env \<Rightarrow> ('d exec, unit) act" where
  "do_boot e =
     act_bind (act_get (boot_condition e)) (\<lambda>c.
       if c then
         act_modify (\<lambda>x. case jc_last_machine (x_console x) of
             None \<Rightarrow> x
           | Some t \<Rightarrow> snd (upd_timeouts (\<lambda>ts. ts
               \<lparr>first_console_activity := timeout_stop (first_console_activity ts),
                console_activity := timeout_reset (Some t) t (console_activity ts)\<rparr>) x))
       else go AtCut)"

definition do_cut :: "'d exec_env \<Rightarrow> ('d exec, unit) act" where
  "do_cut e = act_bind (set_power e PDU_OFF) (\<lambda>_. go AtAccount)"

text \<open>Retrying the timeout \<open>r\<close>: the decision, the timeout (for the log) and the updated timeouts.\<close>

definition retry_ref :: "timeout_ref \<Rightarrow> Timeouts \<Rightarrow> bool \<times> Timeouts" where
  "retry_ref r ts =
     (case get_timeout r ts of
        None \<Rightarrow> (True, ts)
      | Some t \<Rightarrow> (fst (timeout_retry t), update_timeout r (\<lambda>t. snd (timeout_retry t)) ts))"

definition retry_expired1 :: "timeout_ref \<Rightarrow> bool \<Rightarrow> ('d exec, bool) act" where
  "retry_expired1 r abort =
     act_bind (act_get (\<lambda>x. retry_ref r (x_timeouts x))) (\<lambda>(retry, ts).
     act_bind (upd_timeouts (\<lambda>_. ts)) (\<lambda>_.
     act_bind (xlog (''Hit the timeout '' @ (case get_timeout r ts of None \<Rightarrow> [] | Some t \<Rightarrow> str_timeout t) @ '' --> '' @
                (if retry then ''Try again!'' else ''Abort!'') @ nl) LERROR) (\<lambda>_.
       act_return (abort \<or> \<not> retry))))"

fun retry_expired :: "timeout_ref list \<Rightarrow> bool \<Rightarrow> ('d exec, bool) act" where
  "retry_expired [] abort = act_return abort"
| "retry_expired (r # rs) abort = act_bind (retry_expired1 r abort) (\<lambda>a. retry_expired rs a)"

definition retry_reboot :: "bool \<Rightarrow> ('d exec, bool) act" where
  "retry_reboot abort =
     act_bind (act_get (\<lambda>x. jc_needs_reboot (x_console x))) (\<lambda>nr.
       if nr then
         act_bind (act_get (\<lambda>x. timeout_retry (boot_cycle (x_timeouts x)))) (\<lambda>(retry, t).
         act_bind (upd_timeouts (\<lambda>ts. ts\<lparr>boot_cycle := t\<rparr>)) (\<lambda>_.
         act_bind (xlog (''The DUT asked us to reboot: '' @
              (if retry then ''Boot cycle '' @ show_int (t_retried t) @ ''/'' @ show_int (t_retries t) @ '', go ahead!''
               else ''Exceeded boot loop count, aborting!'') @ nl) LWARN) (\<lambda>_.
           act_return (abort \<or> \<not> retry))))
       else act_return abort)"

definition do_account :: "'d exec_env \<Rightarrow> ('d exec, unit) act" where
  "do_account e =
     act_bind (act_get (\<lambda>x. expired_list (ee_clock e) (x_timeouts x))) (\<lambda>expired.
     act_bind (retry_expired expired False) (\<lambda>a1.
     act_bind (retry_reboot a1) (\<lambda>abort.
     act_bind (act_get x_clock) (\<lambda>now.
     act_bind
       (if abort then on_console (set_state now (Inr None) DUT_DONE)
        else
          act_bind (upd_timeouts (\<lambda>ts. ts
             \<lparr>first_console_activity := timeout_stop (first_console_activity ts),
              console_activity := timeout_stop (console_activity ts),
              boot_cycle := timeout_stop (boot_cycle ts)\<rparr>)) (\<lambda>_.
          act_modify (\<lambda>x. x\<lparr>x_deployment := deployment_continue (x_job x)\<rparr>)))
       (\<lambda>_. go AtLoop)))))"

definition do_end :: "('d exec, unit) act" where
  "do_end =
     act_bind (act_get (\<lambda>x. JobConsole_state (x_console x) = DUT_DONE \<and> \<not> x_cancel x)) (\<lambda>c.
       if c then
         act_bind (act_get (\<lambda>x. JobConsole_machine_unfit_for_service (x_console x) \<noteq> None)) (\<lambda>unfit.
         act_bind (if unfit then act_bind (xlog (''The machine has been marked as unfit for service'' @ nl) LINFO)
                     (\<lambda>_. act_modify (\<lambda>x. x\<lparr>x_ready := False\<rparr>)) else act_return ()) (\<lambda>_.
         act_bind (xlog (''The job has finished executing, starting tearing down'' @ nl) LINFO) (\<lambda>_.
         act_bind (act_get x_clock) (\<lambda>now.
         act_bind (upd_timeouts (\<lambda>ts. ts\<lparr>infra_teardown := timeout_start now (infra_teardown ts)\<rparr>)) (\<lambda>_.
           go AtTearDown)))))
       else
         act_bind (xlog ''The job is over, skipping sharing the job bucket with the client'' LINFO) (\<lambda>_. go Finished))"

definition do_tear_down :: "'d exec_env \<Rightarrow> ('d exec, unit) act" where
  "do_tear_down e =
     act_bind (xlog (''Creating credentials to the job bucket for the client'' @ nl) LINFO) (\<lambda>_.
     act_bind (act_get x_clock) (\<lambda>now.
     act_bind (on_console (set_state now (ee_bucket e) TEAR_DOWN)) (\<lambda>_.
     act_bind (xlog (''Waiting for the client to download the job bucket'' @ nl) LINFO) (\<lambda>_.
       go AtTearWait))))"

definition tear_down_done :: "('d exec, unit) act" where
  "tear_down_done =
     act_bind (act_get (\<lambda>x. active_for (x_clock x) (infra_teardown (x_timeouts x)))) (\<lambda>af.
     act_bind (xlog (''Completed the tear down procedure in '' @
          (case af of None \<Rightarrow> ''None'' | Some t \<Rightarrow> str_timedelta t) @ '' s'' @ nl) LINFO) (\<lambda>_.
     act_bind (upd_timeouts (\<lambda>ts. ts\<lparr>infra_teardown := timeout_stop (infra_teardown ts)\<rparr>)) (\<lambda>_.
       go Finished)))"

definition do_tear_wait :: "('d exec, unit) act" where
  "do_tear_wait =
     act_bind (act_get (\<lambda>x. JobConsole_state (x_console x) < OVER \<and> \<not> x_cancel x \<and> \<not> x_stop x \<and>
         \<not> timeout_has_expired (x_clock x) (infra_teardown (x_timeouts x)))) (\<lambda>c.
       if c then act_return () else tear_down_done)"

definition exec_block :: "'d exec_env \<Rightarrow> exec_pc \<Rightarrow> ('d exec, unit) act" where
  "exec_block e pc =
     (case pc of
        AtSetup \<Rightarrow> do_setup e
      | AtLoop \<Rightarrow> do_loop
      | AtPowerOff \<Rightarrow> do_power_off e
      | AtPowerOn \<Rightarrow> do_power_on e
      | AtTimers \<Rightarrow> do_timers
      | AtBoot \<Rightarrow> do_boot e
      | AtCut \<Rightarrow> do_cut e
      | AtAccount \<Rightarrow> do_account e
      | AtEnd \<Rightarrow> do_end
      | AtTearDown \<Rightarrow> do_tear_down e
      | AtTearWait \<Rightarrow> do_tear_wait
      | Finished \<Rightarrow> act_return ()
      | Raised _ \<Rightarrow> act_return ())"

text \<open>A block that raises leaves \<open>execute_job\<close>.\<close>

definition exec_thread :: "'d exec_env \<Rightarrow> 'd exec \<Rightarrow> 'd exec" where
  "exec_thread e x =
     (case exec_block e (x_pc x) x of (Inl ex, x') \<Rightarrow> x'\<lparr>x_pc := Raised ex\<rparr> | (Inr _, x') \<Rightarrow> x')"

section \<open>The system\<close>

definition advance :: "nat \<Rightarrow> 'd exec \<Rightarrow> 'd exec" where
  "advance d x = x\<lparr>x_port := (fst (x_port x), (snd (x_port x))\<lparr>w_clock := w_clock (snd (x_port x)) + int d\<rparr>)\<rparr>"

definition lose_client :: "JobConsole \<Rightarrow> JobConsole" where
  "lose_client jc = jc\<lparr>jc_client := map_option (\<lambda>s. s\<lparr>sk_peer := False\<rparr>) (jc_client jc)\<rparr>"

text \<open>
  The steps of the system around a driver with operations \<open>g\<close> and \<open>s\<close>. A block of the executor takes
  some time \<open>d\<close>, and reads the clock within that time.
\<close>

inductive exec_trans ::
  "(int \<Rightarrow> ('d, PDUState) act) \<Rightarrow> (int \<Rightarrow> PDUState \<Rightarrow> ('d, unit) act) \<Rightarrow> 'd exec \<Rightarrow> 'd exec \<Rightarrow> bool"
  for g s where
  thread: "ee_get e = g \<Longrightarrow> ee_set e = s \<Longrightarrow> (\<forall>i. x_clock x \<le> ee_clock e i \<and> ee_clock e i \<le> x_clock x + int d) \<Longrightarrow>
     exec_trans g s x (advance d (exec_thread e x))"
| tick: "exec_trans g s x (advance d x)"
| console: "ce_now env = x_clock x \<Longrightarrow>
     exec_trans g s x (x\<lparr>x_console := snd (console_turn env evs (x_console x))\<rparr>)"
| client_lost: "exec_trans g s x (x\<lparr>x_console := lose_client (x_console x)\<rparr>)"
| cancel: "exec_trans g s x (x\<lparr>x_cancel := True\<rparr>)"
| stop: "exec_trans g s x (x\<lparr>x_stop := True\<rparr>)"

inductive_cases exec_transE: "exec_trans g s x x'"

abbreviation exec_reach where
  "exec_reach g s \<equiv> (exec_trans g s)\<^sup>*\<^sup>*"

text \<open>A property every step keeps holds in every reachable state.\<close>

lemma exec_invariant:
  assumes "exec_reach g s x x'" "P x" "\<And>y y'. P y \<Longrightarrow> exec_trans g s y y' \<Longrightarrow> P y'"
  shows "P x'"
  using assms by (induction rule: rtranclp_induct) auto

section \<open>Where a block leads\<close>

definition ends_in :: "exec_pc set \<Rightarrow> ('d exec, 'a) act \<Rightarrow> bool" where
  "ends_in P m \<longleftrightarrow> (\<forall>x y x'. m x = (Inr y, x') \<longrightarrow> x_pc x' \<in> P)"

lemma ends_in_bind: "(\<And>y. ends_in P (f y)) \<Longrightarrow> ends_in P (act_bind m f)"
  unfolding ends_in_def by (metis act_bind_eq_Inr)

lemma ends_in_go: "pc \<in> P \<Longrightarrow> ends_in P (go pc)"
  by (simp add: ends_in_def go_def act_modify_def)

lemma ends_in_if: "(b \<Longrightarrow> ends_in P m) \<Longrightarrow> (\<not> b \<Longrightarrow> ends_in P n) \<Longrightarrow> ends_in P (if b then m else n)"
  by simp

lemma ends_in_prod: "(\<And>a b. y = (a, b) \<Longrightarrow> ends_in P (f a b)) \<Longrightarrow> ends_in P (case y of (a, b) \<Rightarrow> f a b)"
  by (cases y) simp

lemmas ends_in_intros = ends_in_bind ends_in_go ends_in_if ends_in_prod

fun next_pcs :: "exec_pc \<Rightarrow> exec_pc set" where
  "next_pcs AtSetup = {AtLoop}"
| "next_pcs AtLoop = {AtPowerOff, AtEnd}"
| "next_pcs AtPowerOff = {AtPowerOn}"
| "next_pcs AtPowerOn = {AtTimers}"
| "next_pcs AtTimers = {AtBoot}"
| "next_pcs AtBoot = {AtBoot, AtCut}"
| "next_pcs AtCut = {AtAccount}"
| "next_pcs AtAccount = {AtLoop}"
| "next_pcs AtEnd = {AtTearDown, Finished}"
| "next_pcs AtTearDown = {AtTearWait}"
| "next_pcs AtTearWait = {AtTearWait, Finished}"
| "next_pcs Finished = {Finished}"
| "next_pcs (Raised e) = {Raised e}"

lemma pc_frame [simp]:
  "x_pc (snd (on_console m x)) = x_pc x"
  "x_pc (snd (upd_timeouts f x)) = x_pc x"
  "x_pc (snd (set_power e st x)) = x_pc x"
  "x_pc (snd (xlog msg l x)) = x_pc x"
  by (simp_all add: on_console_def upd_timeouts_def act_modify_def set_power_def xlog_def split: prod.split)

lemma block_next_pc:
  assumes "exec_block e (x_pc x) x = (Inr y, x')"
  shows "x_pc x' \<in> next_pcs (x_pc x)"
proof -
  have "ends_in {AtLoop} (do_setup e :: ('a exec, unit) act)" unfolding do_setup_def by (intro ends_in_intros) simp
  moreover have "ends_in {AtPowerOff, AtEnd} (do_loop :: ('a exec, unit) act)" unfolding do_loop_def by (intro ends_in_intros) simp_all
  moreover have "ends_in {AtPowerOn} (do_power_off e)" unfolding do_power_off_def by (intro ends_in_intros) simp
  moreover have "ends_in {AtTimers} (do_power_on e)" unfolding do_power_on_def by (intro ends_in_intros) simp
  moreover have "ends_in {AtBoot} (do_timers :: ('a exec, unit) act)" unfolding do_timers_def by (intro ends_in_intros) simp
  moreover have "ends_in {AtAccount} (do_cut e)" unfolding do_cut_def by (intro ends_in_intros) simp
  moreover have "ends_in {AtLoop} (do_account e)" unfolding do_account_def by (intro ends_in_intros) simp_all
  moreover have "ends_in {AtTearDown, Finished} (do_end :: ('a exec, unit) act)" unfolding do_end_def by (intro ends_in_intros) simp_all
  moreover have "ends_in {AtTearWait} (do_tear_down e :: ('a exec, unit) act)" unfolding do_tear_down_def by (intro ends_in_intros) simp
  moreover have "x_pc x' \<in> {x_pc x, AtCut}" if "do_boot e x = (Inr y, x')"
    using that by (auto simp: do_boot_def go_def act_modify_def upd_timeouts_def split: if_splits option.splits)
  moreover have "x_pc x' \<in> {x_pc x, Finished}" if "do_tear_wait x = (Inr y, x')"
  proof -
    have "ends_in {Finished} (tear_down_done :: ('a exec, unit) act)"
      unfolding tear_down_done_def by (intro ends_in_intros) simp
    then show ?thesis
      using that unfolding do_tear_wait_def ends_in_def by (auto simp: act_return_def split: if_splits)
  qed
  ultimately show ?thesis
    using assms unfolding ends_in_def exec_block_def by (cases "x_pc x") (auto simp: act_return_def)
qed

section \<open>Power\<close>

definition same_port :: "'d exec \<Rightarrow> 'd exec \<Rightarrow> bool" where
  "same_port x x' \<longleftrightarrow> x_port x' = x_port x"

interpretation port: act_preorder same_port
  by unfold_locales (auto simp: same_port_def)

lemma port_frame:
  "act_within same_port (on_console m)" "act_within same_port (upd_timeouts f)" "act_within same_port (xlog msg l)"
  "act_within same_port (go pc)"
  by (simp_all add: act_within_def same_port_def on_console_def upd_timeouts_def act_modify_def xlog_def go_def split: prod.split)

lemma port_split: "(\<And>a b. act_within same_port (f a b)) \<Longrightarrow> act_within same_port (case y of (a, b) \<Rightarrow> f a b)"
  by (cases y) simp

lemmas port_intros = port.within_intros port_frame port_split

lemma retry_expired_port: "act_within same_port (retry_expired rs a)"
  by (induction rs arbitrary: a) (auto intro!: port_intros simp: retry_expired1_def)

lemma block_port:
  assumes "pc \<notin> {AtPowerOff, AtPowerOn, AtCut}"
  shows "act_within same_port (exec_block e pc)"
proof -
  have "act_within same_port (do_setup e)" unfolding do_setup_def by (intro port_intros) (simp_all add: same_port_def)
  moreover have "act_within same_port do_loop" unfolding do_loop_def by (intro port_intros) (simp_all add: same_port_def)
  moreover have "act_within same_port do_timers" unfolding do_timers_def by (intro port_intros)
  moreover have "act_within same_port (do_boot e)" unfolding do_boot_def
    by (intro port_intros) (simp add: same_port_def upd_timeouts_def act_modify_def split: option.split)
  moreover have "act_within same_port (do_account e)" unfolding do_account_def retry_reboot_def
    by (intro port_intros retry_expired_port) (simp_all add: same_port_def)
  moreover have "act_within same_port do_end" unfolding do_end_def by (intro port_intros) (simp_all add: same_port_def)
  moreover have "act_within same_port (do_tear_down e)" unfolding do_tear_down_def by (intro port_intros)
  moreover have "act_within same_port do_tear_wait" unfolding do_tear_wait_def tear_down_done_def by (intro port_intros)
  ultimately show ?thesis
    using assms unfolding exec_block_def by (cases pc) (auto intro: port.within_return)
qed

text \<open>The machine may have power only while a boot is under way, or when \<open>execute_job\<close> was left by an exception.\<close>

definition may_have_power :: "exec_pc \<Rightarrow> bool" where
  "may_have_power pc = (case pc of AtTimers \<Rightarrow> True | AtBoot \<Rightarrow> True | AtCut \<Rightarrow> True | Raised _ \<Rightarrow> True | _ \<Rightarrow> False)"

definition reads_off :: "(int \<Rightarrow> ('d, PDUState) act) \<Rightarrow> PDUPort \<times> 'd pdu_world \<Rightarrow> bool" where
  "reads_off g pw \<longleftrightarrow> fst (PDUPort_state g (fst pw) (snd pw)) = Inr PDU_OFF"

lemma reads_off_clock [simp]: "reads_off g (p, w\<lparr>w_clock := t\<rparr>) = reads_off g (p, w)"
  by (simp add: reads_off_def PDUPort_state_def split: prod.split)

definition keeps_port :: "(PDUPort \<times> 'd pdu_world \<Rightarrow> bool) \<Rightarrow> 'd exec \<Rightarrow> 'd exec \<Rightarrow> bool" where
  "keeps_port P x x' \<longleftrightarrow> (P (x_port x) \<longrightarrow> P (x_port x'))"

interpretation kp: act_preorder "keeps_port P"
  by unfold_locales (auto simp: keeps_port_def)

lemma port_keeps:
  "act_within (keeps_port P) (on_console m)" "act_within (keeps_port P) (upd_timeouts f)"
  "act_within (keeps_port P) (xlog msg l)" "act_within (keeps_port P) (go pc)"
  by (simp_all add: act_within_def keeps_port_def on_console_def upd_timeouts_def act_modify_def xlog_def go_def split: prod.split)

context pdu_driver
begin

definition power_ok :: "'d exec \<Rightarrow> bool" where
  "power_ok x \<longleftrightarrow> port_ready (x_port x) \<and> (may_have_power (x_pc x) \<or> reads_off get_st (x_port x))"

lemma set_power_result:
  assumes "port_ready (x_port x)" "ee_get e = get_st" "ee_set e = set_st" "st = PDU_ON \<or> st = PDU_OFF"
  shows "\<exists>pw. set_power e st x = (Inr (), x\<lparr>x_port := pw\<rparr>) \<and> port_ready pw \<and> (st = PDU_OFF \<longrightarrow> reads_off get_st pw)"
proof -
  obtain p w where pw: "x_port x = (p, w)" by fastforce
  obtain p' w' where "PDUPort_set get_st set_st (ee_lag e) (ee_dur e) st (p, w) = (Inr (), p', w')"
    "port_ready (p', w')" "PDUPort_state get_st p' w' = (Inr st, w')"
    using set_reads_back[of p w st "ee_lag e" "ee_dur e"] assms pw by auto
  then show ?thesis
    using assms(2,3) pw by (intro exI[of _ "(p', w')"]) (auto simp: set_power_def reads_off_def)
qed

lemma power_ok_thread:
  assumes ok: "power_ok x" and e: "ee_get e = get_st" "ee_set e = set_st"
  shows "power_ok (exec_thread e x)"
proof (cases "x_pc x \<in> {AtPowerOff, AtPowerOn, AtCut}")
  case False
  obtain r x' where blk: "exec_block e (x_pc x) x = (r, x')" by fastforce
  have port: "x_port x' = x_port x"
    using port.withinD[OF block_port[OF False, of e], of x] blk by (simp add: same_port_def)
  show ?thesis
  proof (cases r)
    case (Inl ex)
    then show ?thesis using ok blk port by (simp add: exec_thread_def power_ok_def may_have_power_def)
  next
    case (Inr y)
    then have "x_pc x' \<in> next_pcs (x_pc x)" using block_next_pc blk by blast
    then show ?thesis
      using ok blk port False Inr by (cases "x_pc x") (auto simp: exec_thread_def power_ok_def may_have_power_def)
  qed
next
  case True
  have ready: "port_ready (x_port x)" using ok by (simp add: power_ok_def)
  have off: "\<exists>pw. set_power e PDU_OFF y = (Inr (), y\<lparr>x_port := pw\<rparr>) \<and> port_ready pw \<and> reads_off get_st pw"
    if "x_port y = x_port x" for y
    using set_power_result[of y e PDU_OFF] ready e that by auto
  consider "x_pc x = AtPowerOff \<or> x_pc x = AtCut" | "x_pc x = AtPowerOn" using True by blast
  then show ?thesis
  proof cases
    case 1
    then show ?thesis
      using off[of x] by (auto simp: exec_thread_def exec_block_def do_power_off_def do_cut_def act_bind_def go_def act_modify_def power_ok_def)
  next
    case 2
    have "act_within (keeps_port port_ready) (set_power e PDU_ON)"
      unfolding act_within_def keeps_port_def using set_power_result[OF _ e, of _ PDU_ON] by fastforce
    then have "act_within (keeps_port port_ready) (do_power_on e)"
      unfolding do_power_on_def by (intro kp.within_intros port_keeps) (auto simp: keeps_port_def)
    then have "port_ready (x_port (snd (do_power_on e x)))"
      using kp.withinD ready unfolding keeps_port_def by blast
    moreover have "x_pc (snd (do_power_on e x)) = AtTimers" if "fst (do_power_on e x) = Inr y" for y
      using block_next_pc[of e x y] 2 that by (simp add: exec_block_def prod_eq_iff)
    ultimately show ?thesis
      using 2 by (auto simp: exec_thread_def exec_block_def power_ok_def may_have_power_def split: prod.splits sum.splits)
  qed
qed

lemma power_ok_trans:
  assumes "power_ok x" "exec_trans get_st set_st x x'"
  shows "power_ok x'"
  using assms(2)
proof cases
  case (thread e d)
  have adv: "power_ok (advance d y)" if "power_ok y" for y d
    using that by (cases "x_port y") (simp add: power_ok_def advance_def port_ready_def)
  show ?thesis using thread power_ok_thread[OF assms(1)] adv by simp
next
  case (tick d)
  then show ?thesis using assms(1) by (cases "x_port x") (simp add: power_ok_def advance_def port_ready_def)
qed (use assms(1) in \<open>simp_all add: power_ok_def\<close>)

lemma power_ok_reach: "exec_reach get_st set_st x x' \<Longrightarrow> power_ok x \<Longrightarrow> power_ok x'"
  using exec_invariant[of get_st set_st x x' power_ok] power_ok_trans by blast

end

section \<open>Properties\<close>

lemma cache_it_other:
  assumes "cache_it minio_url pre start_url url' sfx cache = Inr (saves, cache')" "url \<noteq> url'" "url \<noteq> start_url"
  shows "dict_get cache' url = dict_get cache url" "url \<notin> fst ` set saves"
  using assms by (auto simp: cache_it_def split: if_splits option.splits)

lemma cache_remote_artifact_other:
  assumes "cache_remote_artifact minio_url mid name start_url start_url cache = Inr (saves, cache')" "url \<noteq> start_url"
  shows "dict_get cache' url = dict_get cache url" "url \<notin> fst ` set saves"
proof -
  have c: "cache_it minio_url (name @ ''-'' @ mid) start_url start_url ''start''
      (dict_set start_url start_url (dict_set start_url start_url cache)) = Inr (saves, cache')"
    using assms(1) by (auto simp: cache_remote_artifact_def res_bind_def Let_def split: sum.splits)
  show "dict_get cache' url = dict_get cache url" "url \<notin> fst ` set saves"
    using cache_it_other[OF c assms(2,2)] assms(2) by simp_all
qed

text \<open>
  The artifacts of the continue deployment are never cached: preparing a job asks for the start
  deployment twice, so a kernel or initramfs that only the continue deployment names is not
  downloaded and has no entry in the mapping, and the machine is booted again with none.
\<close>

theorem continue_artifacts_not_cached:
  assumes "cache_remote_artifacts minio_url mid job [] = Inr (saves, cache)"
    and "url \<noteq> kernel_url (deployment_start job)" "url \<noteq> initramfs_url (deployment_start job)"
  shows "cached cache url = None \<and> url \<notin> fst ` set saves"
proof -
  obtain s1 c1 s2 where
    1: "cache_remote_artifact minio_url mid ''kernel'' (kernel_url (deployment_start job)) (kernel_url (deployment_start job)) [] = Inr (s1, c1)" and
    2: "cache_remote_artifact minio_url mid ''initramfs'' (initramfs_url (deployment_start job)) (initramfs_url (deployment_start job)) c1 = Inr (s2, cache)"
      "saves = s1 @ s2"
    using assms(1) by (auto simp: cache_remote_artifacts_def res_bind_def Let_def split: sum.splits)
  show ?thesis
    using cache_remote_artifact_other[OF 1 assms(2)] cache_remote_artifact_other[OF 2(1) assms(3)] 2(2) by (auto simp: cached_def)
qed

theorem continue_artifacts_not_cached_witness:
  "\<exists>saves cache. cache_remote_artifacts ''http://minio'' ''m''
     \<lparr>job_version = 1, job_deadline = 0, job_target = Target_init None None, job_timeouts = example_timeouts,
      job_console_patterns = ConsoleState_init \<lparr>regex = ''END''\<rparr> None None None None None,
      deployment_start = \<lparr>kernel_url = Some ''http://k1'', kernel_cmdline = None, initramfs_url = Some ''http://i''\<rparr>,
      deployment_continue = \<lparr>kernel_url = Some ''http://k2'', kernel_cmdline = None, initramfs_url = Some ''http://i''\<rparr>\<rparr> [] =
       Inr (saves, cache) \<and> cached cache (Some ''http://k2'') = None"
proof -
  let ?job = "\<lparr>job_version = 1, job_deadline = 0, job_target = Target_init None None, job_timeouts = example_timeouts,
      job_console_patterns = ConsoleState_init \<lparr>regex = ''END''\<rparr> None None None None None,
      deployment_start = \<lparr>kernel_url = Some ''http://k1'', kernel_cmdline = None, initramfs_url = Some ''http://i''\<rparr>,
      deployment_continue = \<lparr>kernel_url = Some ''http://k2'', kernel_cmdline = None, initramfs_url = Some ''http://i''\<rparr>\<rparr>"
  obtain saves cache where c: "cache_remote_artifacts ''http://minio'' ''m'' ?job [] = Inr (saves, cache)"
    by (simp add: cache_remote_artifacts_def cache_remote_artifact_def cache_it_def Let_def res_bind_def)
  from continue_artifacts_not_cached[OF c, of "Some ''http://k2''"] c show ?thesis by simp
qed

end
