(* ===== verification/Boot_Bound.thy ===== *)
theory Boot_Bound
  imports Executor
begin

text \<open>
  How often \<open>execute_job\<close> (\<open>executor.py\<close>) boots a machine. Every turn of its outer loop that is
  followed by another one uses up a retry of one of the timeouts, so a job has at most one boot
  more than it has retries, whatever the machine, the client and the console do.
\<close>

section \<open>The retries that are left\<close>

definition retries_left :: "Timeouts \<Rightarrow> nat" where
  "retries_left ts =
     sum_list (map (\<lambda>a. nat (t_retries (getattr_timeout a ts) - t_retried (getattr_timeout a ts))) TimeoutType_members)"

abbreviation x_left :: "'d exec \<Rightarrow> nat" where
  "x_left x \<equiv> retries_left (x_timeouts x)"

lemma budget_frame [simp]:
  "t_retries (timeout_start now t) = t_retries t" "t_retried (timeout_start now t) = t_retried t"
  "t_retries (timeout_stop t) = t_retries t" "t_retried (timeout_stop t) = t_retried t"
  "t_retries (timeout_reset w now t) = t_retries t" "t_retried (timeout_reset w now t) = t_retried t"
  by (simp_all add: timeout_defs)

lemma retries_left_cong:
  assumes "\<And>a. t_retries (getattr_timeout a ts') = t_retries (getattr_timeout a ts)"
    and "\<And>a. t_retried (getattr_timeout a ts') = t_retried (getattr_timeout a ts)"
  shows "retries_left ts' = retries_left ts"
  using assms by (simp add: retries_left_def)

lemma retry_left:
  "retries_left (setattr_timeout a (snd (timeout_retry (getattr_timeout a ts))) ts) +
     (if fst (timeout_retry (getattr_timeout a ts)) then 1 else 0) = retries_left ts"
proof -
  have "Suc (nat (n - (m + 1))) = nat (n - m)" if "m < n" for m n :: int
    using that by linarith
  then show ?thesis by (cases a) (simp_all add: retries_left_def TimeoutType_members_def)
qed

section \<open>What the steps do not undo\<close>

definition x_over :: "'d exec \<Rightarrow> bool" where
  "x_over x \<longleftrightarrow> x_stop x \<or> x_cancel x \<or> \<not> JobConsole_state (x_console x) < DUT_DONE"

text \<open>Apart from the number of boots: the end of the job is final, retries are not given back.\<close>

definition exec_fwd :: "'d exec \<Rightarrow> 'd exec \<Rightarrow> bool" where
  "exec_fwd x x' \<longleftrightarrow> (x_over x \<longrightarrow> x_over x') \<and> x_left x' \<le> x_left x \<and>
     (watchdogs (x_timeouts x) = [] \<longrightarrow> watchdogs (x_timeouts x') = []) \<and> x_clock x \<le> x_clock x' \<and>
     (reboot_ok (x_console x) \<longrightarrow> reboot_ok (x_console x'))"

definition same_boots :: "'d exec \<Rightarrow> 'd exec \<Rightarrow> bool" where
  "same_boots x x' \<longleftrightarrow> x_boots x' = x_boots x"

interpretation xf: act_preorder exec_fwd
  by unfold_locales (auto simp: exec_fwd_def)

interpretation sb: act_preorder same_boots
  by unfold_locales (auto simp: same_boots_def)

lemma console_fwd_left: "console_fwd jc jc' \<Longrightarrow> retries_left (jc_timeouts jc') = retries_left (jc_timeouts jc)"
  by (rule retries_left_cong) (simp_all add: console_fwd_def)

lemma console_fwd_over:
  "console_fwd jc jc' \<Longrightarrow> \<not> JobConsole_state jc < DUT_DONE \<Longrightarrow> \<not> JobConsole_state jc' < DUT_DONE"
  by (cases "jc_state jc"; cases "jc_state jc'")
     (auto simp: console_fwd_def JobConsole_state_def less_JobConsoleState_def less_eq_JobConsoleState_def split: if_splits)

lemma console_fwd_exec: "console_fwd (x_console x) jc' \<Longrightarrow> exec_fwd x (x\<lparr>x_console := jc'\<rparr>)"
  using console_fwd_left console_fwd_over by (fastforce simp: exec_fwd_def x_over_def console_fwd_def x_clock_def)

lemma on_console_fwd: "act_within console_fwd m \<Longrightarrow> act_within exec_fwd (on_console m)"
  unfolding act_within_def on_console_def
  by (metis (mono_tags, lifting) case_prod_conv console_fwd_exec prod.collapse snd_conv)

lemma upd_timeouts_fwd:
  assumes "\<And>ts. retries_left (f ts) \<le> retries_left ts" "\<And>ts. watchdogs ts = [] \<Longrightarrow> watchdogs (f ts) = []"
  shows "act_within exec_fwd (upd_timeouts f)"
  using assms by (simp add: reboot_ok_def act_within_def exec_fwd_def upd_timeouts_def act_modify_def x_over_def JobConsole_state_def x_clock_def)

lemma xlog_fwd: "act_within exec_fwd (xlog msg l)"
proof -
  have "act_within exec_fwd (on_console (JobConsole_log now msg l))" for now
    by (rule on_console_fwd[OF log_fwd])
  then show ?thesis unfolding act_within_def xlog_def by blast
qed

lemma PDUPort_set_clock: "w_clock (snd pw) \<le> w_clock (snd (snd (PDUPort_set g s lag dur st pw)))"
  by (auto simp: PDUPort_set_def PDUPort_state_def Let_def split: prod.splits sum.splits)

lemma set_power_fwd: "act_within exec_fwd (set_power e st)"
proof -
  have "x_clock x \<le> x_clock (snd (set_power e st x))" for x
    using PDUPort_set_clock[of "x_port x"] by (simp add: set_power_def x_clock_def split_beta)
  moreover have "x_over (snd (set_power e st x)) = x_over x" "x_console (snd (set_power e st x)) = x_console x" for x
    by (simp_all add: set_power_def split_beta x_over_def)
  ultimately show ?thesis by (simp add: act_within_def exec_fwd_def)
qed

lemma go_fwd: "act_within exec_fwd (go pc)"
  by (simp add: act_within_def exec_fwd_def go_def act_modify_def x_over_def x_clock_def)

lemma split_fwd: "(\<And>a b. act_within exec_fwd (f a b)) \<Longrightarrow> act_within exec_fwd (case y of (a, b) \<Rightarrow> f a b)"
  by (cases y) simp

lemmas exec_fwd_intros = xf.within_intros on_console_fwd xlog_fwd set_power_fwd go_fwd split_fwd

lemma boots_frame:
  "act_within same_boots (on_console m)" "act_within same_boots (upd_timeouts f)" "act_within same_boots (xlog msg l)"
  "act_within same_boots (set_power e st)" "act_within same_boots (go pc)"
  "(\<And>a b. act_within same_boots (h a b)) \<Longrightarrow> act_within same_boots (case y of (a, b) \<Rightarrow> h a b)"
  by (auto simp: act_within_def same_boots_def on_console_def upd_timeouts_def act_modify_def xlog_def set_power_def go_def split: prod.split)

lemmas same_boots_intros = sb.within_intros boots_frame

section \<open>The blocks\<close>

lemma retry_expired1_fwd:
  assumes "retry_expired1 r a x = (Inr b, x')" "watchdogs (x_timeouts x) = []" "r = Attr t"
  shows "exec_fwd x x'" "jc_needs_reboot (x_console x') = jc_needs_reboot (x_console x)"
    "\<not> b \<Longrightarrow> \<not> a \<and> x_left x' < x_left x" "watchdogs (x_timeouts x') = []"
proof -
  define ts where "ts = setattr_timeout t (snd (timeout_retry (getattr_timeout t (x_timeouts x)))) (x_timeouts x)"
  have left: "retries_left ts + (if fst (timeout_retry (getattr_timeout t (x_timeouts x))) then 1 else 0) = x_left x"
    unfolding ts_def by (rule retry_left)
  have ref: "retry_ref r (x_timeouts x) = (fst (timeout_retry (getattr_timeout t (x_timeouts x))), ts)"
    by (simp add: assms(3) retry_ref_def get_timeout_def update_timeout_def ts_def)
  have "b = (a \<or> \<not> fst (timeout_retry (getattr_timeout t (x_timeouts x))))"
    "x_stop x' = x_stop x" "x_cancel x' = x_cancel x" "x_port x' = x_port x" "jc_state (x_console x') = jc_state (x_console x)"
    "jc_alive (x_console x') = jc_alive (x_console x)" "jc_patterns (x_console x') = jc_patterns (x_console x)" "jc_timeouts (x_console x') = ts"
    "jc_needs_reboot (x_console x') = jc_needs_reboot (x_console x)"
    using assms(1)
    by (auto simp: retry_expired1_def ref upd_timeouts_def xlog_def on_console_def act_bind_eq_Inr act_return_def split_beta)
  then show "exec_fwd x x'" "jc_needs_reboot (x_console x') = jc_needs_reboot (x_console x)"
    "\<not> b \<Longrightarrow> \<not> a \<and> x_left x' < x_left x" "watchdogs (x_timeouts x') = []"
    using left assms(2) by (auto simp: exec_fwd_def x_over_def JobConsole_state_def x_clock_def reboot_ok_def ts_def split: if_splits)
qed

lemma retry_expired_fwd:
  assumes "retry_expired rs a x = (Inr b, x')" "watchdogs (x_timeouts x) = []" "set rs \<subseteq> range Attr"
  shows "exec_fwd x x' \<and> jc_needs_reboot (x_console x') = jc_needs_reboot (x_console x) \<and>
    (\<not> b \<longrightarrow> \<not> a \<and> x_left x' + length rs \<le> x_left x) \<and> watchdogs (x_timeouts x') = []"
  using assms
proof (induction rs arbitrary: a x)
  case Nil
  then show ?case by (simp add: act_return_def xf.R_refl)
next
  case (Cons r rs)
  obtain a1 x1 where 1: "retry_expired1 r a x = (Inr a1, x1)" "retry_expired rs a1 x1 = (Inr b, x')"
    using Cons.prems(1) by (auto simp: act_bind_eq_Inr)
  obtain t where t: "r = Attr t" using Cons.prems(3) by auto
  note s1 = retry_expired1_fwd[OF 1(1) Cons.prems(2) t]
  have "set rs \<subseteq> range Attr" using Cons.prems(3) by simp
  note ih = Cons.IH[OF 1(2) s1(4) this]
  have "exec_fwd x x'" using ih s1(1) xf.R_trans by blast
  moreover have "\<not> b \<longrightarrow> \<not> a \<and> x_left x' + length (r # rs) \<le> x_left x"
  proof
    assume "\<not> b"
    then show "\<not> a \<and> x_left x' + length (r # rs) \<le> x_left x" using ih s1(3) by simp
  qed
  ultimately show ?case using ih s1(2) by simp
qed

lemma retry_reboot_fwd:
  assumes "retry_reboot a x = (Inr b, x')"
  shows "exec_fwd x x'" "\<not> b \<Longrightarrow> \<not> a \<and> (jc_needs_reboot (x_console x) \<longrightarrow> x_left x' < x_left x)"
proof -
  define ts where "ts = setattr_timeout BOOT_CYCLE (snd (timeout_retry (boot_cycle (x_timeouts x)))) (x_timeouts x)"
  have left: "retries_left ts + (if fst (timeout_retry (boot_cycle (x_timeouts x))) then 1 else 0) = x_left x"
    using retry_left[of BOOT_CYCLE "x_timeouts x"] by (simp add: ts_def)
  show "exec_fwd x x'" "\<not> b \<Longrightarrow> \<not> a \<and> (jc_needs_reboot (x_console x) \<longrightarrow> x_left x' < x_left x)"
  proof (atomize (full), cases "jc_needs_reboot (x_console x)")
    case False
    then have "x' = x" "b = a" using assms by (simp_all add: retry_reboot_def act_return_def)
    then show "exec_fwd x x' \<and> (\<not> b \<longrightarrow> \<not> a \<and> (jc_needs_reboot (x_console x) \<longrightarrow> x_left x' < x_left x))"
      using False by (simp add: xf.R_refl)
  next
    case True
    define y where "y = x\<lparr>x_console := (x_console x)\<lparr>jc_timeouts := ts\<rparr>\<rparr>"
    obtain msg u where log: "xlog msg LWARN y = (Inr u, x')" and b: "b = (a \<or> \<not> fst (timeout_retry (boot_cycle (x_timeouts x))))"
      using assms True by (auto simp: retry_reboot_def upd_timeouts_def act_bind_eq_Inr act_return_def split_beta y_def ts_def)
    have "exec_fwd x y"
      using left by (simp add: exec_fwd_def y_def x_over_def JobConsole_state_def x_clock_def reboot_ok_def ts_def split: if_splits)
    moreover have "exec_fwd y x'" using xf.withinD[OF xlog_fwd, where s = y] log by (metis snd_conv)
    moreover have "x_left x' = retries_left ts" using log by (auto simp: xlog_def on_console_def y_def split_beta)
    ultimately show "exec_fwd x x' \<and> (\<not> b \<longrightarrow> \<not> a \<and> (jc_needs_reboot (x_console x) \<longrightarrow> x_left x' < x_left x))"
      using left b xf.R_trans by auto
  qed
qed

lemma account_fwd:
  assumes "do_account e x = (Inr y, x')" "watchdogs (x_timeouts x) = []"
  shows "exec_fwd x x'"
    "x_over x' \<or> (x_left x' + length (expired_list (ee_clock e) (x_timeouts x)) \<le> x_left x \<and>
       (jc_needs_reboot (x_console x) \<longrightarrow> x_left x' < x_left x))"
proof -
  let ?ex = "expired_list (ee_clock e) (x_timeouts x)"
  obtain a1 x1 b x2 where
    1: "retry_expired ?ex False x = (Inr a1, x1)" and 2: "retry_reboot a1 x1 = (Inr b, x2)" and
    3: "act_bind
       (if b then on_console (set_state (x_clock x2) (Inr None) DUT_DONE)
        else
          act_bind (upd_timeouts (\<lambda>ts. ts
             \<lparr>first_console_activity := timeout_stop (first_console_activity ts),
              console_activity := timeout_stop (console_activity ts),
              boot_cycle := timeout_stop (boot_cycle ts)\<rparr>)) (\<lambda>_.
          act_modify (\<lambda>x. x\<lparr>x_deployment := deployment_continue (x_job x)\<rparr>)))
       (\<lambda>_. go AtLoop) x2 = (Inr y, x')"
    using assms(1) unfolding do_account_def by (auto simp: act_bind_eq_Inr act_get_def)
  have "r \<in> range Attr" if "r \<in> set ?ex" for r
  proof -
    have "dict_ok (watchdogs (x_timeouts x))" by (simp add: assms(2))
    from this that obtain t where "get_timeout r (x_timeouts x) = Some t" by (rule expired_list_mem)
    then show ?thesis using assms(2) by (cases r) (auto simp: get_timeout_def)
  qed
  then have s1: "exec_fwd x x1" "jc_needs_reboot (x_console x1) = jc_needs_reboot (x_console x)"
    "\<not> a1 \<longrightarrow> x_left x1 + length ?ex \<le> x_left x"
    using retry_expired_fwd[OF 1 assms(2)] by blast+
  note s2 = retry_reboot_fwd[OF 2]
  have s3: "exec_fwd x2 x' \<and> (b \<longrightarrow> x_over x')"
  proof (cases b)
    case True
    obtain u x3 where x3: "on_console (set_state (x_clock x2) (Inr None) DUT_DONE) x2 = (Inr u, x3)" "x' = x3\<lparr>x_pc := AtLoop\<rparr>"
      using 3 True by (auto simp: act_bind_eq_Inr go_def act_modify_def)
    have "exec_fwd x2 x3"
      using xf.withinD[OF on_console_fwd[OF set_state_fwd], where s = x2] x3(1) by (metis snd_conv)
    moreover have "set_state (x_clock x2) (Inr None) DUT_DONE (x_console x2) = (Inr u, x_console x3)"
      using x3(1) by (auto simp: on_console_def split: prod.splits)
    then have "DUT_DONE \<le> jc_state (x_console x3)" by (rule set_state_reached)
    then have "x_over x3" by (auto simp: x_over_def JobConsole_state_def)
    ultimately show ?thesis
      using x3(2) by (simp add: exec_fwd_def x_over_def x_clock_def)
  next
    case False
    have "exec_fwd x2 (snd (upd_timeouts (\<lambda>ts. ts
             \<lparr>first_console_activity := timeout_stop (first_console_activity ts),
              console_activity := timeout_stop (console_activity ts),
              boot_cycle := timeout_stop (boot_cycle ts)\<rparr>) x2))"
      by (intro xf.withinD upd_timeouts_fwd) (simp_all add: retries_left_def TimeoutType_members_def)
    moreover have "exec_fwd z (z\<lparr>x_deployment := dp, x_pc := pc\<rparr>)" for z :: "'a exec" and dp pc
      by (simp add: exec_fwd_def x_over_def x_clock_def)
    moreover have "\<exists>dp. x' = (snd (upd_timeouts (\<lambda>ts. ts
             \<lparr>first_console_activity := timeout_stop (first_console_activity ts),
              console_activity := timeout_stop (console_activity ts),
              boot_cycle := timeout_stop (boot_cycle ts)\<rparr>) x2))\<lparr>x_deployment := dp, x_pc := AtLoop\<rparr>"
      using 3 False by (auto simp: upd_timeouts_def act_modify_def go_def act_bind_def)
    ultimately show ?thesis using False xf.R_trans by blast
  qed
  show "exec_fwd x x'" using s1(1) s2(1) s3 xf.R_trans by blast
  have "x_left x' \<le> x_left x2" "x_left x2 \<le> x_left x1" "x_left x1 \<le> x_left x"
    using s1(1) s2(1) s3 by (simp_all add: exec_fwd_def)
  then show "x_over x' \<or> (x_left x' + length ?ex \<le> x_left x \<and> (jc_needs_reboot (x_console x) \<longrightarrow> x_left x' < x_left x))"
    using s1(2,3) s2(2) s3 by auto
qed

lemma power_on_fwd: "act_within exec_fwd (do_power_on e)"
  unfolding do_power_on_def by (intro exec_fwd_intros) (simp_all add: exec_fwd_def x_over_def x_clock_def)

definition one_boot :: "('d exec, 'a) act \<Rightarrow> bool" where
  "one_boot m \<longleftrightarrow> (\<forall>x. x_boots (snd (m x)) \<le> Suc (x_boots x))"

lemma one_boot_bind: "act_within same_boots m \<Longrightarrow> (\<And>y. one_boot (f y)) \<Longrightarrow> one_boot (act_bind m f)"
  unfolding one_boot_def
proof
  fix x
  assume m: "act_within same_boots m" and f: "\<And>y. \<forall>x. x_boots (snd (f y x)) \<le> Suc (x_boots x)"
  show "x_boots (snd (act_bind m f x)) \<le> Suc (x_boots x)"
    using sb.withinD[OF m, of x] f
    by (cases "fst (m x)") (simp_all add: act_bind_ok act_bind_err same_boots_def, metis)
qed

lemma one_boot_bump: "act_within same_boots m \<Longrightarrow> one_boot (act_bind (act_modify (\<lambda>x. x\<lparr>x_boots := Suc (x_boots x)\<rparr>)) (\<lambda>_. m))"
  unfolding one_boot_def using sb.withinD[of m] by (fastforce simp: same_boots_def)

lemma power_on_boots: "one_boot (do_power_on e)"
  unfolding do_power_on_def
  by (intro one_boot_bump one_boot_bind same_boots_intros) (simp add: same_boots_def)

lemma block_boots:
  assumes "pc \<noteq> AtPowerOn"
  shows "act_within same_boots (exec_block e pc)"
proof -
  have "act_within same_boots (retry_expired rs a)" for rs a
    by (induction rs arbitrary: a) (auto intro!: same_boots_intros simp: retry_expired1_def)
  then have "act_within same_boots (do_account e)" unfolding do_account_def retry_reboot_def
    by (intro same_boots_intros) (simp_all add: same_boots_def)
  moreover have "act_within same_boots (do_setup e)" unfolding do_setup_def by (intro same_boots_intros) (simp_all add: same_boots_def)
  moreover have "act_within same_boots do_loop" unfolding do_loop_def by (intro same_boots_intros) (simp_all add: same_boots_def)
  moreover have "act_within same_boots do_timers" unfolding do_timers_def by (intro same_boots_intros)
  moreover have "act_within same_boots (do_boot e)" unfolding do_boot_def
    by (intro same_boots_intros) (simp add: same_boots_def upd_timeouts_def act_modify_def split: option.split)
  moreover have "act_within same_boots (do_cut e)" "act_within same_boots (do_power_off e)"
    unfolding do_cut_def do_power_off_def by (intro same_boots_intros)+
  moreover have "act_within same_boots do_end" unfolding do_end_def by (intro same_boots_intros) (simp_all add: same_boots_def)
  moreover have "act_within same_boots (do_tear_down e)" unfolding do_tear_down_def by (intro same_boots_intros)
  moreover have "act_within same_boots do_tear_wait" unfolding do_tear_wait_def tear_down_done_def by (intro same_boots_intros)
  ultimately show ?thesis
    using assms unfolding exec_block_def by (cases pc) (auto intro: sb.within_return)
qed

lemma reset_per_boot_fwd: "exec_fwd x (x\<lparr>x_console := JobConsole_reset_per_boot_state (x_console x)\<rparr>)"
  by (simp add: exec_fwd_def x_over_def JobConsole_reset_per_boot_state_def Let_def JobConsole_state_def x_clock_def reboot_ok_def)

lemma block_fwd:
  assumes "pc \<noteq> AtAccount"
  shows "act_within exec_fwd (exec_block e pc)"
proof -
  note left = retries_left_def TimeoutType_members_def
  have "act_within exec_fwd (do_setup e)" unfolding do_setup_def
    by (intro exec_fwd_intros upd_timeouts_fwd) (simp_all add: left exec_fwd_def x_over_def x_clock_def)
  moreover have "act_within exec_fwd do_loop" unfolding do_loop_def by (intro exec_fwd_intros reset_per_boot_fwd)
  moreover have "act_within exec_fwd do_timers" unfolding do_timers_def
    by (intro exec_fwd_intros upd_timeouts_fwd) (simp_all add: left)
  moreover have "act_within exec_fwd (do_boot e)" unfolding do_boot_def
    by (intro exec_fwd_intros) (auto simp: exec_fwd_def upd_timeouts_def act_modify_def left x_over_def JobConsole_state_def
        x_clock_def reboot_ok_def split: option.split)
  moreover have "act_within exec_fwd (do_cut e)" "act_within exec_fwd (do_power_off e)"
    unfolding do_cut_def do_power_off_def by (intro exec_fwd_intros)+
  moreover have "act_within exec_fwd do_end" unfolding do_end_def
    by (intro exec_fwd_intros upd_timeouts_fwd) (simp_all add: left exec_fwd_def x_over_def x_clock_def)
  moreover have "act_within exec_fwd (do_tear_down e)" unfolding do_tear_down_def by (intro exec_fwd_intros set_state_fwd)
  moreover have "act_within exec_fwd do_tear_wait" unfolding do_tear_wait_def tear_down_done_def
    by (intro exec_fwd_intros upd_timeouts_fwd) (simp_all add: left)
  ultimately show ?thesis
    using assms power_on_fwd unfolding exec_block_def by (cases pc) (auto intro: xf.within_return)
qed

section \<open>The invariant\<close>

text \<open>Why the inner loop was left: the job is over, a reboot was asked for, or a timeout expired.\<close>

definition pending :: "'d exec \<Rightarrow> bool" where
  "pending x \<longleftrightarrow> x_over x \<or> jc_needs_reboot (x_console x) \<or>
     (\<exists>a. timeout_has_expired (x_clock x) (getattr_timeout a (x_timeouts x)))"

definition boots_ok :: "nat \<Rightarrow> 'd exec \<Rightarrow> bool" where
  "boots_ok R x \<longleftrightarrow> x_boots x \<le> Suc R \<and>
     ((\<forall>e. x_pc x \<noteq> Raised e) \<longrightarrow>
       watchdogs (x_timeouts x) = [] \<and> reboot_ok (x_console x) \<and> x_boots x + x_left x \<le> Suc R \<and>
       (x_pc x \<in> {AtSetup, AtPowerOff, AtPowerOn} \<or> x_pc x = AtLoop \<and> \<not> x_over x \<longrightarrow> x_boots x + x_left x \<le> R) \<and>
       (x_pc x \<in> {AtCut, AtAccount} \<longrightarrow> pending x))"

text \<open>A step of another thread, which leaves the program counter and the number of boots alone.\<close>

lemma boots_ok_other:
  assumes "boots_ok R x" "exec_fwd x x'" "x_pc x' = x_pc x" "x_boots x' = x_boots x"
    and "reboot_ok (x_console x) \<Longrightarrow> pending x \<Longrightarrow> pending x'"
  shows "boots_ok R x'"
proof -
  have b: "x_boots x' \<le> Suc R" using assms(1,4) by (simp add: boots_ok_def)
  show ?thesis
  proof (cases "\<exists>e. x_pc x = Raised e")
    case True
    then show ?thesis using b assms(3) by (auto simp: boots_ok_def)
  next
    case False
    then have ok: "watchdogs (x_timeouts x) = []" "reboot_ok (x_console x)" "x_boots x + x_left x \<le> Suc R"
      "x_pc x \<in> {AtSetup, AtPowerOff, AtPowerOn} \<or> x_pc x = AtLoop \<and> \<not> x_over x \<longrightarrow> x_boots x + x_left x \<le> R"
      "x_pc x \<in> {AtCut, AtAccount} \<longrightarrow> pending x"
      using assms(1) unfolding boots_ok_def by blast+
    then show ?thesis
      unfolding boots_ok_def using b assms(2-5) unfolding exec_fwd_def by auto
  qed
qed

lemma pending_later:
  assumes "pending x" "x_over x \<longrightarrow> x_over x'" "x_clock x \<le> x_clock x'"
    "jc_needs_reboot (x_console x) \<longrightarrow> jc_needs_reboot (x_console x')"
    "\<And>a. getattr_timeout a (x_timeouts x') = getattr_timeout a (x_timeouts x)"
  shows "pending x'"
  using assms timeout_has_expired_mono unfolding pending_def by metis

lemma boots_ok_advance: "boots_ok R x \<Longrightarrow> boots_ok R (advance d x)"
proof (rule boots_ok_other)
  show "pending x \<Longrightarrow> pending (advance d x)"
    by (erule pending_later) (simp_all add: advance_def x_over_def x_clock_def)
qed (simp_all add: exec_fwd_def advance_def x_over_def x_clock_def)

lemma console_step_fwd: "console_fwd (x_console x) (snd (console_turn env evs (x_console x)))"
  by (rule fwd.withinD[OF console_turn_fwd])

lemma boots_ok_console:
  assumes "boots_ok R x" "console_fwd (x_console x) jc"
  shows "boots_ok R (x\<lparr>x_console := jc\<rparr>)"
proof (rule boots_ok_other[OF assms(1) console_fwd_exec[OF assms(2)]])
  assume "reboot_ok (x_console x)" "pending x"
  then show "pending (x\<lparr>x_console := jc\<rparr>)"
    using assms(2) console_fwd_exec[OF assms(2)]
    by (elim pending_later) (auto simp: console_fwd_def exec_fwd_def x_clock_def)
qed simp_all

lemma expired_pending:
  assumes "has_expired clk (x_timeouts x)" "watchdogs (x_timeouts x) = []" "\<forall>i. clk i \<le> x_clock x"
  shows "pending x"
proof -
  obtain r where r: "r \<in> set (expired_list clk (x_timeouts x))"
    using assms(1) unfolding has_expired_def by (metis length_greater_0_conv list.set_sel(1))
  have "dict_ok (watchdogs (x_timeouts x))" by (simp add: assms(2))
  then obtain t i where t: "get_timeout r (x_timeouts x) = Some t" "timeout_has_expired (clk i) t"
    using r by (rule expired_list_mem)
  then obtain a where "getattr_timeout a (x_timeouts x) = t"
    using assms(2) by (cases r) (auto simp: get_timeout_def)
  then show ?thesis
    using t(2) timeout_has_expired_mono assms(3) unfolding pending_def by metis
qed

lemma pending_expired:
  assumes "timeout_has_expired (x_clock x) (getattr_timeout a (x_timeouts x))" "\<forall>i. x_clock x \<le> clk i"
  shows "expired_list clk (x_timeouts x) \<noteq> []"
proof -
  have "a \<in> set TimeoutType_members" by (cases a) (simp_all add: TimeoutType_members_def)
  then have "Attr a \<in> set (expired_list (\<lambda>_. x_clock x) (x_timeouts x))"
    using assms(1) by (force simp: expired_list_const Timeouts_iter_def image_iff)
  then have "Attr a \<in> set (expired_list clk (x_timeouts x))"
    using expired_from_mono[of "\<lambda>_. x_clock x" clk] assms(2) unfolding expired_list_def by blast
  then show ?thesis by auto
qed

lemma boots_ok_account:
  assumes ok: "boots_ok R x" and pc: "x_pc x = AtAccount" and clk: "\<forall>i. x_clock x \<le> ee_clock e i"
  shows "boots_ok R (exec_thread e x)"
proof -
  have pre: "watchdogs (x_timeouts x) = []" "reboot_ok (x_console x)" "x_boots x + x_left x \<le> Suc R" "pending x"
    using ok pc by (simp_all add: boots_ok_def)
  obtain r x' where blk: "do_account e x = (r, x')" by fastforce
  have boots: "x_boots x' = x_boots x"
    using sb.withinD[OF block_boots[of AtAccount e], of x] blk by (simp add: exec_block_def same_boots_def)
  show ?thesis
  proof (cases r)
    case (Inl e')
    then show ?thesis using blk boots pre pc by (simp add: exec_thread_def exec_block_def boots_ok_def)
  next
    case (Inr y)
    have fwd: "exec_fwd x x'" using account_fwd(1) blk Inr pre(1) by blast
    have "x_over x' \<or> x_left x' < x_left x"
    proof (cases "x_over x")
      case True
      then show ?thesis using fwd by (simp add: exec_fwd_def)
    next
      case False
      define n where "n = length (expired_list (ee_clock e) (x_timeouts x))"
      have "jc_needs_reboot (x_console x) \<or> 0 < n"
        using False pre(4) pending_expired[OF _ clk] unfolding pending_def n_def by auto
      moreover have "x_over x' \<or> x_left x' + n \<le> x_left x \<and> (jc_needs_reboot (x_console x) \<longrightarrow> x_left x' < x_left x)"
        using account_fwd(2)[of e x y x'] blk Inr pre(1) unfolding n_def by blast
      ultimately show ?thesis by linarith
    qed
    moreover have "x_pc x' = AtLoop" using block_next_pc[of e x y x'] blk Inr pc by (simp add: exec_block_def)
    ultimately show ?thesis
      using blk Inr boots pre fwd pc by (auto simp: exec_thread_def exec_block_def boots_ok_def exec_fwd_def)
  qed
qed

lemma boots_ok_boot:
  assumes ok: "boots_ok R x" and pc: "x_pc x = AtBoot" and clk: "\<forall>i. ee_clock e i \<le> x_clock x + int d"
  shows "boots_ok R (advance d (exec_thread e x))"
proof -
  have pre: "watchdogs (x_timeouts x) = []" "reboot_ok (x_console x)" "x_boots x + x_left x \<le> Suc R"
    using ok pc by (simp_all add: boots_ok_def)
  show ?thesis
  proof (cases "boot_condition e x")
    case True
    define x' where "x' = snd (do_boot e x)"
    have x': "exec_thread e x = x'" "x_pc x' = AtBoot" "x_boots x' = x_boots x"
      using True pc by (auto simp: x'_def exec_thread_def exec_block_def do_boot_def act_modify_def upd_timeouts_def split: option.split)
    have "exec_fwd x x'"
      using xf.withinD[OF block_fwd[of AtBoot e], of x] by (simp add: exec_block_def x'_def)
    then have "boots_ok R x'" using x' pre by (simp add: boots_ok_def exec_fwd_def)
    then show ?thesis using boots_ok_advance x' by metis
  next
    case False
    then have x': "exec_thread e x = x\<lparr>x_pc := AtCut\<rparr>"
      using pc by (simp add: exec_thread_def exec_block_def do_boot_def go_def act_modify_def)
    have "pending (advance d (x\<lparr>x_pc := AtCut\<rparr>))"
    proof (cases "has_expired (ee_clock e) (x_timeouts x)")
      case True
      then show ?thesis using pre(1) clk by (intro expired_pending[of "ee_clock e"]) (simp_all add: advance_def x_clock_def)
    next
      case ne: False
      then show ?thesis using False by (auto simp: boot_condition_def pending_def x_over_def advance_def)
    qed
    then show ?thesis using x' pre by (simp add: boots_ok_def advance_def)
  qed
qed

lemma boots_ok_thread:
  assumes ok: "boots_ok R x" and clk: "\<forall>i. x_clock x \<le> ee_clock e i \<and> ee_clock e i \<le> x_clock x + int d"
  shows "boots_ok R (advance d (exec_thread e x))"
proof -
  consider "x_pc x = AtAccount" | "x_pc x = AtBoot" | e' where "x_pc x = Raised e'"
    | "x_pc x \<notin> {AtAccount, AtBoot}" "\<forall>e'. x_pc x \<noteq> Raised e'" by blast
  then show ?thesis
  proof cases
    case 4
    have pre: "watchdogs (x_timeouts x) = []" "reboot_ok (x_console x)" "x_boots x + x_left x \<le> Suc R"
      "x_pc x \<in> {AtSetup, AtPowerOff, AtPowerOn} \<or> x_pc x = AtLoop \<and> \<not> x_over x \<longrightarrow> x_boots x + x_left x \<le> R"
      using ok 4 unfolding boots_ok_def by blast+
    obtain r x' where blk: "exec_block e (x_pc x) x = (r, x')" by fastforce
    have fwd: "exec_fwd x x'" using xf.withinD[OF block_fwd[of "x_pc x" e], of x] blk 4 by simp
    have boots: "x_boots x' \<le> (if x_pc x = AtPowerOn then Suc (x_boots x) else x_boots x)"
      using sb.withinD[OF block_boots[of "x_pc x" e], of x] power_on_boots[of e] blk
      by (auto simp: same_boots_def one_boot_def exec_block_def dest: spec[of _ x])
    have "boots_ok R (exec_thread e x)"
    proof (cases r)
      case (Inl e')
      then show ?thesis using blk boots pre by (auto simp: exec_thread_def boots_ok_def split: if_splits)
    next
      case (Inr y)
      have next': "x_pc x' \<in> next_pcs (x_pc x)" using block_next_pc blk Inr by blast
      have loop: "x_pc x = AtLoop \<Longrightarrow> x_pc x' = AtPowerOff \<Longrightarrow> \<not> x_over x"
        using blk Inr by (auto simp: exec_block_def do_loop_def loop_condition_def x_over_def go_def act_modify_def split: if_splits)
      have cut: "x_pc x = AtCut \<Longrightarrow> pending x'"
        using ok blk Inr by (auto simp: boots_ok_def exec_block_def do_cut_def act_bind_eq_Inr set_power_def go_def act_modify_def
            x_over_def split: prod.splits elim!: pending_later)
           (use fwd in \<open>auto simp: exec_fwd_def x_clock_def\<close>)
      show ?thesis
        using blk Inr next' loop cut boots pre fwd 4
        by (cases "x_pc x") (auto simp: exec_thread_def boots_ok_def exec_fwd_def)
    qed
    then show ?thesis by (rule boots_ok_advance)
  next
    case 1
    then show ?thesis using boots_ok_advance boots_ok_account[OF ok] clk by blast
  next
    case 2
    then show ?thesis using boots_ok_boot[OF ok] clk by blast
  next
    case 3
    then have "exec_thread e x = x" by (simp add: exec_thread_def exec_block_def act_return_def)
    then show ?thesis using ok boots_ok_advance by metis
  qed
qed

lemma boots_ok_trans: "boots_ok R x \<Longrightarrow> exec_trans g s x x' \<Longrightarrow> boots_ok R x'"
proof (erule exec_transE)
  fix env evs assume "boots_ok R x" "x' = x\<lparr>x_console := snd (console_turn env evs (x_console x))\<rparr>"
  then show ?thesis using boots_ok_console console_step_fwd by blast
next
  assume "boots_ok R x" "x' = x\<lparr>x_console := lose_client (x_console x)\<rparr>"
  then show ?thesis by (auto intro!: boots_ok_console simp: lose_client_def console_fwd_def reboot_ok_def)
next
  assume ok: "boots_ok R x" and x': "x' = x\<lparr>x_cancel := True\<rparr>"
  show ?thesis using ok
    by (rule boots_ok_other) (auto simp: x' exec_fwd_def x_over_def x_clock_def pending_def)
next
  assume ok: "boots_ok R x" and x': "x' = x\<lparr>x_stop := True\<rparr>"
  show ?thesis using ok
    by (rule boots_ok_other) (auto simp: x' exec_fwd_def x_over_def x_clock_def pending_def)
qed (simp_all add: boots_ok_thread boots_ok_advance)

section \<open>Properties\<close>

text \<open>
  C5. \<open>execute_job\<close> cannot boot a machine for ever: a job without watchdogs powers the machine up at
  most once more than its timeouts have retries left, whatever the machine prints, whenever the
  client goes away and however the threads interleave.
\<close>

theorem boots_bounded:
  assumes "exec_reach g s x x'" "x_pc x = AtSetup" "x_boots x = 0" "watchdogs (x_timeouts x) = []"
    and "\<not> jc_needs_reboot (x_console x)"
  shows "x_boots x' \<le> 1 + retries_left (x_timeouts x)"
proof -
  have "boots_ok (retries_left (x_timeouts x)) x"
    using assms(2-5) by (simp add: boots_ok_def reboot_ok_def)
  then have "boots_ok (retries_left (x_timeouts x)) x'"
    using exec_invariant[OF assms(1), of "boots_ok (retries_left (x_timeouts x))"] boots_ok_trans by blast
  then show ?thesis by (simp add: boots_ok_def)
qed

definition example_exec :: "DummyPDU exec" where
  "example_exec =
     \<lparr>x_pc = AtSetup, x_port = (PDUPort_new 0 None 0, \<lparr>w_clock = 0, w_dev = DummyPDU_init ''d'' (Some [''p'']), w_cmds = []\<rparr>),
      x_console = JobConsole_init ''m'' (ConsoleState_init \<lparr>regex = ''END''\<rparr> None None None None None)
        (example_timeouts\<lparr>watchdogs := []\<rparr>) None LINFO,
      x_job = \<lparr>job_version = 1, job_deadline = 0, job_target = Target_init None None, job_timeouts = example_timeouts\<lparr>watchdogs := []\<rparr>,
        job_console_patterns = ConsoleState_init \<lparr>regex = ''END''\<rparr> None None None None None,
        deployment_start = Deployment_init (Some ''http://k'') (Some ''http://i'') None,
        deployment_continue = Deployment_init (Some ''http://k'') (Some ''http://i'') None\<rparr>,
      x_deployment = Deployment_init None None None, x_boot_config = None, x_cache = [], x_ready = True, x_stop = False,
      x_cancel = False, x_boots = 0\<rparr>"

theorem boots_bounded_witness:
  "x_boots (advance 9 (exec_thread
      \<lparr>ee_get = DummyPDU_get_port_state, ee_set = DummyPDU_set_port_state, ee_lag = 0, ee_dur = 1, ee_minio_url = ''http://minio'',
       ee_download = (\<lambda>_. Inr ()), ee_bucket = Inr None, ee_clock = (\<lambda>_. 5)\<rparr> example_exec)) \<le> 3"
proof -
  let ?e = "\<lparr>ee_get = DummyPDU_get_port_state, ee_set = DummyPDU_set_port_state, ee_lag = 0, ee_dur = 1, ee_minio_url = ''http://minio'',
       ee_download = (\<lambda>_. Inr ()), ee_bucket = Inr None, ee_clock = (\<lambda>_. 5)\<rparr>"
  have "exec_trans DummyPDU_get_port_state DummyPDU_set_port_state example_exec (advance 9 (exec_thread ?e example_exec))"
    by (rule exec_trans.thread) (simp_all add: example_exec_def x_clock_def)
  then have "exec_reach DummyPDU_get_port_state DummyPDU_set_port_state example_exec (advance 9 (exec_thread ?e example_exec))" by blast
  from boots_bounded[OF this] show ?thesis
    by (simp add: example_exec_def JobConsole_init_def JobConsole_reset_per_boot_state_def Let_def cs_needs_reboot_def
        ConsoleState_reset_per_boot_state_def retries_left_def TimeoutType_members_def example_timeouts_def Timeout_init_def
        default_timeout_def ConsoleState_init_def)
qed

end
