(* ===== verification/Sergent_Hartman.thy ===== *)
theory Sergent_Hartman
  imports Message Py_Strings
begin

text \<open>
  The qualification of machines (\<open>executor.py\<close>: \<open>SergentHartman\<close>): a machine first registers
  itself, then boots a number of times, and is ready for service if enough of the boots passed.
  The jobs themselves come from template files; whether loading one succeeds is a parameter.
\<close>

datatype training_task = RegistrationJob | BootloopJob

record SergentHartman =
  sh_boot_loop_counts :: int
  sh_qualifying_rate :: int
  sh_is_active :: bool
  sh_cur_loop :: int
  sh_statuses :: "(JobStatus, int) dict"

definition sh_reset :: "SergentHartman \<Rightarrow> SergentHartman" where
  "sh_reset sh = sh\<lparr>sh_is_active := False, sh_cur_loop := 0, sh_statuses := []\<rparr>"

text \<open>\<open>cfg_count\<close> and \<open>cfg_rate\<close> are the configured strings that apply when no value is given.\<close>

definition SergentHartman_init :: "string \<Rightarrow> string \<Rightarrow> int option \<Rightarrow> int option \<Rightarrow> SergentHartman res" where
  "SergentHartman_init cfg_count cfg_rate counts rate =
     res_bind (case counts of None \<Rightarrow> py_int cfg_count | Some n \<Rightarrow> Inr n) (\<lambda>n.
     res_bind (case rate of None \<Rightarrow> py_int cfg_rate | Some r \<Rightarrow> Inr r) (\<lambda>r.
       Inr (sh_reset \<lparr>sh_boot_loop_counts = n, sh_qualifying_rate = r, sh_is_active = False,
                      sh_cur_loop = 0, sh_statuses = []\<rparr>)))"

definition is_machine_registered :: "SergentHartman \<Rightarrow> bool" where
  "is_machine_registered sh = (sh_cur_loop sh > 0)"

definition sh_is_available :: "string \<Rightarrow> string \<Rightarrow> bool" where
  "sh_is_available registration_job bootloop_job = (registration_job \<noteq> [] \<or> bootloop_job \<noteq> [])"

text \<open>\<open>load t\<close> is what \<open>Job.from_path\<close> does for the template of task \<open>t\<close>.\<close>

definition next_task :: "(training_task \<Rightarrow> 'j res) \<Rightarrow> (SergentHartman, 'j) act" where
  "next_task load sh =
     (if \<not> sh_is_active sh then (load RegistrationJob, (sh_reset sh)\<lparr>sh_is_active := True\<rparr>)
      else if sh_cur_loop sh \<noteq> sum_list (dict_values (sh_statuses sh))
      then (Inl (ValueError ''The previous next_task() call was not followed by a call to report()''), sh)
      else (load BootloopJob, sh\<lparr>sh_cur_loop := sh_cur_loop sh + 1\<rparr>))"

text \<open>
  \<open>report\<close> returns the delay before the next try; \<open>Some b\<close> as second component means that it set the
  machine's \<open>ready_for_service\<close> to \<open>b\<close>.
\<close>

definition report :: "int \<Rightarrow> JobStatus \<Rightarrow> SergentHartman \<Rightarrow> int \<times> bool option \<times> SergentHartman" where
  "report retrial_delay job_status sh =
     (if sh_cur_loop sh = 0 then
        if job_status \<noteq> PASS then (retrial_delay, None, sh_reset sh) else (0, None, sh)
      else
        let st = dict_set job_status (dict_get_or (sh_statuses sh) job_status 0 + 1) (sh_statuses sh);
            sh1 = sh\<lparr>sh_statuses := st\<rparr>
        in if sh_cur_loop sh1 = sh_boot_loop_counts sh1
           then (0, Some (dict_get_or st PASS 0 \<ge> sh_qualifying_rate sh1), sh1\<lparr>sh_is_active := False\<rparr>)
           else (0, None, sh1))"

text \<open>One training session: a task, then the report of how it ended.\<close>

definition training_session :: "int \<Rightarrow> JobStatus \<Rightarrow> SergentHartman \<Rightarrow> bool option \<times> SergentHartman" where
  "training_session delay st sh =
     (let (_, ready, sh') = report delay st (snd (next_task (\<lambda>t. Inr t) sh)) in (ready, sh'))"

fun training :: "int \<Rightarrow> JobStatus list \<Rightarrow> SergentHartman \<Rightarrow> bool option list \<times> SergentHartman" where
  "training delay [] sh = ([], sh)"
| "training delay (s # ss) sh =
     (let (r, sh1) = training_session delay s sh; (rs, sh2) = training delay ss sh1 in (r # rs, sh2))"

section \<open>Lemmas\<close>

definition status_count :: "JobStatus list \<Rightarrow> (JobStatus, int) dict \<Rightarrow> bool" where
  "status_count ss d \<longleftrightarrow> dict_ok d \<and> (\<forall>s. dict_get_or d s 0 = int (count_list ss s)) \<and> sum_list (dict_values d) = int (length ss)"

lemma sum_list_dict_set:
  "dict_ok d \<Longrightarrow> sum_list (dict_values (dict_set k v d)) = sum_list (dict_values d) - dict_get_or d k 0 + (v :: int)"
proof (induction d)
  case (Cons x d)
  show ?case
  proof (cases "fst x = k")
    case True
    then show ?thesis by (cases x) (simp add: dict_get_or_def)
  next
    case False
    then show ?thesis using Cons by (cases x) (simp add: dict_get_or_def)
  qed
qed (simp add: dict_get_or_def)

lemma status_count_step:
  "status_count ss d \<Longrightarrow> status_count (ss @ [s]) (dict_set s (dict_get_or d s 0 + 1) d)"
  unfolding status_count_def by (auto simp: sum_list_dict_set) (auto simp: dict_get_or_def)

lemma status_count_Nil: "status_count [] []"
  by (simp add: status_count_def dict_get_or_def)

text \<open>The state in the boot loop, after the reports \<open>ss\<close>.\<close>

definition in_boot_loop :: "JobStatus list \<Rightarrow> SergentHartman \<Rightarrow> bool" where
  "in_boot_loop ss sh \<longleftrightarrow> sh_is_active sh \<and> sh_cur_loop sh = int (length ss) \<and> status_count ss (sh_statuses sh)"

lemma training_session_boot:
  assumes "in_boot_loop ss sh" "training_session delay s sh = (r, sh')"
  shows "sh_boot_loop_counts sh' = sh_boot_loop_counts sh \<and> sh_qualifying_rate sh' = sh_qualifying_rate sh \<and>
    (if int (length ss) + 1 = sh_boot_loop_counts sh
     then r = Some (int (count_list (ss @ [s]) PASS) \<ge> sh_qualifying_rate sh) \<and> \<not> sh_is_active sh'
     else r = None \<and> in_boot_loop (ss @ [s]) sh')"
proof -
  let ?st = "dict_set s (dict_get_or (sh_statuses sh) s 0 + 1) (sh_statuses sh)"
  have st: "status_count (ss @ [s]) ?st" using assms(1) status_count_step by (simp add: in_boot_loop_def)
  have "sh_cur_loop sh = sum_list (dict_values (sh_statuses sh))" "sh_is_active sh"
    using assms(1) by (simp_all add: in_boot_loop_def status_count_def)
  moreover have "dict_get_or ?st PASS 0 = int (count_list (ss @ [s]) PASS)"
    using st unfolding status_count_def by blast
  ultimately show ?thesis
    using assms st by (auto simp: training_session_def next_task_def report_def Let_def in_boot_loop_def)
qed

lemma training_boot_loop:
  assumes "in_boot_loop ss sh" "int (length ss + length ts) = sh_boot_loop_counts sh" "ts \<noteq> []"
  shows "fst (training delay ts sh) =
      replicate (length ts - 1) None @ [Some (int (count_list (ss @ ts) PASS) \<ge> sh_qualifying_rate sh)] \<and>
    \<not> sh_is_active (snd (training delay ts sh))"
  using assms
proof (induction ts arbitrary: ss sh)
  case (Cons t ts)
  obtain r sh1 where step: "training_session delay t sh = (r, sh1)" by fastforce
  note one = training_session_boot[OF Cons.prems(1) step]
  show ?case
  proof (cases "ts = []")
    case True
    then show ?thesis using one Cons.prems(2) step by (auto simp: Let_def split: if_splits)
  next
    case False
    then have "int (length ss) + 1 \<noteq> sh_boot_loop_counts sh" using Cons.prems(2) by (cases ts) auto
    then have "r = None" "in_boot_loop (ss @ [t]) sh1" "sh_boot_loop_counts sh1 = sh_boot_loop_counts sh"
      "sh_qualifying_rate sh1 = sh_qualifying_rate sh" using one by auto
    moreover from this False have "fst (training delay ts sh1) =
        replicate (length ts - 1) None @ [Some (int (count_list (ss @ t # ts) PASS) \<ge> sh_qualifying_rate sh)] \<and>
        \<not> sh_is_active (snd (training delay ts sh1))"
      using Cons.IH[of "ss @ [t]" sh1] Cons.prems(2) by simp
    ultimately show ?thesis using step False by (cases ts) (simp_all add: split_beta Let_def)
  qed
qed simp

section \<open>Properties\<close>

text \<open>
  C18. The qualification of a machine: starting from scratch, once the registration passed, the
  next \<open>boot_loop_counts\<close> boots are counted; nothing is decided before the last of them, and then
  the machine is declared ready for service exactly if at least \<open>qualifying_rate\<close> of them passed.
\<close>

theorem training_decides_by_pass_count:
  assumes "\<not> sh_is_active sh" "int (length ss) = sh_boot_loop_counts sh" "ss \<noteq> []"
  shows "fst (training delay (PASS # ss) sh) =
      replicate (length ss) None @ [Some (int (count_list ss PASS) \<ge> sh_qualifying_rate sh)] \<and>
    \<not> sh_is_active (snd (training delay (PASS # ss) sh))"
proof -
  let ?sh1 = "(sh_reset sh)\<lparr>sh_is_active := True\<rparr>"
  have reg: "training_session delay PASS sh = (None, ?sh1)"
    using assms(1) by (simp add: training_session_def next_task_def report_def sh_reset_def)
  have "in_boot_loop [] ?sh1" by (simp add: in_boot_loop_def sh_reset_def status_count_Nil)
  then show ?thesis
    using training_boot_loop[of "[]" ?sh1 ss delay] assms(2,3) reg
    by (cases ss) (simp_all add: sh_reset_def split_beta Let_def)
qed

theorem training_decides_by_pass_count_witness:
  "fst (training 120 [PASS, PASS, FAIL, PASS]
      \<lparr>sh_boot_loop_counts = 3, sh_qualifying_rate = 2, sh_is_active = False, sh_cur_loop = 0, sh_statuses = []\<rparr>) =
     [None, None, None, Some True]"
  using training_decides_by_pass_count[of
      "\<lparr>sh_boot_loop_counts = 3, sh_qualifying_rate = 2, sh_is_active = False, sh_cur_loop = 0, sh_statuses = []\<rparr>"
      "[PASS, FAIL, PASS]" 120]
  by (simp add: numeral_3_eq_3)

text \<open>
  A task that could not be loaded derails the training: if the registration job fails to
  load, the next task is a boot of the loop, without any registration; if a boot job fails to
  load, every later request for a task raises \<open>ValueError\<close>.
\<close>

theorem failed_load_derails_training:
  assumes "load RegistrationJob = Inl e" "load BootloopJob = Inl e'"
  shows "(\<not> sh_is_active sh \<longrightarrow>
      (let sh1 = snd (next_task load sh)
       in fst (next_task load sh) = Inl e \<and> fst (next_task (\<lambda>t. Inr t) sh1) = Inr BootloopJob \<and>
          \<not> is_machine_registered sh1)) \<and>
    (sh_is_active sh \<and> sh_cur_loop sh = sum_list (dict_values (sh_statuses sh)) \<longrightarrow>
      (let sh1 = snd (next_task load sh)
       in fst (next_task (\<lambda>t. Inr t) sh1) =
            Inl (ValueError ''The previous next_task() call was not followed by a call to report()'') \<and>
          snd (next_task (\<lambda>t. Inr t) sh1) = sh1))"
  using assms by (simp add: next_task_def sh_reset_def is_machine_registered_def Let_def)

theorem failed_load_derails_training_witness:
  "let sh = \<lparr>sh_boot_loop_counts = 3, sh_qualifying_rate = 2, sh_is_active = False, sh_cur_loop = 0, sh_statuses = []\<rparr>
   in fst (next_task (\<lambda>t. Inr t) (snd (next_task (\<lambda>_. Inl OSError :: unit res) sh))) = Inr BootloopJob"
  using failed_load_derails_training[of "\<lambda>_. Inl OSError :: unit res" OSError OSError
      "\<lparr>sh_boot_loop_counts = 3, sh_qualifying_rate = 2, sh_is_active = False, sh_cur_loop = 0, sh_statuses = []\<rparr>"]
  by (simp add: Let_def)

end
