(* ===== verification/Executor_Main.thy ===== *)
theory Executor_Main
  imports Boot_Bound Sergent_Hartman
begin

text \<open>
  The executor of a machine around the execution of its jobs (\<open>executor.py\<close>: \<open>Executor.__init__\<close>,
  \<open>start_job\<close>, \<open>run\<close> with \<open>session_init\<close> and \<open>session_end\<close>). The main loop runs in the executor's
  thread, \<open>start_job\<close> in a thread of the REST server; \<open>main_trans\<close> interleaves them at the
  waits and calls of the loop. The execution of a job is a run of the system of theory
  \<open>Executor\<close> from its start to its end.
\<close>

section \<open>The state\<close>

datatype main_pc = AtTop | AtWait | AtNoJob | AtStart | AtExecute | AtEndSession | Stopped

record ('w, 'd) executor =
  ex_pc :: main_pc
  ex_state :: MachineState
  ex_machine_id :: string
  ex_ip_address :: string
  ex_ready_for_service :: bool
  ex_port :: "(PDUPort \<times> 'd pdu_world) option"
  ex_minio :: MinioClient
  ex_storage :: 'w
  ex_sergent_hartman :: SergentHartman
  ex_job_ready :: bool
  ex_cancel :: bool
  ex_stop :: bool
  ex_job_config :: "Job option"
  ex_console :: "JobConsole option"
  ex_bucket :: "JobBucket option"
  ex_boot_config :: "BootConfig option"
  ex_cache :: url_cache

definition Executor_init ::
  "string \<Rightarrow> string \<Rightarrow> bool \<Rightarrow> (PDUPort \<times> 'd pdu_world) option \<Rightarrow> MinioClient \<Rightarrow> 'w \<Rightarrow> SergentHartman \<Rightarrow> ('w, 'd) executor" where
  "Executor_init mid ip ready port minio storage sh =
     \<lparr>ex_pc = AtTop, ex_state = WAIT_FOR_CONFIG, ex_machine_id = mid, ex_ip_address = ip, ex_ready_for_service = ready,
      ex_port = port, ex_minio = minio, ex_storage = storage, ex_sergent_hartman = sh,
      ex_job_ready = False, ex_cancel = False, ex_stop = False, ex_job_config = None, ex_console = None,
      ex_bucket = None, ex_boot_config = None, ex_cache = []\<rparr>"

definition boot_config_query :: "('w, 'd) executor \<Rightarrow> BootConfig option" where
  "boot_config_query ex = ex_boot_config ex"

section \<open>Starting a job\<close>

text \<open>The request, and what the world answers: the MinIO server, the templates, SALAD, the client.\<close>

record job_request =
  jr_raw_job :: string
  jr_job_id :: string
  jr_version :: int
  jr_minio_groups :: "string list option"
  jr_tarball :: "tar_member list option"

record 'w main_env =
  me_api :: "'w minio_api"
  me_now :: int
  me_rnd :: int
  me_token :: string
  me_render :: "string \<Rightarrow> bucket_view option \<Rightarrow> Job res"
  me_training :: "training_task \<Rightarrow> Job res"
  me_training_available :: bool
  me_salad :: "unit res"
  me_client :: bool
  me_lag :: nat
  me_dur :: nat
  me_retrial_delay :: int
  me_tb :: "py_exc \<Rightarrow> string"

definition on_storage :: "('w, 'a) act \<Rightarrow> (('w, 'd) executor, 'a) act" where
  "on_storage m ex = (let (r, w) = m (ex_storage ex) in (r, ex\<lparr>ex_storage := w\<rparr>))"

text \<open>Replacing the bucket drops the last reference to the old one, which runs its \<open>__del__\<close>.\<close>

definition set_bucket :: "'w minio_api \<Rightarrow> JobBucket option \<Rightarrow> (('w, 'd) executor, unit) act" where
  "set_bucket api b =
     act_bind (act_get ex_bucket) (\<lambda>old.
     act_bind (act_modify (\<lambda>ex. ex\<lparr>ex_bucket := b\<rparr>)) (\<lambda>_.
       case old of None \<Rightarrow> act_return () | Some ob \<Rightarrow> on_storage (JobBucket_del api ob)))"

definition view_bucket :: "JobBucket \<Rightarrow> Credentials \<Rightarrow> bucket_view" where
  "view_bucket b cr =
     \<lparr>bv_minio_url = mc_url (jb_minio b), bv_name = jb_name b, bv_access_key = cr_username cr, bv_secret_key = cr_password cr\<rparr>"

definition MachineState_name :: "MachineState \<Rightarrow> string" where
  "MachineState_name s =
     (case s of WAIT_FOR_CONFIG \<Rightarrow> ''WAIT_FOR_CONFIG'' | IDLE \<Rightarrow> ''IDLE'' | TRAINING \<Rightarrow> ''TRAINING''
      | QUEUED \<Rightarrow> ''QUEUED'' | RUNNING \<Rightarrow> ''RUNNING'')"

text \<open>\<open>JobConsole(...)\<close>, which connects to SALAD.\<close>

definition new_console :: "'w main_env \<Rightarrow> int option \<Rightarrow> Job \<Rightarrow> (('w, 'd) executor, unit) act" where
  "new_console e version job =
     act_bind (act_lift (me_salad e)) (\<lambda>_.
       act_modify (\<lambda>ex. ex\<lparr>ex_console := Some (JobConsole_init (ex_machine_id ex) (job_console_patterns job) (job_timeouts job) version LINFO)\<rparr>))"

definition start_job :: "'w main_env \<Rightarrow> job_request \<Rightarrow> (('w, 'd) executor, unit) act" where
  "start_job e rq =
     act_bind (act_get (\<lambda>ex. ex)) (\<lambda>self.
       if ex_state self \<noteq> IDLE
       then act_raise (ValueError (''The machine isn't idle: Current state is '' @ MachineState_name (ex_state self)))
       else
        act_bind (on_storage (JobBucket_from_job_request (me_api e) (ex_minio self) (me_now e) (me_rnd e)
                    (ex_machine_id self) (jr_job_id rq) (jr_tarball rq))) (\<lambda>b.
        act_bind (set_bucket (me_api e) (Some b)) (\<lambda>_.
        act_bind (on_storage (create_owner_credentials (me_api e) (me_token e) b ''dut'' None None (jr_minio_groups rq)
                    (Some [ex_ip_address self @ ''/32'']))) (\<lambda>(cr, b').
        act_bind (act_modify (\<lambda>ex. ex\<lparr>ex_bucket := Some b'\<rparr>)) (\<lambda>_.
        act_bind (act_lift (me_render e (jr_raw_job rq) (Some (view_bucket b' cr)))) (\<lambda>job.
        act_bind (act_modify (\<lambda>ex. ex\<lparr>ex_state := QUEUED, ex_job_config := Some job\<rparr>)) (\<lambda>_.
        act_bind (new_console e (Some (jr_version rq)) job) (\<lambda>_.
          act_modify (\<lambda>ex. ex\<lparr>ex_job_ready := True\<rparr>)))))))))"

section \<open>The main loop\<close>

definition goto :: "main_pc \<Rightarrow> (('w, 'd) executor, unit) act" where
  "goto pc = act_modify (\<lambda>ex. ex\<lparr>ex_pc := pc\<rparr>)"

text \<open>\<open>session_init\<close> up to the wait for a job, or up to the power cut for a training task.\<close>

definition session_pick :: "'w main_env \<Rightarrow> (('w, 'd) executor, unit) act" where
  "session_pick e =
     act_bind (act_modify (\<lambda>ex. ex\<lparr>ex_job_config := None, ex_console := None, ex_boot_config := None\<rparr>)) (\<lambda>_.
     act_bind (act_get ex_ready_for_service) (\<lambda>ready.
       if me_training_available e \<and> \<not> ready then
         act_bind (act_modify (\<lambda>ex. ex\<lparr>ex_state := TRAINING\<rparr>)) (\<lambda>_.
         act_bind (\<lambda>ex. let (r, sh) = next_task (me_training e) (ex_sergent_hartman ex) in (r, ex\<lparr>ex_sergent_hartman := sh\<rparr>)) (\<lambda>job.
         act_bind (act_modify (\<lambda>ex. ex\<lparr>ex_job_config := Some job\<rparr>)) (\<lambda>_.
         act_bind (new_console e None job) (\<lambda>_. goto AtStart))))
       else
         act_bind (act_modify (\<lambda>ex. ex\<lparr>ex_sergent_hartman := sh_reset (ex_sergent_hartman ex), ex_state := IDLE\<rparr>)) (\<lambda>_.
           goto AtWait)))"

text \<open>\<open>job_ready.wait(1)\<close> returns: with the event set, or without it after the timeout.\<close>

definition session_wait :: "(('w, 'd) executor, unit) act" where
  "session_wait =
     act_bind (act_get ex_job_ready) (\<lambda>ready.
       if ready then
         act_bind (act_modify (\<lambda>ex. ex\<lparr>ex_job_ready := False, ex_cancel := False, ex_state := RUNNING\<rparr>)) (\<lambda>_. goto AtStart)
       else goto AtNoJob)"

definition session_start ::
  "(int \<Rightarrow> ('d, PDUState) act) \<Rightarrow> (int \<Rightarrow> PDUState \<Rightarrow> ('d, unit) act) \<Rightarrow> 'w main_env \<Rightarrow> (('w, 'd) executor, unit) act" where
  "session_start g s e =
     act_bind (\<lambda>ex. case ex_port ex of
         None \<Rightarrow> (Inl AttributeError, ex)
       | Some pw \<Rightarrow> let (r, pw') = PDUPort_set g s (me_lag e) (me_dur e) PDU_OFF pw in (r, ex\<lparr>ex_port := Some pw'\<rparr>)) (\<lambda>_.
     act_bind (\<lambda>ex. case ex_console ex of
         None \<Rightarrow> (Inl AttributeError, ex)
       | Some jc \<Rightarrow> let (r, jc') = JobConsole_start (me_client e) jc in (r, ex\<lparr>ex_console := Some jc'\<rparr>)) (\<lambda>_.
       goto AtExecute))"

definition close_session :: "'w main_env \<Rightarrow> JobConsole option \<Rightarrow> (('w, 'd) executor, unit) act" where
  "close_session e console =
     (case console of
        None \<Rightarrow> act_return ()
      | Some jc \<Rightarrow>
          act_bind (\<lambda>ex. let (r, jc') = JobConsole_close (me_now e) jc in (r, ex\<lparr>ex_console := Some jc'\<rparr>)) (\<lambda>_.
          act_bind (act_modify (\<lambda>ex. ex\<lparr>ex_console := None, ex_boot_config := None\<rparr>)) (\<lambda>_.
            set_bucket (me_api e) None)))"

definition session_end :: "'w main_env \<Rightarrow> (('w, 'd) executor, nat) act" where
  "session_end e =
     act_bind (act_get (\<lambda>ex. (ex_sergent_hartman ex, ex_job_config ex, ex_console ex))) (\<lambda>(sh, config, console).
     act_bind (case config of
         Some job \<Rightarrow>
           if sh_is_active sh then
             let cs = (case console of Some jc \<Rightarrow> jc_patterns jc | None \<Rightarrow> job_console_patterns job);
                 (delay, ready, sh') = report (me_retrial_delay e) (JobStatus_from_str (job_status cs)) sh
             in act_bind (act_modify (\<lambda>ex. ex\<lparr>ex_sergent_hartman := sh',
                    ex_ready_for_service := (case ready of None \<Rightarrow> ex_ready_for_service ex | Some b \<Rightarrow> b)\<rparr>)) (\<lambda>_.
                  act_return (nat delay))
           else act_return 0
       | None \<Rightarrow> act_return 0) (\<lambda>delay.
     act_bind (act_modify (\<lambda>ex. ex\<lparr>ex_job_config := None\<rparr>)) (\<lambda>_.
     act_bind (close_session e console) (\<lambda>_. act_return delay))))"

text \<open>\<open>log_exception\<close>: what it raises itself is caught by the outer handler.\<close>

definition log_exception :: "'w main_env \<Rightarrow> py_exc \<Rightarrow> ('w, 'd) executor \<Rightarrow> ('w, 'd) executor" where
  "log_exception e exc ex =
     ex\<lparr>ex_console := map_option (\<lambda>jc. snd (JobConsole_log (me_now e) (''An exception got caught: '' @ me_tb e exc @ nl) LERROR jc)) (ex_console ex)\<rparr>"

definition main_guard :: "'w main_env \<Rightarrow> (('w, 'd) executor, unit) act \<Rightarrow> ('w, 'd) executor \<Rightarrow> ('w, 'd) executor" where
  "main_guard e m ex =
     (case m ex of
        (Inr _, ex') \<Rightarrow> ex'
      | (Inl exc, ex') \<Rightarrow> (log_exception e exc ex')\<lparr>ex_pc := AtEndSession\<rparr>)"

text \<open>
  One step of the loop, except for the execution of a job. Exceptions of \<open>session_end\<close> are
  caught, and the loop goes on.
\<close>

definition main_step ::
  "(int \<Rightarrow> ('d, PDUState) act) \<Rightarrow> (int \<Rightarrow> PDUState \<Rightarrow> ('d, unit) act) \<Rightarrow> 'w main_env \<Rightarrow> ('w, 'd) executor \<Rightarrow> ('w, 'd) executor" where
  "main_step g s e ex =
     (case ex_pc ex of
        AtTop \<Rightarrow>
          if ex_stop ex then ex\<lparr>ex_pc := Stopped\<rparr>
          else if ex_port ex = None then ex
          else main_guard e (session_pick e) ex
      | AtWait \<Rightarrow> main_guard e session_wait ex
      | AtStart \<Rightarrow> main_guard e (session_start g s e) ex
      | AtNoJob \<Rightarrow> (snd (session_end e ex))\<lparr>ex_pc := AtTop\<rparr>
      | AtEndSession \<Rightarrow> (snd (session_end e ex))\<lparr>ex_pc := AtTop\<rparr>
      | AtExecute \<Rightarrow>
          if ex_job_config ex = None then (log_exception e AttributeError ex)\<lparr>ex_pc := AtEndSession\<rparr> else ex
      | Stopped \<Rightarrow> ex)"

definition exec_of :: "('w, 'd) executor \<Rightarrow> Job \<Rightarrow> JobConsole \<Rightarrow> PDUPort \<times> 'd pdu_world \<Rightarrow> 'd exec" where
  "exec_of ex job jc pw =
     \<lparr>x_pc = AtSetup, x_port = pw, x_console = jc, x_job = job, x_deployment = Deployment_init None None None,
      x_boot_config = ex_boot_config ex, x_cache = ex_cache ex, x_ready = ex_ready_for_service ex,
      x_stop = ex_stop ex, x_cancel = ex_cancel ex, x_boots = 0\<rparr>"

definition after_exec :: "'w main_env \<Rightarrow> 'd exec \<Rightarrow> ('w, 'd) executor \<Rightarrow> ('w, 'd) executor" where
  "after_exec e x ex =
     (let ex' = ex\<lparr>ex_port := Some (x_port x), ex_console := Some (x_console x), ex_boot_config := x_boot_config x,
                   ex_cache := x_cache x, ex_ready_for_service := x_ready x, ex_stop := x_stop x, ex_cancel := x_cancel x,
                   ex_pc := AtEndSession\<rparr>
      in case x_pc x of Raised exc \<Rightarrow> log_exception e exc ex' | _ \<Rightarrow> ex')"

text \<open>
  The system: the thread of the executor, requests, cancellations and the end of the executor.
  Jobs cannot be started while one executes, so that a whole execution is one step here.
\<close>

inductive main_trans ::
  "(int \<Rightarrow> ('d, PDUState) act) \<Rightarrow> (int \<Rightarrow> PDUState \<Rightarrow> ('d, unit) act) \<Rightarrow> ('w, 'd) executor \<Rightarrow> ('w, 'd) executor \<Rightarrow> bool"
  for g s where
  main: "main_trans g s ex (main_step g s e ex)"
| execute: "ex_pc ex = AtExecute \<Longrightarrow> ex_job_config ex = Some job \<Longrightarrow> ex_console ex = Some jc \<Longrightarrow> ex_port ex = Some pw \<Longrightarrow>
     exec_reach g s (exec_of ex job jc pw) x \<Longrightarrow> x_pc x = Finished \<or> (\<exists>exc. x_pc x = Raised exc) \<Longrightarrow>
     main_trans g s ex (after_exec e x ex)"
| request: "main_trans g s ex (snd (start_job e rq ex))"
| cancelled: "main_trans g s ex (ex\<lparr>ex_cancel := True\<rparr>)"
| stopped: "main_trans g s ex (ex\<lparr>ex_stop := True\<rparr>)"

inductive_cases main_transE: "main_trans g s ex ex'"

abbreviation main_reach where
  "main_reach g s \<equiv> (main_trans g s)\<^sup>*\<^sup>*"

section \<open>The invariant of the main loop\<close>

text \<open>What \<open>start_job\<close> may do to an executor, on every path.\<close>

definition queued :: "('w, 'd) executor \<Rightarrow> ('w, 'd) executor \<Rightarrow> bool" where
  "queued ex ex' \<longleftrightarrow> ex_pc ex' = ex_pc ex \<and> ex_port ex' = ex_port ex \<and>
     (ex_state ex' = ex_state ex \<or> ex_state ex' = QUEUED) \<and>
     (ex_job_config ex \<noteq> None \<longrightarrow> ex_job_config ex' \<noteq> None) \<and>
     ((ex_console ex \<noteq> None \<longrightarrow> ex_job_config ex \<noteq> None) \<longrightarrow> (ex_console ex' \<noteq> None \<longrightarrow> ex_job_config ex' \<noteq> None))"

interpretation qd: act_preorder queued
  by unfold_locales (auto simp: queued_def)

lemma on_storage_queued: "act_within queued (on_storage m)"
  by (simp add: act_within_def queued_def on_storage_def split: prod.split)

lemma set_bucket_queued: "act_within queued (set_bucket api b)"
proof -
  have "act_within queued (case old of None \<Rightarrow> act_return () | Some ob \<Rightarrow> on_storage (JobBucket_del api ob))" for old
    by (cases old) (simp_all add: qd.within_return on_storage_queued)
  then show ?thesis unfolding set_bucket_def by (intro qd.within_intros) (simp_all add: queued_def)
qed

lemma queue_job_queued:
  "act_within queued (act_bind (act_modify (\<lambda>ex. ex\<lparr>ex_state := QUEUED, ex_job_config := Some job\<rparr>)) (\<lambda>_.
        act_bind (new_console e v job) (\<lambda>_. act_modify (\<lambda>ex. ex\<lparr>ex_job_ready := True\<rparr>))))"
  by (cases "me_salad e") (simp_all add: act_within_def new_console_def queued_def act_defs)

lemma start_job_queued: "act_within queued (start_job e rq)"
proof -
  have prod: "act_within queued (case y of (a, b) \<Rightarrow> f a b)" if "\<And>a b. act_within queued (f a b)" for y and f :: "'x \<Rightarrow> 'y \<Rightarrow> (('w, 'd) executor, unit) act"
    using that by (cases y) simp
  show ?thesis unfolding start_job_def
    by (intro qd.within_return qd.within_raise qd.within_lift qd.within_get qd.within_if queue_job_queued on_storage_queued set_bucket_queued prod
          qd.within_bind qd.within_modify) (simp_all add: queued_def)
qed

lemma start_job_refused:
  "ex_state ex \<noteq> IDLE \<Longrightarrow>
   start_job e rq ex = (Inl (ValueError (''The machine isn't idle: Current state is '' @ MachineState_name (ex_state ex))), ex)"
  by (simp add: start_job_def act_raise_def)

definition main_ok :: "('w, 'd) executor \<Rightarrow> bool" where
  "main_ok ex \<longleftrightarrow>
     (ex_pc ex \<in> {AtStart, AtExecute, AtEndSession} \<longrightarrow> ex_state ex \<in> {RUNNING, TRAINING}) \<and>
     (ex_pc ex \<in> {AtWait, AtStart, AtExecute} \<longrightarrow> ex_port ex \<noteq> None \<and> (ex_console ex \<noteq> None \<longrightarrow> ex_job_config ex \<noteq> None)) \<and>
     (ex_pc ex = AtExecute \<longrightarrow> ex_console ex \<noteq> None)"

lemma main_ok_request: "main_ok ex \<Longrightarrow> main_ok (snd (start_job e rq ex))"
proof (cases "ex_state ex = IDLE")
  case True
  have "queued ex (snd (start_job e rq ex))" by (rule qd.withinD[OF start_job_queued])
  then show "main_ok ex \<Longrightarrow> main_ok (snd (start_job e rq ex))"
    using True by (auto simp: main_ok_def queued_def)
next
  case False
  then show "main_ok ex \<Longrightarrow> main_ok (snd (start_job e rq ex))" by (simp add: start_job_refused)
qed

lemma session_pick_ok:
  assumes "ex_port ex \<noteq> None" "ex_pc ex = AtTop"
  shows "main_ok (main_guard e (session_pick e) ex)"
  using assms
  by (cases "me_salad e")
     (auto simp: main_guard_def session_pick_def new_console_def goto_def act_defs log_exception_def main_ok_def Let_def
       split: prod.splits sum.splits)

lemma session_wait_ok: "main_ok ex \<Longrightarrow> ex_pc ex = AtWait \<Longrightarrow> main_ok (main_guard e session_wait ex)"
  by (auto simp: main_guard_def session_wait_def goto_def act_defs main_ok_def)

lemma session_start_ok: "main_ok ex \<Longrightarrow> ex_pc ex = AtStart \<Longrightarrow> main_ok (main_guard e (session_start g s e) ex)"
  by (auto simp: main_guard_def session_start_def goto_def act_defs log_exception_def main_ok_def Let_def
       split: prod.splits sum.splits option.splits)

lemma main_ok_step: "main_ok ex \<Longrightarrow> main_ok (main_step g s e ex)"
proof (cases "ex_pc ex")
  case AtTop
  then show "main_ok ex \<Longrightarrow> main_ok (main_step g s e ex)"
    using session_pick_ok[of ex e] by (auto simp: main_step_def main_ok_def)
next
  case AtExecute
  then show "main_ok ex \<Longrightarrow> main_ok (main_step g s e ex)" by (auto simp: main_step_def main_ok_def)
qed (simp_all add: main_step_def session_wait_ok session_start_ok, simp_all add: main_ok_def)

lemma main_ok_trans: "main_ok ex \<Longrightarrow> main_trans g s ex ex' \<Longrightarrow> main_ok ex'"
proof (erule main_transE)
  fix x e job jc pw assume ok: "main_ok ex" "ex' = after_exec e x ex" "ex_pc ex = AtExecute"
  have "ex_pc (after_exec e x ex) = AtEndSession" "ex_state (after_exec e x ex) = ex_state ex"
    by (simp_all add: after_exec_def Let_def log_exception_def split: exec_pc.split)
  then show "main_ok ex'" using ok by (simp add: main_ok_def)
qed (simp_all add: main_ok_step main_ok_request, simp_all add: main_ok_def)

lemma main_ok_reach:
  assumes "main_reach g s (Executor_init mid ip ready port minio storage sh) ex"
  shows "main_ok ex"
  using assms by (induction rule: rtranclp_induct) (simp add: main_ok_def Executor_init_def, rule main_ok_trans)

section \<open>Handing over a job\<close>

lemma start_job_ok:
  assumes "start_job e rq ex = (Inr u, ex1)"
  shows "\<exists>job bucket. me_render e (jr_raw_job rq) bucket = Inr job \<and> ex_job_config ex1 = Some job \<and>
      ex_console ex1 = Some (JobConsole_init (ex_machine_id ex1) (job_console_patterns job) (job_timeouts job) (Some (jr_version rq)) LINFO)"
    "ex_job_ready ex1" "ex_state ex = IDLE" "ex_state ex1 = QUEUED"
  using assms
  by (auto simp: start_job_def new_console_def act_bind_eq_Inr act_raise_def act_lift_def act_modify_def split: if_splits)

text \<open>What neither \<open>start_job\<close> nor \<open>session_end\<close> outside of a training touches.\<close>

definition same_role :: "('w, 'd) executor \<Rightarrow> ('w, 'd) executor \<Rightarrow> bool" where
  "same_role ex ex' \<longleftrightarrow> ex_port ex' = ex_port ex \<and> ex_stop ex' = ex_stop ex \<and>
     ex_ready_for_service ex' = ex_ready_for_service ex \<and> ex_sergent_hartman ex' = ex_sergent_hartman ex \<and>
     (ex_job_ready ex \<longrightarrow> ex_job_ready ex')"

interpretation role: act_preorder same_role
  by unfold_locales (auto simp: same_role_def)

lemma on_storage_role: "act_within same_role (on_storage m)"
  by (simp add: act_within_def same_role_def on_storage_def split: prod.split)

lemma set_bucket_role: "act_within same_role (set_bucket api b)"
proof -
  have "act_within same_role (case old of None \<Rightarrow> act_return () | Some ob \<Rightarrow> on_storage (JobBucket_del api ob))" for old
    by (cases old) (simp_all add: role.within_return on_storage_role)
  then show ?thesis unfolding set_bucket_def by (intro role.within_intros) (simp_all add: same_role_def)
qed

lemma start_job_role: "act_within same_role (start_job e rq)"
proof -
  have prod: "act_within same_role (case y of (a, b) \<Rightarrow> f a b)" if "\<And>a b. act_within same_role (f a b)" for y and f :: "'x \<Rightarrow> 'y \<Rightarrow> (('w, 'd) executor, unit) act"
    using that by (cases y) simp
  show ?thesis unfolding start_job_def new_console_def
    by (intro role.within_intros on_storage_role set_bucket_role prod) (simp_all add: same_role_def)
qed

lemma close_session_role: "act_within same_role (close_session e c)"
proof (cases c)
  case (Some jc)
  have "act_within same_role (\<lambda>ex. let (r, jc') = JobConsole_close (me_now e) jc in (r, ex\<lparr>ex_console := Some jc'\<rparr>))"
    by (simp add: act_within_def same_role_def split_beta Let_def)
  then show ?thesis unfolding close_session_def Some option.case
    by (intro role.within_intros set_bucket_role) (simp_all add: same_role_def)
qed (simp add: close_session_def role.within_return)

lemma session_end_role:
  assumes "\<not> sh_is_active (ex_sergent_hartman ex)"
  shows "same_role ex (snd (session_end e ex))"
proof -
  have "act_within same_role (act_bind (act_modify (\<lambda>ex. ex\<lparr>ex_job_config := None\<rparr>)) (\<lambda>_. act_bind (close_session e c) (\<lambda>_. act_return (0::nat))))" for c
    by (intro role.within_intros close_session_role) (simp add: same_role_def)
  from role.withinD[OF this, where s = ex] show ?thesis
    using assms unfolding session_end_def by (simp split: option.split)
qed

lemma start_job_wakes:
  assumes "ex_pc ex = AtWait" "start_job e rq ex = (Inr (), ex1)"
  shows "main_step g s e' ex1 = ex1\<lparr>ex_job_ready := False, ex_cancel := False, ex_state := RUNNING, ex_pc := AtStart\<rparr>"
proof -
  have "ex_pc ex1 = AtWait" using qd.withinD[OF start_job_queued, of ex e rq] assms by (simp add: queued_def)
  then show ?thesis
    using start_job_ok(2)[OF assms(2)] by (simp add: main_step_def main_guard_def session_wait_def goto_def act_modify_def)
qed

section \<open>An example\<close>

text \<open>An environment in which every request succeeds.\<close>

definition accepting_server :: "unit minio_api" where
  "accepting_server =
     \<lparr>mcli = (\<lambda>_. act_return []), api_make_bucket = (\<lambda>_. act_return ()), api_put_object = (\<lambda>_ _ _ _. act_return ()),
      api_save = (\<lambda>_ _ _. act_return ()), check_bucket_name = (\<lambda>_. Inr ())\<rparr>"

definition small_job :: Job where
  "small_job =
     \<lparr>job_version = 1, job_deadline = 0, job_target = Target_init None None, job_timeouts = example_timeouts\<lparr>watchdogs := []\<rparr>,
      job_console_patterns = ConsoleState_init \<lparr>regex = ''END''\<rparr> None None None None None,
      deployment_start = Deployment_init (Some ''http://k'') (Some ''http://i'') None,
      deployment_continue = Deployment_init (Some ''http://k'') (Some ''http://i'') None\<rparr>"

definition accepting_env :: "unit main_env" where
  "accepting_env =
     \<lparr>me_api = accepting_server, me_now = 0, me_rnd = 0, me_token = ''secret'', me_render = (\<lambda>_ _. Inr small_job),
      me_training = (\<lambda>_. Inr small_job), me_training_available = False, me_salad = Inr (), me_client = True,
      me_lag = 0, me_dur = 0, me_retrial_delay = 120, me_tb = (\<lambda>_. [])\<rparr>"

definition small_request :: job_request where
  "small_request = \<lparr>jr_raw_job = [], jr_job_id = ''1'', jr_version = 1, jr_minio_groups = None, jr_tarball = None\<rparr>"

definition fresh_executor :: "(unit, vpdu) executor" where
  "fresh_executor =
     Executor_init ''m'' ''10.0.0.2'' True (Some (PDUPort_new 1 None 0, \<lparr>w_clock = 0, w_dev = vpdu_init [] 2, w_cmds = []\<rparr>))
       \<lparr>mc_url = ''http://ci-gateway:9000'', mc_user = ''root'', mc_secret_key = ''pw'', mc_alias = Some ''local''\<rparr> ()
       \<lparr>sh_boot_loop_counts = 3, sh_qualifying_rate = 2, sh_is_active = False, sh_cur_loop = 0, sh_statuses = []\<rparr>"

definition idle_executor :: "main_pc \<Rightarrow> (unit, vpdu) executor" where
  "idle_executor pc = fresh_executor\<lparr>ex_pc := pc, ex_state := IDLE\<rparr>"

lemma idle_executor_pc: "ex_pc (idle_executor pc) = pc"
  by (simp add: idle_executor_def)

lemma accepting_start: "start_job accepting_env small_request (idle_executor pc) = (Inr (), snd (start_job accepting_env small_request (idle_executor pc)))"
proof -
  have "\<exists>n. create_valid_bucket_name accepting_server b = Inr n" for b
    by (simp add: create_valid_bucket_name_def accepting_server_def Let_def)
  then obtain n where n: "create_valid_bucket_name accepting_server ''job-m-1'' = Inr n" by blast
  have "fst (start_job accepting_env small_request (idle_executor pc)) = Inr ()"
    by (simp add: start_job_def idle_executor_def fresh_executor_def Executor_init_def on_storage_def JobBucket_from_job_request_def n accepting_env_def
        small_request_def JobBucket_init_def make_bucket_def set_bucket_def create_owner_credentials_def add_user_def apply_user_policy_def
        with_alias_def run_mcli_def new_console_def Let_def act_defs) (simp add: accepting_server_def on_storage_def act_defs)
  then show ?thesis by (simp add: prod_eq_iff)
qed

lemma fresh_executor_executes:
  "\<exists>ex. main_reach VirtualPDU_get_port_state VirtualPDU_set_port_state fresh_executor ex \<and> ex_pc ex = AtExecute \<and> ex_state ex = RUNNING"
proof -
  let ?g = VirtualPDU_get_port_state and ?s = VirtualPDU_set_port_state
  let ?step = "main_step ?g ?s accepting_env"
  define ex2 where "ex2 = snd (start_job accepting_env small_request (idle_executor AtWait))"
  have 2: "start_job accepting_env small_request (idle_executor AtWait) = (Inr (), ex2)"
    unfolding ex2_def by (rule accepting_start)
  have "?step fresh_executor = idle_executor AtWait"
    by (simp add: main_step_def main_guard_def session_pick_def goto_def act_modify_def fresh_executor_def Executor_init_def
        idle_executor_def sh_reset_def)
  then have reach: "main_reach ?g ?s fresh_executor (?step (?step ex2))"
    using main_trans.main[of ?g ?s fresh_executor accepting_env] main_trans.request[of ?g ?s "idle_executor AtWait" accepting_env small_request]
      main_trans.main[of ?g ?s ex2 accepting_env] main_trans.main[of ?g ?s "?step ex2" accepting_env] ex2_def
    by (metis (no_types, lifting) rtranclp.rtrancl_into_rtrancl rtranclp.rtrancl_refl)
  define ex3 where "ex3 = ?step ex2"
  obtain jc where ex3: "ex_pc ex3 = AtStart" "ex_state ex3 = RUNNING" "ex_console ex3 = Some jc"
    using start_job_wakes[OF idle_executor_pc 2] start_job_ok(1)[OF 2] by (auto simp: ex3_def)
  have "same_role (idle_executor AtWait) ex2" using role.withinD[OF start_job_role] ex2_def by metis
  then have port: "ex_port ex3 = Some (PDUPort_new 1 None 0, \<lparr>w_clock = 0, w_dev = vpdu_init [] 2, w_cmds = []\<rparr>)"
    using start_job_wakes[OF idle_executor_pc 2] by (simp add: ex3_def same_role_def idle_executor_def fresh_executor_def Executor_init_def)
  have "vpdu.port_ready (PDUPort_new 1 None 0, \<lparr>w_clock = 0, w_dev = vpdu_init [] 2, w_cmds = []\<rparr>)"
    using vpdu_init_ok[of 2 "[]"] by (simp add: vpdu.port_ready_def vpdu_has_port_def vpdu_init_def PDUPort_new_def)
  then obtain pw where pw: "PDUPort_set ?g ?s 0 0 PDU_OFF (PDUPort_new 1 None 0, \<lparr>w_clock = 0, w_dev = vpdu_init [] 2, w_cmds = []\<rparr>) = (Inr (), pw)"
    using vpdu.set_reads_back[of _ _ PDU_OFF 0 0] by blast
  have "JobConsole_start True jc = (Inr (), snd (JobConsole_start True jc))" by (simp add: JobConsole_start_def)
  then have "ex_pc (?step ex3) = AtExecute" "ex_state (?step ex3) = RUNNING"
    using ex3 port pw by (auto simp: main_step_def main_guard_def session_start_def goto_def act_defs accepting_env_def split: prod.splits)
  then show ?thesis using reach unfolding ex3_def by blast
qed

section \<open>Properties\<close>



text \<open>
  C12. A job that is accepted while the executor waits for one is handed over: the executor wakes up, is
  RUNNING and not cancelled, and has the rendered job of that request and a new console for the
  client's protocol version.
\<close>

theorem waiting_executor_gets_job:
  assumes "ex_pc ex = AtWait" "start_job e rq ex = (Inr (), ex1)"
  shows "let ex2 = main_step g s e' ex1
         in ex_pc ex2 = AtStart \<and> ex_state ex2 = RUNNING \<and> \<not> ex_cancel ex2 \<and> \<not> ex_job_ready ex2 \<and>
            (\<exists>job bucket. me_render e (jr_raw_job rq) bucket = Inr job \<and> ex_job_config ex2 = Some job \<and>
               ex_console ex2 = Some (JobConsole_init (ex_machine_id ex2) (job_console_patterns job) (job_timeouts job)
                                        (Some (jr_version rq)) LINFO))"
  using start_job_wakes[OF assms, of g s e'] start_job_ok(1)[OF assms(2)] by (simp add: Let_def)

theorem waiting_executor_gets_job_witness:
  "let ex2 = main_step VirtualPDU_get_port_state VirtualPDU_set_port_state accepting_env
               (snd (start_job accepting_env small_request (idle_executor AtWait)))
   in ex_pc ex2 = AtStart \<and> ex_state ex2 = RUNNING \<and> ex_job_config ex2 = Some small_job"
  using waiting_executor_gets_job[OF idle_executor_pc accepting_start, of VirtualPDU_get_port_state VirtualPDU_set_port_state accepting_env]
  by (auto simp: Let_def accepting_env_def)

text \<open>
  C21. A job that is accepted just after that wait timed out is lost: the machine still counts as idle, so
  the request succeeds, but \<open>session_end\<close> and the next \<open>session_init\<close> drop the job and its console
  before the executor looks at the event again, and starting the session then fails for want of
  a console. The client is never contacted.
\<close>

theorem late_job_is_lost:
  assumes "ex_pc ex = AtNoJob" "start_job e rq ex = (Inr (), ex1)"
    and "ex_port ex \<noteq> None" "\<not> ex_stop ex" "ex_ready_for_service ex" "\<not> sh_is_active (ex_sergent_hartman ex)"
  shows "let ex5 = (main_step g s e ^^ 4) ex1
         in ex_pc ex5 = AtEndSession \<and> ex_state ex5 = RUNNING \<and> ex_console ex5 = None \<and> ex_job_config ex5 = None \<and> \<not> ex_job_ready ex5"
proof -
  have 1: "ex_pc ex1 = AtNoJob" "same_role ex ex1"
    using qd.withinD[OF start_job_queued, of ex e rq] role.withinD[OF start_job_role, of ex e rq] assms(1,2) by (simp_all add: queued_def)
  define ex2 where "ex2 = (snd (session_end e ex1))\<lparr>ex_pc := AtTop\<rparr>"
  have "same_role ex1 (snd (session_end e ex1))"
    using 1(2) assms(6) by (intro session_end_role) (simp add: same_role_def)
  then have 2: "main_step g s e ex1 = ex2" "ex_pc ex2 = AtTop" "ex_port ex2 \<noteq> None" "\<not> ex_stop ex2" "ex_ready_for_service ex2" "ex_job_ready ex2"
    using 1 assms start_job_ok(2)[OF assms(2)] by (simp_all add: main_step_def ex2_def same_role_def)
  define ex3 where "ex3 = ex2\<lparr>ex_job_config := None, ex_console := None, ex_boot_config := None,
      ex_sergent_hartman := sh_reset (ex_sergent_hartman ex2), ex_state := IDLE, ex_pc := AtWait\<rparr>"
  have 3: "main_step g s e ex2 = ex3"
    using 2(2-5) by (simp del: not_None_eq add: main_step_def main_guard_def session_pick_def goto_def act_modify_def ex3_def)
  define ex4 where "ex4 = ex3\<lparr>ex_job_ready := False, ex_cancel := False, ex_state := RUNNING, ex_pc := AtStart\<rparr>"
  have 4: "main_step g s e ex3 = ex4"
    using 2 by (simp add: main_step_def main_guard_def session_wait_def goto_def act_modify_def ex3_def ex4_def)
  have "ex_pc (main_step g s e ex4) = AtEndSession \<and> ex_state (main_step g s e ex4) = RUNNING \<and> ex_console (main_step g s e ex4) = None \<and>
      ex_job_config (main_step g s e ex4) = None \<and> \<not> ex_job_ready (main_step g s e ex4)"
    by (auto simp: main_step_def main_guard_def session_start_def ex4_def ex3_def act_bind_def log_exception_def Let_def
        split: option.split prod.split sum.split)
  then show ?thesis using 2(1) 3 4 by (simp add: numeral_eq_Suc funpow_swap1 Let_def)
qed

theorem late_job_is_lost_witness:
  "let ex5 = (main_step VirtualPDU_get_port_state VirtualPDU_set_port_state accepting_env ^^ 4)
               (snd (start_job accepting_env small_request (idle_executor AtNoJob)))
   in ex_pc ex5 = AtEndSession \<and> ex_console ex5 = None \<and> ex_job_config ex5 = None"
  using late_job_is_lost[OF idle_executor_pc accepting_start, of VirtualPDU_get_port_state VirtualPDU_set_port_state]
  by (simp add: Let_def idle_executor_def fresh_executor_def Executor_init_def)

text \<open>
  C3. A machine on a virtual PDU is off unless it is booting: in every state \<open>execute_job\<close> can reach from a
  machine that is off, the port reads OFF except between the power up and the power cut of a
  boot, or after an exception left \<open>execute_job\<close> there.
\<close>

theorem machine_off_outside_boots:
  assumes "exec_reach VirtualPDU_get_port_state VirtualPDU_set_port_state x x'" "x_pc x = AtSetup"
    and "vpdu_ok (w_dev (snd (x_port x)))" "vpdu_has_port (w_dev (snd (x_port x))) (port_id (fst (x_port x)))"
    and "fst (PDUPort_state VirtualPDU_get_port_state (fst (x_port x)) (snd (x_port x))) = Inr PDU_OFF"
  shows "fst (PDUPort_state VirtualPDU_get_port_state (fst (x_port x')) (snd (x_port x'))) = Inr PDU_OFF \<or>
    x_pc x' \<in> {AtTimers, AtBoot, AtCut} \<or> (\<exists>exc. x_pc x' = Raised exc)"
proof -
  have "vpdu.power_ok x" using assms(3-5) by (simp add: vpdu.power_ok_def vpdu.port_ready_def reads_off_def)
  then have "vpdu.power_ok x'" using vpdu.power_ok_reach assms(1) by blast
  then show ?thesis
    by (cases "x_pc x'") (auto simp: vpdu.power_ok_def reads_off_def may_have_power_def)
qed

theorem machine_off_outside_boots_witness:
  "let x = exec_of fresh_executor small_job (JobConsole_init ''m'' (job_console_patterns small_job) (job_timeouts small_job) None LINFO)
             (PDUPort_new 1 None 0, \<lparr>w_clock = 0, w_dev = vpdu_init [] 2, w_cmds = []\<rparr>);
       x' = x\<lparr>x_cancel := True\<rparr>
   in fst (PDUPort_state VirtualPDU_get_port_state (fst (x_port x')) (snd (x_port x'))) = Inr PDU_OFF"
proof -
  let ?pw = "(PDUPort_new 1 None 0, \<lparr>w_clock = 0, w_dev = vpdu_init [] 2, w_cmds = []\<rparr>)"
  define x where "x = exec_of fresh_executor small_job (JobConsole_init ''m'' (job_console_patterns small_job) (job_timeouts small_job) None LINFO) ?pw"
  have pw: "x_port x = ?pw" "x_pc x = AtSetup" by (simp_all add: x_def exec_of_def)
  have hp: "vpdu_has_port (vpdu_init [] 2) 1" by (simp add: vpdu_has_port_def vpdu_init_def)
  have "VirtualPDU_get_port_state 1 (vpdu_init [] 2) = (Inr PDU_OFF, vpdu_init [] 2)"
    using VirtualPDU_get_eq[OF vpdu_init_ok hp] by (simp add: vpdu_init_def)
  then have off: "fst (PDUPort_state VirtualPDU_get_port_state (fst ?pw) (snd ?pw)) = Inr PDU_OFF"
    by (simp add: PDUPort_state_def PDUPort_new_def)
  have "exec_reach VirtualPDU_get_port_state VirtualPDU_set_port_state x (x\<lparr>x_cancel := True\<rparr>)"
    using exec_trans.cancel by blast
  from machine_off_outside_boots[OF this pw(2)] show ?thesis
    using off hp vpdu_init_ok[of 2 "[]"] pw unfolding x_def[symmetric] Let_def by (simp add: PDUPort_new_def)
qed

end
