(* ===== verification/Boots.thy ===== *)
theory Boots
  imports Executor_Main "HOL-Library.List_Lexorder" "HOL-Library.Char_ord"
begin

text \<open>
  The boot service (\<open>boots.py\<close>): MAC addresses, the DHCP hosts file that dnsmasq reads, the
  command line of dnsmasq and the iPXE scripts the machines boot from. Files are their contents,
  the address of the network interface and the signal to dnsmasq are parameters. The hosts file
  is written with the template \<open>dnsmasq-dhcp-host.jinja\<close>, one line per host.
\<close>

section \<open>MAC addresses\<close>

definition is_hex :: "char \<Rightarrow> bool" where
  "is_hex c = (let n = (of_char c :: nat) in 48 \<le> n \<and> n \<le> 57 \<or> 97 \<le> n \<and> n \<le> 102)"

text \<open>
  The regular expression \<open>[0-9a-f]{2}([-:]?)[0-9a-f]{2}(\1[0-9a-f]{2}){4}$\<close>: the delimiter is decided by the
  third character, and \<open>$\<close> also matches before a final newline.
\<close>

fun mac_tail :: "nat \<Rightarrow> string \<Rightarrow> string \<Rightarrow> bool" where
  "mac_tail 0 d s = (s = [] \<or> s = nl)"
| "mac_tail (Suc n) d s =
     (prefix d s \<and> (case drop (length d) s of a # b # r \<Rightarrow> is_hex a \<and> is_hex b \<and> mac_tail n d r | _ \<Rightarrow> False))"

definition mac_delim :: "string \<Rightarrow> string" where
  "mac_delim r = (case r of [] \<Rightarrow> [] | c # _ \<Rightarrow> if c = CHR ''-'' \<or> c = CHR '':'' then [c] else [])"

definition mac_match :: "string \<Rightarrow> string option" where
  "mac_match s =
     (case s of
        a # b # r \<Rightarrow> if is_hex a \<and> is_hex b \<and> mac_tail 5 (mac_delim r) r then Some (mac_delim r) else None
      | _ \<Rightarrow> None)"

text \<open>\<open>[s[i:i+2] for i in range(0, len(s), 2)]\<close>\<close>

fun pairs :: "string \<Rightarrow> string list" where
  "pairs [] = []"
| "pairs [c] = [[c]]"
| "pairs (c # d # s) = [c, d] # pairs s"

definition split_mac_addr :: "string \<Rightarrow> string list res" where
  "split_mac_addr s0 =
     (let s = str_lower s0 in
      case mac_match s of
        None \<Rightarrow> Inl (ValueError (s @ '' is not a valid mac address''))
      | Some dl \<Rightarrow> Inr (if dl \<noteq> [] then str_split (hd dl) s else pairs s))"

section \<open>The DHCP hosts file\<close>

record Host =
  mac_addr :: string
  ip_addr :: string
  hostname :: string

text \<open>The regular expression of a host line: two fields without commas, then \<open>set:\<close> and a name.\<close>

definition match_host :: "string \<Rightarrow> Host option" where
  "match_host l =
     (let mac = takeWhile (\<lambda>c. c \<noteq> CHR '','') l; r = drop (length mac + 1) l;
          ip = takeWhile (\<lambda>c. c \<noteq> CHR '','') r; h = drop (length ip + 1) r
      in if mac \<noteq> [] \<and> ip \<noteq> [] \<and> length mac < length l \<and> length ip < length r \<and> prefix ''set:'' h \<and> 4 < length h
         then Some \<lparr>mac_addr = mac, ip_addr = ip, hostname = drop 4 h\<rparr> else None)"

fun parse_hosts_lines :: "string list \<Rightarrow> Host list res" where
  "parse_hosts_lines [] = Inr []"
| "parse_hosts_lines (l # ls) =
     (let host_desc = str_strip l in
      if host_desc = [] \<or> prefix ''#'' host_desc then parse_hosts_lines ls
      else case match_host host_desc of
             None \<Rightarrow> Inl (RuntimeError ''Malformed DHCP hosts file'')
           | Some h \<Rightarrow> res_bind (parse_hosts_lines ls) (\<lambda>hs. Inr (h # hs)))"

definition parse_dhcp_hosts :: "string \<Rightarrow> Host list res" where
  "parse_dhcp_hosts s = parse_hosts_lines (str_splitlines s)"

definition host_line :: "Host \<Rightarrow> string" where
  "host_line h = mac_addr h @ '','' @ ip_addr h @ '',set:'' @ hostname h"

definition render_hosts :: "Host list \<Rightarrow> string" where
  "render_hosts hs = concat (map (\<lambda>h. host_line h @ nl) hs)"

section \<open>dnsmasq\<close>

record Dnsmasq =
  dm_root :: string
  dm_hosts_file :: string
  dm_options_file :: string
  dm_command :: "string list option"

text \<open>\<open>os.path.join(base, name)\<close> for a relative name.\<close>

definition path_join :: "string \<Rightarrow> string \<Rightarrow> string" where
  "path_join base name = (if base = [] \<or> last base = CHR ''/'' then base @ name else base @ ''/'' @ name)"

definition dhcp_range :: "string \<Rightarrow> string" where
  "dhcp_range private_ip =
     (let net = str_join ''.'' (butlast (str_split CHR ''.'' private_ip)) in net @ ''.10,'' @ net @ ''.100'')"

definition dnsmasq_command :: "string \<Rightarrow> string \<Rightarrow> string \<Rightarrow> string \<Rightarrow> string list" where
  "dnsmasq_command base tftp_dir private_interface dhcp_rng =
     [''dnsmasq'', ''--port=0'',
      ''--pid-file='' @ path_join base ''dnsmasq.pid'',
      ''--dhcp-hostsfile='' @ path_join base ''hosts.dhcp'',
      ''--dhcp-optsfile='' @ path_join base ''options.dhcp'',
      ''--dhcp-leasefile='' @ path_join base ''dnsmasq.leases'',
      ''--dhcp-match=set:efi-x86_64,option:client-arch,7'',
      ''--dhcp-boot=tag:efi-x86_64,ipxe.efi'',
      ''--dhcp-boot=undionly.kpxe'',
      ''--dhcp-range='' @ dhcp_rng,
      ''--dhcp-script=/bin/echo'',
      ''--enable-tftp='' @ private_interface,
      ''--tftp-root='' @ tftp_dir,
      ''--log-facility='' @ base @ ''/dnsmasq.log'',
      ''--log-queries=extra'',
      ''--conf-file=/dev/null'',
      ''--interface='' @ private_interface]"

text \<open>\<open>hosts\<close> is the hosts file that may be there already.\<close>

definition Dnsmasq_init ::
  "bool \<Rightarrow> string option \<Rightarrow> bool \<Rightarrow> string \<Rightarrow> string \<Rightarrow> string \<Rightarrow> string \<Rightarrow> string option \<Rightarrow> Dnsmasq res" where
  "Dnsmasq_init found private_ip disabled cfg_interface private_interface base tftp_dir hosts =
     (if \<not> found then Inl (RuntimeError ''No dnsmasq found on the system!'')
      else case private_ip of
        None \<Rightarrow> Inl (RuntimeError (''No IP found for interface '' @ cfg_interface))
      | Some ip \<Rightarrow>
          res_bind (py_int (last (str_split CHR ''.'' ip))) (\<lambda>o4.
            if 10 \<le> o4 \<and> o4 \<le> 100
            then Inl (RuntimeError (''IP address '' @ ip @ '' is within the desired DHCP range: '' @ dhcp_range ip))
            else Inr \<lparr>dm_root = base,
                      dm_hosts_file = (case hosts of None \<Rightarrow> [] | Some h \<Rightarrow> h),
                      dm_options_file = nl @ ''# Not tested, but interesting hook point for future DHCP options'' @ nl @
                        ''option:ntp-server,'' @ ip @ nl @ ''option:dns-server,'' @ ip @ nl,
                      dm_command = (if disabled then None
                                    else Some (dnsmasq_command base tftp_dir private_interface (dhcp_range ip)))\<rparr>))"

text \<open>\<open>reload\<close> is what signalling dnsmasq does; the file is written before, whatever it does.\<close>

definition add_static_address :: "unit res \<Rightarrow> string \<Rightarrow> string \<Rightarrow> string \<Rightarrow> (Dnsmasq, unit) act" where
  "add_static_address reload mac ip name =
     act_bind (act_lift (split_mac_addr mac)) (\<lambda>bs.
       let mac' = str_join '':'' bs in
       act_bind (act_get (\<lambda>d. parse_dhcp_hosts (dm_hosts_file d))) (\<lambda>parsed.
       act_bind (act_lift parsed) (\<lambda>machines.
         let new_machines = filter (\<lambda>m. mac_addr m \<noteq> mac') machines @ [\<lparr>mac_addr = mac', ip_addr = ip, hostname = name\<rparr>]
         in act_bind (act_modify (\<lambda>d. d\<lparr>dm_hosts_file := render_hosts (sort_key mac_addr new_machines)\<rparr>)) (\<lambda>_.
              act_lift reload))))"

section \<open>The boot service\<close>

record BootService =
  bs_private_interface :: string
  bs_default_boot_config :: BootConfig
  bs_dnsmasq :: Dnsmasq

text \<open>\<open>x or y\<close> on an optional text: \<open>None\<close> and the empty text count as false.\<close>

definition or_str :: "string option \<Rightarrow> string \<Rightarrow> string" where
  "or_str x y = (case x of None \<Rightarrow> y | Some s \<Rightarrow> if s = [] then y else s)"

record boots_config =
  cfg_private_interface :: string
  cfg_kernel :: string
  cfg_initrd :: string
  cfg_cmdline :: string

definition BootService_init ::
  "boots_config \<Rightarrow> (string \<Rightarrow> Dnsmasq res) \<Rightarrow> string option \<Rightarrow> string option \<Rightarrow> string option \<Rightarrow> string option \<Rightarrow> BootService res" where
  "BootService_init cfg mk_dnsmasq private_interface krn ird cmd =
     (let iface = or_str private_interface (cfg_private_interface cfg) in
      res_bind (mk_dnsmasq iface) (\<lambda>d.
        Inr \<lparr>bs_private_interface = iface,
             bs_default_boot_config = \<lparr>bc_kernel = Some (or_str krn (cfg_kernel cfg)),
                                       bc_initrd = Some (or_str ird (cfg_initrd cfg)),
                                       bc_cmdline = Some (or_str cmd (cfg_cmdline cfg))\<rparr>,
             bs_dnsmasq = d\<rparr>))"

definition write_network_config :: "unit res \<Rightarrow> string \<Rightarrow> string \<Rightarrow> string \<Rightarrow> (BootService, unit) act" where
  "write_network_config reload mac ip name b =
     (let (r, d) = add_static_address reload mac ip name (bs_dnsmasq b) in (r, b\<lparr>bs_dnsmasq := d\<rparr>))"

definition platform_cmdline :: "string option \<Rightarrow> string" where
  "platform_cmdline platform = (if platform \<noteq> Some ''pcbios'' then ''initrd=initrd'' else [])"

definition gen_ipxe_boot_script :: "BootConfig \<Rightarrow> string option \<Rightarrow> string" where
  "gen_ipxe_boot_script bc platform =
     ''#!ipxe'' @ nl @ nl @ ''set semicolon:hex 3b'' @ nl @ nl @ ''echo'' @ nl @ nl @ ''echo Downloading the kernel'' @ nl @
     ''kernel '' @ str_opt (bc_kernel bc) @ '' '' @ platform_cmdline platform @ '' '' @
       str_opt (map_option (str_replace_char CHR '';'' ''${semicolon:string}'') (bc_cmdline bc)) @ nl @ nl @
     ''echo Downloading the initrd'' @ nl @ ''initrd --name initrd '' @ str_opt (bc_initrd bc) @ nl @ nl @
     ''echo Booting!'' @ nl @ ''boot'' @ nl"

text \<open>\<open>machine\<close> is the machine's executor, if there is a machine and it has one.\<close>

definition ipxe_boot_script :: "BootService \<Rightarrow> ('w, 'd) executor option \<Rightarrow> string option \<Rightarrow> string" where
  "ipxe_boot_script b machine platform =
     (let bootconfig = (case machine of None \<Rightarrow> None | Some ex \<Rightarrow> boot_config_query ex)
      in gen_ipxe_boot_script (case bootconfig of None \<Rightarrow> bs_default_boot_config b | Some c \<Rightarrow> c) platform)"

section \<open>Lemmas on MAC addresses\<close>

definition mac_pair :: "string \<Rightarrow> bool" where
  "mac_pair p \<longleftrightarrow> length p = 2 \<and> list_all is_hex p"

lemma mac_pair_obtain:
  assumes "mac_pair p"
  obtains a b where "p = [a, b]" "is_hex a" "is_hex b"
proof -
  obtain a b where "p = [a, b]" using assms unfolding mac_pair_def
    by (metis (no_types, lifting) One_nat_def Suc_1 length_0_conv length_Suc_conv)
  then show thesis using assms that by (simp add: mac_pair_def)
qed

lemma mac_tail_iff:
  "mac_tail n d s \<longleftrightarrow> (\<exists>ps t. length ps = n \<and> list_all mac_pair ps \<and> (t = [] \<or> t = nl) \<and> s = concat (map (\<lambda>p. d @ p) ps) @ t)"
proof (induction n arbitrary: s)
  case (Suc n)
  show ?case
  proof
    assume "mac_tail (Suc n) d s"
    then obtain a b r where s: "s = d @ a # b # r" "is_hex a" "is_hex b" "mac_tail n d r"
      by (auto split: list.splits elim!: prefixE)
    then obtain ps t where "length ps = n" "list_all mac_pair ps" "t = [] \<or> t = nl" "r = concat (map (\<lambda>p. d @ p) ps) @ t"
      using Suc.IH by blast
    then show "\<exists>ps t. length ps = Suc n \<and> list_all mac_pair ps \<and> (t = [] \<or> t = nl) \<and> s = concat (map (\<lambda>p. d @ p) ps) @ t"
      using s by (intro exI[of _ "[a, b] # ps"] exI[of _ t]) (simp add: mac_pair_def)
  next
    assume "\<exists>ps t. length ps = Suc n \<and> list_all mac_pair ps \<and> (t = [] \<or> t = nl) \<and> s = concat (map (\<lambda>p. d @ p) ps) @ t"
    then obtain ps' t where ps': "length ps' = Suc n" "list_all mac_pair ps'" "t = [] \<or> t = nl" "s = concat (map (\<lambda>p. d @ p) ps') @ t"
      by blast
    then obtain p ps where ps: "ps' = p # ps" "length ps = n" "mac_pair p" "list_all mac_pair ps"
      "s = d @ p @ concat (map (\<lambda>p. d @ p) ps) @ t"
      by (cases ps') auto
    have "mac_tail n d (concat (map (\<lambda>p. d @ p) ps) @ t)" using Suc.IH ps ps'(3) by blast
    with ps show "mac_tail (Suc n) d s" by (auto elim: mac_pair_obtain)
  qed
qed simp

lemma str_join_concat: "str_join d (p # ps) = p @ concat (map (\<lambda>p. d @ p) ps)"
  by (induction ps arbitrary: p) simp_all

lemma concat_append_Nil: "concat (map ((@) []) ps) = concat ps"
  by (induction ps) simp_all

lemma pairs_concat: "list_all mac_pair ps \<Longrightarrow> pairs (concat ps) = ps"
  by (induction ps) (auto elim: mac_pair_obtain)

lemma is_hex_facts:
  assumes "is_hex c"
  shows "c \<noteq> CHR ''-''" "c \<noteq> CHR '':''" "c \<noteq> CHR 0x0A" "c \<noteq> CHR '',''" "c \<noteq> CHR ''#''"
    "\<not> py_isspace c" "\<not> py_line_break c" "char_lower c = c"
  using assms by (auto simp: is_hex_def py_isspace_def py_line_break_def char_lower_def Let_def)

lemma split_mac_addr_canonical_form:
  assumes "length ps = 6" "list_all mac_pair ps"
  shows "split_mac_addr (str_join '':'' ps) = Inr ps"
proof -
  obtain p qs where ps: "ps = p # qs" "length qs = 5" using assms(1) by (cases ps) auto
  obtain q rs where qs: "qs = q # rs" using ps(2) by (cases qs) auto
  have "char_lower CHR '':'' = CHR '':''" by (simp add: char_lower_def)
  then have "c \<in> set (str_join '':'' ps) \<Longrightarrow> char_lower c = c" for c
    using assms(2) unfolding ps(1) str_join_concat
    by (auto simp: list_all_iff mac_pair_def is_hex_facts(8) split: if_splits)
  then have low: "str_lower (str_join '':'' ps) = str_join '':'' ps"
    by (simp add: str_lower_def map_idI)
  obtain a b where p: "p = [a, b]" "is_hex a" "is_hex b" using assms(2) ps(1) by (auto elim: mac_pair_obtain)
  have tail: "mac_tail 5 '':'' (concat (map (\<lambda>p. '':'' @ p) qs))"
    using assms(2) ps unfolding mac_tail_iff by (intro exI[of _ qs] exI[of _ "[]"]) simp
  have "mac_match (str_join '':'' ps) = Some '':''"
  proof -
    define r where "r = concat (map (\<lambda>p. '':'' @ p) qs)"
    have "mac_delim r = '':''" by (simp add: r_def qs mac_delim_def)
    then show ?thesis using tail p unfolding ps(1) str_join_concat mac_match_def r_def[symmetric] by simp
  qed
  moreover have "str_split CHR '':'' (str_join '':'' ps) = ps"
    using assms(2) ps(1) is_hex_facts(2) by (intro str_split_join) (auto simp: list_all_iff mac_pair_def)
  ultimately show ?thesis by (simp add: split_mac_addr_def low)
qed

lemma char_lower_nl: "char_lower c = CHR 0x0A \<Longrightarrow> c = CHR 0x0A"
  by (auto simp: char_lower_def Let_def split: if_splits dest: arg_cong[where f = "of_char :: char \<Rightarrow> nat"])

lemma split_mac_addr_pairs:
  assumes "split_mac_addr s = Inr bs" "CHR 0x0A \<notin> set s"
  shows "length bs = 6 \<and> list_all mac_pair bs \<and> (\<exists>d \<in> {'':'', ''-'', []}. str_lower s = str_join d bs)"
proof -
  define l where "l = str_lower s"
  have nl: "CHR 0x0A \<notin> set l"
  proof
    assume "CHR 0x0A \<in> set l"
    then obtain c where "c \<in> set s" "char_lower c = CHR 0x0A" by (auto simp: l_def str_lower_def)
    then show False using char_lower_nl assms(2) by blast
  qed
  obtain d where m: "mac_match l = Some d" and bs: "bs = (if d \<noteq> [] then str_split (hd d) l else pairs l)"
    using assms(1) by (auto simp: split_mac_addr_def l_def[symmetric] split: option.splits)
  from m obtain a b r where l: "l = a # b # r" "is_hex a" "is_hex b" "mac_tail 5 d r" "d = mac_delim r"
    by (auto simp: mac_match_def split: list.splits if_splits)
  from l(4) obtain ps t where ps: "length ps = 5" "list_all mac_pair ps" "t = [] \<or> t = nl" "r = concat (map (\<lambda>p. d @ p) ps) @ t"
    unfolding mac_tail_iff by blast
  have "set t \<subseteq> set l" using l(1) ps(4) by auto
  then have "t = []" using nl ps(3) by auto
  then have lj: "l = str_join d ([a, b] # ps)" using l(1) ps(4) by (simp add: str_join_concat)
  have hp: "list_all mac_pair ([a, b] # ps)" using ps(2) l(2,3) by (simp add: mac_pair_def)
  have d: "d = '':'' \<or> d = ''-'' \<or> d = []" 
    unfolding l(5) mac_delim_def by (cases r) simp_all
  have "bs = [a, b] # ps"
  proof (cases "d = []")
    case True
    then have "l = concat ([a, b] # ps)" unfolding lj str_join_concat by (simp add: concat_append_Nil)
    then show ?thesis using True bs pairs_concat[OF hp] by simp
  next
    case False
    with d have "d = '':'' \<or> d = ''-''" by blast
    then obtain c where c: "d = [c]" "c = CHR '':'' \<or> c = CHR ''-''" by blast
    have "\<forall>p \<in> set ([a, b] # ps). c \<notin> set p"
      using hp c(2) is_hex_facts(1,2) unfolding list_all_iff mac_pair_def by blast
    then have "str_split c (str_join [c] ([a, b] # ps)) = [a, b] # ps" by (intro str_split_join) simp_all
    then show ?thesis using bs lj c(1) by simp
  qed
  moreover have "d \<in> {'':'', ''-'', []}" using d by blast
  moreover have "length ([a, b] # ps) = 6" using ps(1) by simp
  ultimately show ?thesis using hp lj unfolding l_def by blast
qed

section \<open>Lemmas on the hosts file\<close>

text \<open>The hosts that survive being written to the file and read back.\<close>

definition host_ok :: "Host \<Rightarrow> bool" where
  "host_ok h \<longleftrightarrow>
     mac_addr h \<noteq> [] \<and> ip_addr h \<noteq> [] \<and> hostname h \<noteq> [] \<and> CHR '','' \<notin> set (mac_addr h) \<and> CHR '','' \<notin> set (ip_addr h) \<and>
     hd (mac_addr h) \<noteq> CHR ''#'' \<and> \<not> py_isspace (hd (mac_addr h)) \<and> \<not> py_isspace (last (hostname h)) \<and>
     (\<forall>c \<in> set (host_line h). \<not> py_line_break c)"

lemma str_strip_ends:
  assumes "s \<noteq> []" "\<not> py_isspace (hd s)" "\<not> py_isspace (last s)"
  shows "str_strip s = s"
proof -
  have "dropWhile py_isspace s = s" using assms by (cases s) auto
  moreover have "dropWhile py_isspace (rev s) = rev s" using assms by (cases s rule: rev_cases) auto
  ultimately show ?thesis by (simp add: str_strip_def)
qed

lemma takeWhile_field: "c \<notin> set f \<Longrightarrow> takeWhile (\<lambda>x. x \<noteq> c) (f @ c # r) = f"
  by (simp add: takeWhile_append)

lemma match_host_line:
  assumes "host_ok h"
  shows "match_host (host_line h) = Some h"
proof -
  have l: "host_line h = mac_addr h @ CHR '','' # (ip_addr h @ CHR '','' # (''set:'' @ hostname h))"
    by (simp add: host_line_def)
  have "takeWhile (\<lambda>c. c \<noteq> CHR '','') (host_line h) = mac_addr h"
    unfolding l by (rule takeWhile_field) (use assms in \<open>simp add: host_ok_def\<close>)
  moreover have "takeWhile (\<lambda>c. c \<noteq> CHR '','') (ip_addr h @ CHR '','' # (''set:'' @ hostname h)) = ip_addr h"
    by (rule takeWhile_field) (use assms in \<open>simp add: host_ok_def\<close>)
  moreover have "drop (length (mac_addr h) + 1) (host_line h) = ip_addr h @ CHR '','' # (''set:'' @ hostname h)"
    unfolding l by simp
  moreover have "length (host_line h) = length (mac_addr h) + length (ip_addr h) + length (hostname h) + 6" unfolding l by simp
  ultimately show ?thesis
    using assms by (simp add: match_host_def Let_def host_ok_def del: drop_drop)
qed

lemma parse_host_lines: "\<forall>h \<in> set hs. host_ok h \<Longrightarrow> parse_hosts_lines (map host_line hs) = Inr hs"
proof (induction hs)
  case (Cons h hs)
  have ok: "host_ok h" using Cons.prems by simp
  then have hd: "host_line h \<noteq> []" "hd (host_line h) = hd (mac_addr h)" "last (host_line h) = last (hostname h)"
    by (simp_all add: host_line_def host_ok_def)
  then have "str_strip (host_line h) = host_line h"
    using ok by (intro str_strip_ends) (simp_all add: host_ok_def)
  moreover have "\<not> prefix ''#'' (host_line h)"
    using hd ok by (cases "host_line h") (auto simp: host_ok_def)
  ultimately show ?case
    using Cons hd(1) match_host_line[OF ok] by (simp add: Let_def res_bind_def)
qed simp

lemma parse_render_hosts:
  assumes "\<forall>h \<in> set hs. host_ok h"
  shows "parse_dhcp_hosts (render_hosts hs) = Inr hs"
proof -
  have "render_hosts hs = concat (map (\<lambda>l. l @ [CHR 0x0A]) (map host_line hs))"
    by (simp add: render_hosts_def comp_def)
  moreover have "\<forall>l \<in> set (map host_line hs). \<forall>c \<in> set l. \<not> py_line_break c"
    using assms by (simp add: host_ok_def)
  ultimately show ?thesis
    using parse_host_lines[OF assms] by (simp only: parse_dhcp_hosts_def str_splitlines_unlines)
qed

text \<open>The invariant of the hosts file: what this program wrote, with one line per address.\<close>

definition hosts_ok :: "Host list \<Rightarrow> bool" where
  "hosts_ok hs \<longleftrightarrow> (\<forall>h \<in> set hs. host_ok h) \<and> distinct (map mac_addr hs) \<and> sorted (map mac_addr hs)"

definition new_hosts :: "string \<Rightarrow> string \<Rightarrow> string \<Rightarrow> Host list \<Rightarrow> Host list" where
  "new_hosts mac ip name hs =
     sort_key mac_addr (filter (\<lambda>m. mac_addr m \<noteq> mac) hs @ [\<lparr>mac_addr = mac, ip_addr = ip, hostname = name\<rparr>])"

lemma new_hosts_ok:
  assumes "hosts_ok hs" "host_ok \<lparr>mac_addr = mac, ip_addr = ip, hostname = name\<rparr>"
  shows "hosts_ok (new_hosts mac ip name hs)"
proof -
  let ?hs = "filter (\<lambda>m. mac_addr m \<noteq> mac) hs @ [\<lparr>mac_addr = mac, ip_addr = ip, hostname = name\<rparr>]"
  have "distinct (map mac_addr ?hs)"
    using assms(1) by (auto simp: hosts_ok_def distinct_map inj_on_def)
  then have "distinct (map mac_addr (sort_key mac_addr ?hs))"
    by (simp add: distinct_map)
  then show ?thesis
    using assms unfolding hosts_ok_def new_hosts_def by auto
qed

section \<open>Properties\<close>

text \<open>
  C19. MAC addresses: whatever of the accepted notations is used (colons, dashes or nothing between the
  bytes, either case), a text without a newline that is accepted is split into its six pairs of
  hexadecimal digits, and the notation with colons that goes into the hosts file is split into
  the same pairs again.
\<close>

theorem mac_address_canonical:
  assumes "split_mac_addr s = Inr bs" "CHR 0x0A \<notin> set s"
  shows "length bs = 6 \<and> (\<forall>b \<in> set bs. length b = 2 \<and> list_all is_hex b) \<and>
    (\<exists>d \<in> {'':'', ''-'', []}. str_lower s = str_join d bs) \<and> split_mac_addr (str_join '':'' bs) = Inr bs"
proof -
  note p = split_mac_addr_pairs[OF assms]
  note len = p[THEN conjunct1] and hex = p[THEN conjunct2, THEN conjunct1] and join = p[THEN conjunct2, THEN conjunct2]
  have "\<forall>b \<in> set bs. length b = 2 \<and> list_all is_hex b"
    using hex by (simp add: list_all_iff mac_pair_def)
  then show ?thesis using len join split_mac_addr_canonical_form[OF len hex] by (intro conjI)
qed

theorem mac_address_canonical_witness:
  "split_mac_addr (str_join '':'' [''10'', ''62'', ''e5'', ''04'', ''39'', ''89'']) = Inr [''10'', ''62'', ''e5'', ''04'', ''39'', ''89'']"
proof -
  have "split_mac_addr ''10-62-E5-04-39-89'' = Inr [''10'', ''62'', ''e5'', ''04'', ''39'', ''89'']"
    by code_simp
  from mac_address_canonical[OF this] show ?thesis by simp
qed

text \<open>
  Static addresses: adding one to a hosts file this program wrote keeps the file well formed and
  sorted, with one line per MAC address; read back, it has the new address for that machine and
  exactly the old lines for every other machine. dnsmasq is told to reload only after the file is
  in place.
\<close>

theorem static_address_added:
  assumes "hosts_ok hs" "dm_hosts_file d = render_hosts hs" "split_mac_addr mac = Inr bs"
    and "host_ok \<lparr>mac_addr = str_join '':'' bs, ip_addr = ip, hostname = name\<rparr>"
  shows "\<exists>hs'. add_static_address reload mac ip name d = (reload, d\<lparr>dm_hosts_file := render_hosts hs'\<rparr>) \<and> hosts_ok hs' \<and>
    parse_dhcp_hosts (render_hosts hs') = Inr hs' \<and>
    (\<forall>h. h \<in> set hs' \<longleftrightarrow> h = \<lparr>mac_addr = str_join '':'' bs, ip_addr = ip, hostname = name\<rparr> \<or> h \<in> set hs \<and> mac_addr h \<noteq> str_join '':'' bs)"
proof -
  define hs' where "hs' = new_hosts (str_join '':'' bs) ip name hs"
  have ok: "hosts_ok hs'" unfolding hs'_def by (rule new_hosts_ok[OF assms(1,4)])
  have "parse_dhcp_hosts (dm_hosts_file d) = Inr hs"
    using assms(1,2) parse_render_hosts by (simp add: hosts_ok_def)
  then have "add_static_address reload mac ip name d = (reload, d\<lparr>dm_hosts_file := render_hosts hs'\<rparr>)"
    using assms(3) by (simp add: add_static_address_def Let_def act_lift_def hs'_def new_hosts_def)
  moreover have "parse_dhcp_hosts (render_hosts hs') = Inr hs'"
    using ok parse_render_hosts by (simp add: hosts_ok_def)
  moreover have "set hs' = insert \<lparr>mac_addr = str_join '':'' bs, ip_addr = ip, hostname = name\<rparr> {h \<in> set hs. mac_addr h \<noteq> str_join '':'' bs}"
    by (auto simp: hs'_def new_hosts_def)
  ultimately show ?thesis using ok by (intro exI[of _ hs']) auto
qed

definition example_dnsmasq :: Dnsmasq where
  "example_dnsmasq = \<lparr>dm_root = ''/boots'', dm_hosts_file = [], dm_options_file = [], dm_command = None\<rparr>"

theorem static_address_added_witness:
  "\<exists>hs'. add_static_address (Inr ()) ''1062E5043989'' ''10.42.0.10'' ''dut-1'' example_dnsmasq =
      (Inr (), example_dnsmasq\<lparr>dm_hosts_file := render_hosts hs'\<rparr>) \<and>
    \<lparr>mac_addr = ''10:62:e5:04:39:89'', ip_addr = ''10.42.0.10'', hostname = ''dut-1''\<rparr> \<in> set hs'"
proof -
  have hs: "hosts_ok []" "dm_hosts_file example_dnsmasq = render_hosts []"
    by (simp_all add: hosts_ok_def render_hosts_def example_dnsmasq_def)
  have mac: "split_mac_addr ''1062E5043989'' = Inr [''10'', ''62'', ''e5'', ''04'', ''39'', ''89'']" by code_simp
  have join: "str_join '':'' [''10'', ''62'', ''e5'', ''04'', ''39'', ''89''] = ''10:62:e5:04:39:89''" by simp
  have ok: "host_ok \<lparr>mac_addr = str_join '':'' [''10'', ''62'', ''e5'', ''04'', ''39'', ''89''], ip_addr = ''10.42.0.10'', hostname = ''dut-1''\<rparr>"
    unfolding host_ok_def by code_simp
  from static_address_added[OF hs mac ok, of "Inr ()"] show ?thesis unfolding join by auto
qed

end
