(* ===== verification/Gitlab_Runner.thy ===== *)
theory Gitlab_Runner
  imports Boots
begin

text \<open>
  The GitLab runners of the farm (\<open>gitlab.py\<close> and \<open>ConfigGitlabRunner\<close>, \<open>ConfigGitlab\<close> of \<open>mars.py\<close>):
  checking, renewing and removing the tokens under which machines are exposed. The GitLab server
  is the parameter \<open>gitlab_api\<close>: its three requests act on a world \<open>'w\<close> and answer with a status code.
\<close>

section \<open>Requests\<close>

record 'w gitlab_api =
  gl_register :: "string \<Rightarrow> (string, json) dict \<Rightarrow> ('w, int \<times> (string, json) dict) act"
  gl_unregister :: "string \<Rightarrow> string \<Rightarrow> ('w, int) act"
  gl_verify :: "string \<Rightarrow> string \<Rightarrow> ('w, int) act"

record GitlabRunnerRegistration =
  reg_id :: json
  reg_token :: json

text \<open>\<open>from_api\<close>: unknown fields of the answer are dropped, a missing one is a \<open>TypeError\<close>.\<close>

definition from_api :: "(string, json) dict \<Rightarrow> GitlabRunnerRegistration res" where
  "from_api fds =
     (case (dict_get fds ''id'', dict_get fds ''token'') of
        (Some i, Some t) \<Rightarrow> Inr \<lparr>reg_id = i, reg_token = t\<rparr>
      | _ \<Rightarrow> Inl TypeError)"

definition register_params :: "string \<Rightarrow> string \<Rightarrow> string list \<Rightarrow> bool \<Rightarrow> int \<Rightarrow> (string, json) dict" where
  "register_params registration_token description tag_list run_untagged maximum_timeout =
     [(''token'', JStr registration_token), (''description'', JStr description), (''tag_list'', JStr (str_join '','' tag_list)),
      (''run_untagged'', JBool run_untagged), (''maximum_timeout'', JInt maximum_timeout)]"

definition register_runner ::
  "'w gitlab_api \<Rightarrow> string \<Rightarrow> string \<Rightarrow> string \<Rightarrow> string list \<Rightarrow> bool \<Rightarrow> int \<Rightarrow> ('w, GitlabRunnerRegistration option) act" where
  "register_runner api url registration_token description tag_list run_untagged maximum_timeout =
     act_bind (gl_register api url (register_params registration_token description tag_list run_untagged maximum_timeout)) (\<lambda>(status, fds).
       if status = 201 then act_bind (act_lift (from_api fds)) (\<lambda>r. act_return (Some r)) else act_return None)"

definition unregister_runner :: "'w gitlab_api \<Rightarrow> string \<Rightarrow> string \<Rightarrow> ('w, bool) act" where
  "unregister_runner api url token = act_bind (gl_unregister api url token) (\<lambda>status. act_return (status = 204))"

definition verify_runner_token :: "'w gitlab_api \<Rightarrow> string \<Rightarrow> string \<Rightarrow> ('w, bool) act" where
  "verify_runner_token api url token = act_bind (gl_verify api url token) (\<lambda>status. act_return (\<not> status = 403))"

section \<open>Runners\<close>

record ConfigGitlabRunner =
  token :: json
  exposed :: bool

definition invalid_default :: string where
  "invalid_default = ''<invalid default>''"

definition ConfigGitlabRunner_new :: ConfigGitlabRunner where
  "ConfigGitlabRunner_new = \<lparr>token = JStr invalid_default, exposed = True\<rparr>"

record ConfigGitlab =
  gl_url :: string
  registration_token :: "string option"
  expose_runners :: bool
  maximum_timeout :: int
  gateway_runner :: "ConfigGitlabRunner option"

definition has_valid_looking_registration_token :: "ConfigGitlab \<Rightarrow> bool" where
  "has_valid_looking_registration_token gl =
     (case registration_token gl of None \<Rightarrow> False | Some t \<Rightarrow> length t \<ge> 8)"

definition should_expose_gateway_runner :: "ConfigGitlab \<Rightarrow> bool" where
  "should_expose_gateway_runner gl =
     (if \<not> expose_runners gl then False
      else case gateway_runner gl of None \<Rightarrow> False | Some r \<Rightarrow> exposed r)"

text \<open>The text of a token in a request; GitLab's tokens are texts.\<close>

definition token_text :: "json \<Rightarrow> string" where
  "token_text t = (case t of JStr s \<Rightarrow> s | _ \<Rightarrow> json_dumps t)"

definition on_gitlab :: "('w, 'a) act \<Rightarrow> (ConfigGitlabRunner \<times> 'w, 'a) act" where
  "on_gitlab m s = (let (r, w) = m (snd s) in (r, (fst s, w)))"

definition set_token :: "json \<Rightarrow> (ConfigGitlabRunner \<times> 'w, unit) act" where
  "set_token t = act_modify (\<lambda>(r, w). (r\<lparr>token := t\<rparr>, w))"

definition runner_remove :: "'w gitlab_api \<Rightarrow> ConfigGitlab \<Rightarrow> (ConfigGitlabRunner \<times> 'w, bool) act" where
  "runner_remove api gl =
     act_bind (act_get (\<lambda>s. token (fst s))) (\<lambda>t.
       if t = JStr invalid_default then act_return True
       else
         act_bind (on_gitlab (unregister_runner api (gl_url gl) (token_text t))) (\<lambda>ok.
           if \<not> ok then act_return False
           else act_bind (set_token (JStr invalid_default)) (\<lambda>_. act_return True)))"

definition verify_or_renew_token ::
  "'w gitlab_api \<Rightarrow> ConfigGitlab \<Rightarrow> string \<Rightarrow> string list \<Rightarrow> (ConfigGitlabRunner \<times> 'w, unit) act" where
  "verify_or_renew_token api gl description tags =
     act_bind (act_get (\<lambda>s. token (fst s))) (\<lambda>t.
     act_bind (on_gitlab (verify_runner_token api (gl_url gl) (token_text t))) (\<lambda>valid.
       if \<not> valid then
         act_bind (runner_remove api gl) (\<lambda>removed.
           if \<not> removed then act_return ()
           else if has_valid_looking_registration_token gl then
             act_bind (on_gitlab (register_runner api (gl_url gl) (case registration_token gl of None \<Rightarrow> [] | Some rt \<Rightarrow> rt)
                         description tags False (maximum_timeout gl))) (\<lambda>runner.
               case runner of Some r \<Rightarrow> set_token (reg_token r) | None \<Rightarrow> act_return ())
           else act_return ())
       else act_return ()))"

section \<open>Lemmas\<close>

text \<open>
  What the code relies on: a request to the server succeeds and answers with a status, and asking
  about a token has no effect. \<open>valid w t\<close> says whether the server knows the token.
\<close>

definition gitlab_answers :: "'w gitlab_api \<Rightarrow> ('w \<Rightarrow> string \<Rightarrow> bool) \<Rightarrow> bool" where
  "gitlab_answers api valid \<longleftrightarrow>
     (\<forall>w u t. gl_verify api u t w = (Inr (if valid w t then 200 else 403), w)) \<and>
     (\<forall>w u t. \<exists>w'. gl_unregister api u t w = (Inr (if valid w t then 204 else 403), w') \<and> (\<not> valid w t \<longrightarrow> w' = w)) \<and>
     (\<forall>w u ps. \<exists>w' new. gl_register api u ps w = (Inr (201, [(''id'', JInt 1), (''token'', JStr new)]), w') \<and> valid w' new)"

section \<open>Properties\<close>

text \<open>
  Runner tokens, against a server that knows some tokens and answers 403 for all others: a token
  the server knows is kept; the placeholder of a new runner is replaced by a token the server
  knows, if there is a plausible registration token; but a token the server has forgotten is
  never renewed, since its removal, which the server refuses with the same 403, comes first.
\<close>

theorem token_renewal:
  assumes "gitlab_answers api valid" "\<not> valid w invalid_default"
  shows "(valid w t \<longrightarrow> verify_or_renew_token api gl d tags (\<lparr>token = JStr t, exposed = e\<rparr>, w) = (Inr (), \<lparr>token = JStr t, exposed = e\<rparr>, w)) \<and>
    (has_valid_looking_registration_token gl \<longrightarrow>
      (\<exists>new w'. verify_or_renew_token api gl d tags (ConfigGitlabRunner_new, w) = (Inr (), \<lparr>token = JStr new, exposed = True\<rparr>, w') \<and> valid w' new)) \<and>
    (\<not> valid w t \<and> t \<noteq> invalid_default \<longrightarrow>
      verify_or_renew_token api gl d tags (\<lparr>token = JStr t, exposed = e\<rparr>, w) = (Inr (), \<lparr>token = JStr t, exposed = e\<rparr>, w))"
proof -
  have ver: "gl_verify api u t w = (Inr (if valid w t then 200 else 403), w)" for w u t
    using assms(1) by (simp add: gitlab_answers_def)
  have unreg: "gl_unregister api u t w = (Inr 403, w)" if "\<not> valid w t" for u
    using assms(1) that unfolding gitlab_answers_def by (metis (full_types))
  obtain w' new where reg: "gl_register api (gl_url gl) (register_params (case registration_token gl of None \<Rightarrow> [] | Some rt \<Rightarrow> rt) d tags False (maximum_timeout gl)) w
      = (Inr (201, [(''id'', JInt 1), (''token'', JStr new)]), w')" "valid w' new"
    using assms(1) unfolding gitlab_answers_def by blast
  note defs = verify_or_renew_token_def verify_runner_token_def on_gitlab_def token_text_def runner_remove_def act_bind_def act_return_def act_get_def
  have "verify_or_renew_token api gl d tags (\<lparr>token = JStr t, exposed = e\<rparr>, w) = (Inr (), \<lparr>token = JStr t, exposed = e\<rparr>, w)" if "valid w t"
    using that by (simp add: defs ver)
  moreover have "verify_or_renew_token api gl d tags (ConfigGitlabRunner_new, w) = (Inr (), \<lparr>token = JStr new, exposed = True\<rparr>, w')"
    if "has_valid_looking_registration_token gl"
    using that assms(2) reg(1)
    by (simp add: defs ver ConfigGitlabRunner_new_def register_runner_def from_api_def set_token_def act_modify_def act_lift_def)
  moreover have "verify_or_renew_token api gl d tags (\<lparr>token = JStr t, exposed = e\<rparr>, w) = (Inr (), \<lparr>token = JStr t, exposed = e\<rparr>, w)"
    if "\<not> valid w t" "t \<noteq> invalid_default"
    using that by (simp add: defs ver unreg unregister_runner_def)
  ultimately show ?thesis using reg(2) by blast
qed

text \<open>A server that knows a set of tokens and hands out the same token to everybody.\<close>

definition example_gitlab :: "string set gitlab_api" where
  "example_gitlab =
     \<lparr>gl_register = (\<lambda>u ps w. (Inr (201, [(''id'', JInt 1), (''token'', JStr ''fresh'')]), insert ''fresh'' w)),
      gl_unregister = (\<lambda>u t w. (Inr (if t \<in> w then 204 else 403), w - {t})),
      gl_verify = (\<lambda>u t w. (Inr (if t \<in> w then 200 else 403), w))\<rparr>"

theorem token_renewal_witness:
  "verify_or_renew_token example_gitlab
     \<lparr>gl_url = ''https://gitlab'', registration_token = Some ''0123456789'', expose_runners = True, maximum_timeout = 3600, gateway_runner = None\<rparr>
     ''dut'' [] (\<lparr>token = JStr ''forgotten'', exposed = True\<rparr>, {''known''}) = (Inr (), \<lparr>token = JStr ''forgotten'', exposed = True\<rparr>, {''known''})"
proof -
  have "gitlab_answers example_gitlab (\<lambda>w t. t \<in> w)" by (auto simp: gitlab_answers_def example_gitlab_def)
  from token_renewal[OF this, of "{''known''}" "''forgotten''"] show ?thesis
    by (simp add: invalid_default_def)
qed

end
