(* ===== verification/Mars.thy ===== *)
theory Mars
  imports Gitlab_Runner
begin

text \<open>
  The machine registration service (\<open>mars.py\<close>): the database file of the farm, the machines that
  run on it, and how the two are kept in step. Python shares the objects of the database between
  the database, the machines and the REST interface, so machines, DUTs and databases are cells of
  an explicit store here: a DUT object has an address, a machine refers to its DUT by address, and
  a DUT knows the address of the database it was made for.
\<close>

section \<open>The database\<close>

record ConfigPDU =
  driver :: string
  pdu_config :: json

record ConfigDUT =
  base_name :: string
  tags :: "string list"
  ip_address :: string
  local_tty_device :: "string option"
  dut_gitlab :: "(string, ConfigGitlabRunner) dict"
  pdu :: "string option"
  pdu_port_id :: "string option"
  pdu_off_delay :: time
  ready_for_service :: bool
  is_retired :: bool
  first_seen :: time

definition available :: "ConfigDUT \<Rightarrow> bool" where
  "available d = (ready_for_service d \<and> \<not> is_retired d)"

text \<open>The contents of the database file, and what \<open>asdict\<close> makes of a database.\<close>

record db_data =
  data_pdus :: "(string, ConfigPDU) dict"
  data_duts :: "(string, ConfigDUT) dict"
  data_gitlab :: "(string, ConfigGitlab) dict"

record dut_obj =
  o_dut :: ConfigDUT
  o_mac :: string
  o_db :: nat

record MarsDB =
  db_pdus :: "(string, ConfigPDU) dict"
  db_duts :: "(string, nat) dict"
  db_gitlab :: "(string, ConfigGitlab) dict"
  disk_state :: db_data

record machine =
  m_dut :: nat
  m_port :: "PDUPort option"

record 'w mars =
  mr_store :: "dut_obj list"
  mr_dbs :: "MarsDB list"
  mr_db :: nat
  mr_machines :: "(string, machine) dict"
  mr_executors :: "string list"
  mr_file :: "db_data res"
  mr_boots :: BootService
  mr_gitlab :: 'w
  mr_runners :: "(string \<times> string \<times> json) list"

text \<open>
  What lies outside: the ports of a PDU (\<open>PDU.create(...).ports\<close>), whether the constructor of the
  executor returns, the signal to dnsmasq, GitLab, and the configuration.
\<close>

record 'w mars_env =
  ve_ports :: "ConfigPDU \<Rightarrow> string \<Rightarrow> PDUPort list res"
  ve_executor :: "unit res"
  ve_reload :: "unit res"
  ve_gitlab :: "'w gitlab_api"
  ve_farm :: "string option"
  ve_vpdu :: "string option"
  ve_render :: "unit res"

abbreviation the_dut :: "'w mars \<Rightarrow> nat \<Rightarrow> dut_obj" where
  "the_dut s a \<equiv> mr_store s ! a"

abbreviation the_db :: "'w mars \<Rightarrow> nat \<Rightarrow> MarsDB" where
  "the_db s i \<equiv> mr_dbs s ! i"

definition asdict :: "'w mars \<Rightarrow> MarsDB \<Rightarrow> db_data" where
  "asdict s db =
     \<lparr>data_pdus = db_pdus db, data_duts = map (\<lambda>(mac, a). (mac, o_dut (the_dut s a))) (db_duts db), data_gitlab = db_gitlab db\<rparr>"

definition upd_db :: "nat \<Rightarrow> (MarsDB \<Rightarrow> MarsDB) \<Rightarrow> 'w mars \<Rightarrow> 'w mars" where
  "upd_db i f s = s\<lparr>mr_dbs := (mr_dbs s)[i := f (the_db s i)]\<rparr>"

definition upd_dut :: "nat \<Rightarrow> (ConfigDUT \<Rightarrow> ConfigDUT) \<Rightarrow> 'w mars \<Rightarrow> 'w mars" where
  "upd_dut a f s = s\<lparr>mr_store := (mr_store s)[a := (the_dut s a)\<lparr>o_dut := f (o_dut (the_dut s a))\<rparr>]\<rparr>"

definition reset_taint :: "nat \<Rightarrow> 'w mars \<Rightarrow> 'w mars" where
  "reset_taint i s = upd_db i (\<lambda>db. db\<lparr>disk_state := asdict s db\<rparr>) s"

text \<open>\<open>DeepDiff(..., ignore_order=True)\<close> is empty: equal up to the order of entries and tags.\<close>

definition same_dict :: "('v \<Rightarrow> 'v \<Rightarrow> bool) \<Rightarrow> ('k, 'v) dict \<Rightarrow> ('k, 'v) dict \<Rightarrow> bool" where
  "same_dict eq a b =
     (set (dict_keys a) = set (dict_keys b) \<and>
      list_all (\<lambda>k. case (dict_get a k, dict_get b k) of (Some x, Some y) \<Rightarrow> eq x y | _ \<Rightarrow> True) (dict_keys a))"

definition same_dut :: "ConfigDUT \<Rightarrow> ConfigDUT \<Rightarrow> bool" where
  "same_dut x y =
     (set (tags x) = set (tags y) \<and> same_dict (=) (dut_gitlab x) (dut_gitlab y) \<and>
      x\<lparr>tags := [], dut_gitlab := []\<rparr> = y\<lparr>tags := [], dut_gitlab := []\<rparr>)"

definition same_data :: "db_data \<Rightarrow> db_data \<Rightarrow> bool" where
  "same_data x y =
     (same_dict (=) (data_pdus x) (data_pdus y) \<and> same_dict same_dut (data_duts x) (data_duts y) \<and>
      same_dict (=) (data_gitlab x) (data_gitlab y))"

definition is_tainted :: "nat \<Rightarrow> 'w mars \<Rightarrow> bool" where
  "is_tainted i s = (\<not> same_data (disk_state (the_db s i)) (asdict s (the_db s i)))"

definition db_save :: "nat \<Rightarrow> 'w mars \<Rightarrow> 'w mars" where
  "db_save i s = reset_taint i (s\<lparr>mr_file := Inr (asdict s (the_db s i))\<rparr>)"

text \<open>The validators of the dataclasses.\<close>

definition url_is_valid :: "ConfigGitlab \<Rightarrow> bool" where
  "url_is_valid gl = prefix ''https://'' (gl_url gl)"

definition ip_address_is_valid :: "string \<Rightarrow> bool" where
  "ip_address_is_valid v = is_ip_address v"

definition validate_db :: "db_data \<Rightarrow> db_data res" where
  "validate_db d =
     (if list_all (\<lambda>(mac, dut). is_ok (split_mac_addr mac) \<and> ip_address_is_valid (ip_address dut)) (data_duts d) \<and>
         list_all (\<lambda>(n, gl). url_is_valid gl) (data_gitlab d)
      then Inr d else Inl ValidationError)"

text \<open>
  \<open>MarsDB.from_file\<close>: a new database with new objects for all its DUTs; the virtual PDU is always
  there when it is configured.
\<close>

definition db_from_file :: "'w mars_env \<Rightarrow> ('w mars, nat) act" where
  "db_from_file e =
     act_bind (act_get mr_file) (\<lambda>f.
     act_bind (act_lift (res_bind f validate_db)) (\<lambda>d.
     act_bind (act_get (\<lambda>s. (length (mr_dbs s), length (mr_store s)))) (\<lambda>(i, a).
     act_bind (act_modify (\<lambda>s. s
        \<lparr>mr_store := mr_store s @ map (\<lambda>(mac, dut). \<lparr>o_dut = dut, o_mac = mac, o_db = i\<rparr>) (data_duts d),
         mr_dbs := mr_dbs s @
           [\<lparr>db_pdus = (case ve_vpdu e of
                          Some ep \<Rightarrow> dict_set ''VPDU'' \<lparr>driver = ''vpdu'', pdu_config = JObj [(''hostname'', JStr ep)]\<rparr> (data_pdus d)
                        | None \<Rightarrow> data_pdus d),
             db_duts = zip (dict_keys (data_duts d)) [a..<a + length (data_duts d)],
             db_gitlab = data_gitlab d, disk_state = d\<rparr>]\<rparr>)) (\<lambda>_.
     act_bind (act_modify (reset_taint i)) (\<lambda>_. act_return i)))))"

section \<open>DUTs\<close>

definition farm_name :: "'w mars_env \<Rightarrow> string" where
  "farm_name e = str_opt (ve_farm e)"

text \<open>The number of a DUT: one more than the DUTs of the same kind that were seen before it.\<close>

definition dut_index :: "ConfigDUT list \<Rightarrow> ConfigDUT \<Rightarrow> nat" where
  "dut_index duts d = 1 + length (filter (\<lambda>x. base_name x = base_name d \<and> first_seen x < first_seen d) duts)"

definition full_name :: "string \<Rightarrow> ConfigDUT list \<Rightarrow> ConfigDUT \<Rightarrow> string" where
  "full_name farm duts d = farm @ ''-'' @ base_name d @ ''-'' @ show_nat (dut_index duts d)"

definition duts_of :: "'w mars \<Rightarrow> nat \<Rightarrow> ConfigDUT list" where
  "duts_of s i = map (\<lambda>a. o_dut (the_dut s a)) (dict_values (db_duts (the_db s i)))"

definition dut_full_name :: "'w mars_env \<Rightarrow> 'w mars \<Rightarrow> nat \<Rightarrow> string" where
  "dut_full_name e s a = full_name (farm_name e) (duts_of s (o_db (the_dut s a))) (o_dut (the_dut s a))"

text \<open>Acting on the runner of a DUT for one forge.\<close>

definition on_runner :: "nat \<Rightarrow> string \<Rightarrow> (ConfigGitlabRunner \<times> 'w, 'a) act \<Rightarrow> ('w mars, unit) act" where
  "on_runner a gl_name m s =
     (case dict_get (dut_gitlab (o_dut (the_dut s a))) gl_name of
        None \<Rightarrow> (Inl AttributeError, s)
      | Some r \<Rightarrow>
          let (res, (r', w')) = m (r, mr_gitlab s)
          in (map_sum (\<lambda>x. x) (\<lambda>_. ()) res,
              (upd_dut a (\<lambda>d. d\<lparr>dut_gitlab := dict_set gl_name r' (dut_gitlab d)\<rparr>) s)\<lparr>mr_gitlab := w'\<rparr>))"

definition add_missing_runners :: "(string, ConfigGitlab) dict \<Rightarrow> ConfigDUT \<Rightarrow> ConfigDUT" where
  "add_missing_runners gls d =
     fold (\<lambda>(n, gl) d. if dict_get (dut_gitlab d) n = None
                       then d\<lparr>dut_gitlab := dict_set n ConfigGitlabRunner_new (dut_gitlab d)\<rparr> else d) gls d"

definition expose_on_forges :: "'w mars_env \<Rightarrow> nat \<Rightarrow> ('w mars, unit) act" where
  "expose_on_forges e a =
     act_bind (act_get (\<lambda>s. db_gitlab (the_db s (o_db (the_dut s a))))) (\<lambda>gls.
     act_bind (act_modify (upd_dut a (add_missing_runners gls))) (\<lambda>_.
     act_bind (act_get (\<lambda>s. o_dut (the_dut s a))) (\<lambda>d.
       if available d then
         act_iter (\<lambda>(n, gl).
           act_bind (act_get (\<lambda>s. (dict_get (dut_gitlab (o_dut (the_dut s a))) n, dut_full_name e s a))) (\<lambda>(cfg, name).
             if expose_runners gl \<and> (case cfg of Some r \<Rightarrow> exposed r | None \<Rightarrow> False)
             then on_runner a n (verify_or_renew_token (ve_gitlab e) gl name (tags d))
             else act_return ())) gls
       else if is_retired d then
         act_iter (\<lambda>(n, cfg).
           case dict_get gls n of
             Some gl \<Rightarrow> on_runner a n (runner_remove (ve_gitlab e) gl)
           | None \<Rightarrow> act_return ()) (dut_gitlab d)
       else act_return ())))"

section \<open>Machines\<close>

definition create_pdu_port :: "'w mars_env \<Rightarrow> 'w mars \<Rightarrow> nat \<Rightarrow> PDUPort option res" where
  "create_pdu_port e s a =
     (let d = o_dut (the_dut s a) in
      case pdu d of
        None \<Rightarrow> Inr None
      | Some name \<Rightarrow>
          case dict_get (db_pdus (the_db s (o_db (the_dut s a)))) name of
            None \<Rightarrow> Inr None
          | Some cfg \<Rightarrow>
              res_bind (ve_ports e cfg name) (\<lambda>ports.
                case find (\<lambda>p. show_int (port_id p) = str_opt (pdu_port_id d)) ports of
                  Some p \<Rightarrow> Inr (Some (p\<lparr>min_off_time := pdu_off_delay d\<rparr>))
                | None \<Rightarrow> Inl (ValueError (''Could not find a matching port for '' @ str_opt (pdu_port_id d)))))"

text \<open>\<open>self.pdu_port = self._create_pdu_port()\<close> followed by the static address.\<close>

definition configure :: "'w mars_env \<Rightarrow> nat \<Rightarrow> ('w mars, PDUPort option) act" where
  "configure e a =
     act_bind (act_get (\<lambda>s. create_pdu_port e s a)) (\<lambda>r.
     act_bind (act_lift r) (\<lambda>port.
     act_bind (\<lambda>s. let (r, b) = write_network_config (ve_reload e) (o_mac (the_dut s a)) (ip_address (o_dut (the_dut s a)))
                          (dut_full_name e s a) (mr_boots s)
                   in (r, s\<lparr>mr_boots := b\<rparr>)) (\<lambda>_. act_return port)))"

definition set_machine :: "string \<Rightarrow> machine \<Rightarrow> ('w mars, unit) act" where
  "set_machine mac m = act_modify (\<lambda>s. s\<lparr>mr_machines := dict_set mac m (mr_machines s)\<rparr>)"

text \<open>\<open>Machine.update_config\<close> on the machine that is known as \<open>mac\<close>; \<open>a\<close> is its new DUT, if any.\<close>

definition update_config :: "'w mars_env \<Rightarrow> string \<Rightarrow> nat option \<Rightarrow> ('w mars, unit) act" where
  "update_config e mac a s =
     (case dict_get (mr_machines s) mac of
        None \<Rightarrow> (Inl AttributeError, s)
      | Some m \<Rightarrow>
          let m' = (case a of None \<Rightarrow> m | Some a' \<Rightarrow> m\<lparr>m_dut := a'\<rparr>)
          in act_bind (set_machine mac m') (\<lambda>_.
             act_bind (configure e (m_dut m')) (\<lambda>port. set_machine mac (m'\<lparr>m_port := port\<rparr>))) s)"

text \<open>
  \<open>Machine.__init__\<close> starts an executor between the two calls that configure the machine; the
  machine is stored only when all of it returned.
\<close>

definition Machine_init :: "'w mars_env \<Rightarrow> nat \<Rightarrow> ('w mars, machine) act" where
  "Machine_init e a =
     act_bind (act_get (\<lambda>s. create_pdu_port e s a)) (\<lambda>r.
     act_bind (act_lift r) (\<lambda>_.
     act_bind (act_lift (ve_executor e)) (\<lambda>_.
     act_bind (act_modify (\<lambda>s. s\<lparr>mr_executors := o_mac (the_dut s a) # mr_executors s\<rparr>)) (\<lambda>_.
     act_bind (configure e a) (\<lambda>port. act_return \<lparr>m_dut = a, m_port = port\<rparr>)))))"

definition machine_update_or_create :: "'w mars_env \<Rightarrow> nat \<Rightarrow> ('w mars, unit) act" where
  "machine_update_or_create e a =
     act_bind (act_get (\<lambda>s. (o_mac (the_dut s a), mr_db s))) (\<lambda>(mac, i).
     act_bind (act_get (\<lambda>s. dict_get (mr_machines s) mac)) (\<lambda>m.
     act_bind (case m of
         None \<Rightarrow> act_bind (Machine_init e a) (\<lambda>m. set_machine mac m)
       | Some _ \<Rightarrow> update_config e mac (Some a)) (\<lambda>_.
       act_modify (upd_db i (\<lambda>db. db\<lparr>db_duts := dict_set mac a (db_duts db)\<rparr>)))))"

text \<open>\<open>Machine.update_fields\<close>: \<open>f\<close> sets the fields.\<close>

definition update_fields :: "'w mars_env \<Rightarrow> string \<Rightarrow> (ConfigDUT \<Rightarrow> ConfigDUT) \<Rightarrow> ('w mars, unit) act" where
  "update_fields e mac f =
     act_bind (act_get (\<lambda>s. dict_get (mr_machines s) mac)) (\<lambda>mo.
       case mo of
         None \<Rightarrow> act_raise AttributeError
       | Some m \<Rightarrow>
           act_bind (act_modify (upd_dut (m_dut m) f)) (\<lambda>_.
           act_bind (update_config e mac None) (\<lambda>_.
             act_modify (\<lambda>s. db_save (o_db (the_dut s (m_dut m))) s))))"

definition set_ready_for_service :: "'w mars_env \<Rightarrow> string \<Rightarrow> bool \<Rightarrow> ('w mars, unit) act" where
  "set_ready_for_service e mac val =
     act_bind (act_get (\<lambda>s. dict_get (mr_machines s) mac)) (\<lambda>mo.
       case mo of
         None \<Rightarrow> act_raise AttributeError
       | Some m \<Rightarrow>
           act_bind (act_get (\<lambda>s. ready_for_service (o_dut (the_dut s (m_dut m))) = val)) (\<lambda>same.
             if same then act_return () else update_fields e mac (\<lambda>d. d\<lparr>ready_for_service := val\<rparr>)))"

definition save_db_if_needed :: "('w mars, unit) act" where
  "save_db_if_needed = act_modify (\<lambda>s. if is_tainted (mr_db s) s then db_save (mr_db s) s else s)"

section \<open>The service\<close>

definition get_machine_by_id :: "string \<Rightarrow> bool \<Rightarrow> 'w mars \<Rightarrow> machine option res" where
  "get_machine_by_id mid raise_if_missing s =
     (case dict_get (mr_machines s) mid of
        None \<Rightarrow> if raise_if_missing then Inl (ValueError (''Unknown machine ID '' @ [CHR 0x27] @ mid @ [CHR 0x27])) else Inr None
      | Some m \<Rightarrow> Inr (Some m))"

text \<open>
  \<open>add_or_update_machine\<close>: \<open>mk\<close> makes the new configuration from the old one, if there is one, or
  fails validation.
\<close>

definition add_or_update_machine ::
  "'w mars_env \<Rightarrow> string \<Rightarrow> (ConfigDUT option \<Rightarrow> ConfigDUT res) \<Rightarrow> ('w mars, unit) act" where
  "add_or_update_machine e mac mk =
     act_bind (act_get (\<lambda>s. map_option (\<lambda>a. o_dut (the_dut s a)) (dict_get (db_duts (the_db s (mr_db s))) mac))) (\<lambda>old.
     act_bind (act_lift (mk old)) (\<lambda>d.
     act_bind (act_get (\<lambda>s. length (mr_store s))) (\<lambda>a.
     act_bind (act_modify (\<lambda>s. s\<lparr>mr_store := mr_store s @ [\<lparr>o_dut = d, o_mac = mac, o_db = mr_db s\<rparr>]\<rparr>)) (\<lambda>_.
     act_bind (machine_update_or_create e a) (\<lambda>_. save_db_if_needed)))))"

text \<open>The runners that the template of the configuration of gitlab-runner lists: name, URL, token.\<close>

definition runner_config :: "'w mars_env \<Rightarrow> 'w mars \<Rightarrow> (string \<times> string \<times> json) list" where
  "runner_config e s =
     (let db = the_db s (mr_db s) in
      concat (map (\<lambda>(n, gl). case gateway_runner gl of
                     Some r \<Rightarrow> if should_expose_gateway_runner gl then [(farm_name e @ ''-gateway'', gl_url gl, token r)] else []
                   | None \<Rightarrow> []) (db_gitlab db)) @
      concat (map (\<lambda>(mac, a). if available (o_dut (the_dut s a)) then
                     concat (map (\<lambda>(n, cfg). case dict_get (db_gitlab db) n of
                        Some gl \<Rightarrow> if exposed cfg \<and> expose_runners gl then [(dut_full_name e s a, gl_url gl, token cfg)] else []
                      | None \<Rightarrow> []) (dut_gitlab (o_dut (the_dut s a))))
                   else []) (db_duts db)))"

definition generate_runner_config :: "'w mars_env \<Rightarrow> ('w mars, unit) act" where
  "generate_runner_config e =
     act_bind (act_lift (ve_render e)) (\<lambda>_. act_modify (\<lambda>s. s\<lparr>mr_runners := runner_config e s\<rparr>))"

text \<open>Stopping the executors of the machines that are no longer in the database, and forgetting them.\<close>

definition remove_machines :: "string set \<Rightarrow> 'w mars \<Rightarrow> 'w mars" where
  "remove_machines gone s =
     s\<lparr>mr_executors := fold remove1 (filter (\<lambda>m. m \<in> gone) (dict_keys (mr_machines s))) (mr_executors s), mr_machines := filter (\<lambda>(mac, _). mac \<notin> gone) (mr_machines s)\<rparr>"

definition expose_gateway :: "'w mars_env \<Rightarrow> string \<Rightarrow> ('w mars, unit) act" where
  "expose_gateway e n s =
     (case dict_get (db_gitlab (the_db s (mr_db s))) n of
        None \<Rightarrow> (Inr (), s)
      | Some gl \<Rightarrow>
          case gateway_runner gl of
            None \<Rightarrow> (Inr (), s)
          | Some r \<Rightarrow>
              if should_expose_gateway_runner gl then
                let (res, (r', w')) = verify_or_renew_token (ve_gitlab e) gl (farm_name e @ ''-gateway'')
                       [farm_name e @ ''-gateway'', ''CI-gateway''] (r, mr_gitlab s)
                in (res, (upd_db (mr_db s) (\<lambda>db. db\<lparr>db_gitlab := dict_set n (gl\<lparr>gateway_runner := Some r'\<rparr>) (db_gitlab db)\<rparr>) s)\<lparr>mr_gitlab := w'\<rparr>)
              else (Inr (), s))"

definition sync_machines :: "'w mars_env \<Rightarrow> ('w mars, unit) act" where
  "sync_machines e =
     act_bind (db_from_file e) (\<lambda>i.
     act_bind (act_modify (\<lambda>s. s\<lparr>mr_db := i\<rparr>)) (\<lambda>_.
     act_bind (act_get (\<lambda>s. set (dict_keys (mr_machines s)))) (\<lambda>known.
     act_bind (act_get (\<lambda>s. db_duts (the_db s i))) (\<lambda>duts.
     act_bind (act_iter (machine_update_or_create e) (dict_values duts)) (\<lambda>_.
     act_bind (act_modify (remove_machines (known - set (dict_keys duts)))) (\<lambda>_.
     act_bind (act_get (\<lambda>s. db_gitlab (the_db s i))) (\<lambda>gls.
     act_bind (act_iter (expose_gateway e) (dict_keys gls)) (\<lambda>_.
     act_bind (act_iter (expose_on_forges e) (dict_values duts)) (\<lambda>_.
     act_bind (generate_runner_config e) (\<lambda>_.
       save_db_if_needed))))))))))"

text \<open>\<open>Mars.stop\<close>: every machine's executor is signalled; the result are the executors whose event is set.\<close>

definition mars_stop :: "'w mars \<Rightarrow> string list" where
  "mars_stop s = dict_keys (mr_machines s)"

text \<open>
  The loop of \<open>Mars.run\<close>. A round has the events that inotify returned, which reading them
  consumes, and the time; an exception leaves the time of the last synchronisation as it is. The
  third component tells whether the round synchronised.
\<close>

definition sync_reason :: "time option \<Rightarrow> bool \<Rightarrow> time \<Rightarrow> string option" where
  "sync_reason last_sync updated now =
     (case last_sync of
        None \<Rightarrow> Some ''Initial boot''
      | Some t \<Rightarrow> if updated then Some ''Got updated on disk''
                  else if now - t > 30 * 60 * 1000000 then Some ''Periodic check'' else None)"

definition run_round :: "'w mars_env \<Rightarrow> bool \<times> time \<Rightarrow> time option \<times> 'w mars \<Rightarrow> (time option \<times> 'w mars) \<times> bool" where
  "run_round e tick st =
     (let (updated, now) = tick; (last_sync, s) = st in
      case sync_reason last_sync updated now of
        None \<Rightarrow> (st, False)
      | Some _ \<Rightarrow>
          case sync_machines e s of
            (Inl _, s') \<Rightarrow> ((last_sync, s'), True)
          | (Inr _, s') \<Rightarrow> ((Some now, s'), True))"

fun mars_run :: "'w mars_env \<Rightarrow> (bool \<times> time) list \<Rightarrow> time option \<times> 'w mars \<Rightarrow> (time option \<times> 'w mars) \<times> bool list" where
  "mars_run e [] st = (st, [])"
| "mars_run e (tick # ticks) st =
     (let (st1, did) = run_round e tick st; (st2, rest) = mars_run e ticks st1 in (st2, did # rest))"

text \<open>The discovery in progress, which expires when it is looked at (\<open>Mars.discover_data\<close>).\<close>

record discovery =
  disc_pdu :: string
  disc_port :: json
  disc_date :: json
  disc_timeout :: int
  disc_started_at :: time

definition discover_data :: "time \<Rightarrow> discovery option \<Rightarrow> discovery option" where
  "discover_data now d =
     (case d of
        None \<Rightarrow> None
      | Some x \<Rightarrow> if now - disc_started_at x \<ge> disc_timeout x * 1000000 then None else Some x)"

section \<open>Lemmas on names\<close>

lemma dict_set_same: "dict_get d k = Some v \<Longrightarrow> dict_set k v d = d"
  by (induction d) auto

lemma last_dash:
  assumes "a @ CHR ''-'' # x = b @ CHR ''-'' # y" "CHR ''-'' \<notin> set x" "CHR ''-'' \<notin> set y"
  shows "a = b \<and> x = y"
proof -
  have "rev x @ CHR ''-'' # rev a = rev y @ CHR ''-'' # rev b"
    using arg_cong[OF assms(1), of rev] by simp
  moreover from this have "rev x = rev y"
    using takeWhile_field[of "CHR ''-''" "rev x" "rev a"] takeWhile_field[of "CHR ''-''" "rev y" "rev b"] assms(2,3) by simp
  ultimately show ?thesis by simp
qed

lemma show_nat_no_dash: "CHR ''-'' \<notin> set (show_nat n)"
  using show_nat_chars by blast

lemma dut_index_less:
  assumes "d \<in> set duts" "base_name d = base_name d'" "first_seen d < first_seen d'"
  shows "dut_index duts d < dut_index duts d'"
proof -
  let ?P = "\<lambda>d x. base_name x = base_name d \<and> first_seen x < first_seen d"
  have "filter (?P d) duts = filter (?P d) (filter (?P d') duts)"
    using assms(2,3) by (auto intro!: filter_cong)
  moreover have "length (filter (?P d) (filter (?P d') duts)) < length (filter (?P d') duts)"
    using assms by (intro length_filter_less[of d]) auto
  ultimately show ?thesis by (simp add: dut_index_def)
qed

text \<open>
  The names of machines are unique in the farm as long as their first contacts are: two machines of
  the database that have the same full name are of the same kind and were first seen at the same
  instant.
\<close>

theorem full_names_unique:
  assumes "d \<in> set duts" "d' \<in> set duts" "full_name farm duts d = full_name farm duts d'"
  shows "base_name d = base_name d' \<and> first_seen d = first_seen d'"
proof -
  have "(farm @ ''-'' @ base_name d) @ CHR ''-'' # show_nat (dut_index duts d) =
        (farm @ ''-'' @ base_name d') @ CHR ''-'' # show_nat (dut_index duts d')"
    using assms(3) by (simp add: full_name_def)
  from last_dash[OF this show_nat_no_dash show_nat_no_dash]
  have same: "base_name d = base_name d'" "dut_index duts d = dut_index duts d'" by auto
  then have "\<not> first_seen d < first_seen d'" "\<not> first_seen d' < first_seen d"
    using dut_index_less[OF assms(1)] dut_index_less[OF assms(2)] by (metis less_irrefl_nat)+
  then show ?thesis using same(1) by simp
qed

section \<open>Lemmas on the store\<close>

text \<open>What no operation other than adding and removing machines touches.\<close>

definition same_registry :: "'w mars \<Rightarrow> 'w mars \<Rightarrow> bool" where
  "same_registry s s' \<longleftrightarrow>
     mr_machines s' = mr_machines s \<and> mr_db s' = mr_db s \<and> mr_executors s' = mr_executors s \<and>
     map o_mac (mr_store s') = map o_mac (mr_store s) \<and> map o_db (mr_store s') = map o_db (mr_store s) \<and>
     map db_duts (mr_dbs s') = map db_duts (mr_dbs s)"

interpretation reg: act_preorder same_registry
  by unfold_locales (auto simp: same_registry_def)

lemma upd_dut_registry: "same_registry s (upd_dut a f s)"
  by (cases "a < length (mr_store s)")
     (simp_all add: same_registry_def upd_dut_def map_update list_update_same_conv list_update_beyond)

lemma upd_db_registry: "(\<And>db. db_duts (f db) = db_duts db) \<Longrightarrow> same_registry s (upd_db i f s)"
  by (cases "i < length (mr_dbs s)")
     (simp_all add: same_registry_def upd_db_def map_update list_update_same_conv list_update_beyond)

lemma same_registry_update: "same_registry s s' \<Longrightarrow> same_registry s (s'\<lparr>mr_gitlab := w\<rparr>)"
  "same_registry s s' \<Longrightarrow> same_registry s (s'\<lparr>mr_file := f\<rparr>)" "same_registry s s' \<Longrightarrow> same_registry s (s'\<lparr>mr_boots := b\<rparr>)"
  "same_registry s s' \<Longrightarrow> same_registry s (s'\<lparr>mr_runners := r\<rparr>)"
  by (simp_all add: same_registry_def)

lemma on_runner_registry: "act_within same_registry (on_runner a n m)"
  by (auto simp: act_within_def on_runner_def reg.R_refl Let_def split_beta split: option.split
      intro!: same_registry_update upd_dut_registry)

lemma db_save_registry: "same_registry s (db_save i s)"
  unfolding db_save_def reset_taint_def
  by (rule reg.R_trans[OF same_registry_update(2)[OF reg.R_refl] upd_db_registry]) simp

lemma registry_prod: "(\<And>a b. act_within same_registry (f a b)) \<Longrightarrow> act_within same_registry (case y of (a, b) \<Rightarrow> f a b)"
  by (cases y) simp

lemma registry_option: "act_within same_registry m \<Longrightarrow> (\<And>x. act_within same_registry (f x)) \<Longrightarrow>
    act_within same_registry (case y of None \<Rightarrow> m | Some x \<Rightarrow> f x)"
  by (cases y) simp_all

lemmas registry_intros = reg.within_intros on_runner_registry registry_prod registry_option upd_dut_registry

lemma expose_on_forges_registry: "act_within same_registry (expose_on_forges e a)"
  unfolding expose_on_forges_def by (intro registry_intros registry_option)

lemma expose_gateway_registry: "act_within same_registry (expose_gateway e n)"
  by (auto simp: act_within_def expose_gateway_def reg.R_refl Let_def split_beta split: option.split
      intro!: same_registry_update upd_db_registry)

lemma save_if_needed_registry: "act_within same_registry save_db_if_needed"
  unfolding save_db_if_needed_def by (intro registry_intros) (simp add: db_save_registry reg.R_refl)

lemma generate_runner_config_registry: "act_within same_registry (generate_runner_config e)"
  unfolding generate_runner_config_def by (intro registry_intros) (simp add: same_registry_def)

lemma configure_registry: "act_within same_registry (configure e a)"
proof -
  have "act_within same_registry (\<lambda>s. let (r, b) = write_network_config (ve_reload e) (o_mac (the_dut s a)) (ip_address (o_dut (the_dut s a)))
                          (dut_full_name e s a) (mr_boots s)
                   in (r, s\<lparr>mr_boots := b\<rparr>))"
    by (simp add: act_within_def split_beta Let_def same_registry_update reg.R_refl)
  then show ?thesis unfolding configure_def by (intro registry_intros)
qed

section \<open>Synchronising with the file\<close>

text \<open>The addresses of a database's DUTs, and the MAC address and database of an object.\<close>

abbreviation duts_at :: "'w mars \<Rightarrow> nat \<Rightarrow> (string, nat) dict" where
  "duts_at s i \<equiv> map db_duts (mr_dbs s) ! i"

abbreviation mac_at :: "'w mars \<Rightarrow> nat \<Rightarrow> string" where
  "mac_at s a \<equiv> map o_mac (mr_store s) ! a"

text \<open>What a successful \<open>_machine_update_or_create\<close> does to the registry.\<close>

definition registers :: "nat \<Rightarrow> string \<Rightarrow> 'w mars \<Rightarrow> 'w mars \<Rightarrow> bool" where
  "registers a mac s s' \<longleftrightarrow>
     (\<exists>m. m_dut m = a \<and> (\<forall>k. dict_get (mr_machines s') k = (if k = mac then Some m else dict_get (mr_machines s) k))) \<and>
     mr_db s' = mr_db s \<and> map o_mac (mr_store s') = map o_mac (mr_store s) \<and> map o_db (mr_store s') = map o_db (mr_store s) \<and>
     map db_duts (mr_dbs s') = (map db_duts (mr_dbs s))[mr_db s := dict_set mac a (duts_at s (mr_db s))]"

lemma configure_same:
  assumes "configure e a s = (r, s')"
  shows "same_registry s s'"
  using reg.withinD[OF configure_registry, of s e a] assms by simp

lemma update_config_result:
  assumes "update_config e mac (Some a) s = (Inr u, s')"
  shows "(\<exists>m. m_dut m = a \<and> (\<forall>k. dict_get (mr_machines s') k = (if k = mac then Some m else dict_get (mr_machines s) k))) \<and>
    same_registry (s\<lparr>mr_machines := mr_machines s'\<rparr>) s'"
proof -
  obtain m port s1 where m: "dict_get (mr_machines s) mac = Some m"
    and c: "configure e a (s\<lparr>mr_machines := dict_set mac (m\<lparr>m_dut := a\<rparr>) (mr_machines s)\<rparr>) = (Inr port, s1)"
    and s': "s' = s1\<lparr>mr_machines := dict_set mac (m\<lparr>m_dut := a, m_port := port\<rparr>) (mr_machines s1)\<rparr>"
    using assms by (auto simp: update_config_def set_machine_def act_bind_eq_Inr act_modify_def Let_def split: option.splits)
  show ?thesis
    using configure_same[OF c] unfolding s'
    by (auto simp: same_registry_def intro!: exI[of _ "m\<lparr>m_dut := a, m_port := port\<rparr>"])
qed

lemma Machine_init_result:
  assumes "Machine_init e a s = (Inr m, s')"
  shows "m_dut m = a \<and> same_registry (s\<lparr>mr_executors := mr_executors s'\<rparr>) s'"
proof -
  obtain port where c: "configure e a (s\<lparr>mr_executors := o_mac (the_dut s a) # mr_executors s\<rparr>) = (Inr port, s')"
    and m: "m = \<lparr>m_dut = a, m_port = port\<rparr>"
    using assms by (auto simp: Machine_init_def act_bind_eq_Inr act_modify_def act_lift_def act_return_def split: sum.splits)
  show ?thesis using configure_same[OF c] m by (simp add: same_registry_def)
qed

lemma update_or_create_registers:
  assumes "machine_update_or_create e a s = (Inr u, s')" "mr_db s < length (mr_dbs s)"
  shows "registers a (o_mac (the_dut s a)) s s'"
proof -
  let ?mac = "o_mac (the_dut s a)"
  obtain s1 where s1: "\<exists>m. m_dut m = a \<and> (\<forall>k. dict_get (mr_machines s1) k = (if k = ?mac then Some m else dict_get (mr_machines s) k))"
    "same_registry (s\<lparr>mr_machines := mr_machines s1, mr_executors := mr_executors s1\<rparr>) s1"
    and s': "s' = upd_db (mr_db s) (\<lambda>db. db\<lparr>db_duts := dict_set ?mac a (db_duts db)\<rparr>) s1"
  proof (cases "dict_get (mr_machines s) ?mac")
    case None
    then obtain m s2 where mi: "Machine_init e a s = (Inr m, s2)"
      and s': "s' = upd_db (mr_db s) (\<lambda>db. db\<lparr>db_duts := dict_set ?mac a (db_duts db)\<rparr>) (s2\<lparr>mr_machines := dict_set ?mac m (mr_machines s2)\<rparr>)"
      using assms(1) by (auto simp: machine_update_or_create_def set_machine_def act_bind_eq_Inr act_modify_def)
    show thesis
      by (rule that[OF _ _ s']) (use Machine_init_result[OF mi] in \<open>auto simp: same_registry_def\<close>)
  next
    case (Some m)
    then obtain s2 where uc: "update_config e ?mac (Some a) s = (Inr (), s2)"
      and s': "s' = upd_db (mr_db s) (\<lambda>db. db\<lparr>db_duts := dict_set ?mac a (db_duts db)\<rparr>) s2"
      using assms(1) by (auto simp: machine_update_or_create_def act_bind_eq_Inr act_modify_def)
    show thesis
      by (rule that[OF _ _ s']) (use update_config_result[OF uc] in \<open>auto simp: same_registry_def\<close>)
  qed
  have dbs: "map db_duts (mr_dbs s1) = map db_duts (mr_dbs s)" using s1(2) by (simp add: same_registry_def)
  then have len: "length (mr_dbs s1) = length (mr_dbs s)" by (metis length_map)
  have "db_duts (the_db s1 (mr_db s)) = duts_at s (mr_db s)"
    using dbs len assms(2) by (metis nth_map)
  then have "map db_duts (mr_dbs s') = (map db_duts (mr_dbs s))[mr_db s := dict_set ?mac a (duts_at s (mr_db s))]"
    using dbs by (simp add: s' upd_db_def map_update)
  then show ?thesis
    using s1 by (auto simp: registers_def same_registry_def s' upd_db_def)
qed

text \<open>The whole loop: every DUT of the list is registered, with its own object.\<close>

lemma sync_loop:
  assumes "act_iter (machine_update_or_create e) as s = (Inr u, s')" "mr_db s < length (mr_dbs s)" "distinct (map (mac_at s) as)"
    and "\<forall>a \<in> set as. a < length (mr_store s) \<and> dict_get (duts_at s (mr_db s)) (mac_at s a) = Some a"
  shows "mr_db s' = mr_db s \<and> map o_mac (mr_store s') = map o_mac (mr_store s) \<and> map o_db (mr_store s') = map o_db (mr_store s) \<and>
    map db_duts (mr_dbs s') = map db_duts (mr_dbs s) \<and>
    (\<forall>k. if k \<in> mac_at s ` set as then \<exists>m. dict_get (mr_machines s') k = Some m \<and> m_dut m \<in> set as \<and> mac_at s (m_dut m) = k
         else dict_get (mr_machines s') k = dict_get (mr_machines s) k)"
  using assms
proof (induction as arbitrary: s)
  case Nil
  then show ?case by (simp add: act_return_def)
next
  case (Cons a as)
  let ?mac = "mac_at s a"
  have a: "a < length (mr_store s)" "?mac = o_mac (the_dut s a)" using Cons.prems(4) by simp_all
  obtain u1 s1 where 1: "machine_update_or_create e a s = (Inr u1, s1)" "act_iter (machine_update_or_create e) as s1 = (Inr u, s')"
    using Cons.prems(1) by (auto simp: act_bind_eq_Inr)
  have r: "registers a ?mac s s1" using update_or_create_registers[OF 1(1) Cons.prems(2)] a(2) by simp
  then have same: "mr_db s1 = mr_db s" "map o_mac (mr_store s1) = map o_mac (mr_store s)" "map o_db (mr_store s1) = map o_db (mr_store s)"
    by (simp_all add: registers_def)
  have "dict_set ?mac a (duts_at s (mr_db s)) = duts_at s (mr_db s)"
    by (rule dict_set_same) (meson Cons.prems(4) list.set_intros(1))
  then have dbs: "map db_duts (mr_dbs s1) = map db_duts (mr_dbs s)"
    using r unfolding registers_def by (metis list_update_id)
  obtain m where m: "m_dut m = a" "\<And>k. dict_get (mr_machines s1) k = (if k = ?mac then Some m else dict_get (mr_machines s) k)"
    using r by (auto simp: registers_def)
  have len: "length (mr_store s1) = length (mr_store s)" "length (mr_dbs s1) = length (mr_dbs s)"
    using same(2) dbs by (metis length_map)+
  have ih: "mr_db s' = mr_db s1 \<and> map o_mac (mr_store s') = map o_mac (mr_store s1) \<and> map o_db (mr_store s') = map o_db (mr_store s1) \<and>
    map db_duts (mr_dbs s') = map db_duts (mr_dbs s1) \<and>
    (\<forall>k. if k \<in> mac_at s1 ` set as then \<exists>m. dict_get (mr_machines s') k = Some m \<and> m_dut m \<in> set as \<and> mac_at s1 (m_dut m) = k
         else dict_get (mr_machines s') k = dict_get (mr_machines s1) k)"
    using Cons.prems(2,3,4) by (intro Cons.IH[OF 1(2)]) (simp_all add: same dbs len del: nth_map)
  show ?case
  proof (intro conjI allI)
    fix k
    consider "k \<in> mac_at s ` set as" | "k = ?mac" "k \<notin> mac_at s ` set as" | "k \<noteq> ?mac" "k \<notin> mac_at s ` set as" by blast
    then show "if k \<in> mac_at s ` set (a # as) then \<exists>m. dict_get (mr_machines s') k = Some m \<and> m_dut m \<in> set (a # as) \<and> mac_at s (m_dut m) = k
         else dict_get (mr_machines s') k = dict_get (mr_machines s) k"
    proof cases
      case 1
      then have "\<exists>m. dict_get (mr_machines s') k = Some m \<and> m_dut m \<in> set as \<and> mac_at s (m_dut m) = k"
        using ih unfolding same(2) by (metis (no_types, lifting))
      then show ?thesis using 1 by auto
    next
      case 2
      then have "dict_get (mr_machines s') k = Some m" using ih m(2) unfolding same(2) by (metis (no_types, lifting))
      then show ?thesis using 2 m(1) by auto
    next
      case 3
      then have "dict_get (mr_machines s') k = dict_get (mr_machines s) k" using ih m(2) unfolding same(2) by (metis (no_types, lifting))
      then show ?thesis using 3 by auto
    qed
  qed (use ih same dbs in auto)
qed

text \<open>Machines and database agree: they share their DUT objects, which belong to that database.\<close>

definition linked :: "'w mars \<Rightarrow> bool" where
  "linked s \<longleftrightarrow>
     mr_db s < length (mr_dbs s) \<and> dict_ok (duts_at s (mr_db s)) \<and>
     (\<forall>mac m. dict_get (mr_machines s) mac = Some m \<longrightarrow> dict_get (duts_at s (mr_db s)) mac = Some (m_dut m)) \<and>
     (\<forall>mac a. dict_get (duts_at s (mr_db s)) mac = Some a \<longrightarrow>
        a < length (mr_store s) \<and> mac_at s a = mac \<and> map o_db (mr_store s) ! a = mr_db s)"

lemma same_registry_linked: "same_registry s s' \<Longrightarrow> linked s \<Longrightarrow> linked s'"
proof -
  assume r: "same_registry s s'" and l: "linked s"
  have "length (mr_store s') = length (mr_store s)" "length (mr_dbs s') = length (mr_dbs s)"
    using r unfolding same_registry_def by (metis length_map)+
  then show "linked s'" using r l unfolding same_registry_def linked_def by (simp del: nth_map)
qed

text \<open>The new database that reading the file makes.\<close>

lemma db_from_file_result:
  assumes "mr_file s = Inr d" "db_from_file e s = (Inr i, s')"
  shows "i = length (mr_dbs s)" "mr_machines s' = mr_machines s" "length (mr_dbs s') = Suc i"
    "map o_mac (mr_store s') = map o_mac (mr_store s) @ dict_keys (data_duts d)"
    "map o_db (mr_store s') = map o_db (mr_store s) @ replicate (length (data_duts d)) i"
    "duts_at s' i = zip (dict_keys (data_duts d)) [length (mr_store s)..<length (mr_store s) + length (data_duts d)]"
proof -
  have v: "validate_db d = Inr d"
    using assms by (auto simp: db_from_file_def validate_db_def act_bind_eq_Inr act_lift_def res_bind_def split: if_splits)
  define st where "st = s\<lparr>mr_store := mr_store s @ map (\<lambda>(mac, dut). \<lparr>o_dut = dut, o_mac = mac, o_db = length (mr_dbs s)\<rparr>) (data_duts d),
         mr_dbs := mr_dbs s @
           [\<lparr>db_pdus = (case ve_vpdu e of
                          Some ep \<Rightarrow> dict_set ''VPDU'' \<lparr>driver = ''vpdu'', pdu_config = JObj [(''hostname'', JStr ep)]\<rparr> (data_pdus d)
                        | None \<Rightarrow> data_pdus d),
             db_duts = zip (dict_keys (data_duts d)) [length (mr_store s)..<length (mr_store s) + length (data_duts d)],
             db_gitlab = data_gitlab d, disk_state = d\<rparr>]\<rparr>"
  have i: "i = length (mr_dbs s)" and s': "s' = reset_taint i st"
    using assms v by (auto simp: db_from_file_def res_bind_def st_def act_return_def)
  have r: "same_registry st s'" unfolding s' reset_taint_def by (rule upd_db_registry) simp
  show "i = length (mr_dbs s)" by (rule i)
  show "mr_machines s' = mr_machines s" using r by (simp add: same_registry_def st_def)
  show "length (mr_dbs s') = Suc i" using r i unfolding same_registry_def by (simp add: s' reset_taint_def upd_db_def st_def)
  show "map o_mac (mr_store s') = map o_mac (mr_store s) @ dict_keys (data_duts d)"
    using r by (simp add: same_registry_def st_def comp_def split_beta)
  show "map o_db (mr_store s') = map o_db (mr_store s) @ replicate (length (data_duts d)) i"
    using r i by (simp add: same_registry_def st_def comp_def split_beta map_replicate_const)
  have "duts_at s' i = duts_at st i" using r by (simp add: same_registry_def)
  then show "duts_at s' i = zip (dict_keys (data_duts d)) [length (mr_store s)..<length (mr_store s) + length (data_duts d)]"
    by (simp add: st_def i nth_append)
qed

lemma same_dict_refl: "(\<And>x. eq x x) \<Longrightarrow> same_dict eq a a"
  by (auto simp: same_dict_def list_all_iff split: option.split)

lemma same_data_refl: "same_data x x"
  by (auto simp: same_data_def same_dut_def intro!: same_dict_refl)

lemma save_if_needed_clean: "mr_db s < length (mr_dbs s) \<Longrightarrow> \<not> is_tainted (mr_db s) (snd (save_db_if_needed s))"
proof -
  assume i: "mr_db s < length (mr_dbs s)"
  have "\<not> is_tainted (mr_db s) (db_save (mr_db s) s)"
    using i by (simp add: is_tainted_def db_save_def reset_taint_def upd_db_def asdict_def same_data_refl)
  then show ?thesis by (simp add: save_db_if_needed_def act_modify_def)
qed

lemma zip_upt_get:
  assumes "distinct ks"
  shows "dict_get (zip ks [n..<n + length ks]) k = Some a \<longleftrightarrow> (\<exists>j < length ks. ks ! j = k \<and> a = n + j)"
proof -
  have "distinct (map fst (zip ks [n..<n + length ks]))" using assms by simp
  then have "dict_get (zip ks [n..<n + length ks]) k = Some a \<longleftrightarrow> (k, a) \<in> set (zip ks [n..<n + length ks])"
    by (simp add: map_of_eq_Some_iff)
  also have "\<dots> \<longleftrightarrow> (\<exists>j < length ks. ks ! j = k \<and> a = n + j)"
    by (auto simp: set_zip)
  finally show ?thesis .
qed

lemma dict_get_filter_key: "dict_get (filter (\<lambda>(k, _). P k) d) k = (if P k then dict_get d k else None)"
  by (induction d) auto

text \<open>The registry after the loop and the removal of the machines that are gone.\<close>

lemma sync_registry:
  assumes fl: "mr_file s = Inr d" "dict_ok (data_duts d)" and load: "db_from_file e s = (Inr i, s1)"
    and loop: "act_iter (machine_update_or_create e) (dict_values (duts_at s1 i)) (s1\<lparr>mr_db := i\<rparr>) = (Inr u, s2)"
  defines "s3 \<equiv> remove_machines (set (dict_keys (mr_machines s1)) - set (dict_keys (duts_at s1 i))) s2"
  shows "set (dict_keys (mr_machines s3)) = set (dict_keys (data_duts d)) \<and> linked s3"
proof -
  let ?ks = "dict_keys (data_duts d)" and ?n = "length (mr_store s)" and ?t = "s1\<lparr>mr_db := i\<rparr>"
  let ?as = "[?n..<?n + length ?ks]"
  note f = db_from_file_result[OF fl(1) load]
  have duts: "duts_at s1 i = zip ?ks ?as" using f(6) by simp
  have vals: "dict_values (duts_at s1 i) = ?as" and keys: "dict_keys (duts_at s1 i) = ?ks"
    unfolding duts by simp_all
  have mac: "mac_at s1 (?n + j) = ?ks ! j" if "j < length ?ks" for j
    using that unfolding f(4) by (simp add: nth_append)
  have len: "length (mr_store s1) = ?n + length ?ks" using arg_cong[OF f(4), of length] by simp
  have get: "dict_get (duts_at s1 i) k = Some a \<longleftrightarrow> (\<exists>j < length ?ks. ?ks ! j = k \<and> a = ?n + j)" for k a
    unfolding duts by (rule zip_upt_get[OF fl(2)])
  have macs: "map (mac_at s1) ?as = ?ks" by (rule nth_equalityI) (simp_all add: mac)
  have "\<forall>a \<in> set ?as. a < length (mr_store ?t) \<and> dict_get (duts_at ?t (mr_db ?t)) (mac_at ?t a) = Some a"
  proof
    fix a assume "a \<in> set ?as"
    then obtain j where "j < length ?ks" "a = ?n + j" by (auto dest!: le_Suc_ex)
    then show "a < length (mr_store ?t) \<and> dict_get (duts_at ?t (mr_db ?t)) (mac_at ?t a) = Some a"
      using get[of "?ks ! j" a] mac[of j] len by (simp del: nth_map)
  qed
  then have l: "mr_db s2 = mr_db ?t \<and> map o_mac (mr_store s2) = map o_mac (mr_store ?t) \<and> map o_db (mr_store s2) = map o_db (mr_store ?t) \<and>
    map db_duts (mr_dbs s2) = map db_duts (mr_dbs ?t) \<and>
    (\<forall>k. if k \<in> mac_at ?t ` set ?as then \<exists>m. dict_get (mr_machines s2) k = Some m \<and> m_dut m \<in> set ?as \<and> mac_at ?t (m_dut m) = k
         else dict_get (mr_machines s2) k = dict_get (mr_machines ?t) k)"
    using loop unfolding vals by (intro sync_loop) (use f(3) macs fl(2) in \<open>simp_all del: nth_map\<close>)
  have img: "mac_at ?t ` set ?as = set ?ks" using arg_cong[OF macs, of set] by simp
  have s2: "mr_db s2 = i" "map o_mac (mr_store s2) = map o_mac (mr_store s1)" "map o_db (mr_store s2) = map o_db (mr_store s1)"
    "map db_duts (mr_dbs s2) = map db_duts (mr_dbs s1)"
    using l by simp_all
  have q: "\<forall>k. if k \<in> set ?ks then \<exists>m. dict_get (mr_machines s2) k = Some m \<and> m_dut m \<in> set ?as \<and> mac_at s1 (m_dut m) = k
         else dict_get (mr_machines s2) k = dict_get (mr_machines s1) k"
  proof -
    have t: "mr_machines ?t = mr_machines s1" "map o_mac (mr_store ?t) = map o_mac (mr_store s1)" by simp_all
    show ?thesis using l unfolding t img[unfolded t] by (elim conjE)
  qed
  have m3: "dict_get (mr_machines s3) k = (if k \<in> set ?ks then dict_get (mr_machines s2) k else None)" for k
  proof (cases "k \<in> set ?ks")
    case True
    then show ?thesis unfolding s3_def remove_machines_def keys by (simp add: dict_get_filter_key del: set_map)
  next
    case False
    then have "dict_get (mr_machines s2) k = dict_get (mr_machines s1) k" using q by simp
    moreover have "dict_get (mr_machines s1) k = None \<or> k \<in> set (dict_keys (mr_machines s1))"
      by (simp add: dict_get_None_iff)
    ultimately show ?thesis using False unfolding s3_def remove_machines_def keys by (auto simp: dict_get_filter_key simp del: set_map)
  qed
  have s3: "mr_db s3 = i" "map o_mac (mr_store s3) = map o_mac (mr_store s1)" "map o_db (mr_store s3) = map o_db (mr_store s1)"
    "map db_duts (mr_dbs s3) = map db_duts (mr_dbs s1)" "length (mr_store s3) = ?n + length ?ks" "length (mr_dbs s3) = Suc i"
    using s2 len f(3) unfolding s3_def remove_machines_def by (simp_all, metis length_map, metis length_map)
  have dut: "map o_db (mr_store s1) ! (?n + j) = i" if "j < length ?ks" for j
    using that unfolding f(5) by (simp add: nth_append)
  have "linked s3"
    unfolding linked_def
  proof (intro conjI allI impI)
    show "mr_db s3 < length (mr_dbs s3)" using s3 by simp
    show "dict_ok (duts_at s3 (mr_db s3))" using fl(2) keys unfolding s3(1,4) by simp
  next
    fix mac m assume "dict_get (mr_machines s3) mac = Some m"
    then have k: "mac \<in> set ?ks" "dict_get (mr_machines s2) mac = Some m" using m3[of mac] by (auto split: if_splits)
    have "\<exists>m'. dict_get (mr_machines s2) mac = Some m' \<and> m_dut m' \<in> set ?as \<and> mac_at s1 (m_dut m') = mac"
      using spec[OF q, of mac] k(1) by (simp only: if_True)
    then have m: "m_dut m \<in> set ?as" "mac_at s1 (m_dut m) = mac" using k(2) by (metis option.inject)+
    then obtain j where j: "j < length ?ks" "m_dut m = ?n + j" by (auto dest!: le_Suc_ex)
    then have "?ks ! j = mac" using m(2) mac[of j] by simp
    then show "dict_get (duts_at s3 (mr_db s3)) mac = Some (m_dut m)" unfolding s3(1,4) get using j by blast
  next
    fix mac a assume "dict_get (duts_at s3 (mr_db s3)) mac = Some a"
    then obtain j where j: "j < length ?ks" "?ks ! j = mac" "a = ?n + j" unfolding s3(1,4) get by blast
    show "a < length (mr_store s3)" "mac_at s3 a = mac" "map o_db (mr_store s3) ! a = mr_db s3"
      using j mac[OF j(1)] dut[OF j(1)] s3 by (simp_all del: nth_map)
  qed
  moreover have "k \<in> set (dict_keys (mr_machines s3)) \<longleftrightarrow> k \<in> set ?ks" for k
  proof -
    have "k \<in> set (dict_keys (mr_machines s3)) \<longleftrightarrow> dict_get (mr_machines s3) k \<noteq> None" by (simp add: dict_get_None_iff)
    then show ?thesis using m3[of k] q by (auto split: if_splits)
  qed
  ultimately show ?thesis by blast
qed

text \<open>The effect of a successful synchronisation on the registry.\<close>

lemma sync_result:
  assumes "mr_file s = Inr d" "dict_ok (data_duts d)" "sync_machines e s = (Inr u, s')"
  shows "set (dict_keys (mr_machines s')) = set (dict_keys (data_duts d)) \<and> linked s' \<and> \<not> is_tainted (mr_db s') s'"
proof -
  obtain i s1 s2 s3 u2 u3 where
    1: "db_from_file e s = (Inr i, s1)" and
    2: "act_iter (machine_update_or_create e) (dict_values (db_duts (the_db s1 i))) (s1\<lparr>mr_db := i\<rparr>) = (Inr u2, s2)" and
    3: "act_bind (act_get (\<lambda>s. db_gitlab (the_db s i))) (\<lambda>gls.
     act_bind (act_iter (expose_gateway e) (dict_keys gls)) (\<lambda>_.
     act_bind (act_iter (expose_on_forges e) (dict_values (db_duts (the_db s1 i)))) (\<lambda>_.
     generate_runner_config e))) (remove_machines (set (dict_keys (mr_machines s1)) - set (dict_keys (db_duts (the_db s1 i)))) s2) = (Inr u3, s3)" and
    4: "s' = snd (save_db_if_needed s3)"
    using assms(3) unfolding sync_machines_def by (auto simp: act_bind_eq_Inr)
  define s2r where "s2r = remove_machines (set (dict_keys (mr_machines s1)) - set (dict_keys (duts_at s1 i))) s2"
  have "i < length (mr_dbs s1)" using db_from_file_result[OF assms(1) 1] by simp
  then have duts: "db_duts (the_db s1 i) = duts_at s1 i" by simp
  have reg: "set (dict_keys (mr_machines s2r)) = set (dict_keys (data_duts d))" "linked s2r"
    using sync_registry[OF assms(1,2) 1 2[unfolded duts]] unfolding s2r_def by blast+
  have "same_registry s2r s3"
  proof -
    have "act_within same_registry (act_bind (act_get (\<lambda>s. db_gitlab (the_db s i))) (\<lambda>gls.
       act_bind (act_iter (expose_gateway e) (dict_keys gls)) (\<lambda>_.
       act_bind (act_iter (expose_on_forges e) as) (\<lambda>_. generate_runner_config e))))" for as
      by (intro registry_intros expose_gateway_registry expose_on_forges_registry generate_runner_config_registry)
    from reg.withinD[OF this, where s = s2r] show ?thesis using 3 unfolding s2r_def duts by (metis snd_conv)
  qed
  moreover have "same_registry s3 s'" unfolding 4 by (rule reg.withinD[OF save_if_needed_registry])
  ultimately have r: "same_registry s2r s'" using reg.R_trans by blast
  have l: "linked s'" using same_registry_linked[OF r reg(2)] .
  have "mr_db s3 = mr_db s'" "length (mr_dbs s3) = length (mr_dbs s')"
    using \<open>same_registry s3 s'\<close> unfolding same_registry_def by (simp, metis length_map)
  then have "\<not> is_tainted (mr_db s') s'" using save_if_needed_clean[of s3] l unfolding linked_def 4 by simp
  then show ?thesis using l reg(1) r unfolding same_registry_def by simp
qed

text \<open>
  C9. Following the file: after a successful synchronisation there is a machine for every DUT of the file
  and no other; each shares its object with the database that was read, so that changes
  to the machine are changes to the database; and nothing is left to be written back.
\<close>

theorem sync_follows_file:
  assumes "mr_file s = Inr d" "dict_ok (data_duts d)" "sync_machines e s = (Inr u, s')"
  shows "set (dict_keys (mr_machines s')) = set (dict_keys (data_duts d)) \<and> linked s' \<and> \<not> is_tainted (mr_db s') s'"
  by (rule sync_result[OF assms])

section \<open>Writing changes through to the file\<close>

definition same_objects :: "'w mars \<Rightarrow> 'w mars \<Rightarrow> bool" where
  "same_objects s s' \<longleftrightarrow> mr_store s' = mr_store s \<and> mr_dbs s' = mr_dbs s \<and> mr_db s' = mr_db s"

interpretation obj: act_preorder same_objects
  by unfold_locales (auto simp: same_objects_def)

lemma set_machine_objects: "act_within same_objects (set_machine mac m)"
  unfolding set_machine_def by (intro obj.within_intros) (simp add: same_objects_def)

lemma configure_objects: "act_within same_objects (configure e a)"
proof -
  have "act_within same_objects (\<lambda>s. let (r, b) = write_network_config (ve_reload e) (o_mac (the_dut s a)) (ip_address (o_dut (the_dut s a)))
                          (dut_full_name e s a) (mr_boots s)
                   in (r, s\<lparr>mr_boots := b\<rparr>))"
    by (simp add: act_within_def split_beta Let_def same_objects_def)
  then show ?thesis unfolding configure_def by (intro obj.within_intros)
qed

lemma update_config_objects: "same_objects s (snd (update_config e mac a s))"
proof -
  have "act_within same_objects (act_bind (set_machine mac m) (\<lambda>_.
             act_bind (configure e b) (\<lambda>port. set_machine mac (m\<lparr>m_port := port\<rparr>))))" for m b
    by (intro obj.within_intros set_machine_objects configure_objects)
  from obj.withinD[OF this, of s] show ?thesis
    by (auto simp: update_config_def obj.R_refl Let_def split: option.split)
qed

text \<open>Changing one DUT changes one entry of what is written.\<close>

lemma asdict_upd_dut:
  assumes "linked s" "dict_get (mr_machines s) mac = Some m"
  shows "asdict (upd_dut (m_dut m) f s) (the_db s (mr_db s)) =
    (asdict s (the_db s (mr_db s)))\<lparr>data_duts :=
       map (\<lambda>(k, d). (k, if k = mac then f d else d)) (data_duts (asdict s (the_db s (mr_db s))))\<rparr>"
proof -
  let ?db = "the_db s (mr_db s)"
  have i: "duts_at s (mr_db s) = db_duts ?db" using assms(1) by (simp add: linked_def)
  have ok: "dict_ok (db_duts ?db)" and mac: "dict_get (db_duts ?db) mac = Some (m_dut m)"
    using assms unfolding linked_def i by blast+
  have addr: "a < length (mr_store s) \<and> o_mac (the_dut s a) = k" if "dict_get (db_duts ?db) k = Some a" for k a
  proof -
    have "a < length (mr_store s) \<and> mac_at s a = k" using assms(1) that unfolding linked_def i by blast
    then show ?thesis by auto
  qed
  have "o_dut (the_dut (upd_dut (m_dut m) f s) a) = (if k = mac then f (o_dut (the_dut s a)) else o_dut (the_dut s a))"
    if "(k, a) \<in> set (db_duts ?db)" for k a
  proof -
    have "dict_get (db_duts ?db) k = Some a" using that ok by simp
    then show ?thesis using addr addr[OF mac] mac by (auto simp: upd_dut_def nth_list_update)
  qed
  then show ?thesis by (auto simp: asdict_def)
qed

lemma linked_dut:
  assumes "linked s" "dict_get (mr_machines s) mac = Some m"
  shows "o_db (the_dut s (m_dut m)) = mr_db s \<and> m_dut m < length (mr_store s)"
proof -
  have "dict_get (duts_at s (mr_db s)) mac = Some (m_dut m)" using assms unfolding linked_def by blast
  then have "m_dut m < length (mr_store s) \<and> map o_db (mr_store s) ! m_dut m = mr_db s"
    using assms unfolding linked_def by blast
  then show ?thesis by auto
qed

text \<open>
  C14. Changes of a machine are written through: when machines and database are linked, a successful
  \<open>update_fields\<close> (retiring, activating or marking a machine ready) leaves in the file the database
  as it was, with the fields of that one DUT changed, and nothing is left to be written.
\<close>

theorem update_fields_written_through:
  assumes "linked s" "dict_get (mr_machines s) mac = Some m" "update_fields e mac f s = (Inr u, s')"
  shows "let old = asdict s (the_db s (mr_db s)) in
    mr_file s' = Inr (old\<lparr>data_duts := map (\<lambda>(k, d). (k, if k = mac then f d else d)) (data_duts old)\<rparr>) \<and>
    \<not> is_tainted (mr_db s') s'"
proof -
  let ?s1 = "upd_dut (m_dut m) f s"
  obtain s2 u2 where u: "update_config e mac None ?s1 = (Inr u2, s2)" and s': "s' = db_save (o_db (the_dut s2 (m_dut m))) s2"
    using assms(2,3) by (auto simp: update_fields_def act_bind_eq_Inr act_modify_def)
  have o: "mr_store s2 = mr_store ?s1" "mr_dbs s2 = mr_dbs s" "mr_db s2 = mr_db s"
    using update_config_objects[of ?s1 e mac None] u by (simp_all add: same_objects_def upd_dut_def)
  have d: "o_db (the_dut s2 (m_dut m)) = mr_db s"
    using linked_dut[OF assms(1,2)] unfolding o by (simp add: upd_dut_def)
  have i: "mr_db s < length (mr_dbs s)" using assms(1) by (simp add: linked_def)
  have same: "asdict s2 db = asdict ?s1 db" for db by (simp add: asdict_def o)
  have "mr_file s' = Inr (asdict ?s1 (the_db s (mr_db s)))"
    unfolding s' d db_save_def reset_taint_def upd_db_def by (simp add: o same)
  moreover have "\<not> is_tainted (mr_db s') s'"
    using i unfolding s' d
    by (simp add: is_tainted_def db_save_def reset_taint_def upd_db_def asdict_def same_data_refl o)
  ultimately show ?thesis unfolding asdict_upd_dut[OF assms(1,2)] Let_def by blast
qed

section \<open>Failures\<close>

lemma configure_fst:
  assumes "create_pdu_port e s a = Inr port"
  shows "fst (configure e a s) =
    map_sum id (\<lambda>_. port) (fst (write_network_config (ve_reload e) (o_mac (the_dut s a)) (ip_address (o_dut (the_dut s a)))
       (dut_full_name e s a) (mr_boots s)))"
  using assms by (simp add: configure_def act_bind_def act_get_def act_lift_def act_return_def split_beta Let_def split: sum.split)

text \<open>
  A machine whose setup fails after its executor was started is not registered, but the executor keeps
  running: every further attempt starts one more executor for the same machine.
\<close>

theorem failed_setup_leaks_executor:
  assumes "dict_get (mr_machines s) (o_mac (the_dut s a)) = None" "ve_executor e = Inr ()"
    and "create_pdu_port e s a = Inr port" "fst (configure e a s) = Inl x"
  shows "let (r, s') = machine_update_or_create e a s in
    r = Inl x \<and> mr_machines s' = mr_machines s \<and> mr_executors s' = o_mac (the_dut s a) # mr_executors s"
proof -
  let ?t = "s\<lparr>mr_executors := o_mac (the_dut s a) # mr_executors s\<rparr>"
  have "create_pdu_port e ?t a = Inr port" using assms(3) by (simp add: create_pdu_port_def Let_def cong: option.case_cong)
  moreover have "dut_full_name e ?t a = dut_full_name e s a" by (simp add: dut_full_name_def duts_of_def)
  ultimately have "fst (configure e a ?t) = fst (configure e a s)"
    using assms(3) by (simp add: configure_fst)
  then have c: "fst (configure e a ?t) = Inl x" using assms(4) by simp
  have "Machine_init e a s = (Inl x, snd (configure e a ?t))"
    using assms(2,3) act_bind_err[where m = "configure e a" and s = ?t, OF c] by (simp add: Machine_init_def)
  then have "act_bind (Machine_init e a) (set_machine (o_mac (the_dut s a))) s = (Inl x, snd (configure e a ?t))"
    by (simp add: act_bind_err)
  then have "machine_update_or_create e a s = (Inl x, snd (configure e a ?t))"
    using assms(1) by (simp add: machine_update_or_create_def act_bind_err)
  moreover have "same_registry ?t (snd (configure e a ?t))" by (rule reg.withinD[OF configure_registry])
  ultimately show ?thesis by (simp add: same_registry_def)
qed

lemma mars_run_idle:
  assumes "\<forall>(updated, now) \<in> set ticks. \<not> updated \<and> now \<le> t + 1800000000"
  shows "mars_run e ticks (Some t, s) = ((Some t, s), replicate (length ticks) False)"
  using assms by (induction ticks) (auto simp: run_round_def sync_reason_def)

text \<open>
  C22. A synchronisation that was asked for by a change of the file and failed is not tried again: the
  rounds that follow do nothing until the file changes once more, or until half an hour has
  passed since the last successful synchronisation.
\<close>

theorem failed_sync_not_retried:
  assumes "fst (sync_machines e s) = Inl x" "\<forall>(updated, now) \<in> set ticks. \<not> updated \<and> now \<le> t + 1800000000"
  shows "mars_run e ((True, now) # ticks) (Some t, s) =
    ((Some t, snd (sync_machines e s)), True # replicate (length ticks) False)"
proof -
  obtain s' where "sync_machines e s = (Inl x, s')" using assms(1) by (cases "sync_machines e s") auto
  then have "run_round e (True, now) (Some t, s) = ((Some t, s'), True)" "snd (sync_machines e s) = s'"
    by (simp_all add: run_round_def sync_reason_def)
  then show ?thesis using mars_run_idle[OF assms(2), of e s'] by simp
qed

section \<open>An example farm\<close>

text \<open>A file with one DUT behind a PDU, and a service that starts; \<open>example_offline\<close> cannot signal dnsmasq.\<close>

definition example_dut :: ConfigDUT where
  "example_dut = \<lparr>base_name = ''amdgpu'', tags = [''amd''], ip_address = ''10.42.0.10'', local_tty_device = Some ''ttyS0'', dut_gitlab = [],
     pdu = Some ''PDU'', pdu_port_id = Some ''1'', pdu_off_delay = 5000000, ready_for_service = False, is_retired = False, first_seen = 7\<rparr>"

definition example_data :: db_data where
  "example_data = \<lparr>data_pdus = [(''PDU'', \<lparr>driver = ''dummy'', pdu_config = JObj []\<rparr>)],
     data_duts = [(''10:62:e5:04:39:89'', example_dut)], data_gitlab = []\<rparr>"

definition example_farm :: "string set mars" where
  "example_farm = \<lparr>mr_store = [], mr_dbs = [], mr_db = 0, mr_machines = [], mr_executors = [], mr_file = Inr example_data,
     mr_boots = \<lparr>bs_private_interface = ''eth1'', bs_default_boot_config = \<lparr>bc_kernel = None, bc_initrd = None, bc_cmdline = None\<rparr>,
       bs_dnsmasq = example_dnsmasq\<rparr>, mr_gitlab = {}, mr_runners = []\<rparr>"

definition example_env :: "unit res \<Rightarrow> string set mars_env" where
  "example_env reload = \<lparr>ve_ports = (\<lambda>cfg name. Inr [\<lparr>port_id = 1, port_label = None, min_off_time = 0, last_shutdown = 0\<rparr>]),
     ve_executor = Inr (), ve_reload = reload, ve_gitlab = example_gitlab, ve_farm = Some ''farm'', ve_vpdu = None, ve_render = Inr ()\<rparr>"

definition example_synced :: "string set mars" where
  "example_synced = snd (sync_machines (example_env (Inr ())) example_farm)"

text \<open>The synchronised farm, evaluated once for all the examples that start from it.\<close>

lemma example_synced_code [code]:
  "example_synced =
     \<lparr>mr_store = [\<lparr>o_dut = example_dut, o_mac = ''10:62:e5:04:39:89'', o_db = 0\<rparr>],
      mr_dbs = [\<lparr>db_pdus = data_pdus example_data, db_duts = [(''10:62:e5:04:39:89'', 0)], db_gitlab = [], disk_state = example_data\<rparr>],
      mr_db = 0,
      mr_machines = [(''10:62:e5:04:39:89'',
        \<lparr>m_dut = 0, m_port = Some \<lparr>port_id = 1, port_label = None, min_off_time = 5000000, last_shutdown = 0\<rparr>\<rparr>)],
      mr_executors = [''10:62:e5:04:39:89''], mr_file = Inr example_data,
      mr_boots = (mr_boots example_farm)\<lparr>bs_dnsmasq := example_dnsmasq\<lparr>dm_hosts_file := ''10:62:e5:04:39:89,10.42.0.10,set:farm-amdgpu-1'' @ nl\<rparr>\<rparr>,
      mr_gitlab = {}, mr_runners = []\<rparr>"
  by code_simp

lemma example_sync: "sync_machines (example_env (Inr ())) example_farm = (Inr (), example_synced)"
proof -
  have "fst (sync_machines (example_env (Inr ())) example_farm) = Inr ()" by code_simp
  then show ?thesis unfolding example_synced_def by (metis prod.collapse)
qed

theorem full_names_unique_witness:
  "first_seen example_dut = first_seen (example_dut\<lparr>is_retired := True\<rparr>)"
  using full_names_unique[of example_dut "[example_dut, example_dut\<lparr>is_retired := True\<rparr>]" "example_dut\<lparr>is_retired := True\<rparr>" "''farm''"]
  by (simp add: full_name_def dut_index_def example_dut_def)

lemma example_file: "mr_file example_farm = Inr example_data" "dict_ok (data_duts example_data)"
  by (simp_all add: example_farm_def example_data_def)

theorem sync_follows_file_witness:
  "set (dict_keys (mr_machines example_synced)) = {''10:62:e5:04:39:89''} \<and> linked example_synced"
  using sync_follows_file[OF example_file example_sync] by (simp add: example_data_def)

lemma example_linked: "linked example_synced"
  using sync_result[OF example_file example_sync] by blast

theorem update_fields_written_through_witness:
  "mr_file (snd (update_fields (example_env (Inr ())) ''10:62:e5:04:39:89'' (\<lambda>d. d\<lparr>ready_for_service := True\<rparr>) example_synced)) =
     Inr (example_data\<lparr>data_duts := [(''10:62:e5:04:39:89'', example_dut\<lparr>ready_for_service := True\<rparr>)]\<rparr>)"
proof -
  let ?upd = "update_fields (example_env (Inr ())) ''10:62:e5:04:39:89'' (\<lambda>d. d\<lparr>ready_for_service := True\<rparr>) example_synced"
  have m: "dict_get (mr_machines example_synced) ''10:62:e5:04:39:89'' =
      Some \<lparr>m_dut = 0, m_port = Some \<lparr>port_id = 1, port_label = None, min_off_time = 5000000, last_shutdown = 0\<rparr>\<rparr>"
    by code_simp
  have "fst ?upd = Inr ()" by code_simp
  then have u: "?upd = (Inr (), snd ?upd)" by (metis prod.collapse)
  have old: "asdict example_synced (the_db example_synced (mr_db example_synced)) = example_data" by code_simp
  from update_fields_written_through[OF example_linked m u] show ?thesis
    unfolding old Let_def by (simp add: example_data_def)
qed

definition example_fresh :: "string set mars" where
  "example_fresh = snd (db_from_file (example_env (Inl OSError)) example_farm)"

theorem failed_setup_leaks_executor_witness:
  "mr_executors (snd (machine_update_or_create (example_env (Inl OSError)) 0 example_fresh)) = [''10:62:e5:04:39:89''] \<and>
   mr_machines (snd (machine_update_or_create (example_env (Inl OSError)) 0 example_fresh)) = []"
proof -
  have e: "dict_get (mr_machines example_fresh) (o_mac (the_dut example_fresh 0)) = None" "mr_machines example_fresh = []"
    "ve_executor (example_env (Inl OSError)) = Inr ()" "o_mac (the_dut example_fresh 0) # mr_executors example_fresh = [''10:62:e5:04:39:89'']"
    by code_simp+
  have p: "create_pdu_port (example_env (Inl OSError)) example_fresh 0 =
      Inr (Some \<lparr>port_id = 1, port_label = None, min_off_time = 5000000, last_shutdown = 0\<rparr>)"
    by code_simp
  have c: "fst (configure (example_env (Inl OSError)) 0 example_fresh) = Inl OSError" by code_simp
  from failed_setup_leaks_executor[OF e(1,3) p c] show ?thesis unfolding e(2,4) by (auto simp: split_beta Let_def)
qed

theorem failed_sync_not_retried_witness:
  "snd (mars_run (example_env (Inl OSError)) ((True, 100) # replicate 20 (False, 200)) (Some 0, example_farm)) = True # replicate 20 False"
proof -
  have "fst (sync_machines (example_env (Inl OSError)) example_farm) = Inl OSError" by code_simp
  from failed_sync_not_retried[OF this, where ticks = "replicate 20 (False, 200)" and t = 0] show ?thesis by simp
qed

end
