(* ===== verification/App.thy ===== *)
theory App
  imports Mars
begin

text \<open>
  The REST interface of the executor (\<open>app.py\<close>), except for the submission of jobs: listing and
  registering machines, PDUs and their ports, the discovery of the machine behind a port, retiring
  and activating machines, and cancelling jobs. A handler is an action on the service's state that
  returns a status code and a JSON body; a request body is a JSON object.
\<close>

section \<open>State and environment\<close>

text \<open>
  The machine registration service, the discovery in progress, the executor of every machine and
  the PDUs by name.
\<close>

record ('g, 'w, 'd) app =
  ap_mars :: "'g mars"
  ap_discover :: "discovery option"
  ap_executors :: "(string, ('w, 'd) executor) dict"
  ap_pdus :: "string \<Rightarrow> 'd pdu_world"

text \<open>
  What is outside: the drivers of the PDUs, the clocks, pydantic's conversion of a JSON value to a
  field's type, and Python's \<open>str\<close> and \<open>int\<close> on JSON values that are no texts and integers.
\<close>

record ('g, 'd) app_env =
  ae_mars :: "'g mars_env"
  ae_get :: "string \<Rightarrow> int \<Rightarrow> ('d, PDUState) act"
  ae_set :: "string \<Rightarrow> int \<Rightarrow> PDUState \<Rightarrow> ('d, unit) act"
  ae_lag :: nat
  ae_dur :: nat
  ae_clock :: time
  ae_today :: time
  ae_date :: json
  ae_str_field :: "json \<Rightarrow> string res"
  ae_opt_field :: "json \<Rightarrow> string option res"
  ae_tags_field :: "json \<Rightarrow> string list res"
  ae_str :: "json \<Rightarrow> string"
  ae_int :: "json \<Rightarrow> int res"
  ae_seconds :: "time \<Rightarrow> json"
  ae_exc_text :: "py_exc \<Rightarrow> string"

type_synonym response = "int \<times> json"

definition on_mars :: "('g mars, 'a) act \<Rightarrow> (('g, 'w, 'd) app, 'a) act" where
  "on_mars m s = (let (r, x) = m (ap_mars s) in (r, s\<lparr>ap_mars := x\<rparr>))"

definition on_pdu :: "string \<Rightarrow> ('d pdu_world, 'a) act \<Rightarrow> (('g, 'w, 'd) app, 'a) act" where
  "on_pdu name m s = (let (r, x) = m (ap_pdus s name) in (r, s\<lparr>ap_pdus := (ap_pdus s)(name := x)\<rparr>))"

definition on_executor :: "string \<Rightarrow> (('w, 'd) executor, 'a) act \<Rightarrow> (('g, 'w, 'd) app, 'a) act" where
  "on_executor mid m s =
     (case dict_get (ap_executors s) mid of
        None \<Rightarrow> (Inl AttributeError, s)
      | Some ex \<Rightarrow> let (r, x) = m ex in (r, s\<lparr>ap_executors := dict_set mid x (ap_executors s)\<rparr>))"

text \<open>\<open>mars.mars_db\<close> is \<open>None\<close> before the first synchronisation.\<close>

definition current_db :: "'g mars \<Rightarrow> MarsDB res" where
  "current_db s = (if mr_db s < length (mr_dbs s) then Inr (the_db s (mr_db s)) else Inl AttributeError)"

section \<open>Requests and responses\<close>

text \<open>
  Flask's error handling: a \<open>ValueError\<close>, pydantic's \<open>ValidationError\<close> included, becomes a 400 with
  its text; every other exception is an internal error.
\<close>

definition handle_request :: "('g, 'd) app_env \<Rightarrow> ('s, response) act \<Rightarrow> 's \<Rightarrow> response \<times> 's" where
  "handle_request e h s =
     (case h s of
        (Inr r, s') \<Rightarrow> (r, s')
      | (Inl (ValueError msg), s') \<Rightarrow> ((400, JObj [(''error'', JStr msg)]), s')
      | (Inl ValidationError, s') \<Rightarrow> ((400, JObj [(''error'', JStr (ae_exc_text e ValidationError))]), s')
      | (Inl _, s') \<Rightarrow> ((500, JNull), s'))"

definition py_str :: "('g, 'd) app_env \<Rightarrow> json \<Rightarrow> string" where
  "py_str e j =
     (case j of JStr s \<Rightarrow> s | JInt i \<Rightarrow> show_int i | JNull \<Rightarrow> ''None''
      | JBool b \<Rightarrow> (if b then ''True'' else ''False'') | _ \<Rightarrow> ae_str e j)"

definition py_truthy :: "json \<Rightarrow> bool" where
  "py_truthy j =
     (case j of JNull \<Rightarrow> False | JBool b \<Rightarrow> b | JInt i \<Rightarrow> i \<noteq> 0 | JFloat f \<Rightarrow> \<not> list_all (\<lambda>c. c \<in> set ''-0.'') (takeWhile (\<lambda>c. c \<notin> set ''eE'') f)
      | JStr s \<Rightarrow> s \<noteq> [] | JList xs \<Rightarrow> xs \<noteq> [] | JObj kvs \<Rightarrow> kvs \<noteq> [])"

definition py_to_int :: "('g, 'd) app_env \<Rightarrow> json \<Rightarrow> int res" where
  "py_to_int e j =
     (case j of JInt i \<Rightarrow> Inr i | JBool b \<Rightarrow> Inr (if b then 1 else 0) | JStr s \<Rightarrow> py_int s | JFloat f \<Rightarrow> ae_int e j
      | _ \<Rightarrow> Inl TypeError)"

definition opt_json :: "string option \<Rightarrow> json" where
  "opt_json x = (case x of None \<Rightarrow> JNull | Some s \<Rightarrow> JStr s)"

definition json_text :: "json \<Rightarrow> string res" where
  "json_text j = (case j of JStr s \<Rightarrow> Inr s | _ \<Rightarrow> Inl TypeError)"

section \<open>Encoding objects\<close>

definition encode_training :: "SergentHartman \<Rightarrow> json" where
  "encode_training sh =
     JObj [(''is_active'', JBool (sh_is_active sh)), (''is_registered'', JBool (is_machine_registered sh)),
           (''boot_loop_counts'', JInt (sh_boot_loop_counts sh)), (''qualifying_rate'', JInt (sh_qualifying_rate sh)),
           (''current_loop_count'', JInt (sh_cur_loop sh)),
           (''statuses'', JObj (map (\<lambda>(s, n). (JobStatus_name s, JInt n)) (sh_statuses sh)))]"

definition encode_machine :: "('g, 'd) app_env \<Rightarrow> ('g, 'w, 'd) app \<Rightarrow> machine \<Rightarrow> json res" where
  "encode_machine e s m =
     (let ob = the_dut (ap_mars s) (m_dut m); d = o_dut ob in
      case dict_get (ap_executors s) (o_mac ob) of
        None \<Rightarrow> Inl AttributeError
      | Some ex \<Rightarrow> Inr (JObj
          [(''state'', JStr (MachineState_name (ex_state ex))), (''ready_for_service'', JBool (ready_for_service d)),
           (''has_pdu_assigned'', JBool (m_port m \<noteq> None)), (''local_tty_device'', opt_json (local_tty_device d)),
           (''tags'', JList (map JStr (tags d))), (''base_name'', JStr (base_name d)),
           (''full_name'', JStr (dut_full_name (ae_mars e) (ap_mars s) (m_dut m))), (''mac_address'', JStr (o_mac ob)),
           (''ip_address'', JStr (ip_address d)), (''is_retired'', JBool (is_retired d)),
           (''training'', encode_training (ex_sergent_hartman ex)),
           (''pdu'', JObj [(''name'', opt_json (pdu d)), (''port_id'', opt_json (pdu_port_id d))])]))"

definition PDUState_name :: "PDUState \<Rightarrow> string" where
  "PDUState_name st = (case st of PDU_UNKNOWN \<Rightarrow> ''UNKNOWN'' | PDU_OFF \<Rightarrow> ''OFF'' | PDU_ON \<Rightarrow> ''ON'' | PDU_REBOOT \<Rightarrow> ''REBOOT'')"

definition encode_port :: "('g, 'd) app_env \<Rightarrow> string \<Rightarrow> PDUPort \<Rightarrow> (('g, 'w, 'd) app, json) act" where
  "encode_port e name p =
     act_bind (on_pdu name (PDUPort_state (ae_get e name) p)) (\<lambda>st.
       act_return (JObj [(''label'', opt_json (port_label p)), (''min_off_time'', ae_seconds e (min_off_time p)),
                         (''state'', JStr (PDUState_name st))]))"

fun act_map_list :: "('a \<Rightarrow> ('s, 'b) act) \<Rightarrow> 'a list \<Rightarrow> ('s, 'b list) act" where
  "act_map_list f [] = act_return []"
| "act_map_list f (x # xs) = act_bind (f x) (\<lambda>y. act_bind (act_map_list f xs) (\<lambda>ys. act_return (y # ys)))"

definition encode_pdu :: "('g, 'd) app_env \<Rightarrow> string \<Rightarrow> PDUPort list \<Rightarrow> (('g, 'w, 'd) app, json) act" where
  "encode_pdu e name ports =
     act_bind (act_map_list (\<lambda>p. act_bind (encode_port e name p) (\<lambda>j. act_return (show_int (port_id p), j))) ports) (\<lambda>kvs.
       act_return (JObj [(''ports'', JObj (fold (\<lambda>(k, v). dict_set k v) kvs []))]))"

definition encode_discovery :: "('g, 'd) app_env \<Rightarrow> discovery option \<Rightarrow> json" where
  "encode_discovery e d =
     (case d of
        None \<Rightarrow> JObj []
      | Some x \<Rightarrow> JObj [(''pdu'', JStr (disc_pdu x)), (''port_id'', disc_port x), (''date'', disc_date x),
                        (''timeout'', JInt (disc_timeout x)), (''started_at'', ae_seconds e (disc_started_at x))])"

section \<open>Machines\<close>

definition get_machine_list :: "('g, 'd) app_env \<Rightarrow> (('g, 'w, 'd) app, response) act" where
  "get_machine_list e =
     act_bind (act_get (\<lambda>s. res_map_list (\<lambda>m. res_bind (encode_machine e s m) (\<lambda>j. Inr (o_mac (the_dut (ap_mars s) (m_dut m)), j)))
        (dict_values (mr_machines (ap_mars s))))) (\<lambda>r.
     act_bind (act_lift r) (\<lambda>kvs. act_return (200, JObj [(''machines'', JObj (fold (\<lambda>(k, v). dict_set k v) kvs []))])))"

definition machine_detail_get :: "('g, 'd) app_env \<Rightarrow> string \<Rightarrow> (('g, 'w, 'd) app, response) act" where
  "machine_detail_get e mid =
     act_bind (act_get (\<lambda>s. res_bind (get_machine_by_id mid True (ap_mars s)) (\<lambda>m.
        case m of None \<Rightarrow> Inl AttributeError | Some m \<Rightarrow> encode_machine e s m))) (\<lambda>r.
     act_bind (act_lift r) (\<lambda>j. act_return (200, j)))"

definition machine_ipxe_boot_script :: "string \<Rightarrow> string option \<Rightarrow> (('g, 'w, 'd) app, response) act" where
  "machine_ipxe_boot_script mid platform =
     act_bind (act_get (\<lambda>s. (mr_boots (ap_mars s), case dict_get (mr_machines (ap_mars s)) mid of None \<Rightarrow> None
        | Some m \<Rightarrow> dict_get (ap_executors s) mid))) (\<lambda>(b, ex).
       act_return (200, JStr (ipxe_boot_script b ex platform)))"

text \<open>\<open>mars.discover_data\<close> as a property: reading it may clear it.\<close>

definition read_discover :: "('g, 'd) app_env \<Rightarrow> (('g, 'w, 'd) app, discovery option) act" where
  "read_discover e =
     act_bind (act_modify (\<lambda>s. s\<lparr>ap_discover := discover_data (ae_clock e) (ap_discover s)\<rparr>)) (\<lambda>_. act_get ap_discover)"

definition settable_fields :: "string list" where
  "settable_fields = [''base_name'', ''tags'', ''mac_address'', ''ip_address'', ''local_tty_device'']"

text \<open>One keyword argument of \<open>ConfigDUT(...)\<close>, with its validation.\<close>

definition dut_field :: "('g, 'd) app_env \<Rightarrow> string \<times> json \<Rightarrow> ConfigDUT \<Rightarrow> ConfigDUT res" where
  "dut_field e kv d =
     (let (k, v) = kv in
      if k = ''base_name'' then res_bind (ae_str_field e v) (\<lambda>x. Inr (d\<lparr>base_name := x\<rparr>))
      else if k = ''tags'' then res_bind (ae_tags_field e v) (\<lambda>x. Inr (d\<lparr>tags := x\<rparr>))
      else if k = ''ip_address'' then
        res_bind (ae_str_field e v) (\<lambda>x. if ip_address_is_valid x then Inr (d\<lparr>ip_address := x\<rparr>) else Inl ValidationError)
      else if k = ''local_tty_device'' then res_bind (ae_opt_field e v) (\<lambda>x. Inr (d\<lparr>local_tty_device := x\<rparr>))
      else if k = ''pdu'' then res_bind (ae_opt_field e v) (\<lambda>x. Inr (d\<lparr>pdu := x\<rparr>))
      else if k = ''pdu_port_id'' then res_bind (ae_opt_field e v) (\<lambda>x. Inr (d\<lparr>pdu_port_id := x\<rparr>))
      else Inl TypeError)"

fun dut_fields :: "('g, 'd) app_env \<Rightarrow> (string \<times> json) list \<Rightarrow> ConfigDUT \<Rightarrow> ConfigDUT res" where
  "dut_fields e [] d = Inr d"
| "dut_fields e (kv # kvs) d = res_bind (dut_field e kv d) (dut_fields e kvs)"

text \<open>\<open>ConfigDUT(**fields)\<close>, or \<open>ConfigDUT(**(cur_state | fields))\<close> for a DUT that is known.\<close>

definition ConfigDUT_make :: "('g, 'd) app_env \<Rightarrow> (string \<times> json) list \<Rightarrow> ConfigDUT option \<Rightarrow> ConfigDUT res" where
  "ConfigDUT_make e kvs old =
     (case old of
        Some d \<Rightarrow> dut_fields e kvs d
      | None \<Rightarrow>
          if list_all (\<lambda>k. dict_get kvs k \<noteq> None) [''base_name'', ''tags'', ''ip_address'']
          then dut_fields e kvs
            \<lparr>base_name = [], tags = [], ip_address = [], local_tty_device = None, dut_gitlab = [], pdu = None, pdu_port_id = None,
             pdu_off_delay = 30000000, ready_for_service = False, is_retired = False, first_seen = ae_today e\<rparr>
          else Inl TypeError)"

text \<open>The body of the request as it is used: with the port of the discovery, if there is one.\<close>

definition with_discovery :: "discovery option \<Rightarrow> (string \<times> json) list \<Rightarrow> (string \<times> json) list" where
  "with_discovery disc data =
     (case disc of None \<Rightarrow> data | Some x \<Rightarrow> dict_set ''pdu'' (JStr (disc_pdu x)) (dict_set ''pdu_port_id'' (disc_port x) data))"

text \<open>
  A new machine gets its executor when it is created; \<open>mk_executor\<close> is the one that its constructor
  starts. A MAC address that is no text fails further on in the code, with the same response.
\<close>

definition machine_add_or_update ::
  "('g, 'd) app_env \<Rightarrow> (string \<Rightarrow> ('w, 'd) executor) \<Rightarrow> (string \<times> json) list \<Rightarrow> (('g, 'w, 'd) app, response) act" where
  "machine_add_or_update e mk_executor data =
     (case find (\<lambda>k. k \<notin> set settable_fields) (dict_keys data) of
        Some k \<Rightarrow> act_raise (ValueError (''The field '' @ k @ '' cannot be set/modified''))
      | None \<Rightarrow>
          act_bind (read_discover e) (\<lambda>disc.
          act_bind (act_modify (\<lambda>s. s\<lparr>ap_discover := None\<rparr>)) (\<lambda>_.
          let data' = with_discovery disc data
          in case dict_get data' ''mac_address'' of
               None \<Rightarrow> act_raise KeyError
             | Some (JStr mac) \<Rightarrow>
                 act_bind (act_get (\<lambda>s. current_db (ap_mars s))) (\<lambda>db.
                 act_bind (act_lift db) (\<lambda>_.
                 act_bind (on_mars (add_or_update_machine (ae_mars e) mac (ConfigDUT_make e (dict_del ''mac_address'' data')))) (\<lambda>_.
                 act_bind (act_modify (\<lambda>s. if dict_get (ap_executors s) mac = None
                              then s\<lparr>ap_executors := dict_set mac (mk_executor mac) (ap_executors s)\<rparr> else s)) (\<lambda>_.
                   machine_detail_get e mac))))
             | Some _ \<Rightarrow> act_raise TypeError)))"

section \<open>PDUs and the discovery of machines\<close>

text \<open>A PDU is represented by its ports.\<close>

definition find_pdu :: "('g, 'd) app_env \<Rightarrow> string \<Rightarrow> json \<Rightarrow> ('g, 'w, 'd) app \<Rightarrow> (string \<times> PDUPort list) res" where
  "find_pdu e shown pdu_name s =
     res_bind (current_db (ap_mars s)) (\<lambda>db.
       let missing = Inl (ValueError (''The PDU named '' @ shown @ '' does not exist'')) in
       case pdu_name of
         JStr name \<Rightarrow>
           (case dict_get (db_pdus db) name of
              None \<Rightarrow> missing
            | Some cfg \<Rightarrow> res_bind (ve_ports (ae_mars e) cfg name) (\<lambda>ports. Inr (name, ports)))
       | _ \<Rightarrow> missing)"

definition find_pdu_port :: "('g, 'd) app_env \<Rightarrow> json \<Rightarrow> json \<Rightarrow> ('g, 'w, 'd) app \<Rightarrow> (string \<times> PDUPort) res" where
  "find_pdu_port e pdu_name pid s =
     res_bind (find_pdu e (py_str e pdu_name) pdu_name s) (\<lambda>(name, ports).
       case find (\<lambda>p. show_int (port_id p) = py_str e pid) ports of
         Some p \<Rightarrow> Inr (name, p)
       | None \<Rightarrow> Inl (ValueError (''The PDU named '' @ py_str e pdu_name @ '' does not have a port ID '' @ py_str e pid)))"

definition get_pdus_list :: "('g, 'd) app_env \<Rightarrow> (('g, 'w, 'd) app, response) act" where
  "get_pdus_list e =
     act_bind (act_get (\<lambda>s. res_bind (current_db (ap_mars s)) (\<lambda>db.
        res_map_list (\<lambda>(name, cfg). res_bind (ve_ports (ae_mars e) cfg name) (\<lambda>ports. Inr (name, ports))) (db_pdus db)))) (\<lambda>r.
     act_bind (act_lift r) (\<lambda>pdus.
     act_bind (act_map_list (\<lambda>(name, ports). act_bind (encode_pdu e name ports) (\<lambda>j. act_return (name, j))) pdus) (\<lambda>kvs.
       act_return (200, JObj [(''pdus'', JObj kvs)]))))"

definition get_pdu :: "('g, 'd) app_env \<Rightarrow> string \<Rightarrow> (('g, 'w, 'd) app, response) act" where
  "get_pdu e name =
     act_bind (act_get (find_pdu e name (JStr name))) (\<lambda>r.
     act_bind (act_lift r) (\<lambda>(n, ports).
     act_bind (encode_pdu e n ports) (\<lambda>j. act_return (200, j))))"

definition get_pdu_port :: "('g, 'd) app_env \<Rightarrow> string \<Rightarrow> string \<Rightarrow> (('g, 'w, 'd) app, response) act" where
  "get_pdu_port e name pid =
     act_bind (act_get (find_pdu_port e (JStr name) (JStr pid))) (\<lambda>r.
     act_bind (act_lift r) (\<lambda>(n, p).
     act_bind (encode_port e n p) (\<lambda>j. act_return (200, j))))"

datatype http_method = GET | POST | DELETE

definition port_is_assigned :: "('g, 'd) app_env \<Rightarrow> string \<Rightarrow> json \<Rightarrow> 'g mars \<Rightarrow> bool" where
  "port_is_assigned e name pid s =
     list_ex (\<lambda>d. pdu d = Some name \<and> str_opt (pdu_port_id d) = py_str e pid) (duts_of s (mr_db s))"

text \<open>The port of the request: found, not assigned to a DUT, and not powered.\<close>

definition discover_port :: "('g, 'd) app_env \<Rightarrow> json \<Rightarrow> json \<Rightarrow> (('g, 'w, 'd) app, string \<times> PDUPort) act" where
  "discover_port e pdu_name pid =
     act_bind (act_get (find_pdu_port e pdu_name pid)) (\<lambda>r.
     act_bind (act_lift r) (\<lambda>(name, p).
     act_bind (act_get (\<lambda>s. port_is_assigned e name pid (ap_mars s))) (\<lambda>assigned.
       if assigned
       then act_raise (ValueError (''Port '' @ py_str e pid @ '' from PDU '' @ name @ '' is already assigned.''))
       else
        act_bind (on_pdu name (PDUPort_state (ae_get e name) p)) (\<lambda>st.
          if st = PDU_ON
          then act_raise (ValueError (''The port '' @ py_str e pid @ '' from the PDU '' @ name @ '' is already on use!''))
          else act_return (name, p)))))"

definition set_port :: "('g, 'd) app_env \<Rightarrow> string \<Rightarrow> PDUPort \<Rightarrow> PDUState \<Rightarrow> (('g, 'w, 'd) app, unit) act" where
  "set_port e name p st =
     on_pdu name (\<lambda>w. let (r, (_, w')) = PDUPort_set (ae_get e name) (ae_set e name) (ae_lag e) (ae_dur e) st (p, w) in (r, w'))"

definition discover_timeout :: "('g, 'd) app_env \<Rightarrow> (string \<times> json) list \<Rightarrow> int res" where
  "discover_timeout e data =
     (case dict_get data ''timeout'' of
        None \<Rightarrow> Inr 150
      | Some t \<Rightarrow> if py_truthy t then py_to_int e t else Inr 150)"

definition start_discovery :: "('g, 'd) app_env \<Rightarrow> (string \<times> json) list \<Rightarrow> json \<Rightarrow> json \<Rightarrow> (('g, 'w, 'd) app, response) act" where
  "start_discovery e data pdu_name pid =
     act_bind (discover_port e pdu_name pid) (\<lambda>(name, p).
     act_bind (set_port e name p PDU_ON) (\<lambda>_.
     act_bind (on_pdu name (PDUPort_state (ae_get e name) p)) (\<lambda>st.
       if st = PDU_ON then
         act_bind (act_lift (discover_timeout e data)) (\<lambda>sec.
         act_bind (act_modify (\<lambda>s. s\<lparr>ap_discover := Some \<lparr>disc_pdu = name, disc_port = pid, disc_date = ae_date e,
              disc_timeout = sec, disc_started_at = ae_clock e\<rparr>\<rparr>)) (\<lambda>_.
           act_return (200, JStr (''Booting machine behind port '' @ py_str e pid @ '' from PDU '' @ name @
              ''. Discovery will time out after '' @ show_int sec @ '' seconds.'' @ nl))))
       else act_raise (ValueError (''Failed to turn on the port '' @ py_str e pid @ '' from PDU '' @ name)))))"

definition discover_machine :: "('g, 'd) app_env \<Rightarrow> http_method \<Rightarrow> (string \<times> json) list \<Rightarrow> (('g, 'w, 'd) app, response) act" where
  "discover_machine e meth data =
     (case meth of
        GET \<Rightarrow> act_bind (read_discover e) (\<lambda>d. act_return (200, encode_discovery e d))
      | DELETE \<Rightarrow>
          act_bind (act_modify (\<lambda>s. s\<lparr>ap_discover := None\<rparr>)) (\<lambda>_.
          act_bind (read_discover e) (\<lambda>d. act_return (200, encode_discovery e d)))
      | POST \<Rightarrow>
          act_bind (read_discover e) (\<lambda>d.
            if d \<noteq> None then act_raise (ValueError ''There is a discovery process running already.'')
            else case find (\<lambda>k. k \<notin> set [''pdu'', ''port_id'', ''timeout'']) (dict_keys data) of
              Some k \<Rightarrow> act_raise (ValueError (''The field '' @ k @ '' is invalid''))
            | None \<Rightarrow>
                case (dict_get data ''pdu'', dict_get data ''port_id'') of
                  (Some pdu_name, Some pid) \<Rightarrow> start_discovery e data pdu_name pid
                | _ \<Rightarrow> act_raise (ValueError
                    (''You'' @ [CHR 0x27] @ ''re missing at least one of the two required fields: pdu and port_id''))))"

section \<open>Retiring machines and cancelling jobs\<close>

datatype retire_action = Retire | Activate

definition action_text :: "retire_action \<Rightarrow> ConfigDUT \<Rightarrow> string" where
  "action_text a d =
     (case a of Retire \<Rightarrow> ''Retired'' | Activate \<Rightarrow> ''Activated'') @ '' machine '' @ ip_address d @ '' in PDU/port_id: '' @
     str_opt (pdu d) @ '' / '' @ str_opt (pdu_port_id d) @ '' '' @ nl"

definition retire_activate_machine :: "('g, 'd) app_env \<Rightarrow> string \<Rightarrow> retire_action \<Rightarrow> (('g, 'w, 'd) app, response) act" where
  "retire_activate_machine e mid a =
     act_bind (act_get (\<lambda>s. get_machine_by_id mid True (ap_mars s))) (\<lambda>r.
     act_bind (act_lift r) (\<lambda>mo.
       case mo of
         None \<Rightarrow> act_raise AttributeError
       | Some m \<Rightarrow>
           act_bind (act_get (\<lambda>s. is_retired (o_dut (the_dut (ap_mars s) (m_dut m))))) (\<lambda>retired.
             if a = Retire \<and> retired then act_raise (ValueError ''Machine is already retired from service.'')
             else if a = Activate \<and> \<not> retired then act_raise (ValueError ''Machine is already active.'')
             else act_bind (on_mars (update_fields (ae_mars e) mid (\<lambda>d. d\<lparr>is_retired := (a = Retire)\<rparr>))) (\<lambda>_.
                  act_bind (act_get (\<lambda>s. o_dut (the_dut (ap_mars s) (m_dut m)))) (\<lambda>d. act_return (200, JStr (action_text a d)))))))"

definition cancel_job_machine :: "string \<Rightarrow> (('g, 'w, 'd) app, response) act" where
  "cancel_job_machine mid =
     act_bind (act_get (\<lambda>s. get_machine_by_id mid True (ap_mars s))) (\<lambda>r.
     act_bind (act_lift r) (\<lambda>mo.
       case mo of
         None \<Rightarrow> act_raise AttributeError
       | Some m \<Rightarrow>
           act_bind (on_executor mid (act_get ex_state)) (\<lambda>st.
             if st \<noteq> RUNNING
             then act_raise (ValueError (''The machine '' @ mid @ '' isn'' @ [CHR 0x27] @ ''t running a job. Current state is '' @ MachineState_name st))
             else act_bind (on_executor mid (act_modify (\<lambda>ex. ex\<lparr>ex_cancel := True\<rparr>))) (\<lambda>_.
                  act_bind (act_get (\<lambda>s. ip_address (o_dut (the_dut (ap_mars s) (m_dut m))))) (\<lambda>ip.
                    act_return (200, JStr (''Canceling job in machine '' @ ip @ nl)))))))"

section \<open>Registering a machine that is known\<close>

text \<open>The settings of a DUT that belong to the administrators and to the training.\<close>

definition same_service :: "ConfigDUT \<Rightarrow> ConfigDUT \<Rightarrow> bool" where
  "same_service d d' \<longleftrightarrow>
     ready_for_service d' = ready_for_service d \<and> is_retired d' = is_retired d \<and> first_seen d' = first_seen d \<and>
     pdu_off_delay d' = pdu_off_delay d \<and> dut_gitlab d' = dut_gitlab d"

lemma dut_field_keeps:
  assumes "dut_field e (k, v) d = Inr d'"
  shows "same_service d d'" "k \<noteq> ''pdu'' \<Longrightarrow> pdu d' = pdu d" "k \<noteq> ''pdu_port_id'' \<Longrightarrow> pdu_port_id d' = pdu_port_id d"
  using assms by (auto simp: dut_field_def same_service_def res_bind_Inr_iff split: if_splits)

lemma dut_fields_keep:
  assumes "dut_fields e kvs d = Inr d'"
  shows "same_service d d' \<and> (''pdu'' \<notin> set (dict_keys kvs) \<and> ''pdu_port_id'' \<notin> set (dict_keys kvs) \<longrightarrow>
    pdu d' = pdu d \<and> pdu_port_id d' = pdu_port_id d)"
  using assms
proof (induction kvs arbitrary: d)
  case (Cons kv kvs)
  obtain k v where kv: "kv = (k, v)" by (cases kv)
  obtain d1 where d1: "dut_field e (k, v) d = Inr d1" "dut_fields e kvs d1 = Inr d'"
    using Cons.prems by (auto simp: kv res_bind_Inr_iff)
  show ?case using dut_field_keeps[OF d1(1)] Cons.IH[OF d1(2)] by (auto simp: kv same_service_def)
qed (simp add: same_service_def)

definition same_store :: "'g mars \<Rightarrow> 'g mars \<Rightarrow> bool" where
  "same_store s s' \<longleftrightarrow> mr_store s' = mr_store s"

interpretation sto: act_preorder same_store
  by unfold_locales (auto simp: same_store_def)

lemma objects_store: "same_objects s s' \<Longrightarrow> same_store s s'"
  by (simp add: same_objects_def same_store_def)

lemma configure_store: "act_within same_store (configure e a)"
  using configure_objects[of e a] by (auto simp: act_within_def intro: objects_store)

lemma set_machine_store: "act_within same_store (set_machine mac m)"
  using set_machine_objects[of mac m] by (auto simp: act_within_def intro: objects_store)

lemma update_config_store: "act_within same_store (update_config e mac b)"
  by (auto simp: act_within_def intro: objects_store update_config_objects)

lemma Machine_init_store: "act_within same_store (Machine_init e a)"
  unfolding Machine_init_def by (intro sto.within_intros configure_store) (simp add: same_store_def)

lemma update_or_create_store: "act_within same_store (machine_update_or_create e a)"
proof -
  have "act_within same_store (case x of None \<Rightarrow> act_bind (Machine_init e a) (\<lambda>m. set_machine mac m)
       | Some _ \<Rightarrow> update_config e mac (Some a))" for x mac
    by (cases x) (simp_all add: sto.within_bind Machine_init_store set_machine_store update_config_store)
  then show ?thesis
    unfolding machine_update_or_create_def case_prod_beta
    by (intro sto.within_intros) (simp_all add: same_store_def upd_db_def)
qed

lemma save_if_needed_store: "act_within same_store save_db_if_needed"
  unfolding save_db_if_needed_def
  by (intro sto.within_intros) (simp add: same_store_def db_save_def reset_taint_def upd_db_def)

lemma add_or_update_result:
  assumes "add_or_update_machine e mac mk s = (Inr u, s')" "mr_db s < length (mr_dbs s)"
  shows "\<exists>d a. mk (map_option (\<lambda>a. o_dut (the_dut s a)) (dict_get (db_duts (the_db s (mr_db s))) mac)) = Inr d \<and>
    mr_db s' = mr_db s \<and> mr_db s' < length (mr_dbs s') \<and> dict_get (db_duts (the_db s' (mr_db s'))) mac = Some a \<and> o_dut (the_dut s' a) = d"
proof -
  obtain d s2 where mk: "mk (map_option (\<lambda>a. o_dut (the_dut s a)) (dict_get (db_duts (the_db s (mr_db s))) mac)) = Inr d"
    and s2: "machine_update_or_create e (length (mr_store s))
        (s\<lparr>mr_store := mr_store s @ [\<lparr>o_dut = d, o_mac = mac, o_db = mr_db s\<rparr>]\<rparr>) = (Inr (), s2)"
    and s': "s' = snd (save_db_if_needed s2)"
    using assms(1) by (auto simp: add_or_update_machine_def act_bind_eq_Inr act_lift_def)
  let ?t = "s\<lparr>mr_store := mr_store s @ [\<lparr>o_dut = d, o_mac = mac, o_db = mr_db s\<rparr>]\<rparr>" and ?a = "length (mr_store s)"
  have r: "registers ?a mac ?t s2" using update_or_create_registers[OF s2] assms(2) by simp
  have "same_store ?t s2" using sto.withinD[OF update_or_create_store, of ?t e ?a] s2 by simp
  moreover have "same_store s2 s'" unfolding s' by (rule sto.withinD[OF save_if_needed_store])
  ultimately have d: "o_dut (the_dut s' ?a) = d" by (simp add: same_store_def)
  have reg: "map db_duts (mr_dbs s') = map db_duts (mr_dbs s2)" "mr_db s' = mr_db s2"
    using reg.withinD[OF save_if_needed_registry, of s2] unfolding s' same_registry_def by auto
  have dbs: "map db_duts (mr_dbs s') = (map db_duts (mr_dbs s))[mr_db s := dict_set mac ?a (duts_at s (mr_db s))]" "mr_db s' = mr_db s"
    using r unfolding reg registers_def by simp_all
  have len: "length (mr_dbs s') = length (mr_dbs s)" using arg_cong[OF dbs(1), of length] by simp
  have "duts_at s' (mr_db s) = dict_set mac ?a (duts_at s (mr_db s))" unfolding dbs(1) using assms(2) by simp
  then have "dict_get (db_duts (the_db s' (mr_db s))) mac = Some ?a" using len assms(2) by simp
  then show ?thesis using mk d dbs(2) len assms(2) by (intro exI[of _ d] exI[of _ ?a]) simp
qed

lemma machine_detail_get_state: "snd (machine_detail_get e mac s) = s"
  by (simp add: machine_detail_get_def act_bind_def act_lift_def act_return_def act_get_def split: sum.split)

lemma on_mars_Inr: "on_mars m s = (Inr x, s') \<Longrightarrow> m (ap_mars s) = (Inr x, ap_mars s') \<and> ap_discover s' = ap_discover s"
  by (auto simp: on_mars_def split: prod.splits)

lemma settable_not_pdu: "''pdu'' \<notin> set settable_fields" "''pdu_port_id'' \<notin> set settable_fields"
  by (simp_all add: settable_fields_def)

lemma bind_read_discover: "act_bind (read_discover e) k s =
    k (discover_data (ae_clock e) (ap_discover s)) (s\<lparr>ap_discover := discover_data (ae_clock e) (ap_discover s)\<rparr>)"
  by (simp add: read_discover_def act_bind_def act_modify_def act_get_def)

lemma with_discovery_mac: "dict_get (with_discovery disc data) ''mac_address'' = dict_get data ''mac_address''"
  by (simp add: with_discovery_def split: option.split)

definition register_body :: "('g, 'd) app_env \<Rightarrow> (string \<Rightarrow> ('w, 'd) executor) \<Rightarrow> string \<Rightarrow> (string \<times> json) list \<Rightarrow> (('g, 'w, 'd) app, response) act" where
  "register_body e mk mac kvs =
     act_bind (on_mars (add_or_update_machine (ae_mars e) mac (ConfigDUT_make e (dict_del ''mac_address'' kvs)))) (\<lambda>_.
     act_bind (act_modify (\<lambda>s. if dict_get (ap_executors s) mac = None
                  then s\<lparr>ap_executors := dict_set mac (mk mac) (ap_executors s)\<rparr> else s)) (\<lambda>_.
       machine_detail_get e mac))"

lemma registration_fields:
  assumes "machine_add_or_update e mk data s = (Inr resp, s')"
  shows "find (\<lambda>k. k \<notin> set settable_fields) (dict_keys data) = None"
proof (rule ccontr)
  assume "find (\<lambda>k. k \<notin> set settable_fields) (dict_keys data) \<noteq> None"
  then obtain k where "find (\<lambda>k. k \<notin> set settable_fields) (dict_keys data) = Some k" by blast
  then show False using assms unfolding machine_add_or_update_def by (simp only: option.case act_raise_def prod.inject sum.distinct simp_thms)
qed

lemma registration_body:
  assumes "find (\<lambda>k. k \<notin> set settable_fields) (dict_keys data) = None" "dict_get data ''mac_address'' = Some (JStr mac)"
  shows "machine_add_or_update e mk data s =
     act_bind (act_lift (current_db (ap_mars s)))
       (\<lambda>_. register_body e mk mac (with_discovery (discover_data (ae_clock e) (ap_discover s)) data)) (s\<lparr>ap_discover := None\<rparr>)"
  using assms with_discovery_mac[of "discover_data (ae_clock e) (ap_discover s)" data]
  unfolding machine_add_or_update_def register_body_def[symmetric] Let_def
  by (simp add: bind_read_discover)

lemma register_body_result:
  assumes "register_body e mk mac kvs s = (Inr resp, s')"
  shows "add_or_update_machine (ae_mars e) mac (ConfigDUT_make e (dict_del ''mac_address'' kvs)) (ap_mars s) = (Inr (), ap_mars s') \<and>
    ap_discover s' = ap_discover s"
proof -
  obtain s1 u1 where 1: "on_mars (add_or_update_machine (ae_mars e) mac (ConfigDUT_make e (dict_del ''mac_address'' kvs))) s = (Inr u1, s1)"
    and s': "machine_detail_get e mac (if dict_get (ap_executors s1) mac = None
        then s1\<lparr>ap_executors := dict_set mac (mk mac) (ap_executors s1)\<rparr> else s1) = (Inr resp, s')"
    using assms unfolding register_body_def by (auto simp only: act_bind_eq_Inr act_modify_def prod.inject)
  have "s' = (if dict_get (ap_executors s1) mac = None
        then s1\<lparr>ap_executors := dict_set mac (mk mac) (ap_executors s1)\<rparr> else s1)"
    using arg_cong[OF s', of snd] by (simp only: machine_detail_get_state snd_conv)
  then have "ap_mars s' = ap_mars s1" "ap_discover s' = ap_discover s1" by simp_all
  then show ?thesis using on_mars_Inr[OF 1] by simp
qed

lemma registration_steps:
  assumes "machine_add_or_update e mk data s = (Inr resp, s')" "dict_get data ''mac_address'' = Some (JStr mac)"
  shows "set (dict_keys data) \<subseteq> set settable_fields \<and> is_ok (current_db (ap_mars s)) \<and> ap_discover s' = None \<and>
    add_or_update_machine (ae_mars e) mac
      (ConfigDUT_make e (dict_del ''mac_address'' (with_discovery (discover_data (ae_clock e) (ap_discover s)) data))) (ap_mars s) = (Inr (), ap_mars s')"
proof -
  let ?kvs = "with_discovery (discover_data (ae_clock e) (ap_discover s)) data"
  note ok = registration_fields[OF assms(1)]
  have "act_bind (act_lift (current_db (ap_mars s))) (\<lambda>_. register_body e mk mac ?kvs) (s\<lparr>ap_discover := None\<rparr>) = (Inr resp, s')"
    using assms(1) unfolding registration_body[OF ok assms(2)] .
  then obtain db where db: "current_db (ap_mars s) = Inr db" and r: "register_body e mk mac ?kvs (s\<lparr>ap_discover := None\<rparr>) = (Inr resp, s')"
    by (auto simp only: act_bind_eq_Inr act_lift_def prod.inject)
  have "set (dict_keys data) \<subseteq> set settable_fields" using ok unfolding find_None_iff by blast
  then show ?thesis using register_body_result[OF r] db by simp
qed


section \<open>Discovery\<close>

lemma on_pdu_keeps: "on_pdu name m s = (r, s') \<Longrightarrow> ap_mars s' = ap_mars s \<and> ap_discover s' = ap_discover s \<and> ap_executors s' = ap_executors s"
  by (auto simp: on_pdu_def split: prod.splits)

lemma find_pdu_port_name:
  assumes "find_pdu_port e pdu_name pid s = Inr (name, p)"
  shows "pdu_name = JStr name"
  using assms by (cases pdu_name) (auto simp: find_pdu_port_def find_pdu_def res_bind_Inr_iff Let_def split: option.splits)

lemma find_pdu_port_mars: "ap_mars s' = ap_mars s \<Longrightarrow> find_pdu_port e pdu_name pid s' = find_pdu_port e pdu_name pid s"
  by (simp add: find_pdu_port_def find_pdu_def)

lemma discover_port_result:
  assumes "discover_port e pdu_name pid s = (Inr (name, p), s')"
  shows "find_pdu_port e pdu_name pid s = Inr (name, p) \<and> \<not> port_is_assigned e name pid (ap_mars s) \<and>
    (\<exists>st. st \<noteq> PDU_ON \<and> fst (PDUPort_state (ae_get e name) p (ap_pdus s name)) = Inr st) \<and>
    ap_mars s' = ap_mars s \<and> ap_discover s' = ap_discover s"
proof -
  obtain name' p' st s1 where 1: "find_pdu_port e pdu_name pid s = Inr (name', p')" "\<not> port_is_assigned e name' pid (ap_mars s)"
    "on_pdu name' (PDUPort_state (ae_get e name') p') s = (Inr st, s1)" "st \<noteq> PDU_ON" "(name, p) = (name', p')" "s' = s1"
    using assms unfolding discover_port_def
    by (auto simp: act_bind_eq_Inr act_lift_def act_raise_def act_return_def split: if_splits)
  have "fst (PDUPort_state (ae_get e name') p' (ap_pdus s name')) = Inr st"
    using 1(3) by (auto simp: on_pdu_def split: prod.splits)
  then show ?thesis using 1 on_pdu_keeps[OF 1(3)] by blast
qed

lemma start_discovery_result:
  assumes "start_discovery e data pdu_name pid s = (Inr resp, s')"
  shows "\<exists>name p s1 s2 s3 sec. discover_port e pdu_name pid s = (Inr (name, p), s1) \<and> set_port e name p PDU_ON s1 = (Inr (), s2) \<and>
    on_pdu name (PDUPort_state (ae_get e name) p) s2 = (Inr PDU_ON, s3) \<and> discover_timeout e data = Inr sec \<and>
    s' = s3\<lparr>ap_discover := Some \<lparr>disc_pdu = name, disc_port = pid, disc_date = ae_date e, disc_timeout = sec, disc_started_at = ae_clock e\<rparr>\<rparr>"
  using assms unfolding start_discovery_def
  by (auto simp: act_bind_eq_Inr act_lift_def act_raise_def act_return_def split: if_splits)

text \<open>
  A discovery takes over a free port only: when a request to discover the machine behind a port
  succeeds, no other discovery was in progress, the port exists, belongs to no DUT of the database
  and did not report to be on; the discovery is recorded for that port, and the machines, their database
  and their executors are untouched.
\<close>

theorem discovery_of_free_port:
  assumes "discover_machine e POST data s = (Inr resp, s')"
  shows "\<exists>name pid p st sec. dict_get data ''pdu'' = Some (JStr name) \<and> dict_get data ''port_id'' = Some pid \<and>
    discover_data (ae_clock e) (ap_discover s) = None \<and> find_pdu_port e (JStr name) pid s = Inr (name, p) \<and>
    \<not> port_is_assigned e name pid (ap_mars s) \<and>
    fst (PDUPort_state (ae_get e name) p (ap_pdus s name)) = Inr st \<and> st \<noteq> PDU_ON \<and> ap_mars s' = ap_mars s \<and>
    ap_discover s' = Some \<lparr>disc_pdu = name, disc_port = pid, disc_date = ae_date e, disc_timeout = sec, disc_started_at = ae_clock e\<rparr>"
proof -
  let ?d = "discover_data (ae_clock e) (ap_discover s)"
  let ?t = "s\<lparr>ap_discover := ?d\<rparr>"
  have none: "?d = None"
    using assms by (auto simp: discover_machine_def bind_read_discover act_raise_def split: if_splits)
  obtain pdu_name pid where k: "dict_get data ''pdu'' = Some pdu_name" "dict_get data ''port_id'' = Some pid"
    and d: "start_discovery e data pdu_name pid ?t = (Inr resp, s')"
    using assms none by (auto simp: discover_machine_def bind_read_discover act_raise_def split: option.splits)
  from start_discovery_result[OF d] obtain name p s1 s2 s3 sec where
    1: "discover_port e pdu_name pid ?t = (Inr (name, p), s1)" and 2: "set_port e name p PDU_ON s1 = (Inr (), s2)" and
    3: "on_pdu name (PDUPort_state (ae_get e name) p) s2 = (Inr PDU_ON, s3)" and
    s': "s' = s3\<lparr>ap_discover := Some \<lparr>disc_pdu = name, disc_port = pid, disc_date = ae_date e, disc_timeout = sec, disc_started_at = ae_clock e\<rparr>\<rparr>"
    by blast
  note p = discover_port_result[OF 1]
  have t: "ap_mars ?t = ap_mars s" "ap_pdus ?t = ap_pdus s" by simp_all
  have "ap_mars s' = ap_mars s" using p on_pdu_keeps[OF 2[unfolded set_port_def]] on_pdu_keeps[OF 3] unfolding s' by simp
  moreover have f: "find_pdu_port e pdu_name pid s = Inr (name, p)" using p find_pdu_port_mars[OF t(1)] by simp
  moreover note find_pdu_port_name[OF f]
  ultimately show ?thesis using k none p unfolding t s' by auto
qed

text \<open>
  A timeout that is no number is noticed too late: the request fails with the same change to the PDU
  that a successful request makes, the port is powered, but no discovery is recorded.
\<close>

theorem bad_timeout_powers_port:
  assumes "start_discovery e data pdu_name pid s = (Inr resp, s')" "discover_timeout e data' = Inl x"
  shows "let (r, s2) = start_discovery e data' pdu_name pid s in
    r = Inl x \<and> ap_pdus s2 = ap_pdus s' \<and> ap_discover s2 = ap_discover s"
proof -
  from start_discovery_result[OF assms(1)] obtain name p s1 s2 s3 sec where
    1: "discover_port e pdu_name pid s = (Inr (name, p), s1)" and 2: "set_port e name p PDU_ON s1 = (Inr (), s2)" and
    3: "on_pdu name (PDUPort_state (ae_get e name) p) s2 = (Inr PDU_ON, s3)" and
    s': "s' = s3\<lparr>ap_discover := Some \<lparr>disc_pdu = name, disc_port = pid, disc_date = ae_date e, disc_timeout = sec, disc_started_at = ae_clock e\<rparr>\<rparr>"
    by blast
  have "start_discovery e data' pdu_name pid s = (Inl x, s3)"
    unfolding start_discovery_def act_bind_def 1 2 3 using assms(2) by (simp add: 2 3 act_lift_def)
  then show ?thesis
    using discover_port_result[OF 1] on_pdu_keeps[OF 2[unfolded set_port_def]] on_pdu_keeps[OF 3] by (simp add: s')
qed

section \<open>An example\<close>

definition example_app_env :: "(string set, vpdu) app_env" where
  "example_app_env =
     \<lparr>ae_mars = example_env (Inr ()), ae_get = (\<lambda>_. VirtualPDU_get_port_state), ae_set = (\<lambda>_. VirtualPDU_set_port_state),
      ae_lag = 0, ae_dur = 0, ae_clock = 1000000, ae_today = 0, ae_date = JNull,
      ae_str_field = (\<lambda>j. case j of JStr x \<Rightarrow> Inr x | _ \<Rightarrow> Inl ValidationError),
      ae_opt_field = (\<lambda>j. case j of JStr x \<Rightarrow> Inr (Some x) | JNull \<Rightarrow> Inr None | _ \<Rightarrow> Inl ValidationError),
      ae_tags_field = (\<lambda>j. case j of JList xs \<Rightarrow> res_map_list json_text xs | _ \<Rightarrow> Inl ValidationError),
      ae_str = (\<lambda>_. []), ae_int = (\<lambda>_. Inl TypeError), ae_seconds = JInt, ae_exc_text = (\<lambda>_. [])\<rparr>"

definition example_app :: "(string set, unit, vpdu) app" where
  "example_app =
     \<lparr>ap_mars = example_synced, ap_discover = None, ap_executors = [(''10:62:e5:04:39:89'', idle_executor AtWait)],
      ap_pdus = (\<lambda>_. \<lparr>w_clock = 0, w_dev = vpdu_init [] 2, w_cmds = []\<rparr>)\<rparr>"

definition example_body :: "(string \<times> json) list" where
  "example_body = [(''mac_address'', JStr ''10:62:e5:04:39:89''), (''tags'', JList [JStr ''amd'', JStr ''navi''])]"


text \<open>The same farm, with a second PDU port that nothing is attached to.\<close>

definition two_ports_env :: "(string set, vpdu) app_env" where
  "two_ports_env = example_app_env\<lparr>ae_mars := (example_env (Inr ()))\<lparr>ve_ports := (\<lambda>_ _. Inr [PDUPort_new 0 None 0, PDUPort_new 1 None 0])\<rparr>\<rparr>"

definition free_port_request :: "(string \<times> json) list" where
  "free_port_request = [(''pdu'', JStr ''PDU''), (''port_id'', JInt 0)]"

lemma free_port_starts: "is_ok (fst (start_discovery two_ports_env free_port_request (JStr ''PDU'') (JInt 0) example_app))"
  by code_simp

theorem discovery_of_free_port_witness:
  "\<exists>p. find_pdu_port two_ports_env (JStr ''PDU'') (JInt 0) example_app = Inr (''PDU'', p)"
proof -
  let ?r = "discover_machine two_ports_env POST free_port_request example_app"
  have "is_ok (fst ?r)" by code_simp
  then obtain resp where r: "?r = (Inr resp, snd ?r)" by (metis is_ok_iff prod.collapse)
  have "dict_get free_port_request ''pdu'' = Some (JStr ''PDU'')" "dict_get free_port_request ''port_id'' = Some (JInt 0)"
    by (simp_all add: free_port_request_def)
  with discovery_of_free_port[OF r] show ?thesis by auto
qed

theorem bad_timeout_powers_port_witness:
  "fst (start_discovery two_ports_env [(''timeout'', JStr ''soon'')] (JStr ''PDU'') (JInt 0) example_app) = Inl (ValueError ''invalid literal for int() with base 10'')"
proof -
  let ?r = "start_discovery two_ports_env free_port_request (JStr ''PDU'') (JInt 0) example_app"
  obtain resp where r: "?r = (Inr resp, snd ?r)" using free_port_starts by (metis is_ok_iff prod.collapse)
  have "discover_timeout two_ports_env [(''timeout'', JStr ''soon'')] = Inl (ValueError ''invalid literal for int() with base 10'')" by code_simp
  from bad_timeout_powers_port[OF r this] show ?thesis by (simp add: Let_def split_beta)
qed

end
