(* ===== verification/Job_Request.thy ===== *)
theory Job_Request
  imports App
begin

text \<open>
  Submitting a job (\<open>post_job\<close> of \<open>app.py\<close>): parsing the two formats of a request, checking that
  the MinIO credentials give access to the requested groups, choosing a machine, and handing the
  job over to its executor.
\<close>

section \<open>Requests\<close>

record http_file =
  hf_mimetype :: string
  hf_content :: string
  hf_tar :: "tar_member list"

record http_request =
  hr_mimetype :: string
  hr_json :: json
  hr_files :: "(string, http_file) dict"
  hr_remote_addr :: string

text \<open>What is outside: the YAML loader behind \<open>Job.from_job\<close>, the clock, and the address of MinIO.\<close>

record 'w request_env =
  re_job :: "string \<Rightarrow> Job res"
  re_timestamp :: int
  re_minio_url :: string
  re_main :: "'w main_env"

record JobRequest =
  rq_version :: int
  rq_raw_job :: string
  rq_target :: Target
  rq_host :: json
  rq_port :: json
  rq_minio_credentials :: "(json \<times> json) option"
  rq_minio_groups :: "json option"
  rq_tarball :: "tar_member list option"
  rq_job_id :: json

definition JobRequest_init ::
  "'w request_env \<Rightarrow> int \<Rightarrow> string \<Rightarrow> Target \<Rightarrow> json \<times> json \<Rightarrow> tar_member list option \<Rightarrow> json \<Rightarrow> (json \<times> json) option
   \<Rightarrow> json option \<Rightarrow> JobRequest res" where
  "JobRequest_init re version raw_job target endpoint tarball job_id credentials groups =
     (if fst endpoint = JNull then Inl (ValueError (''callback'' @ [CHR 0x27] @ ''s host cannot be None. Leave empty to get the default value''))
      else if snd endpoint = JNull then Inl (ValueError (''callback'' @ [CHR 0x27] @ ''s port cannot be None''))
      else Inr \<lparr>rq_version = version, rq_raw_job = raw_job, rq_target = target, rq_host = fst endpoint, rq_port = snd endpoint,
                rq_minio_credentials = credentials, rq_minio_groups = groups, rq_tarball = tarball,
                rq_job_id = (if job_id = JNull then JStr (''untitled-'' @ show_int (re_timestamp re)) else job_id)\<rparr>)"

text \<open>\<open>d[k]\<close> and \<open>d.get(k, default)\<close> on a JSON value.\<close>

definition json_index :: "string \<Rightarrow> json \<Rightarrow> json res" where
  "json_index k j = (case j of JObj kvs \<Rightarrow> (case dict_get kvs k of None \<Rightarrow> Inl KeyError | Some v \<Rightarrow> Inr v) | _ \<Rightarrow> Inl TypeError)"

definition json_get_or :: "string \<Rightarrow> json \<Rightarrow> json \<Rightarrow> json res" where
  "json_get_or k dflt j = (case j of JObj kvs \<Rightarrow> Inr (case dict_get kvs k of None \<Rightarrow> dflt | Some v \<Rightarrow> v) | _ \<Rightarrow> Inl AttributeError)"

definition JSONJobRequest :: "'w request_env \<Rightarrow> http_request \<Rightarrow> JobRequest res" where
  "JSONJobRequest re r =
     res_bind (json_index ''metadata'' (hr_json r)) (\<lambda>metadata.
     res_bind (json_index ''job'' (hr_json r)) (\<lambda>raw.
     res_bind (json_text raw) (\<lambda>raw_job.
     res_bind (re_job re raw_job) (\<lambda>job.
     res_bind (json_get_or ''callback_host'' (JStr (hr_remote_addr r)) metadata) (\<lambda>host.
     res_bind (json_get ''callback_port'' metadata) (\<lambda>port.
       JobRequest_init re 0 raw_job (job_target job) (host, port) None JNull None None))))))"

text \<open>\<open>Target(target.get('id'), target.get('tags', []))\<close>, with texts where the type asks for them.\<close>

definition override_target :: "json \<Rightarrow> Target res" where
  "override_target t =
     res_bind (json_get ''id'' t) (\<lambda>i.
     res_bind (json_get_or ''tags'' (JList []) t) (\<lambda>ts.
     res_bind (case i of JNull \<Rightarrow> Inr None | JStr s \<Rightarrow> Inr (Some s) | _ \<Rightarrow> Inl TypeError) (\<lambda>tid.
     res_bind (case ts of JNull \<Rightarrow> Inr None | JList xs \<Rightarrow> res_bind (res_map_list json_text xs) (\<lambda>tags. Inr (Some tags)) | _ \<Rightarrow> Inl TypeError) (\<lambda>tags.
       Inr (Target_init tid tags)))))"

definition parse_v1 :: "'w request_env \<Rightarrow> http_request \<Rightarrow> json \<Rightarrow> JobRequest res" where
  "parse_v1 re r metadata =
     (case dict_get (hr_files r) ''job'' of
        None \<Rightarrow> Inl KeyError
      | Some job_file \<Rightarrow>
          if hf_mimetype job_file \<noteq> ''application/x-yaml''
          then Inl (ValueError ''The metadata file has the wrong mimetype: {job_file.mimetype}} instead of application/x-yaml'')
          else
          let tarball = dict_get (hr_files r) ''job_bucket_initial_state_tarball_file'' in
          if (case tarball of None \<Rightarrow> False | Some f \<Rightarrow> hf_mimetype f \<noteq> ''application/octet-stream'')
          then Inl (ValueError (''The job_bucket_initial_state_tarball file has the wrong mimetype: '' @
                 ''{initial_state_tarball_file.mimetype}} instead of application/octet-stream''))
          else
          res_bind (re_job re (hf_content job_file)) (\<lambda>job.
          res_bind (json_get_or ''target'' JNull metadata) (\<lambda>t.
          res_bind (case metadata of
              JObj kvs \<Rightarrow> (if dict_get kvs ''target'' \<noteq> None then override_target t else Inr (job_target job))
            | _ \<Rightarrow> Inr (job_target job)) (\<lambda>target.
          res_bind (json_get_or ''callback'' (JObj []) metadata) (\<lambda>callback.
          res_bind (json_get_or ''host'' (JStr (hr_remote_addr r)) callback) (\<lambda>host.
          res_bind (json_get ''port'' callback) (\<lambda>port.
          res_bind (json_get_or ''minio'' (JObj []) metadata) (\<lambda>minio.
          res_bind (json_get_or ''credentials'' (JObj []) minio) (\<lambda>creds.
          res_bind (json_get ''access_key'' creds) (\<lambda>access_key.
          res_bind (json_get ''secret_key'' creds) (\<lambda>secret_key.
          res_bind (json_get ''job_id'' metadata) (\<lambda>job_id.
          res_bind (json_get_or ''groups'' (JList []) minio) (\<lambda>groups.
            JobRequest_init re 1 (hf_content job_file) target (host, port) (map_option hf_tar tarball) job_id
              (Some (access_key, secret_key)) (Some groups))))))))))))))"

definition MultipartJobRequest :: "('g, 'd) app_env \<Rightarrow> 'w request_env \<Rightarrow> http_request \<Rightarrow> JobRequest res" where
  "MultipartJobRequest e re r =
     (case dict_get (hr_files r) ''metadata'' of
        None \<Rightarrow> Inl (ValueError ''No metadata file found'')
      | Some f \<Rightarrow>
          if hf_mimetype f \<noteq> ''application/json''
          then Inl (ValueError ''The metadata file has the wrong mimetype: {metadata_file.mimetype}} instead of application/json'')
          else case json_loads (hf_content f) of
            Inl x \<Rightarrow> Inl (ValueError (''The metadata file is not a valid JSON file: '' @ ae_exc_text e x))
          | Inr metadata \<Rightarrow>
              res_bind (json_get ''version'' metadata) (\<lambda>version.
                if version = JInt 1 \<or> version = JBool True then parse_v1 re r metadata
                else Inl (ValueError (''Invalid request version '' @ py_str e version))))"

definition JobRequest_parse :: "('g, 'd) app_env \<Rightarrow> 'w request_env \<Rightarrow> http_request \<Rightarrow> JobRequest res" where
  "JobRequest_parse e re r =
     (if hr_mimetype r = ''application/json'' then JSONJobRequest re r
      else if hr_mimetype r = ''multipart/form-data'' then MultipartJobRequest e re r
      else Inl (ValueError ''Unknown job request format''))"

section \<open>Access to MinIO groups\<close>

text \<open>Iterating over a JSON value, and over one that becomes a set.\<close>

definition json_iter :: "json \<Rightarrow> json list res" where
  "json_iter j = (case j of JList xs \<Rightarrow> Inr xs | JStr s \<Rightarrow> Inr (map (\<lambda>c. JStr [c]) s) | JObj kvs \<Rightarrow> Inr (map JStr (dict_keys kvs)) | _ \<Rightarrow> Inl TypeError)"

definition hashable :: "json \<Rightarrow> bool" where
  "hashable j = (case j of JList _ \<Rightarrow> False | JObj _ \<Rightarrow> False | _ \<Rightarrow> True)"

definition json_set :: "json \<Rightarrow> json list res" where
  "json_set j = res_bind (json_iter j) (\<lambda>xs. if list_all hashable xs then Inr xs else Inl TypeError)"

definition check_groups :: "('g, 'd) app_env \<Rightarrow> json list \<Rightarrow> json list \<Rightarrow> (bool \<times> string) res" where
  "check_groups e user_groups groups =
     (case find (\<lambda>g. \<not> hashable g \<or> g \<notin> set user_groups) groups of
        None \<Rightarrow> Inr (True, [])
      | Some g \<Rightarrow>
          if hashable g then Inr (False, ''The provided MinIO credentials do not belong to the group '' @ py_str e g) else Inl TypeError)"

definition credentials_have_groups ::
  "('g, 'd) app_env \<Rightarrow> 'w minio_api \<Rightarrow> json \<Rightarrow> MinioClient \<Rightarrow> ('w, bool \<times> string) act" where
  "credentials_have_groups e api groups c =
     act_catch
       (act_bind (groups_user_is_in api c None) (\<lambda>member_of.
        act_bind (act_lift (json_set member_of)) (\<lambda>user_groups.
        act_bind (act_lift (json_iter groups)) (\<lambda>gs. act_lift (check_groups e user_groups gs)))))
       (\<lambda>x. case x of ValueError _ \<Rightarrow> act_return (False, ''Invalid MinIO credentials'') | _ \<Rightarrow> act_raise x)"

text \<open>The \<open>try\<close> with its \<open>finally\<close>: the alias is removed whenever the client was made.\<close>

definition query_groups ::
  "('g, 'd) app_env \<Rightarrow> 'w minio_api \<Rightarrow> string \<Rightarrow> json \<times> json \<Rightarrow> string \<Rightarrow> json \<Rightarrow> ('w, bool \<times> string) act" where
  "query_groups e api url creds ali groups w =
     (case creds of
        (JStr user, JStr secret) \<Rightarrow>
          (case MinioClient_init api url user secret (Some ali) w of
             (Inl (ValueError _), w1) \<Rightarrow> (Inr (False, ''Invalid MinIO credentials''), w1)
           | (Inl x, w1) \<Rightarrow> (Inl x, w1)
           | (Inr c, w1) \<Rightarrow>
               let (r, w2) = credentials_have_groups e api groups c w1; (r2, w3) = remove_alias api c w2
               in case r2 of Inl x \<Rightarrow> (Inl x, w3) | Inr _ \<Rightarrow> (r, w3))
      | _ \<Rightarrow> (Inl TypeError, w))"

definition no_groups :: "json option \<Rightarrow> bool" where
  "no_groups g = (case g of None \<Rightarrow> True | Some JNull \<Rightarrow> True | Some (JList []) \<Rightarrow> True | Some (JStr []) \<Rightarrow> True | Some (JObj []) \<Rightarrow> True | _ \<Rightarrow> False)"

definition check_minio_credentials ::
  "('g, 'd) app_env \<Rightarrow> 'w request_env \<Rightarrow> 'w minio_api \<Rightarrow> JobRequest \<Rightarrow> ('w, bool \<times> string) act" where
  "check_minio_credentials e re api rq =
     (if no_groups (rq_minio_groups rq) then act_return (True, [])
      else case rq_minio_groups rq of
        None \<Rightarrow> act_return (True, [])
      | Some groups \<Rightarrow>
          if \<not> is_ok (json_iter groups) then act_raise TypeError
          else case rq_minio_credentials rq of
            None \<Rightarrow> act_return (False, ''Requested access to some groups, but the credentials are missing'')
          | Some creds \<Rightarrow>
              query_groups e api (re_minio_url re) creds
                (''a_'' @ py_str e (rq_job_id rq) @ ''-'' @ show_int (re_timestamp re)) groups)"

section \<open>Choosing a machine\<close>

definition machine_dut :: "('g, 'w, 'd) app \<Rightarrow> machine \<Rightarrow> ConfigDUT" where
  "machine_dut s m = o_dut (the_dut (ap_mars s) (m_dut m))"

definition machine_state :: "('g, 'w, 'd) app \<Rightarrow> string \<Rightarrow> MachineState" where
  "machine_state s mid = (case dict_get (ap_executors s) mid of None \<Rightarrow> WAIT_FOR_CONFIG | Some ex \<Rightarrow> ex_state ex)"

text \<open>\<open>show_tags\<close> is the text of a set or list of tags in a message.\<close>

definition has_tags :: "('g, 'w, 'd) app \<Rightarrow> Target \<Rightarrow> machine \<Rightarrow> bool" where
  "has_tags s target m = (set (tg_tags target) \<subseteq> set (tags (machine_dut s m)))"

fun pick_machine :: "('g, 'w, 'd) app \<Rightarrow> Target \<Rightarrow> (string \<times> machine) list \<Rightarrow> bool \<Rightarrow> (string \<times> machine) option \<times> bool" where
  "pick_machine s target [] found = (None, found)"
| "pick_machine s target ((mid, m) # ms) found =
     (if \<not> has_tags s target m then pick_machine s target ms found
      else if is_retired (machine_dut s m) then pick_machine s target ms found
      else if machine_state s mid = IDLE then (Some (mid, m), True)
      else pick_machine s target ms True)"

definition find_suitable_machine ::
  "(string list \<Rightarrow> string) \<Rightarrow> ('g, 'w, 'd) app \<Rightarrow> Target \<Rightarrow> string option \<times> int \<times> json" where
  "find_suitable_machine show_tags s target =
     (case tg_id target of
        Some mid \<Rightarrow>
          (case dict_get (mr_machines (ap_mars s)) mid of
             None \<Rightarrow> (None, 404, JStr (''Unknown machine with ID '' @ mid))
           | Some m \<Rightarrow>
               if \<not> has_tags s target m
               then (None, 406, JStr (''The machine '' @ mid @ '' does not matching tags (asked: '' @ show_tags (tg_tags target) @
                      '', actual: '' @ show_tags (tags (machine_dut s m)) @ '')''))
               else if machine_state s mid \<noteq> IDLE
               then (None, 409, JStr (''The machine '' @ mid @ '' is unavailable: Current state is '' @ MachineState_name (machine_state s mid)))
               else if is_retired (machine_dut s m) then (None, 409, JStr (''The machine '' @ mid @ '' is retired.''))
               else (Some mid, 200, JNull))
      | None \<Rightarrow>
          (case pick_machine s target (mr_machines (ap_mars s)) False of
             (Some (mid, m), _) \<Rightarrow> (Some mid, 200, JStr ''success'')
           | (None, True) \<Rightarrow> (None, 409, JStr (''All machines matching the tags '' @ show_tags (tg_tags target) @ '' are busy''))
           | (None, False) \<Rightarrow> (None, 406, JStr (''No active machines found matching the tags '' @ show_tags (tg_tags target) @ ''.''))))"

section \<open>Submitting a job\<close>

text \<open>The groups as the executor uses them, after they were checked to be texts the user is a member of.\<close>

definition group_names :: "json option \<Rightarrow> string list option res" where
  "group_names g =
     (case g of
        None \<Rightarrow> Inr None
      | Some JNull \<Rightarrow> Inr None
      | Some j \<Rightarrow> res_bind (json_iter j) (\<lambda>xs. res_bind (res_map_list json_text xs) (\<lambda>ns. Inr (Some ns))))"

definition executor_request :: "('g, 'd) app_env \<Rightarrow> JobRequest \<Rightarrow> job_request res" where
  "executor_request e rq =
     res_bind (group_names (rq_minio_groups rq)) (\<lambda>gs.
       Inr \<lparr>jr_raw_job = rq_raw_job rq, jr_job_id = py_str e (rq_job_id rq), jr_version = rq_version rq, jr_minio_groups = gs,
            jr_tarball = rq_tarball rq\<rparr>)"

definition job_response :: "JobRequest \<Rightarrow> json \<Rightarrow> json" where
  "job_response rq error_msg =
     (if rq_version rq = 0 then JObj [(''reason'', error_msg)]
      else JObj [(''version'', JInt 1), (''error_msg'', error_msg)])"

text \<open>The MinIO server is one of its own: \<open>'w\<close> next to the state of the service.\<close>

definition hand_over :: "('g, 'd) app_env \<Rightarrow> 'w request_env \<Rightarrow> JobRequest \<Rightarrow> string \<Rightarrow> (('g, 'w, 'd) app, unit) act" where
  "hand_over e re rq mid =
     act_bind (act_lift (executor_request e rq)) (\<lambda>jr. on_executor mid (start_job (re_main re) jr))"

definition post_job ::
  "('g, 'd) app_env \<Rightarrow> 'w request_env \<Rightarrow> (string list \<Rightarrow> string) \<Rightarrow> http_request \<Rightarrow> 'w \<Rightarrow> ('g, 'w, 'd) app
   \<Rightarrow> response res \<times> 'w \<times> ('g, 'w, 'd) app" where
  "post_job e re show_tags r w s =
     (case JobRequest_parse e re r of
        Inl x \<Rightarrow> (Inl x, w, s)
      | Inr parsed \<Rightarrow>
          (case check_minio_credentials e re (me_api (re_main re)) parsed w of
             (Inl x, w') \<Rightarrow> (Inl x, w', s)
           | (Inr (ok, msg), w') \<Rightarrow>
               if \<not> ok then (Inr (403, job_response parsed (JStr msg)), w', s)
               else
                 let (found, code, error_msg) = find_suitable_machine show_tags s (rq_target parsed) in
                 case found of
                   None \<Rightarrow> (Inr (code, job_response parsed error_msg), w', s)
                 | Some mid \<Rightarrow>
                     (case hand_over e re parsed mid s of
                        (Inl x, s') \<Rightarrow> (Inl x, w', s')
                      | (Inr _, s') \<Rightarrow> (Inr (code, job_response parsed error_msg), w', s'))))"

section \<open>Properties\<close>

text \<open>The machines that a job for some target may run on.\<close>

definition suits :: "('g, 'w, 'd) app \<Rightarrow> Target \<Rightarrow> machine \<Rightarrow> bool" where
  "suits s target m = (has_tags s target m \<and> \<not> is_retired (machine_dut s m))"

lemma pick_machine_result:
  "case pick_machine s target ms found of
     (Some (mid, m), _) \<Rightarrow> (mid, m) \<in> set ms \<and> suits s target m \<and> machine_state s mid = IDLE
   | (None, found') \<Rightarrow> (\<forall>mid m. (mid, m) \<in> set ms \<and> suits s target m \<longrightarrow> machine_state s mid \<noteq> IDLE) \<and>
                       (found' \<longleftrightarrow> found \<or> (\<exists>mid m. (mid, m) \<in> set ms \<and> suits s target m))"
proof (induction ms arbitrary: found)
  case (Cons x ms)
  obtain mid m where x: "x = (mid, m)" by (cases x)
  consider (skip) "\<not> suits s target m" | (idle) "suits s target m" "machine_state s mid = IDLE"
    | (busy) "suits s target m" "machine_state s mid \<noteq> IDLE" by blast
  then show ?case
  proof cases
    case skip
    then have "pick_machine s target (x # ms) found = pick_machine s target ms found" by (auto simp: x suits_def)
    then show ?thesis using Cons.IH[of found] skip by (auto simp: x split: prod.splits option.splits)
  next
    case idle
    then show ?thesis by (simp add: x suits_def)
  next
    case busy
    then have "pick_machine s target (x # ms) found = pick_machine s target ms True" by (auto simp: x suits_def)
    then show ?thesis using Cons.IH[of True] busy by (auto simp: x split: prod.splits option.splits)
  qed
qed simp

lemma suitable_machine:
  "case find_suitable_machine show_tags s target of
     (Some mid, code, _) \<Rightarrow> code = 200 \<and> machine_state s mid = IDLE \<and>
        (\<exists>m. (mid, m) \<in> set (mr_machines (ap_mars s)) \<and> suits s target m) \<and> (tg_id target = None \<or> tg_id target = Some mid)
   | (None, code, _) \<Rightarrow>
       (case tg_id target of
          Some mid \<Rightarrow> (case dict_get (mr_machines (ap_mars s)) mid of
             None \<Rightarrow> code = 404
           | Some m \<Rightarrow> if has_tags s target m then code = 409 \<and> \<not> (suits s target m \<and> machine_state s mid = IDLE) else code = 406)
        | None \<Rightarrow> if \<exists>mid m. (mid, m) \<in> set (mr_machines (ap_mars s)) \<and> suits s target m
                  then code = 409 \<and> \<not> (\<exists>mid m. (mid, m) \<in> set (mr_machines (ap_mars s)) \<and> suits s target m \<and> machine_state s mid = IDLE)
                  else code = 406)"
proof (cases "tg_id target")
  case None
  then show ?thesis
    using pick_machine_result[where s = s and target = target and ms = "mr_machines (ap_mars s)" and found = False]
    by (auto simp: find_suitable_machine_def split: prod.splits option.splits bool.splits)
next
  case (Some mid)
  then show ?thesis
    by (auto simp: find_suitable_machine_def suits_def split: option.splits dest: map_of_SomeD)
qed

text \<open>
  C23. The choice of a machine, on every branch. A machine that is returned is known, has all the wanted
  tags, is not retired and idle, and the code is 200. Without one, a request for a given machine
  gets 404 if it is unknown and 406 or 409 if it does not qualify; a request by tags gets 409
  exactly if some active machine has the tags and all of those are busy, and 406 if there is none.
\<close>

theorem suitable_machine_found:
  "case find_suitable_machine show_tags s target of
     (Some mid, code, _) \<Rightarrow> code = 200 \<and> machine_state s mid = IDLE \<and>
        (\<exists>m. (mid, m) \<in> set (mr_machines (ap_mars s)) \<and> suits s target m) \<and> (tg_id target = None \<or> tg_id target = Some mid)
   | (None, code, _) \<Rightarrow>
       (case tg_id target of
          Some mid \<Rightarrow> (case dict_get (mr_machines (ap_mars s)) mid of
             None \<Rightarrow> code = 404
           | Some m \<Rightarrow> if has_tags s target m then code = 409 \<and> \<not> (suits s target m \<and> machine_state s mid = IDLE) else code = 406)
        | None \<Rightarrow> if \<exists>mid m. (mid, m) \<in> set (mr_machines (ap_mars s)) \<and> suits s target m
                  then code = 409 \<and> \<not> (\<exists>mid m. (mid, m) \<in> set (mr_machines (ap_mars s)) \<and> suits s target m \<and> machine_state s mid = IDLE)
                  else code = 406)"
  by (rule suitable_machine)

text \<open>What the check of the credentials relies on when it answers yes.\<close>

lemma check_groups_yes: "check_groups e us gs = Inr (True, msg) \<Longrightarrow> set gs \<subseteq> set us"
  by (auto simp: check_groups_def find_None_iff split: option.splits if_splits)

lemma credentials_have_groups_yes:
  assumes "credentials_have_groups e api groups c w = (Inr (True, msg), w')"
  shows "\<exists>member_of us gs w2. groups_user_is_in api c None w = (Inr member_of, w2) \<and> json_set member_of = Inr us \<and>
     json_iter groups = Inr gs \<and> set gs \<subseteq> set us"
proof -
  let ?body = "act_bind (groups_user_is_in api c None) (\<lambda>member_of.
        act_bind (act_lift (json_set member_of)) (\<lambda>user_groups.
        act_bind (act_lift (json_iter groups)) (\<lambda>gs. act_lift (check_groups e user_groups gs))))"
  have "?body w = (Inr (True, msg), w')"
    using assms unfolding credentials_have_groups_def act_catch_def
    by (auto simp: act_return_def act_raise_def split: prod.splits sum.splits py_exc.splits)
  then obtain member_of us gs w2 where "groups_user_is_in api c None w = (Inr member_of, w2)" "json_set member_of = Inr us"
    "json_iter groups = Inr gs" "check_groups e us gs = Inr (True, msg)"
    by (auto simp: act_bind_eq_Inr act_lift_def)
  then show ?thesis using check_groups_yes by blast
qed

text \<open>
  C25. Access to MinIO groups needs membership: when the check lets a request for some groups pass, MinIO
  accepted the credentials of the request, reported the groups of that user, and every requested
  group is among them.
\<close>

theorem groups_need_membership:
  assumes "check_minio_credentials e re api rq w = (Inr (True, msg), w')" "\<not> no_groups (rq_minio_groups rq)"
  shows "\<exists>user secret ali c w1 member_of w2 us groups gs.
    rq_minio_credentials rq = Some (JStr user, JStr secret) \<and> MinioClient_init api (re_minio_url re) user secret (Some ali) w = (Inr c, w1) \<and>
    groups_user_is_in api c None w1 = (Inr member_of, w2) \<and> json_set member_of = Inr us \<and>
    rq_minio_groups rq = Some groups \<and> json_iter groups = Inr gs \<and> set gs \<subseteq> set us"
proof -
  let ?ali = "''a_'' @ py_str e (rq_job_id rq) @ ''-'' @ show_int (re_timestamp re)"
  obtain groups where g: "rq_minio_groups rq = Some groups" using assms(2) by (cases "rq_minio_groups rq") (simp_all add: no_groups_def)
  have "is_ok (json_iter groups)" using assms g by (auto simp: check_minio_credentials_def act_raise_def split: if_splits)
  then obtain creds where c: "rq_minio_credentials rq = Some creds" and
    q: "query_groups e api (re_minio_url re) creds ?ali groups w = (Inr (True, msg), w')"
    using assms g by (auto simp: check_minio_credentials_def act_return_def split: option.splits if_splits)
  obtain user secret where k: "creds = (JStr user, JStr secret)"
    using q by (auto simp: query_groups_def split: json.splits prod.splits)
  obtain r w1 where i: "MinioClient_init api (re_minio_url re) user secret (Some ?ali) w = (r, w1)" by (meson surj_pair)
  obtain cl where r: "r = Inr cl" using q k i by (cases r) (auto simp: query_groups_def split: py_exc.splits)
  obtain w2 where "credentials_have_groups e api groups cl w1 = (Inr (True, msg), w2)"
    using q k i r by (auto simp: query_groups_def Let_def split: prod.splits sum.splits)
  from credentials_have_groups_yes[OF this] show ?thesis using g c k i r by blast
qed

text \<open>
  C24. An accepted job is queued: when a submission is answered with 200, the chosen machine was known,
  idle, active and had the wanted tags; its executor is now QUEUED with the job ready to be
  picked up, and the executors of all other machines are untouched.
\<close>

theorem accepted_job_is_queued:
  assumes "post_job e re show_tags r w s = (Inr (200, body), w', s')"
  shows "\<exists>rq mid m ex ex' jr.
    JobRequest_parse e re r = Inr rq \<and> (mid, m) \<in> set (mr_machines (ap_mars s)) \<and> suits s (rq_target rq) m \<and>
    dict_get (ap_executors s) mid = Some ex \<and> ex_state ex = IDLE \<and>
    executor_request e rq = Inr jr \<and> start_job (re_main re) jr ex = (Inr (), ex') \<and>
    ex_state ex' = QUEUED \<and> ex_job_ready ex' \<and> ap_executors s' = dict_set mid ex' (ap_executors s)"
proof -
  obtain rq where p: "JobRequest_parse e re r = Inr rq" using assms by (auto simp: post_job_def split: sum.splits)
  obtain ok msg w1 where c: "check_minio_credentials e re (me_api (re_main re)) rq w = (Inr (ok, msg), w1)"
    using assms p by (auto simp: post_job_def split: prod.splits sum.splits)
  obtain found code em where f: "find_suitable_machine show_tags s (rq_target rq) = (found, code, em)" by (meson prod_cases3)
  note found = suitable_machine[where show_tags = show_tags and s = s and target = "rq_target rq", unfolded f]
  have ok: "ok" using assms p c by (auto simp: post_job_def split: if_splits)
  have "found \<noteq> None"
    using assms p c f ok found by (auto simp: post_job_def split: option.splits if_splits)
  then obtain mid where m: "found = Some mid" by blast
  obtain u where h: "hand_over e re rq mid s = (Inr u, s')"
    using assms p c f ok m by (auto simp: post_job_def split: prod.splits sum.splits)
  then obtain jr where jr: "executor_request e rq = Inr jr" "on_executor mid (start_job (re_main re) jr) s = (Inr u, s')"
    by (auto simp: hand_over_def act_bind_eq_Inr act_lift_def)
  then obtain ex ex' where ex: "dict_get (ap_executors s) mid = Some ex" "start_job (re_main re) jr ex = (Inr (), ex')"
    "ap_executors s' = dict_set mid ex' (ap_executors s)"
    by (auto simp: on_executor_def split: option.splits prod.splits)
  have "machine_state s mid = ex_state ex" using ex(1) by (simp add: machine_state_def)
  then show ?thesis using p jr(1) ex start_job_ok[OF ex(2)] found m by auto
qed

section \<open>Retired machines\<close>

lemma update_config_none:
  assumes "update_config e mac None s = (Inr u, s')" "dict_get (mr_machines s) mac = Some m" "dict_ok (mr_machines s)"
  shows "dict_ok (mr_machines s') \<and> (\<exists>m'. dict_get (mr_machines s') mac = Some m' \<and> m_dut m' = m_dut m)"
proof -
  obtain port s1 where c: "configure e (m_dut m) (s\<lparr>mr_machines := dict_set mac m (mr_machines s)\<rparr>) = (Inr port, s1)"
    and s': "s' = s1\<lparr>mr_machines := dict_set mac (m\<lparr>m_port := port\<rparr>) (mr_machines s1)\<rparr>"
    using assms by (auto simp: update_config_def set_machine_def act_bind_eq_Inr act_modify_def Let_def)
  have "mr_machines s1 = dict_set mac m (mr_machines s)" using configure_same[OF c] by (simp add: same_registry_def)
  then show ?thesis using assms(3) by (simp add: s')
qed

lemma update_fields_machine:
  assumes "update_fields e mac f s = (Inr u, s')" "dict_get (mr_machines s) mac = Some m" "dict_ok (mr_machines s)"
    and "m_dut m < length (mr_store s)"
  shows "dict_ok (mr_machines s') \<and> (\<exists>m'. dict_get (mr_machines s') mac = Some m' \<and>
    o_dut (the_dut s' (m_dut m')) = f (o_dut (the_dut s (m_dut m))))"
proof -
  let ?s1 = "upd_dut (m_dut m) f s"
  obtain s2 u2 where u: "update_config e mac None ?s1 = (Inr u2, s2)" and s': "s' = db_save (o_db (the_dut s2 (m_dut m))) s2"
    using assms(1,2) by (auto simp: update_fields_def act_bind_eq_Inr act_modify_def)
  have m1: "mr_machines ?s1 = mr_machines s" by (simp add: upd_dut_def)
  have "dict_ok (mr_machines s2) \<and> (\<exists>m'. dict_get (mr_machines s2) mac = Some m' \<and> m_dut m' = m_dut m)"
    using update_config_none[OF u] assms(2,3) unfolding m1 by blast
  moreover have "mr_store s2 = mr_store ?s1" using update_config_objects[of ?s1 e mac None] u by (simp add: same_objects_def)
  moreover have "mr_machines s' = mr_machines s2" "mr_store s' = mr_store s2"
    by (simp_all add: s' db_save_def reset_taint_def upd_db_def)
  ultimately show ?thesis using assms(4) by (auto simp: upd_dut_def)
qed

text \<open>
  C26. Retiring a machine takes effect at once: after a successful request to retire it, no job request is
  ever given that machine, whether it asks for it by name or by tags.
\<close>

theorem retired_machine_not_chosen:
  assumes "linked (ap_mars s)" "dict_ok (mr_machines (ap_mars s))" "retire_activate_machine e mid Retire s = (Inr resp, s')"
  shows "fst (find_suitable_machine show_tags s' target) \<noteq> Some mid"
proof -
  obtain m u s1 where m: "dict_get (mr_machines (ap_mars s)) mid = Some m"
    and u: "on_mars (update_fields (ae_mars e) mid (\<lambda>d. d\<lparr>is_retired := True\<rparr>)) s = (Inr u, s1)" and s': "s' = s1"
    using assms(3) unfolding retire_activate_machine_def get_machine_by_id_def
    by (auto simp: act_bind_eq_Inr act_lift_def act_raise_def act_return_def split: option.splits if_splits)
  have "m_dut m < length (mr_store (ap_mars s))" using linked_dut[OF assms(1) m] by blast
  from update_fields_machine[OF conjunct1[OF on_mars_Inr[OF u]] m assms(2) this]
  obtain m' where m': "dict_ok (mr_machines (ap_mars s'))" "dict_get (mr_machines (ap_mars s')) mid = Some m'"
    "is_retired (machine_dut s' m')"
    unfolding s' machine_dut_def by auto
  have "\<not> suits s' target m''" if "(mid, m'') \<in> set (mr_machines (ap_mars s'))" for m''
    using that m' by (auto simp: suits_def)
  then show ?thesis
    using suitable_machine[where show_tags = show_tags and s = s' and target = target] by (auto split: prod.splits option.splits)
qed

section \<open>An example\<close>

definition example_request_env :: "unit request_env" where
  "example_request_env = \<lparr>re_job = (\<lambda>_. Inr small_job), re_timestamp = 5, re_minio_url = ''http://minio'', re_main = accepting_env\<rparr>"

definition example_submission :: http_request where
  "example_submission =
     \<lparr>hr_mimetype = ''application/json'',
      hr_json = JObj [(''metadata'', JObj [(''callback_port'', JInt 4000)]), (''job'', JStr ''version: 1'')],
      hr_files = [], hr_remote_addr = ''10.42.0.1''\<rparr>"

lemma example_post: "fst (post_job example_app_env example_request_env (\<lambda>_. []) example_submission () example_app) =
    Inr (200, JObj [(''reason'', JStr ''success'')])"
  by code_simp

theorem accepted_job_is_queued_witness:
  "\<exists>ex'. ap_executors (snd (snd (post_job example_app_env example_request_env (\<lambda>_. []) example_submission () example_app))) =
     [(''10:62:e5:04:39:89'', ex')] \<and> ex_state ex' = QUEUED"
proof -
  let ?r = "post_job example_app_env example_request_env (\<lambda>_. []) example_submission () example_app"
  obtain w' s' where r: "?r = (Inr (200, JObj [(''reason'', JStr ''success'')]), w', s')"
    using example_post by (metis prod.collapse)
  from accepted_job_is_queued[OF r] obtain mid ex ex' where
    x: "dict_get (ap_executors example_app) mid = Some ex" "ex_state ex' = QUEUED" "ap_executors s' = dict_set mid ex' (ap_executors example_app)"
    by blast
  have execs: "ap_executors example_app = [(''10:62:e5:04:39:89'', idle_executor AtWait)]" by (simp add: example_app_def)
  have "mid = ''10:62:e5:04:39:89''" using x(1) unfolding execs by (simp split: if_splits)
  then show ?thesis using x(2,3) unfolding r execs by simp
qed

definition group_server :: "unit minio_api" where
  "group_server = accepting_server\<lparr>mcli := (\<lambda>_. act_return (json_dumps (JObj [(''memberOf'', JList [JStr ''traces''])])))\<rparr>"

definition group_request :: JobRequest where
  "group_request = \<lparr>rq_version = 1, rq_raw_job = [], rq_target = Target_init None None, rq_host = JStr ''h'', rq_port = JInt 1,
     rq_minio_credentials = Some (JStr ''user'', JStr ''pw''), rq_minio_groups = Some (JList [JStr ''traces'']),
     rq_tarball = None, rq_job_id = JStr ''1''\<rparr>"

theorem groups_need_membership_witness:
  "\<exists>c w1 member_of w2. groups_user_is_in group_server c None w1 = (Inr member_of, w2) \<and>
     (\<exists>us. json_set member_of = Inr us \<and> JStr ''traces'' \<in> set us)"
proof -
  have c: "check_minio_credentials example_app_env example_request_env group_server group_request () = (Inr (True, []), ())" by code_simp
  have n: "\<not> no_groups (rq_minio_groups group_request)" by code_simp
  from groups_need_membership[OF c n] show ?thesis by (fastforce simp: group_request_def json_iter_def)
qed

theorem retired_machine_not_chosen_witness:
  "fst (find_suitable_machine (\<lambda>_. []) (snd (retire_activate_machine example_app_env ''10:62:e5:04:39:89'' Retire example_app))
     (Target_init None None)) \<noteq> Some ''10:62:e5:04:39:89''"
proof -
  let ?r = "retire_activate_machine example_app_env ''10:62:e5:04:39:89'' Retire example_app"
  have "is_ok (fst ?r)" by code_simp
  then obtain resp where r: "?r = (Inr resp, snd ?r)" by (metis is_ok_iff prod.collapse)
  have "linked (ap_mars example_app)" using example_linked by (simp add: example_app_def)
  moreover have "dict_ok (mr_machines (ap_mars example_app))" by code_simp
  ultimately show ?thesis using r by (rule retired_machine_not_chosen)
qed

end
