(* ===== verification/Client.thy ===== *)
theory Client
  imports Job_Request
begin

text \<open>
  The client that submits jobs (\<open>client.py\<close>): the request it sends, how it waits for a machine, the
  loop that forwards the terminal to the job and the job's output to the terminal, and the status it
  reports in the end.
\<close>

section \<open>Submitting\<close>

record client_job =
  cj_desc :: string
  cj_wait_if_busy :: bool
  cj_callback_host :: "string option"
  cj_machine_tags :: "string list option"
  cj_machine_id :: "string option"
  cj_job_id :: "string option"
  cj_share_directory :: "string option"
  cj_minio_creds :: "(string \<times> string) option"
  cj_minio_groups :: "string list"

definition client_job_init ::
  "string \<Rightarrow> bool \<Rightarrow> string option \<Rightarrow> string list option \<Rightarrow> string option \<Rightarrow> string option \<Rightarrow> string option \<Rightarrow> (string \<times> string) option
   \<Rightarrow> string list option \<Rightarrow> client_job" where
  "client_job_init desc wait host tgs mid job_id share creds groups =
     \<lparr>cj_desc = desc, cj_wait_if_busy = wait, cj_callback_host = host, cj_machine_tags = tgs, cj_machine_id = mid, cj_job_id = job_id,
      cj_share_directory = share, cj_minio_creds = creds, cj_minio_groups = (case groups of None \<Rightarrow> [] | Some gs \<Rightarrow> gs)\<rparr>"

text \<open>\<open>Job.from_file\<close>: \<open>file\<close> is what reading the path gives.\<close>

definition client_from_file ::
  "string res \<Rightarrow> bool \<Rightarrow> string option \<Rightarrow> string list option \<Rightarrow> string option \<Rightarrow> string option \<Rightarrow> string option \<Rightarrow> (string \<times> string) option
   \<Rightarrow> string list option \<Rightarrow> client_job res" where
  "client_from_file content wait host tgs mid share job_id creds groups =
     res_bind content (\<lambda>desc. Inr (client_job_init desc wait host tgs mid job_id share creds groups))"

definition opt_list_json :: "string list option \<Rightarrow> json" where
  "opt_list_json x = (case x of None \<Rightarrow> JNull | Some ts \<Rightarrow> JList (map JStr ts))"

definition wants_target :: "client_job \<Rightarrow> bool" where
  "wants_target j = (cj_machine_id j \<noteq> None \<or> (case cj_machine_tags j of None \<Rightarrow> False | Some ts \<Rightarrow> ts \<noteq> []))"

definition client_metadata :: "client_job \<Rightarrow> int \<Rightarrow> json" where
  "client_metadata j local_port =
     JObj ([(''version'', JInt 1), (''job_id'', opt_json (cj_job_id j)),
            (''minio'', JObj
               [(''credentials'', JObj (case cj_minio_creds j of
                    None \<Rightarrow> []
                  | Some (access_key, secret_key) \<Rightarrow> [(''access_key'', JStr access_key), (''secret_key'', JStr secret_key)])),
                (''groups'', JList (map JStr (cj_minio_groups j)))]),
            (''callback'', JObj ((''port'', JInt local_port) #
               (case cj_callback_host j of None \<Rightarrow> [] | Some h \<Rightarrow> [(''host'', JStr h)])))] @
           (if wants_target j
            then [(''target'', JObj [(''id'', opt_json (cj_machine_id j)), (''tags'', opt_list_json (cj_machine_tags j))])] else []))"

text \<open>
  The request as the server sees it. \<open>archive\<close> is the content of the directory that is shared with
  the job; an empty path counts as no directory.
\<close>

definition client_request :: "client_job \<Rightarrow> int \<Rightarrow> tar_member list \<Rightarrow> string \<Rightarrow> http_request" where
  "client_request j local_port archive addr =
     \<lparr>hr_mimetype = ''multipart/form-data'', hr_json = JNull,
      hr_files =
        [(''metadata'', \<lparr>hf_mimetype = ''application/json'', hf_content = json_dumps (client_metadata j local_port), hf_tar = []\<rparr>),
         (''job'', \<lparr>hf_mimetype = ''application/x-yaml'', hf_content = cj_desc j, hf_tar = []\<rparr>)] @
        (case cj_share_directory j of
           None \<Rightarrow> []
         | Some d \<Rightarrow> if d = [] then []
                     else [(''job_bucket_initial_state_tarball_file'',
                            \<lparr>hf_mimetype = ''application/octet-stream'', hf_content = [], hf_tar = archive\<rparr>)]),
      hr_remote_addr = addr\<rparr>"

record Response =
  rs_version :: int
  rs_error_msg :: json

text \<open>\<open>_parse_response\<close> on the text of a reply: text that is no JSON becomes the message.\<close>

definition parse_response :: "string \<Rightarrow> Response res" where
  "parse_response text =
     (case json_loads text of
        Inl _ \<Rightarrow> Inr \<lparr>rs_version = 0, rs_error_msg = JStr text\<rparr>
      | Inr ret \<Rightarrow>
          res_bind (json_get_or ''version'' (JInt 0) ret) (\<lambda>version.
            if version = JInt 0 \<or> version = JBool False
            then res_bind (json_get ''reason'' ret) (\<lambda>m. Inr \<lparr>rs_version = 0, rs_error_msg = m\<rparr>)
            else if version = JInt 1 \<or> version = JBool True then
              (case ret of
                 JObj kvs \<Rightarrow>
                   if set (dict_keys kvs) \<subseteq> {''version'', ''error_msg''}
                   then Inr \<lparr>rs_version = 1, rs_error_msg = (case dict_get kvs ''error_msg'' of None \<Rightarrow> JNull | Some m \<Rightarrow> m)\<rparr>
                   else Inl TypeError
               | _ \<Rightarrow> Inl TypeError)
            else Inl (ValueError ''Unsupported response version'')))"

text \<open>
  \<open>queue_job\<close>: the replies to the requests that it sends one after the other; \<open>None\<close> when it is still
  waiting after the last of them.
\<close>

fun queue_job :: "bool \<Rightarrow> (int \<times> string) list \<Rightarrow> (bool \<times> Response) option res" where
  "queue_job wait [] = Inr None"
| "queue_job wait ((code, text) # replies) =
     res_bind (parse_response text) (\<lambda>response.
       if code = 200 then Inr (Some (True, response))
       else if code = 409 \<and> wait then queue_job wait replies
       else Inr (Some (False, response)))"

text \<open>\<open>_setup_connection\<close>: \<open>connects\<close> tells whether the executor connects in time.\<close>

definition setup_connection :: "client_job \<Rightarrow> (int \<times> string) list \<Rightarrow> bool \<Rightarrow> (bool \<times> Response) option res" where
  "setup_connection j replies connects =
     res_bind (queue_job (cj_wait_if_busy j) replies) (\<lambda>r.
       case r of
         Some (True, response) \<Rightarrow>
           if connects then Inr r else Inl (ValueError ''The server failed to initiate a connection'')
       | _ \<Rightarrow> Inr r)"

section \<open>The session\<close>

text \<open>
  The terminal, the socket's incoming segments, the messages sent, and the bucket that was
  downloaded. \<open>cl_final_lines\<close> is the attribute of that name: trimming it concerns a local name only.
\<close>

record client =
  cl_pressed :: bool
  cl_out :: string
  cl_socket :: "string list"
  cl_sent :: "Message list"
  cl_final_lines :: string
  cl_mirrored :: "(json \<times> json) option"

text \<open>What is outside: the clock, \<open>print\<close> of a message that is no text, and the download of a bucket.\<close>

record client_env =
  cle_now :: datetime
  cle_show :: "json \<Rightarrow> string"
  cle_mirror :: "json \<Rightarrow> json \<Rightarrow> unit res"

definition client_write :: "string \<Rightarrow> (client, unit) act" where
  "client_write buf = act_modify (\<lambda>c. c\<lparr>cl_out := cl_out c @ buf\<rparr>)"

definition on_socket :: "(string list, 'a) act \<Rightarrow> (client, 'a) act" where
  "on_socket m c = (let (r, x) = m (cl_socket c) in (r, c\<lparr>cl_socket := x\<rparr>))"

definition send_io :: "client_env \<Rightarrow> string \<Rightarrow> (client, unit) act" where
  "send_io e buf = act_modify (\<lambda>c. c\<lparr>cl_sent := cl_sent c @ [JobIOMessage_create (cle_now e) buf]\<rparr>)"

definition handle_end_message :: "client_env \<Rightarrow> client_job \<Rightarrow> Message \<Rightarrow> (client, unit) act" where
  "handle_end_message e j m =
     act_bind (act_lift (SessionEndMessage_job_bucket m)) (\<lambda>bucket.
       case (bucket, cj_share_directory j) of
         (Some (url, name), Some d) \<Rightarrow>
           if d = [] then act_return ()
           else act_bind (act_lift (cle_mirror e url name)) (\<lambda>_. act_modify (\<lambda>c. c\<lparr>cl_mirrored := Some (url, name)\<rparr>))
       | _ \<Rightarrow> act_return ())"

definition read_message_v1 :: "client_env \<Rightarrow> client_job \<Rightarrow> (client, JobStatus option) act" where
  "read_message_v1 e j =
     act_catch
       (act_bind (on_socket next_message) (\<lambda>m.
          case msg_type m of
            MCONTROL \<Rightarrow>
              act_bind (act_lift (ControlMessage_message m)) (\<lambda>t.
              act_bind (client_write (case t of JStr s \<Rightarrow> s | _ \<Rightarrow> cle_show e t)) (\<lambda>_. act_return None))
          | MJOB_IO \<Rightarrow>
              act_bind (act_lift (JobIOMessage_buffer m)) (\<lambda>buf.
              act_bind (client_write buf) (\<lambda>_. act_return None))
          | MSESSION_END \<Rightarrow>
              act_bind (handle_end_message e j m) (\<lambda>_.
              act_bind (act_lift (SessionEndMessage_status m)) (\<lambda>st. act_return (Some st)))))
       (\<lambda>_. act_return (Some INCOMPLETE))"

text \<open>The first match of \<open><-- End of the session: (\w+) -->\<close>.\<close>

definition word_byte :: "char \<Rightarrow> bool" where
  "word_byte c = (let n = (of_char c :: nat) in (48 \<le> n \<and> n \<le> 57) \<or> (65 \<le> n \<and> n \<le> 90) \<or> (97 \<le> n \<and> n \<le> 122) \<or> n = 95)"

definition session_end_at :: "string \<Rightarrow> string option" where
  "session_end_at s =
     (let p = ''<-- End of the session: '' in
      if prefix p s then
        let r = drop (length p) s; w = takeWhile word_byte r
        in if w \<noteq> [] \<and> prefix '' -->'' (drop (length w) r) then Some w else None
      else None)"

fun session_end_search :: "string \<Rightarrow> string option" where
  "session_end_search [] = None"
| "session_end_search (c # s) = (case session_end_at (c # s) of Some w \<Rightarrow> Some w | None \<Rightarrow> session_end_search s)"

definition read_message_v0 :: "(client, JobStatus option) act" where
  "read_message_v0 =
     act_bind (on_socket (\<lambda>segs. let (d, segs') = sock_recv 4096 segs in (Inr d, segs'))) (\<lambda>buf.
     act_bind (act_get (\<lambda>c. session_end_search (cl_final_lines c))) (\<lambda>w.
       case w of
         Some s \<Rightarrow>
           if buf = [] then act_return (Some (JobStatus_from_str s))
           else act_bind (client_write buf) (\<lambda>_.
                act_bind (act_modify (\<lambda>c. c\<lparr>cl_final_lines := cl_final_lines c @ buf\<rparr>)) (\<lambda>_. act_return None))
       | None \<Rightarrow>
           act_bind (client_write buf) (\<lambda>_.
           act_bind (act_modify (\<lambda>c. c\<lparr>cl_final_lines := cl_final_lines c @ buf\<rparr>)) (\<lambda>_. act_return None))))"

text \<open>
  A round of the loop: a byte of the terminal (none at its end), a readable socket, or CTRL+C. The
  result is the status to report, if the loop is left.
\<close>

datatype client_event = StdinReady string | SocketReady | Interrupt

definition ctrl_a :: char where "ctrl_a = CHR 0x01"
definition ctrl_c :: char where "ctrl_c = CHR 0x03"

definition client_round :: "client_env \<Rightarrow> client_job \<Rightarrow> int \<Rightarrow> client_event \<Rightarrow> (client, JobStatus option) act" where
  "client_round e j version ev =
     (case ev of
        StdinReady buf \<Rightarrow>
          act_bind (act_get cl_pressed) (\<lambda>pressed.
          act_bind
            (if buf = [ctrl_a] then
               if pressed then send_io e buf else act_modify (\<lambda>c. c\<lparr>cl_pressed := True\<rparr>)
             else act_bind (act_modify (\<lambda>c. c\<lparr>cl_pressed := False\<rparr>)) (\<lambda>_. send_io e buf))
            (\<lambda>_. act_return None))
      | SocketReady \<Rightarrow> if version = 0 then read_message_v0 else read_message_v1 e j
      | Interrupt \<Rightarrow>
          act_bind (act_get cl_pressed) (\<lambda>pressed.
            if pressed then act_return (Some INCOMPLETE)
            else act_bind (send_io e [ctrl_c]) (\<lambda>_. act_return None)))"

fun forward_io :: "client_env \<Rightarrow> client_job \<Rightarrow> int \<Rightarrow> client_event list \<Rightarrow> (client, JobStatus option) act" where
  "forward_io e j version [] = act_return None"
| "forward_io e j version (ev # evs) =
     act_bind (client_round e j version ev) (\<lambda>r. case r of Some st \<Rightarrow> act_return (Some st) | None \<Rightarrow> forward_io e j version evs)"

definition client_start :: "string list \<Rightarrow> client" where
  "client_start segs = \<lparr>cl_pressed = False, cl_out = [], cl_socket = segs, cl_sent = [], cl_final_lines = [], cl_mirrored = None\<rparr>"

text \<open>\<open>Job.run\<close>; \<open>OSError\<close> stands for a failed connection to the server, \<open>None\<close> for a client that still runs.\<close>

definition client_run ::
  "client_env \<Rightarrow> client_job \<Rightarrow> (int \<times> string) list res \<Rightarrow> bool \<Rightarrow> bool \<Rightarrow> client_event list \<Rightarrow> string list \<Rightarrow> JobStatus option \<times> client" where
  "client_run e j replies connects has_mcli evs segs =
     (case res_bind replies (\<lambda>rs. setup_connection j rs connects) of
        Inl OSError \<Rightarrow> (Some SETUP_FAIL, client_start segs)
      | Inl _ \<Rightarrow> (Some UNKNOWN, client_start segs)
      | Inr None \<Rightarrow> (None, client_start segs)
      | Inr (Some (False, response)) \<Rightarrow> (Some SETUP_FAIL, client_start segs)
      | Inr (Some (True, response)) \<Rightarrow>
          if rs_version response \<noteq> 0 \<and> \<not> has_mcli then (Some SETUP_FAIL, client_start segs)
          else case forward_io e j (rs_version response) evs (client_start segs) of
                 (Inl _, c) \<Rightarrow> (Some UNKNOWN, c)
               | (Inr st, c) \<Rightarrow> (st, c))"

section \<open>The server understands the client\<close>

lemma json_all_ok_texts: "json_all_ok (map JStr xs)"
  by (induction xs) simp_all

lemma client_metadata_ok: "json_ok (client_metadata j p)"
  by (simp add: client_metadata_def opt_json_def opt_list_json_def json_all_ok_texts split: option.split prod.split)

lemma texts_of_json: "res_map_list json_text (map JStr xs) = Inr xs"
  by (induction xs) (simp_all add: json_text_def)

text \<open>The target of the request: the one the user asked for, or that of the job.\<close>

definition client_target :: "client_job \<Rightarrow> Job \<Rightarrow> Target" where
  "client_target j job = (if wants_target j then Target_init (cj_machine_id j) (cj_machine_tags j) else job_target job)"

lemma override_target_client:
  "override_target (JObj [(''id'', opt_json i), (''tags'', opt_list_json ts)]) = Inr (Target_init i ts)"
  by (simp add: override_target_def json_get_def json_get_or_def opt_json_def opt_list_json_def texts_of_json split: option.split)

text \<open>
  C28. Server and client agree on requests: whatever job the client submits, the server that parses the
  request gets the description, the target, the callback address, the credentials, groups, archive
  and name that the user gave, with the documented defaults where the user gave none.
\<close>

theorem request_roundtrip:
  assumes "re_job re (cj_desc j) = Inr job"
  shows "JobRequest_parse e re (client_request j port archive addr) = Inr
    \<lparr>rq_version = 1, rq_raw_job = cj_desc j, rq_target = client_target j job,
     rq_host = JStr (case cj_callback_host j of None \<Rightarrow> addr | Some h \<Rightarrow> h), rq_port = JInt port,
     rq_minio_credentials = Some (case cj_minio_creds j of None \<Rightarrow> (JNull, JNull) | Some (a, k) \<Rightarrow> (JStr a, JStr k)),
     rq_minio_groups = Some (JList (map JStr (cj_minio_groups j))),
     rq_tarball = (case cj_share_directory j of None \<Rightarrow> None | Some d \<Rightarrow> if d = [] then None else Some archive),
     rq_job_id = JStr (case cj_job_id j of None \<Rightarrow> ''untitled-'' @ show_int (re_timestamp re) | Some i \<Rightarrow> i)\<rparr>"
proof -
  define md where "md = client_metadata j port"
  have md: "json_loads (json_dumps (client_metadata j port)) = Inr md"
    unfolding md_def by (rule json_loads_dumps[OF client_metadata_ok])
  have get: "json_get ''version'' md = Inr (JInt 1)" "json_get ''job_id'' md = Inr (opt_json (cj_job_id j))"
    "json_get_or ''minio'' (JObj []) md = Inr (JObj
       [(''credentials'', JObj (case cj_minio_creds j of None \<Rightarrow> [] | Some (a, k) \<Rightarrow> [(''access_key'', JStr a), (''secret_key'', JStr k)])),
        (''groups'', JList (map JStr (cj_minio_groups j)))])"
    "json_get_or ''callback'' (JObj []) md = Inr (JObj ((''port'', JInt port) #
               (case cj_callback_host j of None \<Rightarrow> [] | Some h \<Rightarrow> [(''host'', JStr h)])))"
    unfolding md_def client_metadata_def by (simp_all add: json_get_def json_get_or_def)
  have target: "res_bind (json_get_or ''target'' JNull md) (\<lambda>t.
      res_bind (case md of JObj kvs \<Rightarrow> (if dict_get kvs ''target'' \<noteq> None then override_target t else Inr (job_target job))
            | _ \<Rightarrow> Inr (job_target job)) f) = f (client_target j job)" for f :: "Target \<Rightarrow> JobRequest res"
    unfolding md_def client_metadata_def client_target_def
    by (cases "wants_target j") (simp_all add: json_get_or_def override_target_client)
  have files: "dict_get (hr_files (client_request j port archive addr)) ''metadata'' =
      Some \<lparr>hf_mimetype = ''application/json'', hf_content = json_dumps (client_metadata j port), hf_tar = []\<rparr>"
    "dict_get (hr_files (client_request j port archive addr)) ''job'' = Some \<lparr>hf_mimetype = ''application/x-yaml'', hf_content = cj_desc j, hf_tar = []\<rparr>"
    "dict_get (hr_files (client_request j port archive addr)) ''job_bucket_initial_state_tarball_file'' =
      (case cj_share_directory j of None \<Rightarrow> None | Some d \<Rightarrow> if d = [] then None
       else Some \<lparr>hf_mimetype = ''application/octet-stream'', hf_content = [], hf_tar = archive\<rparr>)"
    by (simp_all add: client_request_def split: option.split)
  have parse: "JobRequest_parse e re (client_request j port archive addr) = parse_v1 re (client_request j port archive addr) md"
    by (simp add: JobRequest_parse_def MultipartJobRequest_def files md get) (simp add: client_request_def)
  show ?thesis
    unfolding parse parse_v1_def
    by (simp add: files get target assms Let_def)
       (simp add: json_get_def json_get_or_def JobRequest_init_def client_request_def opt_json_def split: option.split prod.split)
qed

section \<open>The client shows the session\<close>

text \<open>What the executor sends during a job: explanations and console output.\<close>

datatype session_item = Explain string LogLevel | Console string

primrec item_message :: "datetime \<Rightarrow> session_item \<Rightarrow> Message" where
  "item_message now (Explain t sev) = ControlMessage_create now t sev"
| "item_message now (Console buf) = JobIOMessage_create now buf"

primrec item_text :: "session_item \<Rightarrow> string" where
  "item_text (Explain t sev) = t"
| "item_text (Console buf) = buf"

lemma next_message_frame:
  assumes "json_ok (msg_payload m)" "datetime_valid (msg_date m)" "Message_frame m = Inr f" "segments segs"
  shows "next_message (f # segs) = (Inr m, segs) \<and> f \<noteq> []"
proof -
  obtain hdr where h: "f = hdr @ json_dumps (Message_json m)" "length hdr = 4" using Message_frame_Inr[OF assms(3)] by blast
  have ne: "json_dumps (Message_json m) \<noteq> []" by (simp add: Message_json_def)
  then have long: "4 < length f" using h by simp
  have d: "drop_bytes 4 (f # segs) = drop 4 f # segs" using long by simp
  have "next_message (f # segs) = (Inr m, drop_bytes (length f - 4) (drop_bytes 4 (f # segs)))"
    by (rule next_message_reads[OF assms(1-3), where rest = "concat segs"]) (use assms(4) long d in auto)
  also have "drop_bytes (length f - 4) (drop_bytes 4 (f # segs)) = segs" unfolding d using assms(4) by simp
  finally show ?thesis using long by auto
qed

lemma item_payload:
  "json_ok (msg_payload (item_message now it))" "msg_date (item_message now it) = now"
  by (cases it; simp add: ControlMessage_create_def JobIOMessage_create_def)+

lemma read_item:
  assumes "datetime_valid now" "Message_frame (item_message now it) = Inr f" "segments segs" "cl_socket c = f # segs"
  shows "read_message_v1 e j c = (Inr None, c\<lparr>cl_socket := segs, cl_out := cl_out c @ item_text it\<rparr>)"
proof -
  have "next_message (f # segs) = (Inr (item_message now it), segs)"
    using next_message_frame[OF item_payload(1) _ assms(2,3)] assms(1) by (simp add: item_payload)
  then have r: "on_socket next_message c = (Inr (item_message now it), c\<lparr>cl_socket := segs\<rparr>)"
    using assms(4) by (simp add: on_socket_def)
  show ?thesis
    unfolding read_message_v1_def act_catch_def
    by (cases it)
       (simp_all add: act_bind_def r ControlMessage_create_def ControlMessage_message_def JobIOMessage_create_def JobIOMessage_buffer_def
          json_get_def act_lift_def client_write_def act_modify_def act_return_def)
qed

text \<open>The bucket that is downloaded in the end.\<close>

definition downloaded :: "client_job \<Rightarrow> (string \<times> string) option \<Rightarrow> (json \<times> json) option" where
  "downloaded j bucket =
     (case (bucket, cj_share_directory j) of
        (Some (url, name), Some d) \<Rightarrow> if d = [] then None else Some (JStr url, JStr name)
      | _ \<Rightarrow> None)"

lemma read_session_end:
  assumes "datetime_valid now" "Message_frame (SessionEndMessage_create now st bucket) = Inr g" "segments segs" "cl_socket c = g # segs"
    and "\<forall>url name. cle_mirror e url name = Inr ()" "cl_mirrored c = None"
  shows "read_message_v1 e j c = (Inr (Some st), c\<lparr>cl_socket := segs, cl_mirrored := downloaded j bucket\<rparr>)"
proof -
  let ?m = "SessionEndMessage_create now st bucket"
  have "json_ok (msg_payload ?m)" by (cases bucket) (auto simp: SessionEndMessage_create_def)
  then have "next_message (g # segs) = (Inr ?m, segs)"
    using next_message_frame[OF _ _ assms(2,3)] assms(1) by (simp add: SessionEndMessage_create_def)
  then have r: "on_socket next_message c = (Inr ?m, c\<lparr>cl_socket := segs\<rparr>)"
    using assms(4) by (simp add: on_socket_def)
  have b: "SessionEndMessage_job_bucket ?m = Inr (map_option (\<lambda>(url, name). (JStr url, JStr name)) bucket)"
    "SessionEndMessage_status ?m = Inr st" "msg_type ?m = MSESSION_END"
    by (cases bucket; auto simp: SessionEndMessage_create_def SessionEndMessage_job_bucket_def SessionEndMessage_status_def json_get_def)+
  have h: "handle_end_message e j ?m t = (Inr (), t\<lparr>cl_mirrored := downloaded j bucket\<rparr>)" if "cl_mirrored t = None" for t
    unfolding handle_end_message_def b(1) using that assms(5)
    by (cases t; cases bucket; cases "cj_share_directory j")
       (auto simp: downloaded_def act_lift_def act_return_def act_modify_def act_bind_def)
  show ?thesis
    unfolding read_message_v1_def act_catch_def
    by (simp add: act_bind_def r b h assms(6) act_lift_def act_return_def)
qed

lemma forward_items:
  assumes "datetime_valid now" "list_all2 (\<lambda>it f. Message_frame (item_message now it) = Inr f) items frames" "segments segs"
    and "version \<noteq> 0" "cl_socket c = frames @ segs"
  shows "forward_io e j version (replicate (length items) SocketReady @ evs) c =
    forward_io e j version evs (c\<lparr>cl_socket := segs, cl_out := cl_out c @ concat (map item_text items)\<rparr>)"
  using assms(2,5)
proof (induction items frames arbitrary: c rule: list_all2_induct)
  case Nil
  then show ?case by (cases c) simp
next
  case (Cons it items f frames)
  have "segments frames"
  proof
    assume "[] \<in> set frames"
    then obtain it' where "Message_frame (item_message now it') = Inr []" using Cons.hyps(2) by (auto simp: list_all2_conv_all_nth in_set_conv_nth)
    then show False using Message_frame_Inr by fastforce
  qed
  then have "read_message_v1 e j c = (Inr None, c\<lparr>cl_socket := frames @ segs, cl_out := cl_out c @ item_text it\<rparr>)"
    by (intro read_item[OF assms(1) Cons.hyps(1)]) (use Cons.prems assms(3) in auto)
  then show ?case
    using Cons.IH[of "c\<lparr>cl_socket := frames @ segs, cl_out := cl_out c @ item_text it\<rparr>"] assms(4)
    by (simp add: client_round_def act_bind_def)
qed


text \<open>
  With a server that speaks version 0, a connection that is closed before the end of the
  session was announced leaves the client in its loop, however often the socket is readable.
\<close>

theorem client_v0_never_ends:
  assumes "session_end_search (cl_final_lines c) = None" "cl_socket c = []"
  shows "fst (forward_io e j 0 (replicate n SocketReady) c) = Inr None"
proof -
  have "read_message_v0 c = (Inr None, c)"
    using assms by (cases c) (simp add: read_message_v0_def on_socket_def act_bind_def act_get_def client_write_def act_modify_def act_return_def)
  then show ?thesis by (induction n) (simp_all add: client_round_def act_bind_def act_return_def)
qed

section \<open>An example\<close>

definition example_client_job :: client_job where
  "example_client_job = client_job_init ''version: 1'' True None (Some [''amd'']) None (Some ''my-job'') (Some ''/tmp/share'') None None"

theorem request_roundtrip_witness:
  "case JobRequest_parse example_app_env example_request_env (client_request example_client_job 4000 [] ''10.42.0.1'') of
     Inl _ \<Rightarrow> False
   | Inr rq \<Rightarrow> rq_job_id rq = JStr ''my-job'' \<and> rq_target rq = Target_init None (Some [''amd''])"
proof -
  have j: "cj_job_id example_client_job = Some ''my-job''" "client_target example_client_job small_job = Target_init None (Some [''amd''])"
    by (simp_all add: example_client_job_def client_job_init_def client_target_def wants_target_def)
  have "re_job example_request_env (cj_desc example_client_job) = Inr small_job" by (simp add: example_request_env_def)
  from request_roundtrip[OF this, where e = example_app_env and port = 4000 and archive = "[]" and addr = "''10.42.0.1''"] show ?thesis
    by (simp add: j)
qed

definition example_client_env :: client_env where
  "example_client_env = \<lparr>cle_now = epoch, cle_show = (\<lambda>_. []), cle_mirror = (\<lambda>_ _. Inr ())\<rparr>"


end
