(* ===== verification/Ipxe_Server.thy ===== *)
theory Ipxe_Server
  imports Py_Strings
begin

text \<open>
  The iPXE boot server (\<open>ipxe-boot-server/app.py\<close>): the profile of a client, its scratch space on
  Backblaze, the database of one-time secrets, the templates of the boot configuration and the
  routes of the web server. The Backblaze interface, the file system, Flask's file serving and the
  shell are parameters; randomness and the clock come with each request. The main fact relates the
  database of secrets to its history: a secret is handed out once, before its deadline, and to
  whoever asks first.
\<close>

section \<open>Python texts\<close>

text \<open>\<open>repr\<close> of a text: quoted, with the quote that needs no escape if there is one.\<close>

definition repr_char :: "char \<Rightarrow> char \<Rightarrow> string" where
  "repr_char q c =
     (let bs = CHR 0x5C; n = (of_char c :: nat) in
      if c = q \<or> c = bs then [bs, c]
      else if n = 9 then [bs, CHR ''t''] else if n = 10 then [bs, CHR ''n''] else if n = 13 then [bs, CHR ''r'']
      else if n < 32 \<or> (127 \<le> n \<and> n \<le> 160) \<or> n = 173 then [bs, CHR ''x'', digit_char (n div 16), digit_char (n mod 16)]
      else [c])"

definition py_repr :: "string \<Rightarrow> string" where
  "py_repr s =
     (let q = (if CHR 0x27 \<in> set s \<and> CHR 0x22 \<notin> set s then CHR 0x22 else CHR 0x27)
      in q # concat (map (repr_char q) s) @ [q])"

definition repr_opt :: "string option \<Rightarrow> string" where
  "repr_opt x = (case x of None \<Rightarrow> ''None'' | Some s \<Rightarrow> py_repr s)"

definition opt_str :: "string option \<Rightarrow> string" where
  "opt_str x = (case x of None \<Rightarrow> ''None'' | Some s \<Rightarrow> s)"

text \<open>\<open>os.path.join\<close> of two paths.\<close>

definition os_path_join :: "string \<Rightarrow> string \<Rightarrow> string" where
  "os_path_join a b =
     (if b \<noteq> [] \<and> hd b = CHR ''/'' then b
      else if a = [] \<or> last a = CHR ''/'' then a @ b else a @ ''/'' @ b)"

text \<open>
  \<open>string.Template(s).safe_substitute(params)\<close>: \<open>$$\<close>, \<open>$name\<close> and \<open>${name}\<close>; a name that is not
  known and a stray dollar stay as they are.
\<close>

definition ident_start :: "char \<Rightarrow> bool" where
  "ident_start c = (let n = (of_char c :: nat) in (65 \<le> n \<and> n \<le> 90) \<or> (97 \<le> n \<and> n \<le> 122) \<or> n = 95)"

definition ident_char :: "char \<Rightarrow> bool" where
  "ident_char c = (ident_start c \<or> (let n = (of_char c :: nat) in 48 \<le> n \<and> n \<le> 57))"

text \<open>The placeholder after a dollar: the name, the text it has in the template, and the rest.\<close>

definition scan_placeholder :: "string \<Rightarrow> (string \<times> string \<times> string) option" where
  "scan_placeholder s =
     (case s of
        [] \<Rightarrow> None
      | c # r \<Rightarrow>
          if ident_start c then Some (takeWhile ident_char s, takeWhile ident_char s, dropWhile ident_char s)
          else if c = CHR ''{'' \<and> r \<noteq> [] \<and> ident_start (hd r) then
            (case dropWhile ident_char r of
               d # u \<Rightarrow> if d = CHR ''}'' then Some (takeWhile ident_char r, ''{'' @ takeWhile ident_char r @ ''}'', u) else None
             | [] \<Rightarrow> None)
          else None)"

lemma scan_placeholder_shorter: "scan_placeholder s = Some (n, t, u) \<Longrightarrow> length u < length s"
proof -
  assume h: "scan_placeholder s = Some (n, t, u)"
  obtain c r where s: "s = c # r" using h by (cases s) (auto simp: scan_placeholder_def)
  show ?thesis
  proof (cases "ident_start c")
    case True
    with h s have "u = dropWhile ident_char (c # r)" by (simp add: scan_placeholder_def)
    with True s show ?thesis by (simp add: ident_char_def le_imp_less_Suc length_dropWhile_le)
  next
    case False
    with h s obtain d where "dropWhile ident_char r = d # u"
      by (auto simp: scan_placeholder_def split: if_splits list.splits)
    then have "length u < length (dropWhile ident_char r)" by simp
    also have "\<dots> \<le> length r" by (rule length_dropWhile_le)
    finally show ?thesis using s by simp
  qed
qed

function safe_substitute :: "(string, string) dict \<Rightarrow> string \<Rightarrow> string" where
  "safe_substitute params s =
     (case s of
        [] \<Rightarrow> []
      | c # r \<Rightarrow>
          if c \<noteq> CHR ''$'' then c # safe_substitute params r
          else if r \<noteq> [] \<and> hd r = CHR ''$'' then CHR ''$'' # safe_substitute params (tl r)
          else case scan_placeholder r of
                 None \<Rightarrow> CHR ''$'' # safe_substitute params r
               | Some (name, shown, u) \<Rightarrow>
                   (case dict_get params name of None \<Rightarrow> CHR ''$'' # shown | Some v \<Rightarrow> v) @ safe_substitute params u)"
  by pat_completeness auto
termination
  by (relation "measure (length \<circ> snd)") (auto dest: scan_placeholder_shorter)

declare safe_substitute.simps [simp del]

section \<open>One-time secrets\<close>

record secret_entry =
  expiration :: time
  secret :: string

type_synonym secret_db = "(string, secret_entry) dict"

definition OneTimeSecretDatabase_init :: secret_db where
  "OneTimeSecretDatabase_init = []"

definition OneTimeSecretDatabase_set :: "time \<Rightarrow> string \<Rightarrow> string \<Rightarrow> time \<Rightarrow> secret_db \<Rightarrow> string \<times> secret_db" where
  "OneTimeSecretDatabase_set now token s validity_period db =
     (token, dict_set token \<lparr>expiration = now + validity_period, secret = s\<rparr> db)"

definition OneTimeSecretDatabase_get :: "time \<Rightarrow> string \<Rightarrow> secret_db \<Rightarrow> string option \<times> secret_db" where
  "OneTimeSecretDatabase_get now token db =
     (case dict_get db token of
        Some entry \<Rightarrow> (if expiration entry > now then Some (secret entry) else None, dict_del token db)
      | None \<Rightarrow> (None, db))"

text \<open>
  The contract: the secrets as a function of what happened, latest event first. A secret can be
  had under its token before its deadline, unless somebody asked for the token since, whatever
  the answer was.
\<close>

datatype secret_event = Issued time time string string | Asked time string

fun secret_available :: "secret_event list \<Rightarrow> time \<Rightarrow> string \<Rightarrow> string option" where
  "secret_available [] now t = None"
| "secret_available (Issued at validity t' s # h) now t =
     (if t' = t then (if now < at + validity then Some s else None) else secret_available h now t)"
| "secret_available (Asked at t' # h) now t = (if t' = t then None else secret_available h now t)"

locale secret_store =
  fixes init :: 's
    and store :: "time \<Rightarrow> string \<Rightarrow> string \<Rightarrow> time \<Rightarrow> 's \<Rightarrow> string \<times> 's"
    and fetch :: "time \<Rightarrow> string \<Rightarrow> 's \<Rightarrow> string option \<times> 's"
  assumes fetch_init: "fst (fetch now t init) = None"
    and fetch_stored: "fst (fetch now t (snd (store at t' x d s))) =
      (if t' = t then (if now < at + d then Some x else None) else fst (fetch now t s))"
    and fetch_fetched: "fst (fetch now t (snd (fetch at t' s))) = (if t' = t then None else fst (fetch now t s))"
begin

fun replay :: "secret_event list \<Rightarrow> 's" where
  "replay [] = init"
| "replay (Issued at d t x # h) = snd (store at t x d (replay h))"
| "replay (Asked at t # h) = snd (fetch at t (replay h))"

lemma fetch_replay: "fst (fetch now t (replay h)) = secret_available h now t"
proof (induction h)
  case Nil
  show ?case by (simp add: fetch_init)
next
  case (Cons ev h)
  then show ?case by (cases ev) (simp_all add: fetch_stored fetch_fetched)
qed

end

interpretation ots: secret_store OneTimeSecretDatabase_init OneTimeSecretDatabase_set OneTimeSecretDatabase_get
  by unfold_locales
    (auto simp: OneTimeSecretDatabase_init_def OneTimeSecretDatabase_set_def OneTimeSecretDatabase_get_def
      split: option.splits)

section \<open>Clients and their scratch space\<close>

record BbzBucket =
  endpoint :: string
  access_key :: string
  access_key_id :: string
  bucket_name :: string

record ClientProfile =
  cp_ip_address :: "string option"
  cp_mac_address :: "string option"
  cp_platform :: "string option"
  cp_buildarch :: "string option"
  cert_serial_number :: "string option"
  cert_fingerprint :: "string option"

text \<open>The text of a profile, which a template may refer to.\<close>

definition ClientProfile_repr :: "ClientProfile \<Rightarrow> string" where
  "ClientProfile_repr p =
     ''ClientProfile(ip_address='' @ repr_opt (cp_ip_address p) @ '', mac_address='' @ repr_opt (cp_mac_address p) @
     '', platform='' @ repr_opt (cp_platform p) @ '', buildarch='' @ repr_opt (cp_buildarch p) @
     '', client_cert_serial_number='' @ repr_opt (cert_serial_number p) @
     '', client_cert_fingerprint='' @ repr_opt (cert_fingerprint p) @ '')''"

record b2_key =
  key_name :: string
  key_id :: string

type_synonym http_response = "int \<times> string"

text \<open>The configuration of the server and what is outside of it.\<close>

record 'w ipxe_env =
  ie_data_root :: string
  ie_base_url :: string
  ie_b2_prefix :: string
  ie_secrets_expiration :: time
  ie_get_bucket :: "string \<Rightarrow> ('w, bool) act"
  ie_create_bucket :: "string \<Rightarrow> ('w, unit) act"
  ie_list_keys :: "('w, b2_key list) act"
  ie_delete_key :: "b2_key \<Rightarrow> ('w, unit) act"
  ie_create_key :: "string \<Rightarrow> ('w, b2_key \<times> string) act"
  ie_s3_url :: string
  ie_read_file :: "string \<Rightarrow> ('w, string) act"
  ie_send_file :: "string \<Rightarrow> string \<Rightarrow> ('w, http_response) act"
  ie_run :: "string \<Rightarrow> string \<Rightarrow> ('w, string) act"
  ie_exc_text :: "py_exc \<Rightarrow> string"

definition files_prefix :: "'w ipxe_env \<Rightarrow> ClientProfile \<Rightarrow> string res" where
  "files_prefix e p = (case cert_fingerprint p of None \<Rightarrow> Inl TypeError | Some f \<Rightarrow> Inr (os_path_join (ie_data_root e) f))"

definition scratch_bucket_name :: "string \<Rightarrow> ClientProfile \<Rightarrow> string" where
  "scratch_bucket_name server_name p = take 50 (''ipxe-'' @ server_name @ ''-'' @ opt_str (cert_fingerprint p))"

definition scratch_key_name :: "string \<Rightarrow> ClientProfile \<Rightarrow> string" where
  "scratch_key_name server_name p = take 100 (''ipxe-'' @ server_name @ ''-'' @ opt_str (cert_fingerprint p))"

definition get_scratch_space_on_b2 :: "'w ipxe_env \<Rightarrow> ClientProfile \<Rightarrow> ('w, BbzBucket) act" where
  "get_scratch_space_on_b2 e p =
     (let name = scratch_bucket_name (ie_b2_prefix e) p; kname = scratch_key_name (ie_b2_prefix e) p in
      act_bind (ie_get_bucket e name) (\<lambda>found.
      act_bind (if found then act_return () else ie_create_bucket e name) (\<lambda>_.
      act_bind (ie_list_keys e) (\<lambda>keys.
      act_bind (act_iter (\<lambda>k. if key_name k = kname then ie_delete_key e k else act_return ()) keys) (\<lambda>_.
      act_bind (ie_create_key e kname) (\<lambda>(k, app_key).
        act_return \<lparr>endpoint = ie_s3_url e, access_key = app_key, access_key_id = key_id k, bucket_name = name\<rparr>))))))"

definition conf_params :: "ClientProfile \<Rightarrow> BbzBucket \<Rightarrow> string option \<Rightarrow> (string, string) dict" where
  "conf_params p b secrets_url =
     [(''s3_endpoint'', endpoint b), (''s3_access_key_id'', access_key_id b), (''s3_access_key'', access_key b),
      (''s3_bucket_name'', bucket_name b), (''client_cert_fingerprint'', opt_str (cert_fingerprint p)),
      (''client'', ClientProfile_repr p), (''secrets_url'', opt_str secrets_url)]"

definition gen_conf :: "'w ipxe_env \<Rightarrow> string \<Rightarrow> ClientProfile \<Rightarrow> BbzBucket \<Rightarrow> string option \<Rightarrow> ('w, string) act" where
  "gen_conf e template_name p b secrets_url =
     act_bind (act_lift (files_prefix e p)) (\<lambda>dir.
     act_bind (ie_read_file e (os_path_join dir template_name)) (\<lambda>text.
       act_return (safe_substitute (conf_params p b secrets_url) text)))"

section \<open>The web server\<close>

record 'w ipxe_server =
  is_secrets :: secret_db
  is_world :: 'w

definition outside :: "('w, 'a) act \<Rightarrow> ('w ipxe_server, 'a) act" where
  "outside m s = (let (r, w) = m (is_world s) in (r, s\<lparr>is_world := w\<rparr>))"

text \<open>
  A request: its headers and arguments, by the names the server uses, the address of the peer, the
  time it is handled at and the random token \<open>token_urlsafe\<close> returns if it is asked for one.
\<close>

record web_request =
  rq_headers :: "(string, string) dict"
  rq_args :: "(string, string) dict"
  rq_remote_addr :: string
  rq_now :: time
  rq_token :: string

definition gen_client_profile :: "web_request \<Rightarrow> ClientProfile" where
  "gen_client_profile rq =
     \<lparr>cp_ip_address = Some (dict_get_or (rq_headers rq) ''X-Real-Ip'' (rq_remote_addr rq)),
      cp_mac_address = dict_get (rq_args rq) ''mac'', cp_platform = dict_get (rq_args rq) ''platform'',
      cp_buildarch = dict_get (rq_args rq) ''buildarch'',
      cert_serial_number = dict_get (rq_headers rq) ''X-Ssl-Client-Serial'',
      cert_fingerprint = dict_get (rq_headers rq) ''X-Ssl-Client-Fingerprint''\<rparr>"

definition no_certificate :: http_response where
  "no_certificate = (403, ''The server requires a client certificate'')"

text \<open>The first \<open>try\<close> of \<open>ipxe\<close>: the address of the secrets, or none if anything fails.\<close>

definition publish_secrets :: "'w ipxe_env \<Rightarrow> web_request \<Rightarrow> ClientProfile \<Rightarrow> BbzBucket \<Rightarrow> ('w ipxe_server, string option) act" where
  "publish_secrets e rq p b =
     act_catch
       (act_bind (outside (gen_conf e ''secrets'' p b None)) (\<lambda>conf s.
          let (token, db) = OneTimeSecretDatabase_set (rq_now rq) (rq_token rq) conf (ie_secrets_expiration e) (is_secrets s)
          in (Inr (Some (ie_base_url e @ ''/secrets/'' @ token)), s\<lparr>is_secrets := db\<rparr>)))
       (\<lambda>_. act_return None)"

definition ipxe :: "'w ipxe_env \<Rightarrow> web_request \<Rightarrow> ('w ipxe_server, http_response) act" where
  "ipxe e rq =
     (let p = gen_client_profile rq in
      if cert_fingerprint p = None then act_return no_certificate
      else
        act_bind (outside (get_scratch_space_on_b2 e p)) (\<lambda>b.
        act_bind (publish_secrets e rq p b) (\<lambda>url.
          act_catch
            (act_bind (outside (gen_conf e ''boot.ipxe'' p b url)) (\<lambda>conf. act_return (200, conf)))
            (\<lambda>err. act_return (200, ''#!ipxe'' @ [CHR 0x0A] @ ''echo Server Error '' @ ie_exc_text e err)))))"

definition files :: "'w ipxe_env \<Rightarrow> web_request \<Rightarrow> string \<Rightarrow> ('w ipxe_server, http_response) act" where
  "files e rq path =
     (let p = gen_client_profile rq in
      if cert_fingerprint p = None then act_return no_certificate
      else act_bind (act_lift (files_prefix e p)) (\<lambda>dir. outside (ie_send_file e dir path)))"

definition secrets :: "web_request \<Rightarrow> string \<Rightarrow> ('w ipxe_server, http_response) act" where
  "secrets rq token s =
     (let (r, db) = OneTimeSecretDatabase_get (rq_now rq) token (is_secrets s)
      in (Inr (case r of Some x \<Rightarrow> if x \<noteq> [] then (200, x) else (404, []) | None \<Rightarrow> (404, [])), s\<lparr>is_secrets := db\<rparr>))"

text \<open>\<open>subprocess.run\<close> raises no \<open>CalledProcessError\<close> here, as it is not asked to check the result.\<close>

definition reset_cmd :: string where
  "reset_cmd = ''git reset --hard '' @ [CHR 0x22, CHR 0x60] @ ''git branch --format '' @ [CHR 0x22] @ ''%(upstream:short)'' @
     [CHR 0x22, CHR 0x60, CHR 0x22]"

definition update_cfg :: "'w ipxe_env \<Rightarrow> ('w ipxe_server, http_response) act" where
  "update_cfg e =
     act_bind (outside (ie_run e (ie_data_root e) ''git fetch'')) (\<lambda>fetched.
     act_bind (outside (ie_run e (ie_data_root e) reset_cmd)) (\<lambda>reset.
       act_return (200, ''$ git fetch'' @ [CHR 0x0A] @ fetched @ [CHR 0x0A] @ ''$ '' @ reset_cmd @ [CHR 0x0A] @ reset)))"

datatype route = R_ipxe | R_files string | R_secrets string | R_update_cfg

definition route_action :: "'w ipxe_env \<Rightarrow> route \<Rightarrow> web_request \<Rightarrow> ('w ipxe_server, http_response) act" where
  "route_action e r rq =
     (case r of R_ipxe \<Rightarrow> ipxe e rq | R_files path \<Rightarrow> files e rq path | R_secrets t \<Rightarrow> secrets rq t
      | R_update_cfg \<Rightarrow> update_cfg e)"

text \<open>An exception of a handler is an internal error.\<close>

definition serve :: "'w ipxe_env \<Rightarrow> route \<times> web_request \<Rightarrow> 'w ipxe_server \<Rightarrow> http_response \<times> 'w ipxe_server" where
  "serve e rr s =
     (case route_action e (fst rr) (snd rr) s of (Inr r, s') \<Rightarrow> (r, s') | (Inl _, s') \<Rightarrow> ((500, []), s'))"

fun serve_all :: "'w ipxe_env \<Rightarrow> (route \<times> web_request) list \<Rightarrow> 'w ipxe_server \<Rightarrow> 'w ipxe_server" where
  "serve_all e [] s = s"
| "serve_all e (rr # rrs) s = serve_all e rrs (snd (serve e rr s))"

definition server_name_validator :: "string \<Rightarrow> string res" where
  "server_name_validator v =
     (if length v < 3 \<or> length v > 25 then Inl (ValueError ''The server name length should be 3 to 25 characters long'')
      else Inr v)"

section \<open>Secrets over a run of the server\<close>

text \<open>The secrets a request for a boot configuration stores, if it comes that far.\<close>

definition issued_conf :: "'w ipxe_env \<Rightarrow> web_request \<Rightarrow> 'w ipxe_server \<Rightarrow> string option" where
  "issued_conf e rq s =
     (let p = gen_client_profile rq in
      if cert_fingerprint p = None then None
      else case get_scratch_space_on_b2 e p (is_world s) of
             (Inl _, w) \<Rightarrow> None
           | (Inr b, w) \<Rightarrow> (case fst (gen_conf e ''secrets'' p b None w) of Inl _ \<Rightarrow> None | Inr conf \<Rightarrow> Some conf))"

definition secret_events :: "'w ipxe_env \<Rightarrow> route \<times> web_request \<Rightarrow> 'w ipxe_server \<Rightarrow> secret_event list" where
  "secret_events e rr s =
     (case fst rr of
        R_secrets t \<Rightarrow> [Asked (rq_now (snd rr)) t]
      | R_ipxe \<Rightarrow>
          (case issued_conf e (snd rr) s of
             None \<Rightarrow> []
           | Some conf \<Rightarrow> [Issued (rq_now (snd rr)) (ie_secrets_expiration e) (rq_token (snd rr)) conf])
      | _ \<Rightarrow> [])"

text \<open>The events of a run, latest first.\<close>

fun history :: "'w ipxe_env \<Rightarrow> (route \<times> web_request) list \<Rightarrow> 'w ipxe_server \<Rightarrow> secret_event list \<Rightarrow> secret_event list" where
  "history e [] s h = h"
| "history e (rr # rrs) s h = history e rrs (snd (serve e rr s)) (secret_events e rr s @ h)"

lemma outside_secrets [frame_simps]: "is_secrets (snd (outside m s)) = is_secrets s"
  by (simp add: outside_def split: prod.splits)

lemma fst_outside: "fst (outside m s) = fst (m (is_world s))"
  by (simp add: outside_def split: prod.splits)

lemma world_outside: "is_world (snd (outside m s)) = snd (m (is_world s))"
  by (simp add: outside_def split: prod.splits)

definition same_secrets :: "'w ipxe_server \<Rightarrow> 'w ipxe_server \<Rightarrow> bool" where
  "same_secrets s t \<longleftrightarrow> is_secrets t = is_secrets s"

interpretation sec: act_preorder same_secrets
  by unfold_locales (simp_all add: same_secrets_def)

lemma within_outside: "act_within same_secrets (outside m)"
  by (simp add: act_within_def same_secrets_def outside_secrets)

lemma files_secrets: "is_secrets (snd (files e rq path s)) = is_secrets s"
proof -
  have "act_within same_secrets (files e rq path)"
    unfolding files_def Let_def by (intro sec.within_intros within_outside)
  then show ?thesis by (simp add: act_within_def same_secrets_def)
qed

lemma update_cfg_secrets: "is_secrets (snd (update_cfg e s)) = is_secrets s"
proof -
  have "act_within same_secrets (update_cfg e)"
    unfolding update_cfg_def by (intro sec.within_intros within_outside)
  then show ?thesis by (simp add: act_within_def same_secrets_def)
qed

text \<open>The second part of \<open>ipxe\<close>, with the boot configuration, leaves the secrets alone.\<close>

lemma boot_conf_secrets:
  "is_secrets (snd (act_catch (act_bind (outside m) (\<lambda>x. act_return (f x))) (\<lambda>x. act_return (g x)) s)) = is_secrets s"
proof -
  have "act_within same_secrets (act_catch (act_bind (outside m) (\<lambda>x. act_return (f x))) (\<lambda>x. act_return (g x)))"
    by (intro sec.within_intros within_outside)
  then show ?thesis by (simp add: act_within_def same_secrets_def)
qed

lemma publish_secrets_db:
  "is_secrets (snd (publish_secrets e rq p b s)) =
     (case fst (gen_conf e ''secrets'' p b None (is_world s)) of
        Inl _ \<Rightarrow> is_secrets s
      | Inr conf \<Rightarrow> snd (OneTimeSecretDatabase_set (rq_now rq) (rq_token rq) conf (ie_secrets_expiration e) (is_secrets s)))"
  and publish_secrets_ok: "\<exists>url. fst (publish_secrets e rq p b s) = Inr url"
  unfolding publish_secrets_def outside_def act_catch_def act_bind_def act_return_def
  by (auto split: prod.splits sum.splits)

lemma ipxe_secrets:
  "is_secrets (snd (ipxe e rq s)) =
     (case issued_conf e rq s of
        None \<Rightarrow> is_secrets s
      | Some conf \<Rightarrow> snd (OneTimeSecretDatabase_set (rq_now rq) (rq_token rq) conf (ie_secrets_expiration e) (is_secrets s)))"
proof (cases "cert_fingerprint (gen_client_profile rq)")
  case None
  then show ?thesis by (simp add: ipxe_def issued_conf_def act_return_def)
next
  case (Some f)
  let ?p = "gen_client_profile rq"
  let ?m = "outside (get_scratch_space_on_b2 e ?p)"
  show ?thesis
  proof (cases "fst (?m s)")
    case (Inl x)
    then have "snd (ipxe e rq s) = snd (?m s)"
      using Some by (simp add: ipxe_def Let_def act_bind_err)
    moreover have "issued_conf e rq s = None"
      using Inl Some by (auto simp: issued_conf_def Let_def fst_outside split: prod.splits)
    ultimately show ?thesis by (simp add: outside_secrets)
  next
    case (Inr b)
    let ?s = "snd (?m s)"
    obtain url where url: "fst (publish_secrets e rq ?p b ?s) = Inr url" using publish_secrets_ok by blast
    have "is_secrets (snd (ipxe e rq s)) = is_secrets (snd (publish_secrets e rq ?p b ?s))"
      using Some Inr url by (simp add: ipxe_def Let_def act_bind_ok boot_conf_secrets)
    moreover have "issued_conf e rq s =
        (case fst (gen_conf e ''secrets'' ?p b None (is_world ?s)) of Inl _ \<Rightarrow> None | Inr conf \<Rightarrow> Some conf)"
      using Inr Some by (auto simp: issued_conf_def Let_def fst_outside world_outside split: prod.splits)
    ultimately show ?thesis
      by (simp add: publish_secrets_db outside_secrets split: sum.splits)
  qed
qed

lemma serve_secrets:
  assumes "is_secrets s = ots.replay h"
  shows "is_secrets (snd (serve e rr s)) = ots.replay (secret_events e rr s @ h)"
proof -
  have serve: "snd (serve e rr s) = snd (route_action e (fst rr) (snd rr) s)"
    by (simp add: serve_def split: prod.splits sum.splits)
  show ?thesis
  proof (cases "fst rr")
    case R_ipxe
    then show ?thesis
      using assms by (simp add: serve route_action_def ipxe_secrets secret_events_def split: option.splits)
  next
    case (R_files path)
    then show ?thesis using assms by (simp add: serve route_action_def files_secrets secret_events_def)
  next
    case (R_secrets t)
    then show ?thesis
      using assms by (simp add: serve route_action_def secrets_def secret_events_def split: prod.splits)
  next
    case R_update_cfg
    then show ?thesis using assms by (simp add: serve route_action_def update_cfg_secrets secret_events_def)
  qed
qed

lemma serve_all_secrets:
  "is_secrets s = ots.replay h \<Longrightarrow> is_secrets (serve_all e rrs s) = ots.replay (history e rrs s h)"
  by (induction rrs arbitrary: s h) (simp_all add: serve_secrets)

definition secret_answer :: "string option \<Rightarrow> http_response" where
  "secret_answer r = (case r of Some x \<Rightarrow> if x \<noteq> [] then (200, x) else (404, []) | None \<Rightarrow> (404, []))"

lemma serve_secret:
  assumes "is_secrets s = ots.replay h"
  shows "fst (serve e (R_secrets t, rq) s) = secret_answer (secret_available h (rq_now rq) t)"
  using ots.fetch_replay [of "rq_now rq" t h] assms
  by (cases "OneTimeSecretDatabase_get (rq_now rq) t (is_secrets s)")
    (simp add: serve_def route_action_def secrets_def secret_answer_def)

text \<open>
  C11. The server refines the contract of its secrets: after any requests, in any order, from any
  clients and with any clock, a request for a token is answered with the secret that is available
  under it according to the history alone, and with a 404 if there is none or if it is empty.
\<close>

theorem secrets_refine_history:
  "fst (serve e (R_secrets t, rq) (serve_all e rrs \<lparr>is_secrets = OneTimeSecretDatabase_init, is_world = w\<rparr>)) =
     secret_answer
       (secret_available (history e rrs \<lparr>is_secrets = OneTimeSecretDatabase_init, is_world = w\<rparr> []) (rq_now rq) t)"
  by (intro serve_secret serve_all_secrets) simp

text \<open>Whoever asks for a secret takes it away: without a new issue, the next request gets a 404.\<close>

lemma secret_taken_once:
  assumes "is_secrets s = ots.replay h"
  shows "fst (serve e (R_secrets t, rq') (snd (serve e (R_secrets t, rq) s))) = (404, [])"
proof -
  have "is_secrets (snd (serve e (R_secrets t, rq) s)) = ots.replay (Asked (rq_now rq) t # h)"
    using serve_secrets [OF assms, of e "(R_secrets t, rq)"] by (simp add: secret_events_def)
  from serve_secret [OF this] show ?thesis by (simp add: secret_answer_def)
qed

text \<open>Nothing is served from a certificate's directory without the certificate.\<close>

lemma boot_needs_certificate:
  "dict_get (rq_headers rq) ''X-Ssl-Client-Fingerprint'' = None \<Longrightarrow>
     serve e (R_ipxe, rq) s = (no_certificate, s) \<and> serve e (R_files path, rq) s = (no_certificate, s)"
  by (simp add: serve_def route_action_def ipxe_def files_def gen_client_profile_def act_return_def Let_def)

text \<open>
  With a server name of 25 characters, the longest allowed, the name of a bucket keeps 19 characters
  of the fingerprint: clients that agree on them share a bucket.
\<close>

lemma bucket_name_keeps_19:
  assumes "length server_name = 25"
  shows "scratch_bucket_name server_name p =
    ''ipxe-'' @ server_name @ ''-'' @ take 19 (opt_str (cert_fingerprint p))"
  using assms by (simp add: scratch_bucket_name_def)

end
