(* ===== verification/Gfxinfo.thy ===== *)
theory Gfxinfo
  imports Json "HOL-Library.Word"
begin

text \<open>
  Identification of the GPU of a machine (\<open>gfxinfo\<close>): the tables of the AMD driver and of the
  marketing names, the classification of AMD, Intel and virtual GPUs, the tags derived from it, and
  what is read from Vulkan. The tags are what jobs select machines by.
\<close>

unbundle bit_operations_syntax

section \<open>AMD GPUs\<close>

record AMDGPU =
  ag_vendor_id :: int
  ag_product_id :: int
  ag_revision :: int
  ag_marketing_name :: "string option"
  is_APU :: bool
  is_Mobility :: bool
  has_experimental_support :: bool
  amdgpu_codename :: "string option"

definition codenames :: "(string, string) dict" where
  "codenames =
     [(''SIENNA_CICHLID'', ''NAVI21''), (''NAVY_FLOUNDER'', ''NAVI22''), (''DIMGREY_CAVEFISH'', ''NAVI23''),
      (''BEIGE_GOBY'', ''NAVI24''), (''YELLOW_CARP'', ''REMBRANDT'')]"

definition families :: "(string, string) dict" where
  "families =
     [(''TAHITI'', ''SI''), (''PITCAIRN'', ''SI''), (''VERDE'', ''SI''), (''OLAND'', ''SI''), (''HAINAN'', ''SI''),
      (''BONAIRE'', ''CI''), (''HAWAII'', ''CI''), (''KAVERI'', ''CI''), (''KABINI'', ''KV''), (''TONGA'', ''VI''),
      (''FIJI'', ''VI''), (''POLARIS10'', ''VI''), (''POLARIS11'', ''VI''), (''POLARIS12'', ''VI''),
      (''VEGAM'', ''VI''), (''CARRIZO'', ''CZ''), (''STONEY'', ''CZ''), (''VEGA10'', ''AI''), (''VEGA12'', ''AI''),
      (''VEGA20'', ''AI''), (''ARCTURUS'', ''AI''), (''RAVEN'', ''RV''), (''RENOIR'', ''RV''), (''NAVI10'', ''NV''),
      (''NAVI12'', ''NV''), (''NAVI14'', ''NV''), (''MULLINS'', ''UNK''), (''TOPAZ'', ''UNK''),
      (''CYAN_SKILLFISH'', ''UNK''), (''NAVI21'', ''UNK''), (''VANGOGH'', ''UNK''), (''NAVI22'', ''UNK''),
      (''NAVI23'', ''UNK''), (''NAVI24'', ''UNK''), (''REMBRANDT'', ''UNK''), (''ALDEBARAN'', ''UNK'')]"

definition architectures :: "(string, string) dict" where
  "architectures =
     [(''TAHITI'', ''GCN1''), (''PITCAIRN'', ''GCN1''), (''VERDE'', ''GCN1''), (''OLAND'', ''GCN1''),
      (''HAINAN'', ''GCN1''), (''KAVERI'', ''GCN2''), (''BONAIRE'', ''GCN2''), (''HAWAII'', ''GCN2''),
      (''KABINI'', ''GCN2''), (''MULLINS'', ''GCN2''), (''TOPAZ'', ''GCN3''), (''TONGA'', ''GCN3''),
      (''FIJI'', ''GCN3''), (''CARRIZO'', ''GCN3''), (''STONEY'', ''GCN3''), (''POLARIS10'', ''GCN4''),
      (''POLARIS11'', ''GCN4''), (''POLARIS12'', ''GCN4''), (''VEGAM'', ''GCN4''), (''VEGA10'', ''GCN5''),
      (''VEGA12'', ''GCN5''), (''RAVEN'', ''GCN5''), (''VEGA20'', ''GCN5.1''), (''RENOIR'', ''GCN5.1''),
      (''ARCTURUS'', ''CDNA''), (''ALDEBARAN'', ''CDNA2''), (''NAVI10'', ''RDNA1''), (''NAVI12'', ''RDNA1''),
      (''NAVI14'', ''RDNA1''), (''CYAN_SKILLFISH'', ''RDNA1''), (''NAVI21'', ''RDNA2''), (''NAVI22'', ''RDNA2''),
      (''NAVI23'', ''RDNA2''), (''NAVI24'', ''RDNA2''), (''VANGOGH'', ''RDNA2''), (''REMBRANDT'', ''RDNA2'')]"

definition gfx_versions :: "(string, string) dict" where
  "gfx_versions =
     [(''GCN1'', ''gfx6''), (''GCN2'', ''gfx7''), (''GCN3'', ''gfx8''), (''GCN4'', ''gfx8''), (''GCN5'', ''gfx9''),
      (''GCN5.1'', ''gfx9''), (''CDNA'', ''gfx9''), (''CDNA2'', ''gfx9''), (''RDNA1'', ''gfx10''),
      (''RDNA2'', ''gfx10'')]"

definition codename_of :: "string \<Rightarrow> string" where
  "codename_of c = dict_get_or codenames c c"

text \<open>The properties of a GPU; without a \<open>CHIP_\<close> flag the attribute is missing.\<close>

definition codename :: "AMDGPU \<Rightarrow> string res" where
  "codename g = (case amdgpu_codename g of None \<Rightarrow> Inl AttributeError | Some c \<Rightarrow> Inr (codename_of c))"

definition family :: "AMDGPU \<Rightarrow> string option res" where
  "family g = res_bind (codename g) (\<lambda>c. Inr (dict_get families c))"

definition architecture :: "AMDGPU \<Rightarrow> string option res" where
  "architecture g = res_bind (codename g) (\<lambda>c. Inr (dict_get architectures c))"

definition gfx_version :: "AMDGPU \<Rightarrow> string option res" where
  "gfx_version g = res_bind (architecture g) (\<lambda>a. Inr (case a of None \<Rightarrow> None | Some x \<Rightarrow> dict_get gfx_versions x))"

definition apply_flag :: "string \<Rightarrow> AMDGPU \<Rightarrow> AMDGPU" where
  "apply_flag flag g =
     (if prefix ''CHIP_'' flag then g\<lparr>amdgpu_codename := Some (drop 5 flag)\<rparr>
      else if flag = ''AMD_IS_APU'' then g\<lparr>is_APU := True\<rparr>
      else if flag = ''AMD_IS_MOBILITY'' then g\<lparr>is_Mobility := True\<rparr>
      else if flag = ''AMD_EXP_HW_SUPPORT'' then g\<lparr>has_experimental_support := True\<rparr>
      else g)"

text \<open>\<open>AMDGPU(...)\<close>: \<open>flags.split\<close> fails without flags, and the checks at the end need a code name.\<close>

definition AMDGPU_init :: "int \<Rightarrow> int \<Rightarrow> int \<Rightarrow> string option \<Rightarrow> string option \<Rightarrow> AMDGPU res" where
  "AMDGPU_init vendor product rev' name flags =
     (case flags of
        None \<Rightarrow> Inl AttributeError
      | Some fs \<Rightarrow>
          let g = fold apply_flag (map str_strip (str_split CHR ''|'' fs))
                    \<lparr>ag_vendor_id = vendor, ag_product_id = product, ag_revision = rev', ag_marketing_name = name, is_APU = False,
                     is_Mobility = False, has_experimental_support = False, amdgpu_codename = None\<rparr>
          in res_bind (architecture g) (\<lambda>_. res_bind (family g) (\<lambda>_. res_bind (gfx_version g) (\<lambda>_. Inr g))))"

definition show_opt :: "string option \<Rightarrow> string" where
  "show_opt x = (case x of None \<Rightarrow> ''None'' | Some s \<Rightarrow> s)"

definition pciid_text :: "int \<Rightarrow> int \<Rightarrow> string" where
  "pciid_text vendor product = py_hex vendor @ '':'' @ py_hex product"

text \<open>The tags, in the order in which they are added to the set.\<close>

definition amdgpu_tags :: "AMDGPU \<Rightarrow> string list res" where
  "amdgpu_tags g =
     res_bind (family g) (\<lambda>f. res_bind (codename g) (\<lambda>c. res_bind (architecture g) (\<lambda>a. res_bind (gfx_version g) (\<lambda>v.
       Inr ([''amdgpu:pciid:'' @ pciid_text (ag_vendor_id g) (ag_product_id g), ''amdgpu:family:'' @ show_opt f, ''amdgpu:codename:'' @ c,
             ''amdgpu:architecture:'' @ show_opt a, ''amdgpu:gfxversion:'' @ show_opt v] @
            (if is_APU g then [''amdgpu:APU''] else []) @
            (if has_experimental_support g then [''amdgpu:EXP_HW_SUPPORT''] else []))))))"

definition opt_text :: "string option \<Rightarrow> json" where
  "opt_text x = (case x of None \<Rightarrow> JNull | Some s \<Rightarrow> JStr s)"

definition amdgpu_structured_tags :: "AMDGPU \<Rightarrow> json res" where
  "amdgpu_structured_tags g =
     res_bind (family g) (\<lambda>f. res_bind (codename g) (\<lambda>c. res_bind (architecture g) (\<lambda>a. res_bind (gfx_version g) (\<lambda>v.
       Inr (JObj [(''type'', JStr ''amdgpu''), (''pciid'', JStr (pciid_text (ag_vendor_id g) (ag_product_id g))), (''family'', opt_text f),
                  (''codename'', JStr c), (''architecture'', opt_text a), (''gfxversion'', opt_text v),
                  (''marketing_name'', opt_text (ag_marketing_name g)), (''APU'', JBool (is_APU g)),
                  (''EXP_HW_SUPPORT'', JBool (has_experimental_support g))])))))"

section \<open>The databases\<close>

record AmdGpuDrvDev =
  dd_vendor_id :: int
  dd_product_id :: int
  dd_flags :: "string option"

record AmdGpuId =
  gi_product_id :: int
  gi_revision :: int
  gi_marketing_name :: string

definition drv_key :: "int \<Rightarrow> int \<Rightarrow> int" where
  "drv_key vendor product = push_bit 16 vendor OR product"

record AmdGpuDeviceDB =
  is_up_to_date :: bool
  amdgpu_drv_devs :: "(int, AmdGpuDrvDev) dict"
  amdgpu_ids_devs :: "(int \<times> int, AmdGpuId) dict"

text \<open>\<open>int(s, 16)\<close>\<close>

definition py_int16 :: "string \<Rightarrow> int res" where
  "py_int16 s =
     (let t = str_strip s;
          (neg, u) = (case t of [] \<Rightarrow> (False, [])
                      | c # r \<Rightarrow> if c = CHR ''-'' then (True, r) else if c = CHR ''+'' then (False, r) else (False, t));
          v = (if prefix ''0x'' u \<or> prefix ''0X'' u then (if prefix ''_'' (drop 2 u) then drop 3 u else drop 2 u) else u)
      in case Option.bind (strip_underscores v) (read_base 16) of
           None \<Rightarrow> Inl (ValueError ''invalid literal for int() with base 16'')
         | Some n \<Rightarrow> Inr (if neg then - int n else int n))"

text \<open>The pieces of the regular expression for a line of the driver's table.\<close>

definition skip_space :: "string \<Rightarrow> string" where
  "skip_space s = dropWhile py_isspace s"

definition expect :: "string \<Rightarrow> string \<Rightarrow> string option" where
  "expect p s = (if prefix p s then Some (drop (length p) s) else None)"

definition hex_digit :: "char \<Rightarrow> bool" where
  "hex_digit c = (case char_digit c of None \<Rightarrow> False | Some d \<Rightarrow> d < 16)"

definition hex_field :: "string \<Rightarrow> (int \<times> string) option" where
  "hex_field s =
     Option.bind (expect ''0x'' s) (\<lambda>r.
       let ds = takeWhile hex_digit r in
       case read_base 16 ds of
         None \<Rightarrow> None
       | Some n \<Rightarrow> map_option (\<lambda>t. (int n, t)) (expect '','' (drop (length ds) r)))"

definition drv_flags :: "string \<Rightarrow> string option" where
  "drv_flags s =
     (let u = rev (skip_space (rev s)) in
      if 2 \<le> length u \<and> drop (length u - 2) u = ''},'' then Some (take (length u - 2) u) else None)"

definition parse_drv_line :: "string \<Rightarrow> AmdGpuDrvDev option" where
  "parse_drv_line line =
     Option.bind (expect ''{'' (skip_space line)) (\<lambda>r1.
     Option.bind (hex_field r1) (\<lambda>(vendor, r2).
     Option.bind (hex_field (skip_space r2)) (\<lambda>(product, r3).
     Option.bind (expect ''PCI_ANY_ID,'' (skip_space r3)) (\<lambda>r4.
     Option.bind (expect ''PCI_ANY_ID,'' (skip_space r4)) (\<lambda>r5.
     Option.bind (expect ''0,'' (skip_space r5)) (\<lambda>r6.
     Option.bind (expect ''0,'' (skip_space r6)) (\<lambda>r7.
     Option.bind (drv_flags (skip_space r7)) (\<lambda>flags.
       Some \<lparr>dd_vendor_id = vendor, dd_product_id = product, dd_flags = (if flags = [] then None else Some flags)\<rparr>))))))))"

definition drv_start :: string where
  "drv_start = ''static const struct pci_device_id pciidlist[] = {''"

definition drv_end :: string where
  "drv_end = CHR 0x09 # ''{0, 0, 0}''"

definition add_drv_dev :: "string \<Rightarrow> (int, AmdGpuDrvDev) dict \<Rightarrow> (int, AmdGpuDrvDev) dict" where
  "add_drv_dev line d =
     (case parse_drv_line line of
        None \<Rightarrow> d
      | Some dev \<Rightarrow> dict_set (drv_key (dd_vendor_id dev) (dd_product_id dev)) dev d)"

definition drv_table_lines :: "string list \<Rightarrow> string list" where
  "drv_table_lines ls = takeWhile (\<lambda>l. l \<noteq> drv_end) (drop 1 (dropWhile (\<lambda>l. l \<noteq> drv_start) ls))"

definition parse_amdgpu_drv :: "string \<Rightarrow> (int, AmdGpuDrvDev) dict" where
  "parse_amdgpu_drv drv = fold add_drv_dev (drv_table_lines (str_splitlines drv)) []"

text \<open>\<open>line.split(',\t')\<close>\<close>

fun split_comma_tab :: "string \<Rightarrow> string list" where
  "split_comma_tab [] = [[]]"
| "split_comma_tab [c] = [[c]]"
| "split_comma_tab (c # d # s) =
     (if c = CHR '','' \<and> d = CHR 0x09 then [] # split_comma_tab s
      else (let r = split_comma_tab (d # s) in (c # hd r) # tl r))"

definition add_id_line :: "string \<Rightarrow> (int \<times> int, AmdGpuId) dict \<Rightarrow> (int \<times> int, AmdGpuId) dict" where
  "add_id_line line d =
     (case split_comma_tab line of
        [p, r, name] \<Rightarrow>
          (case (py_int16 p, py_int16 r) of
             (Inr pid, Inr rev') \<Rightarrow> dict_set (pid, rev') \<lparr>gi_product_id = pid, gi_revision = rev', gi_marketing_name = name\<rparr> d
           | _ \<Rightarrow> d)
      | _ \<Rightarrow> d)"

definition parse_amdgpu_ids :: "string \<Rightarrow> (int \<times> int, AmdGpuId) dict" where
  "parse_amdgpu_ids ids = fold add_id_line (str_splitlines ids) []"

text \<open>The cached files may be missing.\<close>

definition AmdGpuDeviceDB_init :: "string option \<Rightarrow> string option \<Rightarrow> AmdGpuDeviceDB" where
  "AmdGpuDeviceDB_init drv ids =
     \<lparr>is_up_to_date = False, amdgpu_drv_devs = parse_amdgpu_drv (case drv of None \<Rightarrow> [] | Some t \<Rightarrow> t),
      amdgpu_ids_devs = parse_amdgpu_ids (case ids of None \<Rightarrow> [] | Some t \<Rightarrow> t)\<rparr>"

text \<open>\<open>drv\<close> and \<open>ids\<close> are what downloading the two files gives.\<close>

definition amd_update :: "string res \<Rightarrow> string res \<Rightarrow> (AmdGpuDeviceDB, unit) act" where
  "amd_update drv ids =
     act_bind (act_get is_up_to_date) (\<lambda>ok.
       if ok then act_return ()
       else
        act_bind (act_lift drv) (\<lambda>d.
        act_bind (act_modify (\<lambda>db. db\<lparr>amdgpu_drv_devs := parse_amdgpu_drv d\<rparr>)) (\<lambda>_.
        act_bind (act_lift ids) (\<lambda>i.
          act_modify (\<lambda>db. db\<lparr>amdgpu_ids_devs := parse_amdgpu_ids i, is_up_to_date := True\<rparr>)))))"

record PCIDevice =
  pci_vendor_id :: int
  pci_product_id :: int
  pci_revision :: int

definition host_cpu_name :: "string list \<Rightarrow> string option res" where
  "host_cpu_name cpuinfo =
     (case find (\<lambda>l. str_strip (hd (str_split CHR '':'' l)) = ''model name'') cpuinfo of
        None \<Rightarrow> Inr None
      | Some l \<Rightarrow> (case str_split CHR '':'' l of _ # v # _ \<Rightarrow> Inr (Some (str_strip v)) | _ \<Rightarrow> Inl IndexError))"

definition amd_from_pciid :: "string list \<Rightarrow> AmdGpuDeviceDB \<Rightarrow> PCIDevice \<Rightarrow> AMDGPU option res" where
  "amd_from_pciid cpuinfo db p =
     (case dict_get (amdgpu_drv_devs db) (drv_key (pci_vendor_id p) (pci_product_id p)) of
        None \<Rightarrow> Inr None
      | Some dev \<Rightarrow>
          let name = map_option gi_marketing_name (dict_get (amdgpu_ids_devs db) (pci_product_id p, pci_revision p)) in
          res_bind (AMDGPU_init (pci_vendor_id p) (pci_product_id p) (pci_revision p) name (dd_flags dev)) (\<lambda>g.
            if ag_marketing_name g = None \<and> is_APU g
            then res_bind (host_cpu_name cpuinfo) (\<lambda>n. Inr (Some (g\<lparr>ag_marketing_name := n\<rparr>)))
            else Inr (Some g)))"

section \<open>Intel and virtual GPUs\<close>

record IntelGPU =
  ig_vendor_id :: int
  ig_product_id :: int
  ig_revision :: int
  gen_version :: string
  ig_family :: string

definition intel_gpus :: "(int, string \<times> string) dict" where
  "intel_gpus = [(0x3e9b, (''9'', ''COFFEELAKE''))]"

definition intel_from_pciid :: "PCIDevice \<Rightarrow> IntelGPU option" where
  "intel_from_pciid p =
     (if pci_vendor_id p \<noteq> 0x8086 then None
      else map_option (\<lambda>(gen, fam). \<lparr>ig_vendor_id = pci_vendor_id p, ig_product_id = pci_product_id p, ig_revision = pci_revision p,
                                    gen_version = gen, ig_family = fam\<rparr>) (dict_get intel_gpus (pci_product_id p)))"

definition intel_tags :: "IntelGPU \<Rightarrow> string list" where
  "intel_tags g =
     [''intelgpu:pciid:'' @ pciid_text (ig_vendor_id g) (ig_product_id g), ''intelgpu:family:'' @ ig_family g, ''intelgpu:gen:'' @ gen_version g]"

definition intel_structured_tags :: "IntelGPU \<Rightarrow> json" where
  "intel_structured_tags g = JObj [(''type'', JStr ''intelgpu''), (''family'', JStr (ig_family g)), (''gen'', JStr (gen_version g))]"

definition virt_from_pciid :: "PCIDevice \<Rightarrow> PCIDevice option" where
  "virt_from_pciid p = (if pci_vendor_id p \<noteq> 0x1af4 \<and> pci_product_id p \<noteq> 0x1050 then None else Some p)"

definition virt_tags :: "PCIDevice \<Rightarrow> string list" where
  "virt_tags g = [''virtio:pciid:'' @ pciid_text (pci_vendor_id g) (pci_product_id g), ''virtio:family:VIRTIO'']"

definition virt_structured_tags :: json where
  "virt_structured_tags = JObj [(''type'', JStr ''virtio'')]"

section \<open>Finding the GPU\<close>

datatype gpu = Amd AMDGPU | Intel IntelGPU | Virt PCIDevice

definition gpu_base_name :: "gpu \<Rightarrow> string option res" where
  "gpu_base_name g =
     (case g of Amd a \<Rightarrow> gfx_version a | Intel i \<Rightarrow> Inr (Some (''intel'' @ gen_version i)) | Virt v \<Rightarrow> Inr (Some ''virtio''))"

definition gpu_tags :: "gpu \<Rightarrow> string list res" where
  "gpu_tags g = (case g of Amd a \<Rightarrow> amdgpu_tags a | Intel i \<Rightarrow> Inr (intel_tags i) | Virt v \<Rightarrow> Inr (virt_tags v))"

definition gpu_structured_tags :: "gpu \<Rightarrow> json res" where
  "gpu_structured_tags g =
     (case g of Amd a \<Rightarrow> amdgpu_structured_tags a | Intel i \<Rightarrow> Inr (intel_structured_tags i) | Virt v \<Rightarrow> Inr virt_structured_tags)"

text \<open>The loop over the supported databases for one device.\<close>

definition gpu_from_pciid :: "string list \<Rightarrow> AmdGpuDeviceDB \<Rightarrow> PCIDevice \<Rightarrow> gpu option res" where
  "gpu_from_pciid cpuinfo db p =
     res_bind (amd_from_pciid cpuinfo db p) (\<lambda>a.
       case a of
         Some g \<Rightarrow> Inr (Some (Amd g))
       | None \<Rightarrow>
           case intel_from_pciid p of
             Some g \<Rightarrow> Inr (Some (Intel g))
           | None \<Rightarrow> Inr (map_option Virt (virt_from_pciid p)))"

fun first_gpu :: "string list \<Rightarrow> AmdGpuDeviceDB \<Rightarrow> PCIDevice list \<Rightarrow> gpu option res" where
  "first_gpu cpuinfo db [] = Inr None"
| "first_gpu cpuinfo db (p # ps) =
     res_bind (gpu_from_pciid cpuinfo db p) (\<lambda>g. case g of Some x \<Rightarrow> Inr (Some x) | None \<Rightarrow> first_gpu cpuinfo db ps)"

definition find_gpu :: "string list \<Rightarrow> string res \<Rightarrow> string res \<Rightarrow> PCIDevice list \<Rightarrow> (AmdGpuDeviceDB, gpu option) act" where
  "find_gpu cpuinfo drv ids devices =
     act_bind (act_get (\<lambda>db. first_gpu cpuinfo db devices)) (\<lambda>r.
     act_bind (act_lift r) (\<lambda>g.
       case g of
         Some x \<Rightarrow> act_return (Some x)
       | None \<Rightarrow>
           act_bind (amd_update drv ids) (\<lambda>_.
           act_bind (act_get (\<lambda>db. first_gpu cpuinfo db devices)) (\<lambda>r. act_lift r))))"

text \<open>
  The second loop updates and asks one database after the other; the updates of the databases for
  Intel and virtual GPUs do nothing.
\<close>

definition find_gpu_from_pciid :: "string list \<Rightarrow> string res \<Rightarrow> string res \<Rightarrow> PCIDevice \<Rightarrow> (AmdGpuDeviceDB, gpu option) act" where
  "find_gpu_from_pciid cpuinfo drv ids p =
     act_bind (act_get (\<lambda>db. gpu_from_pciid cpuinfo db p)) (\<lambda>r.
     act_bind (act_lift r) (\<lambda>g.
       case g of
         Some x \<Rightarrow> act_return (Some x)
       | None \<Rightarrow>
           act_bind (amd_update drv ids) (\<lambda>_.
           act_bind (act_get (\<lambda>db. gpu_from_pciid cpuinfo db p)) (\<lambda>r. act_lift r))))"

definition PCIDevice_from_str :: "string \<Rightarrow> PCIDevice res" where
  "PCIDevice_from_str pciid =
     (let parts = str_split CHR '':'' pciid in
      if length parts \<notin> {2, 3} then Inl (ValueError (''The pciid '' @ [CHR 0x27] @ ''{pciid}'' @ [CHR 0x27] @ '' is invalid. Format: xxxx:xxxx[:xx]''))
      else
        res_bind (if length parts = 2 then Inr 0 else py_int16 (parts ! 2)) (\<lambda>rev'.
        res_bind (py_int16 (parts ! 0)) (\<lambda>vendor.
        res_bind (py_int16 (parts ! 1)) (\<lambda>product.
          Inr \<lparr>pci_vendor_id = vendor, pci_product_id = product, pci_revision = rev'\<rparr>))))"

text \<open>\<open>pci_devices\<close> over what \<open>os.walk\<close> yields: a directory with the contents of its files.\<close>

definition pci_device_of :: "(string, string) dict \<Rightarrow> PCIDevice option res" where
  "pci_device_of files =
     (case (dict_get files ''vendor'', dict_get files ''device'', dict_get files ''revision'') of
        (Some v, Some d, Some r) \<Rightarrow>
          res_bind (py_int16 (str_strip v)) (\<lambda>vendor.
          res_bind (py_int16 (str_strip d)) (\<lambda>product.
          res_bind (py_int16 (str_strip r)) (\<lambda>rev'.
            Inr (Some \<lparr>pci_vendor_id = vendor, pci_product_id = product, pci_revision = rev'\<rparr>))))
      | _ \<Rightarrow> Inr None)"

definition pci_devices :: "(string \<times> (string, string) dict) list \<Rightarrow> PCIDevice list res" where
  "pci_devices walk =
     res_bind (res_map_list (\<lambda>(dir, files). pci_device_of files)
        (filter (\<lambda>(dir, _). dir = ''/sys/devices/'' \<or> prefix ''/sys/devices/pci'' dir) walk)) (\<lambda>ds.
       Inr (map the (filter (\<lambda>d. d \<noteq> None) ds)))"

section \<open>Vulkan\<close>

text \<open>
  What the Vulkan package reports about memory: the heaps with size and flags, and the memory
  types with property flags and the heap they belong to.
\<close>

record VulkanHeap =
  vh_size :: int
  vh_flags :: int
  vh_types :: int

record vk_memory =
  vk_heap_count :: nat
  vk_heaps :: "(int \<times> int) list"
  vk_types :: "(int \<times> nat) list"

definition add_type :: "int \<Rightarrow> VulkanHeap \<Rightarrow> VulkanHeap" where
  "add_type flags h = h\<lparr>vh_types := vh_types h OR flags\<rparr>"

definition has_type :: "int \<Rightarrow> VulkanHeap \<Rightarrow> bool" where
  "has_type flags h = (vh_types h AND flags \<noteq> 0)"

fun add_types :: "(int \<times> nat) list \<Rightarrow> VulkanHeap list \<Rightarrow> VulkanHeap list res" where
  "add_types [] hs = Inr hs"
| "add_types ((flags, i) # ts) hs = (if i < length hs then add_types ts (hs[i := add_type flags (hs ! i)]) else Inl IndexError)"

definition heaps :: "vk_memory option \<Rightarrow> VulkanHeap list res" where
  "heaps m =
     (case m of
        None \<Rightarrow> Inr []
      | Some x \<Rightarrow>
          add_types (take (vk_heap_count x) (vk_types x))
            (map (\<lambda>(size, flags). \<lparr>vh_size = size, vh_flags = flags, vh_types = 0\<rparr>) (take (vk_heap_count x) (vk_heaps x))))"

text \<open>\<open>VRAM_heap\<close> and \<open>GTT_heap\<close>, for the property bits they look for.\<close>

definition find_heap :: "int \<Rightarrow> vk_memory option \<Rightarrow> VulkanHeap res" where
  "find_heap bits m =
     res_bind (heaps m) (\<lambda>hs. Inr (case find (has_type bits) hs of Some h \<Rightarrow> h | None \<Rightarrow> \<lparr>vh_size = 0, vh_flags = -1, vh_types = 0\<rparr>))"

definition api_version :: "int option \<Rightarrow> string option" where
  "api_version version =
     map_option (\<lambda>v. show_int (drop_bit 22 v) @ ''.'' @ show_int (drop_bit 12 v AND 0x3ff) @ ''.'' @ show_int (v AND 0xfff)) version"

definition vk_extensions :: "(string \<times> int) list option \<Rightarrow> (string, string \<times> int) dict" where
  "vk_extensions es = fold (\<lambda>(name, version). dict_set name (name, version)) (case es of None \<Rightarrow> [] | Some xs \<Rightarrow> xs) []"

section \<open>The tables agree\<close>

lemma table_keys: "set (dict_keys families) = set (dict_keys architectures)"
  by code_simp

lemma table_versions: "list_all (\<lambda>a. dict_get gfx_versions a \<noteq> None) (dict_values architectures)"
  by code_simp


section \<open>Reading back the driver's table\<close>

definition drv_line :: "nat \<times> nat \<times> string \<Rightarrow> string" where
  "drv_line d =
     (let (vendor, product, flags) = d in
      CHR 0x09 # ''{0x'' @ show_base 16 vendor @ '', 0x'' @ show_base 16 product @ '', PCI_ANY_ID, PCI_ANY_ID, 0, 0, '' @ flags @ ''},'')"

definition flags_ok :: "string \<Rightarrow> bool" where
  "flags_ok flags \<longleftrightarrow> flags \<noteq> [] \<and> \<not> py_isspace (hd flags) \<and> (\<forall>c \<in> set flags. \<not> py_line_break c)"

lemma space_chars: "py_isspace CHR '' ''" "\<not> py_isspace CHR ''{''" "\<not> py_isspace CHR ''0''" "\<not> py_isspace CHR ''P''" "py_isspace CHR 0x09"
  "\<not> py_isspace CHR '',''"
  by (simp_all add: py_isspace_def)

lemma show_base_hex: "\<forall>c \<in> set (show_base 16 n). hex_digit c \<and> \<not> py_line_break c"
proof
  fix c assume "c \<in> set (show_base 16 n)"
  then obtain d where d: "d < 16" "c = digit_char d" using show_base_digits[of 16 c n] by auto
  then have "hex_digit c" by (simp add: hex_digit_def)
  moreover have "\<not> py_line_break c"
    using d by (auto simp: digit_char_def py_line_break_def Let_def of_char_of)
  ultimately show "hex_digit c \<and> \<not> py_line_break c" by blast
qed

lemma hex_field_show: "hex_field (''0x'' @ show_base 16 n @ CHR '','' # r) = Some (int n, r)"
proof -
  have "takeWhile hex_digit (show_base 16 n @ CHR '','' # r) = show_base 16 n"
    using show_base_hex[of n] by (subst takeWhile_append2) (auto simp: hex_digit_def char_digit_def)
  then show ?thesis by (simp add: hex_field_def expect_def Let_def read_show_base)
qed

lemma parse_drv_line_show:
  assumes "flags_ok flags"
  shows "parse_drv_line (drv_line (v, p, flags)) = Some \<lparr>dd_vendor_id = int v, dd_product_id = int p, dd_flags = Some flags\<rparr>"
proof -
  have sk: "skip_space (CHR '' '' # r) = skip_space r" "skip_space (CHR ''0'' # r) = CHR ''0'' # r" "skip_space (CHR ''P'' # r) = CHR ''P'' # r"
    "skip_space (CHR 0x09 # CHR ''{'' # r) = CHR ''{'' # r" "skip_space (flags @ r) = flags @ r" for r
    using assms by (cases flags; simp add: skip_space_def space_chars flags_ok_def)+
  have fl: "drv_flags (flags @ ''},'') = Some flags"
    by (simp add: drv_flags_def skip_space_def space_chars Let_def)
  show ?thesis
    unfolding drv_line_def parse_drv_line_def
    using hex_field_show[of v] hex_field_show[of p] assms
    by (simp add: sk fl expect_def flags_ok_def)
qed

lemma drv_key_eq:
  assumes "p < 65536"
  shows "drv_key (int v) (int p) = int (v * 65536 + p)"
proof -
  have "take_bit 16 (int p) = int p" using assms by (simp add: take_bit_int_eq_self)
  then have "concat_bit 16 (int p) (int v) = int p OR push_bit 16 (int v)" by (simp add: concat_bit_def)
  moreover have "concat_bit 16 (int p) (int v) = int p + push_bit 16 (int v)"
    using \<open>take_bit 16 (int p) = int p\<close> by (simp add: concat_bit_eq)
  ultimately show ?thesis by (simp add: drv_key_def or.commute push_bit_eq_mult)
qed

lemma drv_key_inj: "p < 65536 \<Longrightarrow> q < 65536 \<Longrightarrow> drv_key (int v) (int p) = drv_key (int w) (int q) \<longleftrightarrow> v = w \<and> p = q"
proof -
  assume pq: "p < 65536" "q < 65536"
  have "v = w \<and> p = q" if e: "v * 65536 + p = w * 65536 + q"
  proof -
    have "v = (v * 65536 + p) div 65536" "w = (w * 65536 + q) div 65536" using pq by simp_all
    then show ?thesis using e by simp
  qed
  then have "v * 65536 + p = w * 65536 + q \<longleftrightarrow> v = w \<and> p = q" by blast
  then show ?thesis by (simp only: drv_key_eq[OF pq(1)] drv_key_eq[OF pq(2)] of_nat_eq_iff)
qed

definition drv_dev :: "nat \<times> nat \<times> string \<Rightarrow> AmdGpuDrvDev" where
  "drv_dev d = (let (v, p, flags) = d in \<lparr>dd_vendor_id = int v, dd_product_id = int p, dd_flags = Some flags\<rparr>)"

definition dev_key :: "nat \<times> nat \<times> string \<Rightarrow> int" where
  "dev_key d = (let (v, p, flags) = d in drv_key (int v) (int p))"

text \<open>A source file of the driver with the table somewhere in it.\<close>

definition drv_source :: "string list \<Rightarrow> (nat \<times> nat \<times> string) list \<Rightarrow> string list \<Rightarrow> string" where
  "drv_source before devs after =
     concat (map (\<lambda>l. l @ [CHR 0x0A]) (before @ drv_start # map drv_line devs @ drv_end # after))"

lemma drv_line_neq_end: "drv_line d \<noteq> drv_end"
proof
  assume "drv_line d = drv_end"
  then have "drv_line d ! 3 = CHR '',''" by (simp add: drv_end_def)
  moreover have "drv_line d ! 3 = CHR ''x''" by (simp add: drv_line_def split_beta)
  ultimately show False by simp
qed

lemma drv_line_breaks:
  assumes "flags_ok (snd (snd d))"
  shows "\<forall>c \<in> set (drv_line d). \<not> py_line_break c"
proof -
  have lits: "\<not> py_line_break CHR 0x09" "\<not> py_line_break CHR ''{''" "\<not> py_line_break CHR ''0''" "\<not> py_line_break CHR ''x''" "\<not> py_line_break CHR '',''" "\<not> py_line_break CHR '' ''" "\<not> py_line_break CHR ''P''" "\<not> py_line_break CHR ''C''" "\<not> py_line_break CHR ''I''" "\<not> py_line_break CHR ''_''" "\<not> py_line_break CHR ''A''" "\<not> py_line_break CHR ''N''" "\<not> py_line_break CHR ''Y''" "\<not> py_line_break CHR ''D''" "\<not> py_line_break CHR ''}''"
    by (simp_all add: py_line_break_def)
  show ?thesis
    using show_base_hex[of "fst d"] show_base_hex[of "fst (snd d)"] assms
    by (simp add: drv_line_def flags_ok_def split_beta ball_Un lits)
qed

lemma drv_source_lines:
  assumes "\<forall>l \<in> set (before @ after). \<forall>c \<in> set l. \<not> py_line_break c" "drv_start \<notin> set before" "\<forall>d \<in> set devs. flags_ok (snd (snd d))"
  shows "drv_table_lines (str_splitlines (drv_source before devs after)) = map drv_line devs"
proof -
  have "\<forall>c \<in> set drv_start. \<not> py_line_break c" "\<forall>c \<in> set drv_end. \<not> py_line_break c"
    by (simp_all add: drv_start_def drv_end_def py_line_break_def)
  then have "str_splitlines (drv_source before devs after) = before @ drv_start # map drv_line devs @ drv_end # after"
    unfolding drv_source_def using assms(1,3) drv_line_breaks by (intro str_splitlines_unlines) auto
  moreover have "dropWhile (\<lambda>l. l \<noteq> drv_start) (before @ drv_start # r) = drv_start # r" for r
    using assms(2) by (induction before) auto
  ultimately show ?thesis
    unfolding drv_table_lines_def by (simp add: takeWhile_append drv_line_neq_end)
qed

lemma fold_drv_lines:
  assumes "\<forall>d \<in> set devs. flags_ok (snd (snd d))"
  shows "fold add_drv_dev (map drv_line devs) t = fold (\<lambda>d. dict_set (dev_key d) (drv_dev d)) devs t"
  using assms
proof (induction devs arbitrary: t)
  case (Cons d devs)
  obtain v p flags where d: "d = (v, p, flags)" by (cases d)
  have "add_drv_dev (drv_line d) t = dict_set (dev_key d) (drv_dev d) t"
    using Cons.prems parse_drv_line_show[of flags v p] by (simp add: add_drv_dev_def d dev_key_def drv_dev_def)
  then show ?case using Cons by simp
qed simp

lemma fold_set_get:
  "distinct (map f xs) \<Longrightarrow> dict_get (fold (\<lambda>x. dict_set (f x) (g x)) xs t) k =
     (case find (\<lambda>x. f x = k) xs of Some x \<Rightarrow> Some (g x) | None \<Rightarrow> dict_get t k)"
proof (induction xs arbitrary: t)
  case (Cons x xs)
  have "f x \<notin> f ` set xs" using Cons.prems by simp
  then have "find (\<lambda>y. f y = f x) xs = None" unfolding find_None_iff by (metis imageI)
  then show ?case using Cons by (auto split: option.splits)
qed simp

text \<open>
  C32. The driver's table is read back exactly: from a source file that holds the table in the driver's
  format, every listed device is found under its vendor and product with its flags, and no
  other device is, whatever surrounds the table.
\<close>

theorem driver_table_roundtrip:
  assumes "\<forall>l \<in> set (before @ after). \<forall>c \<in> set l. \<not> py_line_break c" "drv_start \<notin> set before"
    and "\<forall>(v, p, flags) \<in> set devs. p < 65536 \<and> flags_ok flags" "distinct (map (\<lambda>(v, p, flags). (v, p)) devs)" "q < 65536"
  shows "dict_get (parse_amdgpu_drv (drv_source before devs after)) (drv_key (int w) (int q)) =
    map_option drv_dev (find (\<lambda>(v, p, flags). v = w \<and> p = q) devs)"
proof -
  have fl: "\<forall>d \<in> set devs. flags_ok (snd (snd d))" and small: "fst (snd d) < 65536" if "d \<in> set devs" for d
    using assms(3) that by (auto simp: split_beta)
  have fl: "\<forall>d \<in> set devs. flags_ok (snd (snd d))" using assms(3) by auto
  have inj: "dev_key d = drv_key (int w) (int q) \<longleftrightarrow> fst d = w \<and> fst (snd d) = q" if "d \<in> set devs" "q < 65536" for d w q
    using drv_key_inj[OF small[OF that(1)] that(2)] by (simp add: dev_key_def split_beta)
  have "inj_on dev_key (set devs)"
  proof (rule inj_onI)
    fix d d' assume d: "d \<in> set devs" "d' \<in> set devs" "dev_key d = dev_key d'"
    have "dev_key d' = drv_key (int (fst d')) (int (fst (snd d')))" by (simp add: dev_key_def split_beta)
    then have "(\<lambda>(v, p, flags). (v, p)) d = (\<lambda>(v, p, flags). (v, p)) d'"
      using inj[OF d(1) small[OF d(2)], of "fst d'"] d(3) by (simp only: split_beta) blast
    then show "d = d'" using assms(4) d(1,2) by (auto simp: distinct_map inj_on_def)
  qed
  moreover have "distinct devs" using assms(4) by (simp add: distinct_map)
  ultimately have "distinct (map dev_key devs)" by (simp add: distinct_map)
  then have "dict_get (parse_amdgpu_drv (drv_source before devs after)) (drv_key (int w) (int q)) =
      map_option drv_dev (find (\<lambda>d. dev_key d = drv_key (int w) (int q)) devs)"
    unfolding parse_amdgpu_drv_def drv_source_lines[OF assms(1,2) fl] fold_drv_lines[OF fl]
    by (simp add: fold_set_get split: option.split)
  also have "find (\<lambda>d. dev_key d = drv_key (int w) (int q)) devs = find (\<lambda>(v, p, flags). v = w \<and> p = q) devs"
    by (rule find_cong) (auto simp: inj[OF _ assms(5)])
  finally show ?thesis .
qed

theorem driver_table_roundtrip_witness:
  "dict_get (parse_amdgpu_drv (drv_source [''// header''] [(0x1002, 0x7310, ''CHIP_NAVI10''), (0x1002, 0x163f, ''CHIP_VANGOGH|AMD_IS_APU'')] []))
     (drv_key 0x1002 0x163f) = Some \<lparr>dd_vendor_id = 0x1002, dd_product_id = 0x163f, dd_flags = Some ''CHIP_VANGOGH|AMD_IS_APU''\<rparr>"
proof -
  have "\<forall>l \<in> set ([''// header''] @ []). \<forall>c \<in> set l. \<not> py_line_break c" by (simp add: py_line_break_def)
  moreover have "drv_start \<notin> set [''// header'']" by (simp add: drv_start_def)
  moreover have "\<forall>(v::nat, p::nat, flags) \<in> set [(0x1002, 0x7310, ''CHIP_NAVI10''), (0x1002, 0x163f, ''CHIP_VANGOGH|AMD_IS_APU'')]. p < 65536 \<and> flags_ok flags"
    by (simp add: flags_ok_def py_line_break_def py_isspace_def)
  ultimately show ?thesis
    using driver_table_roundtrip[where before = "[''// header'']" and after = "[]" and w = "0x1002" and q = "0x163f"
        and devs = "[(0x1002, 0x7310, ''CHIP_NAVI10''), (0x1002, 0x163f, ''CHIP_VANGOGH|AMD_IS_APU'')]"]
    by (simp add: drv_dev_def)
qed

text \<open>A virtual network card passes for a GPU: it is enough that the vendor or the product is that of a virtual GPU.\<close>

lemma virt_takes_network_card: "virt_from_pciid \<lparr>pci_vendor_id = 0x1af4, pci_product_id = 0x1041, pci_revision = 1\<rparr> \<noteq> None"
  by (simp add: virt_from_pciid_def)

text \<open>A memory type whose position is beyond the number of heaps is not looked at: the heap of device-local memory is missed.\<close>

lemma heap_missed:
  "find_heap 1 (Some \<lparr>vk_heap_count = 1, vk_heaps = [(8 * 2 ^ 30, 1)], vk_types = [(2, 0), (1, 0)]\<rparr>) =
     Inr \<lparr>vh_size = 0, vh_flags = -1, vh_types = 0\<rparr>"
  by (simp add: find_heap_def heaps_def add_type_def has_type_def)

end
