(* ===== verification/Salad.thy ===== *)
theory Salad
  imports Json
begin

text \<open>
  SALAD, the serial console service (\<open>salad.py\<close>, \<open>console.py\<close>, \<open>tcpserver.py\<close>): it reads the
  consoles of the DUTs, learns from their output which machine is at the other end, and relays
  between consoles and the one TCP client that each machine may have. Bytes are characters below
  256; a connection is represented by the bytes written to it so far.
\<close>

section \<open>Console streams\<close>

datatype stream_kind = SerialConsole | TCPConsole

record ConsoleStream =
  st_name :: string
  st_kind :: stream_kind
  st_machine_id :: "string option"
  st_line_buffer :: string
  st_sent :: string

definition nl_byte :: char where "nl_byte = CHR 0x0A"
definition cr_byte :: char where "cr_byte = CHR 0x0D"

definition ConsoleStream_init :: "stream_kind \<Rightarrow> string \<Rightarrow> ConsoleStream" where
  "ConsoleStream_init k name = \<lparr>st_name = name, st_kind = k, st_machine_id = None, st_line_buffer = [], st_sent = []\<rparr>"

text \<open>Whitespace of a regular expression on bytes.\<close>

definition byte_space :: "char \<Rightarrow> bool" where
  "byte_space c = (c \<in> set [CHR '' '', CHR 0x09, CHR 0x0A, CHR 0x0B, CHR 0x0C, CHR 0x0D])"

text \<open>
  \<open>SALAD.word\<close> at the head of a text, where the dot is any byte but a newline; the result is what
  follows.
\<close>

definition salad_word :: "string \<Rightarrow> string \<Rightarrow> string option" where
  "salad_word w s =
     (if prefix ''SALAD'' s then
        (case drop 5 s of
           [] \<Rightarrow> None
         | c # r \<Rightarrow> if c \<noteq> nl_byte \<and> prefix w r then Some (drop (length w) r) else None)
      else None)"

text \<open>
  \<open>machine_id_re.match\<close>: the leading \<open>.*\<close> is greedy and does not cross a newline, so the last place
  that is followed by an identifier counts.
\<close>

definition id_at :: "string \<Rightarrow> string option" where
  "id_at s =
     (case salad_word ''machine_id='' s of
        None \<Rightarrow> None
      | Some r \<Rightarrow> let v = takeWhile (\<lambda>c. \<not> byte_space c) r in if v = [] then None else Some v)"

fun machine_id_match :: "string \<Rightarrow> string option" where
  "machine_id_match [] = None"
| "machine_id_match (c # s) =
     (case (if c = nl_byte then None else machine_id_match s) of
        Some v \<Rightarrow> Some v
      | None \<Rightarrow> id_at (c # s))"

text \<open>\<open>ping_re.search\<close>: \<open>$\<close> is the end of the text or the place before a last newline.\<close>

definition ping_end :: "stream_kind \<Rightarrow> string \<Rightarrow> bool" where
  "ping_end k r =
     (case k of
        SerialConsole \<Rightarrow> r \<in> set [[nl_byte], [cr_byte, nl_byte], [nl_byte, nl_byte], [cr_byte, nl_byte, nl_byte]]
      | TCPConsole \<Rightarrow> r \<in> set [[], [nl_byte]])"

fun ping_search :: "stream_kind \<Rightarrow> string \<Rightarrow> bool" where
  "ping_search k [] = False"
| "ping_search k (c # s) =
     ((case salad_word ''ping'' (c # s) of None \<Rightarrow> False | Some r \<Rightarrow> ping_end k r) \<or> ping_search k s)"

text \<open>What is outside: decoding an identifier as UTF-8, and writing to the device or socket.\<close>

record salad_env =
  ke_decode :: "string \<Rightarrow> string res"
  ke_write :: "unit res"

definition stream_send :: "salad_env \<Rightarrow> string \<Rightarrow> (ConsoleStream, unit) act" where
  "stream_send e data =
     act_bind (act_lift (ke_write e)) (\<lambda>_. act_modify (\<lambda>st. st\<lparr>st_sent := st_sent st @ data\<rparr>))"

definition pong :: string where
  "pong = ''SALAD.pong'' @ [nl_byte]"

definition process_input_line :: "salad_env \<Rightarrow> string \<Rightarrow> (ConsoleStream, unit) act" where
  "process_input_line e line =
     act_bind
       (case machine_id_match line of
          None \<Rightarrow> act_return ()
        | Some v \<Rightarrow> act_bind (act_lift (ke_decode e v)) (\<lambda>mid. act_modify (\<lambda>st. st\<lparr>st_machine_id := Some mid\<rparr>)))
       (\<lambda>_. act_bind (act_get st_kind) (\<lambda>k. if ping_search k line then stream_send e pong else act_return ()))"

text \<open>\<open>SerialConsoleStream.recv\<close> on the bytes that the device has: a line ends with its newline.\<close>

definition serial_byte :: "salad_env \<Rightarrow> char \<Rightarrow> (ConsoleStream, unit) act" where
  "serial_byte e c =
     act_bind (act_modify (\<lambda>st. st\<lparr>st_line_buffer := st_line_buffer st @ [c]\<rparr>)) (\<lambda>_.
       if c = nl_byte then
         act_bind (act_get st_line_buffer) (\<lambda>line.
         act_bind (process_input_line e line) (\<lambda>_. act_modify (\<lambda>st. st\<lparr>st_line_buffer := []\<rparr>)))
       else act_return ())"

definition serial_recv :: "salad_env \<Rightarrow> string \<Rightarrow> (ConsoleStream, unit) act" where
  "serial_recv e data = act_iter (serial_byte e) data"

text \<open>\<open>re.split(rb'\r?\n', s)\<close>\<close>

fun crlf_split :: "string \<Rightarrow> string list" where
  "crlf_split [] = [[]]"
| "crlf_split (c # s) =
     (if c = nl_byte then [] # crlf_split s
      else if c = cr_byte \<and> s \<noteq> [] \<and> hd s = nl_byte then crlf_split s
      else (let r = crlf_split s in (c # hd r) # tl r))"

definition tcp_recv :: "salad_env \<Rightarrow> string \<Rightarrow> (ConsoleStream, unit) act" where
  "tcp_recv e data =
     act_bind (act_get (\<lambda>st. crlf_split (st_line_buffer st @ data))) (\<lambda>ls.
     act_bind (act_modify (\<lambda>st. st\<lparr>st_line_buffer := last ls\<rparr>)) (\<lambda>_.
       act_iter (process_input_line e) (butlast ls)))"

definition stream_recv :: "salad_env \<Rightarrow> string \<Rightarrow> (ConsoleStream, unit) act" where
  "stream_recv e data =
     act_bind (act_get st_kind) (\<lambda>k. case k of SerialConsole \<Rightarrow> serial_recv e data | TCPConsole \<Rightarrow> tcp_recv e data)"

section \<open>The server of a machine\<close>

text \<open>\<open>sv_client\<close> holds the bytes sent to the connected client; \<open>sv_refused\<close> counts refused clients.\<close>

record SerialConsoleTCPServer =
  sv_id :: string
  sv_client :: "string option"
  sv_refused :: nat

definition TCPServer_init :: "string \<Rightarrow> SerialConsoleTCPServer" where
  "TCPServer_init mid = \<lparr>sv_id = mid, sv_client = None, sv_refused = 0\<rparr>"

definition server_accept :: "SerialConsoleTCPServer \<Rightarrow> SerialConsoleTCPServer" where
  "server_accept sv =
     (if sv_client sv \<noteq> None then sv\<lparr>sv_refused := sv_refused sv + 1\<rparr> else sv\<lparr>sv_client := Some []\<rparr>)"

definition server_close_client :: "SerialConsoleTCPServer \<Rightarrow> SerialConsoleTCPServer" where
  "server_close_client sv = sv\<lparr>sv_client := None\<rparr>"

text \<open>\<open>client.send\<close> takes the first \<open>n\<close> bytes, or fails (\<open>None\<close>); what it did not take is not sent again.\<close>

definition server_send :: "nat option \<Rightarrow> string \<Rightarrow> SerialConsoleTCPServer \<Rightarrow> SerialConsoleTCPServer" where
  "server_send accepted buf sv =
     (case sv_client sv of
        None \<Rightarrow> sv
      | Some out \<Rightarrow>
          case accepted of
            None \<Rightarrow> server_close_client sv
          | Some n \<Rightarrow> sv\<lparr>sv_client := Some (out @ take n buf)\<rparr>)"

text \<open>\<open>client.recv\<close> returns bytes, or fails.\<close>

definition server_recv :: "string option \<Rightarrow> SerialConsoleTCPServer \<Rightarrow> string \<times> SerialConsoleTCPServer" where
  "server_recv received sv =
     (case sv_client sv of
        None \<Rightarrow> ([], sv)
      | Some _ \<Rightarrow>
          case received of
            None \<Rightarrow> ([], server_close_client sv)
          | Some buf \<Rightarrow> (buf, if buf = [] then server_close_client sv else sv))"

section \<open>The service\<close>

record salad =
  sa_machines :: "(string, SerialConsoleTCPServer) dict"
  sa_serial :: "(string, ConsoleStream) dict"
  sa_net :: "(string, ConsoleStream) dict"

definition find_console_listener :: "string \<Rightarrow> salad \<Rightarrow> ConsoleStream option" where
  "find_console_listener mid s = find (\<lambda>st. st_machine_id st = Some mid) (dict_values (sa_serial s) @ dict_values (sa_net s))"

definition get_or_create_machine :: "string \<Rightarrow> salad \<Rightarrow> SerialConsoleTCPServer \<times> salad" where
  "get_or_create_machine mid s =
     (case dict_get (sa_machines s) mid of
        Some m \<Rightarrow> (m, s)
      | None \<Rightarrow> let m = TCPServer_init mid in (m, s\<lparr>sa_machines := dict_set mid m (sa_machines s)\<rparr>))"

text \<open>\<open>_update_ports\<close>: \<open>ports\<close> are the devices there are; \<open>opens\<close> tells which of them can be opened.\<close>

definition update_ports :: "string list \<Rightarrow> (string \<Rightarrow> bool) \<Rightarrow> salad \<Rightarrow> salad" where
  "update_ports ports opens s =
     (let added = fold (\<lambda>d ds. if dict_get (sa_serial s) d = None \<and> opens d then dict_set d (ConsoleStream_init SerialConsole d) ds else ds)
                    ports (sa_serial s)
      in s\<lparr>sa_serial := filter (\<lambda>(d, _). d \<in> set ports) added\<rparr>)"

definition send_to_console_listener :: "nat option \<Rightarrow> ConsoleStream \<Rightarrow> string \<Rightarrow> salad \<Rightarrow> salad" where
  "send_to_console_listener accepted console buf s =
     (case st_machine_id console of
        None \<Rightarrow> s
      | Some mid \<Rightarrow>
          if mid = [] then s
          else let (m, s') = get_or_create_machine mid s
               in s'\<lparr>sa_machines := dict_set mid (server_send accepted buf m) (sa_machines s')\<rparr>)"

text \<open>
  One ready file descriptor of a round of \<open>run\<close>: data of a serial or network console (empty at its
  end), a reset network console, a client that connects to a machine, a new network console, and
  input of a client. \<open>n\<close> is what the client's socket accepts.
\<close>

datatype salad_event =
    SerialReady string string
  | NetReady string string
  | NetReset string
  | ServerReady string
  | NetServerReady string
  | ClientReady string "string option"

definition set_stream :: "stream_kind \<Rightarrow> ConsoleStream \<Rightarrow> salad \<Rightarrow> salad" where
  "set_stream k st s =
     (case k of SerialConsole \<Rightarrow> s\<lparr>sa_serial := dict_set (st_name st) st (sa_serial s)\<rparr>
      | TCPConsole \<Rightarrow> s\<lparr>sa_net := dict_set (st_name st) st (sa_net s)\<rparr>)"

text \<open>Data of a console: its lines are processed first, then it is relayed; an exception is logged and drops it.\<close>

definition relay_output :: "salad_env \<Rightarrow> nat option \<Rightarrow> ConsoleStream \<Rightarrow> string \<Rightarrow> salad \<Rightarrow> salad" where
  "relay_output e n st data s =
     (case stream_recv e data st of
        (Inl _, st') \<Rightarrow> set_stream (st_kind st) st' s
      | (Inr _, st') \<Rightarrow> send_to_console_listener n st' data (set_stream (st_kind st) st' s))"

definition relay_input :: "salad_env \<Rightarrow> string \<Rightarrow> string \<Rightarrow> salad \<Rightarrow> salad" where
  "relay_input e mid buf s =
     (case find_console_listener mid s of
        None \<Rightarrow> s
      | Some st \<Rightarrow> set_stream (st_kind st) (snd (stream_send e buf st)) s)"

definition salad_step :: "salad_env \<Rightarrow> nat option \<Rightarrow> salad_event \<Rightarrow> salad \<Rightarrow> salad" where
  "salad_step e n ev s =
     (case ev of
        SerialReady d data \<Rightarrow>
          (case dict_get (sa_serial s) d of
             None \<Rightarrow> s
           | Some st \<Rightarrow> if data = [] then s else relay_output e n st data s)
      | NetReady name data \<Rightarrow>
          (case dict_get (sa_net s) name of
             None \<Rightarrow> s
           | Some st \<Rightarrow> if data = [] then s\<lparr>sa_net := dict_del name (sa_net s)\<rparr> else relay_output e n st data s)
      | NetReset name \<Rightarrow> s\<lparr>sa_net := dict_del name (sa_net s)\<rparr>
      | ServerReady mid \<Rightarrow>
          (case dict_get (sa_machines s) mid of
             None \<Rightarrow> s
           | Some m \<Rightarrow> s\<lparr>sa_machines := dict_set mid (server_accept m) (sa_machines s)\<rparr>)
      | NetServerReady name \<Rightarrow> s\<lparr>sa_net := dict_set name (ConsoleStream_init TCPConsole name) (sa_net s)\<rparr>
      | ClientReady mid received \<Rightarrow>
          (case dict_get (sa_machines s) mid of
             None \<Rightarrow> s
           | Some m \<Rightarrow>
               let (buf, m1) = server_recv received m;
                   m2 = (if buf = [] then server_close_client m1 else m1);
                   s1 = s\<lparr>sa_machines := dict_set mid m2 (sa_machines s)\<rparr>
               in if buf = [] then s1 else relay_input e mid buf s1))"

text \<open>The REST interface; \<open>port\<close> is the TCP port that the server of a machine listens on.\<close>

definition encode_server :: "(string \<Rightarrow> int) \<Rightarrow> SerialConsoleTCPServer \<Rightarrow> json" where
  "encode_server port sv = JObj [(''id'', JStr (sv_id sv)), (''tcp_port'', JInt (port (sv_id sv))), (''has_client'', JBool (sv_client sv \<noteq> None))]"

definition get_machines :: "(string \<Rightarrow> int) \<Rightarrow> salad \<Rightarrow> json" where
  "get_machines port s =
     JObj [(''machines'', JObj (fold (\<lambda>m. dict_set (sv_id m) (encode_server port m)) (dict_values (sa_machines s)) []))]"

definition get_machine :: "(string \<Rightarrow> int) \<Rightarrow> string \<Rightarrow> salad \<Rightarrow> string \<times> salad" where
  "get_machine port mid s = (let (m, s') = get_or_create_machine mid s in (json_dumps (encode_server port m), s'))"

section \<open>Chunks do not matter\<close>

lemma crlf_split_neq_Nil [simp]: "crlf_split s \<noteq> []"
  by (induction s) (auto simp: Let_def)

lemma crlf_split_single: "crlf_split s = [x] \<Longrightarrow> x = s"
proof (induction s arbitrary: x)
  case (Cons c s)
  have "crlf_split s \<noteq> [x]" if "s \<noteq> []" "hd s = nl_byte"
    using that by (cases s) auto
  then show ?case using Cons by (cases "crlf_split s") (auto simp: Let_def split: if_splits)
qed simp

lemma crlf_split_append:
  "crlf_split (s @ t) = butlast (crlf_split s) @ crlf_split (last (crlf_split s) @ t)"
proof (induction s)
  case (Cons c s)
  let ?R = "crlf_split s"
  consider (nl) "c = nl_byte" | (crlf) "c \<noteq> nl_byte" "c = cr_byte" "s \<noteq> []" "hd s = nl_byte"
    | (last) "c \<noteq> nl_byte" "s = []" | (char) "c \<noteq> nl_byte" "\<not> (c = cr_byte \<and> hd s = nl_byte)" "s \<noteq> []" by blast
  then show ?case
  proof cases
    case char
    have split: "crlf_split (c # s) = (c # hd ?R) # tl ?R" "crlf_split (c # s @ t) = (c # hd (crlf_split (s @ t))) # tl (crlf_split (s @ t))"
      using char by (auto simp: Let_def)
    show ?thesis
    proof (cases "tl ?R = []")
      case True
      then have "?R = [hd ?R]" by (metis crlf_split_neq_Nil list.collapse)
      then have "hd ?R = s" "?R = [s]" using crlf_split_single by metis+
      then show ?thesis using split by simp
    next
      case False
      then have "hd (crlf_split (s @ t)) = hd ?R" "tl (crlf_split (s @ t)) = butlast (tl ?R) @ crlf_split (last ?R @ t)"
        using Cons.IH by (cases ?R; simp)+
      then show ?thesis using split False by (simp add: last_tl)
    qed
  qed (use Cons.IH in auto)
qed simp

text \<open>An environment in which reading a line never fails.\<close>

definition env_ok :: "salad_env \<Rightarrow> bool" where
  "env_ok e \<longleftrightarrow> ke_write e = Inr () \<and> (\<forall>v. is_ok (ke_decode e v))"

definition line_fun :: "salad_env \<Rightarrow> string \<Rightarrow> ConsoleStream \<Rightarrow> ConsoleStream" where
  "line_fun e line st =
     (let st1 = (case machine_id_match line of
                   None \<Rightarrow> st
                 | Some v \<Rightarrow> st\<lparr>st_machine_id := Some (case ke_decode e v of Inr mid \<Rightarrow> mid | Inl _ \<Rightarrow> [])\<rparr>)
      in if ping_search (st_kind st) line then st1\<lparr>st_sent := st_sent st1 @ pong\<rparr> else st1)"

lemma act_bind_assoc: "act_bind (act_bind m f) g s = act_bind m (\<lambda>x. act_bind (f x) g) s"
  by (auto simp: act_bind_def split: prod.splits sum.splits)

lemma process_line_fun:
  assumes "env_ok e"
  shows "process_input_line e line st = (Inr (), line_fun e line st)"
proof -
  have "\<exists>mid. ke_decode e v = Inr mid" for v using assms by (auto simp: env_ok_def is_ok_iff)
  then obtain dec where dec: "\<And>v. ke_decode e v = Inr (dec v)" by metis
  have w: "ke_write e = Inr ()" using assms by (simp add: env_ok_def)
  show ?thesis
    by (cases "machine_id_match line")
       (simp_all add: process_input_line_def line_fun_def stream_send_def dec w act_bind_assoc act_return_def act_modify_def Let_def)
qed

lemma line_fun_buffer:
  "line_fun e line (st\<lparr>st_line_buffer := b\<rparr>) = (line_fun e line st)\<lparr>st_line_buffer := b\<rparr>"
  "st_line_buffer (line_fun e line st) = st_line_buffer st" "st_kind (line_fun e line st) = st_kind st"
  by (auto simp: line_fun_def Let_def split: option.splits)

lemma fold_line_fun_buffer:
  "fold (line_fun e) ls (st\<lparr>st_line_buffer := b\<rparr>) = (fold (line_fun e) ls st)\<lparr>st_line_buffer := b\<rparr>"
  "st_line_buffer (fold (line_fun e) ls st) = st_line_buffer st" "st_kind (fold (line_fun e) ls st) = st_kind st"
  by (induction ls arbitrary: st) (simp_all add: line_fun_buffer)

lemma iter_lines: "env_ok e \<Longrightarrow> act_iter (process_input_line e) ls st = (Inr (), fold (line_fun e) ls st)"
  by (induction ls arbitrary: st) (simp_all add: act_return_def act_bind_def process_line_fun)

lemma tcp_recv_eq:
  assumes "env_ok e"
  shows "tcp_recv e data st =
    (Inr (), (fold (line_fun e) (butlast (crlf_split (st_line_buffer st @ data))) st)\<lparr>st_line_buffer := last (crlf_split (st_line_buffer st @ data))\<rparr>)"
  by (simp add: tcp_recv_def iter_lines[OF assms] fold_line_fun_buffer)

lemma tcp_recv_append:
  assumes "env_ok e"
  shows "act_bind (tcp_recv e a) (\<lambda>_. tcp_recv e b) st = tcp_recv e (a @ b) st"
proof -
  let ?R = "crlf_split (st_line_buffer st @ a)"
  have "crlf_split (st_line_buffer st @ a @ b) = butlast ?R @ crlf_split (last ?R @ b)"
    using crlf_split_append[of "st_line_buffer st @ a" b] by simp
  then show ?thesis
    by (simp add: act_bind_def tcp_recv_eq[OF assms] fold_line_fun_buffer butlast_append)
qed

lemma act_iter_append: "act_iter f (xs @ ys) s = act_bind (act_iter f xs) (\<lambda>_. act_iter f ys) s"
proof (induction xs arbitrary: s)
  case (Cons x xs)
  have IH: "act_bind (act_iter f xs) (\<lambda>_. act_iter f ys) = act_iter f (xs @ ys)" by (rule ext) (simp only: Cons.IH)
  show ?case by (simp only: append_Cons act_iter.simps act_bind_assoc IH)
qed simp

lemma serial_byte_kind: "st_kind (snd (serial_byte e c st)) = st_kind st"
  by (auto simp: serial_byte_def process_input_line_def stream_send_def act_defs split: option.splits sum.splits prod.splits)

lemma serial_recv_kind: "st_kind (snd (serial_recv e data st)) = st_kind st"
  unfolding serial_recv_def by (rule act_iter_invariant[where P = "\<lambda>t. st_kind t = st_kind st"]) (simp_all add: serial_byte_kind)

lemma stream_recv_append:
  assumes "env_ok e"
  shows "act_bind (stream_recv e a) (\<lambda>_. stream_recv e b) st = stream_recv e (a @ b) st"
proof (cases "st_kind st")
  case SerialConsole
  then show ?thesis
    using serial_recv_kind[of e a st]
    by (auto simp: stream_recv_def act_bind_def act_get_def serial_recv_def act_iter_append split: prod.splits sum.splits)
next
  case TCPConsole
  then show ?thesis
    using tcp_recv_append[OF assms, of a b st] tcp_recv_eq[OF assms, of a st]
    by (simp add: stream_recv_def act_bind_def act_get_def fold_line_fun_buffer)
qed

lemma stream_recv_Nil:
  assumes "env_ok e" "crlf_split (st_line_buffer st) = [st_line_buffer st]"
  shows "stream_recv e [] st = (Inr (), st)"
  using assms by (cases "st_kind st") (simp_all add: stream_recv_def serial_recv_def tcp_recv_eq act_return_def)


section \<open>Relaying\<close>

text \<open>The data that an event carries from the consoles of machine \<open>mid\<close>, judged after it was read.\<close>

definition output_from :: "salad_env \<Rightarrow> string \<Rightarrow> ConsoleStream \<Rightarrow> string \<Rightarrow> string" where
  "output_from e mid st data = (if st_machine_id (snd (stream_recv e data st)) = Some mid then data else [])"

definition output_of :: "salad_env \<Rightarrow> string \<Rightarrow> salad_event \<Rightarrow> salad \<Rightarrow> string" where
  "output_of e mid ev s =
     (case ev of
        SerialReady d data \<Rightarrow> (case dict_get (sa_serial s) d of None \<Rightarrow> [] | Some st \<Rightarrow> output_from e mid st data)
      | NetReady name data \<Rightarrow> (case dict_get (sa_net s) name of None \<Rightarrow> [] | Some st \<Rightarrow> output_from e mid st data)
      | _ \<Rightarrow> [])"

definition client_of :: "salad \<Rightarrow> string \<Rightarrow> string option" where
  "client_of s mid = (case dict_get (sa_machines s) mid of None \<Rightarrow> None | Some m \<Rightarrow> sv_client m)"

lemma set_stream_client [simp]: "client_of (set_stream k st s) mid = client_of s mid"
  by (simp add: set_stream_def client_of_def split: stream_kind.split)

lemma client_of_set: "client_of (s\<lparr>sa_machines := dict_set k m (sa_machines s)\<rparr>) mid = (if mid = k then sv_client m else client_of s mid)"
  by (simp add: client_of_def)

lemma send_client:
  "client_of (send_to_console_listener n st buf s) mid =
     (if st_machine_id st = Some mid \<and> mid \<noteq> []
      then (case client_of s mid of None \<Rightarrow> None | Some out \<Rightarrow> map_option (\<lambda>k. out @ take k buf) n) else client_of s mid)"
proof (cases "st_machine_id st")
  case (Some k)
  show ?thesis
  proof (cases "dict_get (sa_machines s) k")
    case None
    then show ?thesis using Some
      by (auto simp: send_to_console_listener_def get_or_create_machine_def TCPServer_init_def server_send_def client_of_def Let_def)
  next
    case (Some m)
    then show ?thesis using \<open>st_machine_id st = Some k\<close>
      by (auto simp: send_to_console_listener_def get_or_create_machine_def server_send_def client_of_def server_close_client_def
          split: option.split)
  qed
qed (simp add: send_to_console_listener_def)


section \<open>An example\<close>

definition example_salad_env :: salad_env where
  "example_salad_env = \<lparr>ke_decode = Inr, ke_write = Inr ()\<rparr>"


definition example_salad :: salad where
  "example_salad = \<lparr>sa_machines = [(''dut1'', \<lparr>sv_id = ''dut1'', sv_client = Some ''boot '', sv_refused = 0\<rparr>)],
     sa_serial = [(''ttyUSB0'', (ConsoleStream_init SerialConsole ''ttyUSB0'')\<lparr>st_machine_id := Some ''dut1''\<rparr>)], sa_net = []\<rparr>"


end
