(* ===== verification/Machine_Registration.thy ===== *)
theory Machine_Registration
  imports App Gfxinfo Salad
begin

text \<open>
  The script a machine runs when it boots (\<open>machine_registration.py\<close>): it describes itself by its
  GPU, its network interface and its serial console, and registers with the executor or checks that
  what the executor knows is still true. The script is composed with the models of its peers: the
  GPU databases, the REST interface and SALAD.
\<close>

section \<open>What a machine knows about itself\<close>

record NetworkConf =
  nc_mac :: string
  nc_ipv4 :: "string option"
  nc_ipv6 :: "string option"

text \<open>What \<open>netifaces\<close> and \<open>pyserial\<close> report: the default gateway, addresses by family, and ports.\<close>

record nif_addrs =
  af_link :: "(string, string) dict list option"
  af_inet :: "(string, string) dict list option"
  af_inet6 :: "(string, string) dict list option"

record machine_env =
  me_gateway :: "string option"
  me_ifaddresses :: "string \<Rightarrow> nif_addrs res"
  me_comports :: "string list"

definition MachineInfo_init :: "string list \<Rightarrow> string res \<Rightarrow> string res \<Rightarrow> PCIDevice list \<Rightarrow> (AmdGpuDeviceDB, gpu) act" where
  "MachineInfo_init cpuinfo drv ids devs =
     act_bind (find_gpu cpuinfo drv ids devs) (\<lambda>g.
       case g of None \<Rightarrow> act_raise (RuntimeError ''No suitable GPU in this machine'') | Some gpu \<Rightarrow> act_return gpu)"

definition machine_base_name :: "gpu \<Rightarrow> string res" where
  "machine_base_name g =
     res_bind (gpu_base_name g) (\<lambda>n. case n of None \<Rightarrow> Inl AttributeError | Some b \<Rightarrow> Inr (str_lower b))"

text \<open>\<open>addrs.get(family, [{}])[0].get('addr')\<close>\<close>

definition first_addr :: "(string, string) dict list option \<Rightarrow> string option res" where
  "first_addr l =
     (case l of None \<Rightarrow> Inr None | Some [] \<Rightarrow> Inl IndexError | Some (d # _) \<Rightarrow> Inr (dict_get d ''addr''))"

definition link_addr :: "(string, string) dict list option \<Rightarrow> string res" where
  "link_addr l = (case l of None \<Rightarrow> Inl KeyError | Some [] \<Rightarrow> Inl IndexError | Some (d # _) \<Rightarrow> dict_index d ''addr'')"

definition default_gateway_nif_addrs :: "machine_env \<Rightarrow> NetworkConf res" where
  "default_gateway_nif_addrs me =
     (case me_gateway me of
        None \<Rightarrow> Inl TypeError
      | Some nif \<Rightarrow>
          res_bind (me_ifaddresses me nif) (\<lambda>addrs.
          res_bind (link_addr (af_link addrs)) (\<lambda>mac.
          res_bind (first_addr (af_inet addrs)) (\<lambda>v4.
          res_bind (first_addr (af_inet6 addrs)) (\<lambda>v6.
            Inr \<lparr>nc_mac = mac, nc_ipv4 = v4, nc_ipv6 = v6\<rparr>)))))"

section \<open>The serial console\<close>

text \<open>What is written to a serial port to see if SALAD listens, and the only answer that counts.\<close>

definition ping_text :: string where
  "ping_text = [nl_byte] @ ''SALAD.ping'' @ [nl_byte]"

definition ping_exit_code :: "string \<Rightarrow> int" where
  "ping_exit_code answer = (if answer = ''SALAD.pong'' @ [nl_byte] then 0 else 42)"

text \<open>
  One look at the processes that are pending, given the exit codes they have by then: the port of the
  first one that got its answer, and the processes that are left.
\<close>

fun poll_round :: "(string \<Rightarrow> int option) \<Rightarrow> string list \<Rightarrow> string option \<times> string list" where
  "poll_round ex [] = (None, [])"
| "poll_round ex (p # ps) =
     (case ex p of
        None \<Rightarrow> (let (f, r) = poll_round ex ps in (f, p # r))
      | Some c \<Rightarrow> if c = 0 then (Some p, ps) else poll_round ex ps)"

text \<open>The loop, over what is seen at each look; \<^term>\<open>None\<close> when it still waits at the end.\<close>

fun poll_ports :: "(string \<Rightarrow> int option) list \<Rightarrow> string list \<Rightarrow> string option option" where
  "poll_ports obs [] = Some None"
| "poll_ports [] (p # ps) = None"
| "poll_ports (ex # obs) (p # ps) =
     (case poll_round ex (p # ps) of
        (Some q, _) \<Rightarrow> Some (Some q)
      | (None, r) \<Rightarrow> poll_ports obs r)"

definition machine_id_text :: "string \<Rightarrow> string" where
  "machine_id_text mac = ''SALAD.machine_id='' @ mac @ [nl_byte]"

text \<open>The device that was found, and what was written to it to tell SALAD who this is.\<close>

definition tty_result :: "machine_env \<Rightarrow> string option \<Rightarrow> (string option \<times> (string \<times> string) list) res" where
  "tty_result me found =
     (case found of
        None \<Rightarrow> Inr (None, [])
      | Some port \<Rightarrow> res_bind (default_gateway_nif_addrs me) (\<lambda>nc. Inr (Some port, [(port, machine_id_text (nc_mac nc))])))"

definition local_tty :: "machine_env \<Rightarrow> (string \<Rightarrow> int option) list \<Rightarrow> (string option \<times> (string \<times> string) list) res option" where
  "local_tty me obs =
     (if me_comports me = [] then Some (Inr (None, [])) else map_option (tty_result me) (poll_ports obs (me_comports me)))"

section \<open>The request\<close>

definition opt_str_json :: "string option \<Rightarrow> json" where
  "opt_str_json x = (case x of None \<Rightarrow> JNull | Some s \<Rightarrow> JStr s)"

definition strip_dev :: "string option \<Rightarrow> string option" where
  "strip_dev t = map_option (\<lambda>s. if str_startswith s ''/dev/'' then drop 5 s else s) t"

text \<open>\<open>tty\<close> is the device found, or \<^term>\<open>None\<close> if the console is not to be looked for.\<close>

definition to_machine_registration_request ::
  "machine_env \<Rightarrow> gpu \<Rightarrow> string option option \<Rightarrow> (string \<times> json) list res" where
  "to_machine_registration_request me g tty =
     res_bind (default_gateway_nif_addrs me) (\<lambda>nc.
     res_bind (machine_base_name g) (\<lambda>base.
     res_bind (gpu_tags g) (\<lambda>ts.
       Inr ([(''base_name'', JStr base), (''tags'', JList (map JStr ts)), (''mac_address'', JStr (nc_mac nc)),
             (''ip_address'', opt_str_json (nc_ipv4 nc))] @
            (case tty of None \<Rightarrow> [] | Some dev \<Rightarrow> [(''local_tty_device'', opt_str_json (strip_dev dev))])))))"

section \<open>Registering and checking\<close>

text \<open>
  The script sends a POST, and a PATCH to the machine's own address if the answer is a 400. The REST
  interface has only GET at that address, so that Flask answers the PATCH with a 405.
\<close>

definition patch_machine :: "('g, 'w, 'd) app \<Rightarrow> response \<times> ('g, 'w, 'd) app" where
  "patch_machine s = ((405, JNull), s)"

definition register ::
  "('g, 'd) app_env \<Rightarrow> (string \<Rightarrow> ('w, 'd) executor) \<Rightarrow> machine_env \<Rightarrow> gpu \<Rightarrow> string option option \<Rightarrow> (('g, 'w, 'd) app, int) act" where
  "register e mk me g tty s =
     (case to_machine_registration_request me g tty of
        Inl x \<Rightarrow> (Inl x, s)
      | Inr params \<Rightarrow>
          let (r, s1) = handle_request e (machine_add_or_update e mk params) s;
              (r, s2) = (if fst r = 400 then patch_machine s1 else (r, s1))
          in (Inr (if fst r = 200 then 0 else 1), s2))"

definition json_kind :: "json \<Rightarrow> nat" where
  "json_kind j =
     (case j of JNull \<Rightarrow> 0 | JBool _ \<Rightarrow> 1 | JInt _ \<Rightarrow> 2 | JFloat _ \<Rightarrow> 3 | JStr _ \<Rightarrow> 4 | JList _ \<Rightarrow> 5 | JObj _ \<Rightarrow> 6)"

definition is_hashable :: "json \<Rightarrow> bool" where
  "is_hashable j = (json_kind j < 5)"

text \<open>Whether a value differs from what is expected: lists are compared as sets.\<close>

definition value_differs :: "json \<Rightarrow> json \<Rightarrow> bool res" where
  "value_differs expected v =
     (if json_kind expected \<noteq> json_kind v then Inr True
      else case (expected, v) of
             (JList xs, JList ys) \<Rightarrow>
               if list_all is_hashable xs \<and> list_all is_hashable ys then Inr (set xs \<noteq> set ys) else Inl TypeError
           | _ \<Rightarrow> Inr (expected \<noteq> v))"

fun has_differences :: "(string, json) dict \<Rightarrow> (string \<times> json) list \<Rightarrow> bool res" where
  "has_differences conf [] = Inr False"
| "has_differences conf ((k, v) # kvs) =
     res_bind (value_differs (dict_get_or conf k JNull) v) (\<lambda>d.
     res_bind (has_differences conf kvs) (\<lambda>d'. Inr (d \<or> d')))"

text \<open>
  \<open>serial_console_works\<close>, on the line that arrived within a second of the ping, if any:
  \<open>^SALAD.pong\r?\n$\<close>.
\<close>

definition serial_console_works :: "string option \<Rightarrow> bool" where
  "serial_console_works answer =
     (case answer of
        None \<Rightarrow> False
      | Some line \<Rightarrow>
          (case salad_word ''pong'' line of
             None \<Rightarrow> False
           | Some r \<Rightarrow> r \<in> set [[nl_byte], [cr_byte, nl_byte], [nl_byte, nl_byte], [cr_byte, nl_byte, nl_byte]]))"

text \<open>\<open>console\<close> is the answer on the serial console, or \<^term>\<open>None\<close> with \<open>--no-tty\<close>.\<close>

definition check_machine ::
  "('g, 'd) app_env \<Rightarrow> machine_env \<Rightarrow> gpu \<Rightarrow> string option option \<Rightarrow> (('g, 'w, 'd) app, int) act" where
  "check_machine e me g console s =
     (let r = res_bind (default_gateway_nif_addrs me) (\<lambda>nc.
        case fst (handle_request e (machine_detail_get e (nc_mac nc)) s) of (code, body) \<Rightarrow>
          if code \<ge> 400 then Inl HTTPError
          else case body of
                 JObj conf \<Rightarrow>
                   res_bind (to_machine_registration_request me g None) (\<lambda>local_config.
                   res_bind (has_differences conf local_config) (\<lambda>d.
                     Inr (if d \<or> (case console of None \<Rightarrow> False | Some a \<Rightarrow> \<not> serial_console_works a) then 1 else 0)))
               | _ \<Rightarrow> Inl AttributeError)
      in (r, s))"

section \<open>A machine that registered passes its check\<close>

lemma save_if_needed_machines: "mr_machines (snd (save_db_if_needed s)) = mr_machines s"
  by (simp add: save_db_if_needed_def act_modify_def db_save_def reset_taint_def upd_db_def)

text \<open>The machine that is served under the address is the one that was just registered.\<close>

lemma add_or_update_entry:
  assumes "add_or_update_machine e mac mk s = (Inr u, s')" "mr_db s < length (mr_dbs s)"
  shows "\<exists>m d old. mk old = Inr d \<and> dict_get (mr_machines s') mac = Some m \<and>
    o_dut (the_dut s' (m_dut m)) = d \<and> o_mac (the_dut s' (m_dut m)) = mac"
proof -
  obtain old d s2 where mk: "mk old = Inr d"
    and s2: "machine_update_or_create e (length (mr_store s))
        (s\<lparr>mr_store := mr_store s @ [\<lparr>o_dut = d, o_mac = mac, o_db = mr_db s\<rparr>]\<rparr>) = (Inr (), s2)"
    and s': "s' = snd (save_db_if_needed s2)"
    using assms(1) by (auto simp: add_or_update_machine_def act_bind_eq_Inr act_lift_def)
  let ?t = "s\<lparr>mr_store := mr_store s @ [\<lparr>o_dut = d, o_mac = mac, o_db = mr_db s\<rparr>]\<rparr>" and ?a = "length (mr_store s)"
  have "registers ?a mac ?t s2" using update_or_create_registers[OF s2] assms(2) by simp
  then obtain m where m: "m_dut m = ?a" "dict_get (mr_machines s2) mac = Some m" by (auto simp: registers_def)
  have "same_store ?t s2" using sto.withinD[OF update_or_create_store, of ?t e ?a] s2 by simp
  moreover have "same_store s2 s'" unfolding s' by (rule sto.withinD[OF save_if_needed_store])
  ultimately have "the_dut s' ?a = \<lparr>o_dut = d, o_mac = mac, o_db = mr_db s\<rparr>" by (simp add: same_store_def)
  moreover have "dict_get (mr_machines s') mac = Some m" by (simp add: s' save_if_needed_machines m(2))
  ultimately show ?thesis using mk m(1) by auto
qed

lemma register_body_detail:
  assumes "register_body e mk mac kvs s = (Inr resp, s')"
  shows "machine_detail_get e mac s' = (Inr resp, s')"
proof -
  obtain t where "machine_detail_get e mac t = (Inr resp, s')"
    using assms unfolding register_body_def by (auto simp only: act_bind_eq_Inr)
  moreover from this have "s' = t" using machine_detail_get_state[of e mac t] by simp
  ultimately show ?thesis by simp
qed

lemma registration_detail:
  assumes "machine_add_or_update e mk data s = (Inr resp, s')" "dict_get data ''mac_address'' = Some (JStr mac)"
  shows "machine_detail_get e mac s' = (Inr resp, s')"
proof -
  have "\<exists>t. register_body e mk mac (with_discovery (discover_data (ae_clock e) (ap_discover s)) data) t = (Inr resp, s')"
    using assms(1) unfolding registration_body[OF registration_fields[OF assms(1)] assms(2)]
    by (auto simp only: act_bind_eq_Inr act_lift_def prod.inject)
  then show ?thesis using register_body_detail by blast
qed

text \<open>The fields of a DUT are those of the request, when pydantic accepts them as they are.\<close>

definition plain_fields :: "('g, 'd) app_env \<Rightarrow> bool" where
  "plain_fields e \<longleftrightarrow> (\<forall>x. ae_str_field e (JStr x) = Inr x) \<and> \<not> is_ok (ae_str_field e JNull) \<and>
     (\<forall>ts. ae_tags_field e (JList (map JStr ts)) = Inr ts)"

definition field_keys :: "string list" where
  "field_keys = [''base_name'', ''tags'', ''ip_address'']"

definition same_fields :: "string list \<Rightarrow> ConfigDUT \<Rightarrow> ConfigDUT \<Rightarrow> bool" where
  "same_fields ks d d' \<longleftrightarrow>
     (''base_name'' \<in> set ks \<or> base_name d' = base_name d) \<and> (''tags'' \<in> set ks \<or> tags d' = tags d) \<and>
     (''ip_address'' \<in> set ks \<or> ip_address d' = ip_address d)"

lemma dut_field_others: "dut_field e (k, v) d = Inr d' \<Longrightarrow> same_fields [k] d d'"
  by (auto simp: dut_field_def same_fields_def res_bind_Inr_iff split: if_splits)

lemma kept_step: "p \<in> set [k] \<or> y = x \<Longrightarrow> p \<in> set ks \<or> z = y \<Longrightarrow> p \<in> set (k # ks) \<or> z = x"
  by auto

lemma same_fields_step:
  assumes "same_fields [k] d d1" "same_fields ks d1 d'"
  shows "same_fields (k # ks) d d'"
  unfolding same_fields_def
  by (intro conjI kept_step[OF conjunct1[OF assms(1)[unfolded same_fields_def]] conjunct1[OF assms(2)[unfolded same_fields_def]]]
      kept_step[OF conjunct1[OF conjunct2[OF assms(1)[unfolded same_fields_def]]] conjunct1[OF conjunct2[OF assms(2)[unfolded same_fields_def]]]]
      kept_step[OF conjunct2[OF conjunct2[OF assms(1)[unfolded same_fields_def]]] conjunct2[OF conjunct2[OF assms(2)[unfolded same_fields_def]]]])

lemma dut_fields_others: "dut_fields e kvs d = Inr d' \<Longrightarrow> same_fields (map fst kvs) d d'"
proof (induction kvs arbitrary: d)
  case Nil
  then show ?case by (simp add: same_fields_def)
next
  case (Cons kv kvs)
  obtain k v where kv: "kv = (k, v)" by (cases kv)
  obtain d1 where d1: "dut_field e (k, v) d = Inr d1" "dut_fields e kvs d1 = Inr d'"
    using Cons.prems by (auto simp: kv res_bind_Inr_iff)
  show ?case using same_fields_step[OF dut_field_others[OF d1(1)] Cons.IH[OF d1(2)]] by (simp only: kv list.map fst_conv)
qed

lemma dut_fields_request:
  assumes "dut_fields e ([(''base_name'', JStr b), (''tags'', JList (map JStr ts)), (''ip_address'', ip)] @ rest) d = Inr d'"
    and "plain_fields e" "\<forall>k \<in> set field_keys. k \<notin> set (map fst rest)"
  shows "base_name d' = b \<and> tags d' = ts \<and> ae_str_field e ip = Inr (ip_address d')"
proof -
  obtain d1 where d1: "dut_field e (''ip_address'', ip) (d\<lparr>base_name := b, tags := ts\<rparr>) = Inr d1"
    and d': "dut_fields e rest d1 = Inr d'"
    using assms(1,2) by (auto simp: dut_field_def plain_fields_def res_bind_Inr_iff)
  have "base_name d1 = b \<and> tags d1 = ts \<and> ae_str_field e ip = Inr (ip_address d1)"
    using d1 by (auto simp: dut_field_def res_bind_Inr_iff split: if_splits)
  then show ?thesis using dut_fields_others[OF d'] assms(3) by (simp add: same_fields_def field_keys_def)
qed

definition request_fields :: "string \<Rightarrow> string list \<Rightarrow> string \<Rightarrow> json \<Rightarrow> (string \<times> json) list \<Rightarrow> (string \<times> json) list" where
  "request_fields b ts mac ip extra =
     [(''base_name'', JStr b), (''tags'', JList (map JStr ts)), (''mac_address'', JStr mac), (''ip_address'', ip)] @ extra"

lemma request_mac: "dict_get (request_fields b ts mac ip extra) ''mac_address'' = Some (JStr mac)"
  by (simp add: request_fields_def)

lemma request_with_discovery:
  assumes "map fst extra \<in> {[], [''local_tty_device'']}"
  shows "\<exists>rest. dict_del ''mac_address'' (with_discovery disc (request_fields b ts mac ip extra)) =
      [(''base_name'', JStr b), (''tags'', JList (map JStr ts)), (''ip_address'', ip)] @ rest \<and>
    (\<forall>k \<in> set field_keys. k \<notin> set (map fst rest))"
proof -
  consider "extra = []" | v where "extra = [(''local_tty_device'', v)]" using assms by auto
  then show ?thesis
    by cases (cases disc; simp add: request_fields_def with_discovery_def field_keys_def)+
qed

lemma registered_entry:
  assumes "machine_add_or_update e mk (request_fields b ts mac ip extra) s = (Inr resp, s')" "plain_fields e"
    and "map fst extra \<in> {[], [''local_tty_device'']}"
  shows "\<exists>m ob. dict_get (mr_machines (ap_mars s')) mac = Some m \<and> ob = the_dut (ap_mars s') (m_dut m) \<and> o_mac ob = mac \<and>
    base_name (o_dut ob) = b \<and> tags (o_dut ob) = ts \<and> ae_str_field e ip = Inr (ip_address (o_dut ob))"
proof -
  let ?data = "request_fields b ts mac ip extra"
  let ?kvs = "dict_del ''mac_address'' (with_discovery (discover_data (ae_clock e) (ap_discover s)) ?data)"
  note mac = request_mac[of b ts mac ip extra]
  note st = registration_steps[OF assms(1) mac]
  have "mr_db (ap_mars s) < length (mr_dbs (ap_mars s))" using st by (simp add: current_db_def split: if_splits)
  from add_or_update_entry[OF conjunct2[OF conjunct2[OF conjunct2[OF st]]] this]
  obtain m d old where m: "ConfigDUT_make e ?kvs old = Inr d" "dict_get (mr_machines (ap_mars s')) mac = Some m"
    "o_dut (the_dut (ap_mars s') (m_dut m)) = d" "o_mac (the_dut (ap_mars s') (m_dut m)) = mac" by blast
  obtain d0 where d0: "dut_fields e ?kvs d0 = Inr d"
    using m(1) unfolding ConfigDUT_make_def by (cases old) (auto split: if_splits)
  obtain rest where rest: "?kvs = [(''base_name'', JStr b), (''tags'', JList (map JStr ts)), (''ip_address'', ip)] @ rest"
    "\<forall>k \<in> set field_keys. k \<notin> set (map fst rest)"
    using request_with_discovery[OF assms(3)] by blast
  show ?thesis
    using dut_fields_request[OF d0[unfolded rest(1)] assms(2) rest(2)] m(2-) by (intro exI[of _ m]) simp
qed

text \<open>What the REST interface reports of that machine, for the keys the script compares.\<close>

lemma detail_of_entry:
  assumes "machine_detail_get e mac s = (Inr (code, j), s')" "dict_get (mr_machines (ap_mars s)) mac = Some m"
  shows "code = 200 \<and> (\<exists>conf. j = JObj conf \<and>
    dict_get conf ''base_name'' = Some (JStr (base_name (o_dut (the_dut (ap_mars s) (m_dut m))))) \<and>
    dict_get conf ''tags'' = Some (JList (map JStr (tags (o_dut (the_dut (ap_mars s) (m_dut m)))))) \<and>
    dict_get conf ''mac_address'' = Some (JStr (o_mac (the_dut (ap_mars s) (m_dut m)))) \<and>
    dict_get conf ''ip_address'' = Some (JStr (ip_address (o_dut (the_dut (ap_mars s) (m_dut m))))))"
proof -
  have "encode_machine e s m = Inr j" "code = 200"
    using assms by (auto simp: machine_detail_get_def get_machine_by_id_def act_bind_eq_Inr act_get_def act_lift_def act_return_def)
  then show ?thesis by (auto simp: encode_machine_def Let_def split: option.splits)
qed

lemma has_differences_request:
  assumes "dict_get conf ''base_name'' = Some (JStr b)" "dict_get conf ''tags'' = Some (JList (map JStr ts))"
    and "dict_get conf ''mac_address'' = Some (JStr mac)" "dict_get conf ''ip_address'' = Some (JStr ip)"
  shows "has_differences conf (request_fields b ts mac (JStr ip) []) = Inr False"
proof -
  have "list_all is_hashable (map JStr ts)" by (simp add: list_all_iff is_hashable_def json_kind_def)
  then show ?thesis
    using assms by (simp add: request_fields_def dict_get_or_def value_differs_def json_kind_def)
qed

lemma registration_request:
  assumes "to_machine_registration_request me g tty = Inr params"
  shows "\<exists>nc b ts extra. default_gateway_nif_addrs me = Inr nc \<and> map fst extra \<in> {[], [''local_tty_device'']} \<and>
    params = request_fields b ts (nc_mac nc) (opt_str_json (nc_ipv4 nc)) extra \<and>
    to_machine_registration_request me g None = Inr (request_fields b ts (nc_mac nc) (opt_str_json (nc_ipv4 nc)) [])"
  using assms
  by (cases tty) (auto simp: to_machine_registration_request_def res_bind_Inr_iff request_fields_def)

lemma register_accepted:
  assumes "register e mk me g tty s = (Inr 0, s')"
  shows "\<exists>params resp. to_machine_registration_request me g tty = Inr params \<and>
    machine_add_or_update e mk params s = (Inr resp, s')"
proof -
  obtain params where p: "to_machine_registration_request me g tty = Inr params"
    using assms by (cases "to_machine_registration_request me g tty") (simp_all add: register_def)
  obtain r s1 where r: "machine_add_or_update e mk params s = (r, s1)" by fastforce
  have "\<exists>resp. r = Inr resp \<and> s1 = s'"
  proof (cases r)
    case (Inl x)
    then show ?thesis using assms p r by (cases x) (simp_all add: register_def handle_request_def patch_machine_def)
  next
    case (Inr resp)
    then show ?thesis using assms p r by (simp add: register_def handle_request_def patch_machine_def split: if_splits)
  qed
  then show ?thesis using p r by auto
qed

lemma pong_works: "serial_console_works (Some pong)"
  by code_simp

text \<open>
  C13. A machine that registered successfully and checks itself right afterwards finds no difference:
  name, tags, MAC and IP address go through the request, the validation, the machine registration
  service and the response, and come back the same, whether the machine was known before or not
  and whether or not it was being discovered. With a serial console, SALAD has to answer its ping.
\<close>

theorem registered_machine_passes_check:
  assumes "register e mk me g tty s = (Inr 0, s')" "plain_fields e"
    and "console \<in> {None, Some (Some pong)}"
  shows "check_machine e me g console s' = (Inr 0, s')"
proof -
  obtain params resp where params: "to_machine_registration_request me g tty = Inr params"
    and post: "machine_add_or_update e mk params s = (Inr resp, s')"
    using register_accepted[OF assms(1)] by blast
  obtain nc b ts extra where nc: "default_gateway_nif_addrs me = Inr nc"
    and extra: "map fst extra \<in> {[], [''local_tty_device'']}"
    and p: "params = request_fields b ts (nc_mac nc) (opt_str_json (nc_ipv4 nc)) extra"
    and l: "to_machine_registration_request me g None = Inr (request_fields b ts (nc_mac nc) (opt_str_json (nc_ipv4 nc)) [])"
    using registration_request[OF params] by (elim exE conjE) (rule that)
  obtain m where m: "dict_get (mr_machines (ap_mars s')) (nc_mac nc) = Some m"
    and ob: "o_mac (the_dut (ap_mars s') (m_dut m)) = nc_mac nc" "base_name (o_dut (the_dut (ap_mars s') (m_dut m))) = b"
      "tags (o_dut (the_dut (ap_mars s') (m_dut m))) = ts"
      "ae_str_field e (opt_str_json (nc_ipv4 nc)) = Inr (ip_address (o_dut (the_dut (ap_mars s') (m_dut m))))"
    using registered_entry[OF post[unfolded p] assms(2) extra] by (elim exE conjE) (rule that, simp_all only:)
  have ip: "opt_str_json (nc_ipv4 nc) = JStr (ip_address (o_dut (the_dut (ap_mars s') (m_dut m))))"
    using ob(4) assms(2) by (cases "nc_ipv4 nc") (auto simp: opt_str_json_def plain_fields_def)
  obtain code j where resp: "resp = (code, j)" by (cases resp)
  have "dict_get params ''mac_address'' = Some (JStr (nc_mac nc))" by (simp only: p request_mac)
  then have get: "machine_detail_get e (nc_mac nc) s' = (Inr (code, j), s')"
    using registration_detail[OF post] by (simp add: resp)
  obtain conf where conf: "code = 200" "j = JObj conf"
    "has_differences conf (request_fields b ts (nc_mac nc) (opt_str_json (nc_ipv4 nc)) []) = Inr False"
    using detail_of_entry[OF get m] unfolding ob(1-3) ip
    by (elim conjE exE) (rule that, assumption, assumption, unfold ip, rule has_differences_request)
  have "\<not> (case console of None \<Rightarrow> False | Some a \<Rightarrow> \<not> serial_console_works a)"
    using assms(3) pong_works by auto
  then show ?thesis
    by (simp add: check_machine_def Let_def nc handle_request_def get[unfolded conf] l conf(3))
qed

definition example_nif :: machine_env where
  "example_nif =
     \<lparr>me_gateway = Some ''eth0'',
      me_ifaddresses = (\<lambda>_. Inr \<lparr>af_link = Some [[(''addr'', ''10:62:e5:04:39:89'')]], af_inet = Some [[(''addr'', ''10.42.0.10'')]],
                                 af_inet6 = None\<rparr>),
      me_comports = [''/dev/ttyS0'', ''/dev/ttyUSB0'']\<rparr>"

definition example_gpu :: gpu where
  "example_gpu = Virt \<lparr>pci_vendor_id = 0x1af4, pci_product_id = 0x1050, pci_revision = 1\<rparr>"

definition example_params :: "(string \<times> json) list" where
  "example_params =
     [(''base_name'', JStr ''virtio''), (''tags'', JList [JStr ''virtio:pciid:0x1af4:0x1050'', JStr ''virtio:family:VIRTIO'']), (''mac_address'', JStr ''10:62:e5:04:39:89''),
      (''ip_address'', JStr ''10.42.0.10''), (''local_tty_device'', JStr ''ttyUSB0'')]"

lemma example_request: "to_machine_registration_request example_nif example_gpu (Some (Some ''/dev/ttyUSB0'')) = Inr example_params"
proof -
  have "gpu_tags example_gpu = Inr [''virtio:pciid:0x1af4:0x1050'', ''virtio:family:VIRTIO'']"
    by (simp add: gpu_tags_def example_gpu_def virt_tags_def pciid_text_def py_hex_def show_base.simps digit_char_def
        char_of_def bit_iff_odd)
  moreover have "machine_base_name example_gpu = Inr ''virtio''"
    by (simp add: machine_base_name_def gpu_base_name_def example_gpu_def str_lower_def char_lower_def Let_def)
  moreover have "strip_dev (Some ''/dev/ttyUSB0'') = Some ''ttyUSB0''" by (simp add: strip_dev_def)
  ultimately show ?thesis
    by (simp add: to_machine_registration_request_def default_gateway_nif_addrs_def link_addr_def first_addr_def dict_index_def
        example_nif_def example_params_def opt_str_json_def)
qed

lemma example_plain: "plain_fields example_app_env"
proof -
  have "res_map_list json_text (map JStr ts) = Inr ts" for ts
    by (induction ts) (simp_all add: json_text_def)
  then show ?thesis by (simp add: plain_fields_def example_app_env_def)
qed

theorem registered_machine_passes_check_witness:
  "\<exists>s' :: (string set, unit, vpdu) app. check_machine example_app_env example_nif example_gpu (Some (Some pong)) s' = (Inr 0, s')"
proof -
  let ?r = "register example_app_env (\<lambda>_. idle_executor AtTop) example_nif example_gpu (Some (Some ''/dev/ttyUSB0'')) example_app"
  note p = example_request
  have "fst (fst (handle_request example_app_env (machine_add_or_update example_app_env (\<lambda>_. idle_executor AtTop) example_params) example_app)) = 200"
    by code_simp
  then have "fst ?r = Inr 0"
    by (cases "handle_request example_app_env (machine_add_or_update example_app_env (\<lambda>_. idle_executor AtTop) example_params) example_app")
      (simp add: register_def p)
  then have "?r = (Inr 0, snd ?r)" by (metis prod.collapse)
  from registered_machine_passes_check[OF this example_plain, of "Some (Some pong)"] show ?thesis by blast
qed

section \<open>Registration that is refused\<close>

text \<open>
  The second attempt never helps: a registration that the REST interface answers with a 400 makes
  the script fail, as there is nothing behind the address it sends its PATCH to.
\<close>

theorem refused_registration_fails:
  assumes "to_machine_registration_request me g tty = Inr params"
    and "fst (fst (handle_request e (machine_add_or_update e mk params) s)) = 400"
  shows "fst (register e mk me g tty s) = Inr 1"
  using assms
  by (cases "handle_request e (machine_add_or_update e mk params) s") (simp add: register_def patch_machine_def)

section \<open>Finding the serial console\<close>

lemma poll_round_found: "poll_round ex ps = (Some q, r) \<Longrightarrow> q \<in> set ps \<and> ex q = Some 0"
  by (induction ps arbitrary: r) (auto split: option.splits if_splits prod.splits)

lemma poll_round_pending: "poll_round ex ps = (None, r) \<Longrightarrow> set r = {p \<in> set ps. ex p = None} \<and> (\<forall>p \<in> set ps. ex p \<noteq> Some 0)"
  by (induction ps arbitrary: r) (auto split: option.splits if_splits prod.splits)

text \<open>
  The port that is found belongs to a process that got its pong, and the loop ends as soon as every
  process has exited.
\<close>

lemma poll_ports_found:
  "poll_ports obs ps = Some (Some q) \<Longrightarrow> q \<in> set ps \<and> (\<exists>ex \<in> set obs. ex q = Some 0)"
proof (induction obs ps rule: poll_ports.induct)
  case (3 ex obs p ps)
  obtain f r where fr: "poll_round ex (p # ps) = (f, r)" by fastforce
  show ?case
  proof (cases f)
    case None
    then have "poll_ports obs r = Some (Some q)" using 3(2) fr by simp
    then have "q \<in> set r \<and> (\<exists>ex \<in> set obs. ex q = Some 0)" using 3(1)[OF fr[symmetric]] None by simp
    then show ?thesis using poll_round_pending[of ex "p # ps" r] fr None by auto
  next
    case (Some q')
    then have "q' = q" using 3(2) fr by simp
    then show ?thesis using poll_round_found[of ex "p # ps" q r] fr Some by auto
  qed
qed simp_all

lemma poll_ports_ends:
  "\<exists>ex \<in> set obs. \<forall>p \<in> set ps. ex p \<noteq> None \<Longrightarrow> poll_ports obs ps \<noteq> None"
proof (induction obs ps rule: poll_ports.induct)
  case (3 ex obs p ps)
  obtain f r where fr: "poll_round ex (p # ps) = (f, r)" by fastforce
  show ?case
  proof (cases f)
    case None
    then have sub: "set r = {q \<in> set (p # ps). ex q = None}" using poll_round_pending[of ex "p # ps" r] fr by simp
    show ?thesis
    proof (cases "r = []")
      case True
      then show ?thesis using fr None by simp
    next
      case False
      have "\<not> (\<forall>q \<in> set (p # ps). ex q \<noteq> None)"
      proof
        assume "\<forall>q \<in> set (p # ps). ex q \<noteq> None"
        then have "set r = {}" unfolding sub by blast
        with False show False by simp
      qed
      then obtain ex' where "ex' \<in> set obs" "\<forall>q \<in> set (p # ps). ex' q \<noteq> None" using 3(2) by (metis set_ConsD)
      then have "\<exists>ex' \<in> set obs. \<forall>q \<in> set r. ex' q \<noteq> None" unfolding sub by blast
      then show ?thesis using 3(1)[OF fr[symmetric]] fr None by simp
    qed
  next
    case (Some q)
    then show ?thesis using fr by (simp del: poll_round.simps)
  qed
qed simp_all

text \<open>
  At the other end of the cable: SALAD answers the ping of a fresh connection with the pong the
  script waits for, and learns the name of the machine from what the script writes next.
\<close>

lemma machine_id_none: "CHR ''S'' \<notin> set s \<Longrightarrow> machine_id_match s = None"
  by (induction s) (auto simp: id_at_def salad_word_def)

lemma ping_none: "CHR ''S'' \<notin> set s \<Longrightarrow> \<not> ping_search k s"
  by (induction s) (auto simp: salad_word_def)

text \<open>A line that is read byte by byte is processed at its newline.\<close>

lemma serial_line:
  assumes "env_ok e" "nl_byte \<notin> set l"
  shows "serial_recv e (l @ [nl_byte]) st = (Inr (), (line_fun e (st_line_buffer st @ l @ [nl_byte]) st)\<lparr>st_line_buffer := []\<rparr>)"
  using assms(2)
proof (induction l arbitrary: st)
  case Nil
  show ?case
    by (simp add: serial_recv_def serial_byte_def process_line_fun[OF assms(1)] line_fun_buffer act_defs)
next
  case (Cons c l)
  have "serial_recv e ((c # l) @ [nl_byte]) st = serial_recv e (l @ [nl_byte]) (st\<lparr>st_line_buffer := st_line_buffer st @ [c]\<rparr>)"
    using Cons.prems by (auto simp: serial_recv_def serial_byte_def act_defs)
  then show ?case using Cons by (simp add: line_fun_buffer)
qed

lemma serial_recv_append: "fst (serial_recv e a st) = Inr () \<Longrightarrow> serial_recv e (a @ b) st = serial_recv e b (snd (serial_recv e a st))"
  by (simp add: serial_recv_def act_iter_append act_bind_ok)

lemma ping_lines:
  "machine_id_match [nl_byte] = None" "\<not> ping_search SerialConsole [nl_byte]"
  "machine_id_match (''SALAD.ping'' @ [nl_byte]) = None" "ping_search SerialConsole (''SALAD.ping'' @ [nl_byte])"
  by code_simp+

definition mac_like :: "string \<Rightarrow> bool" where
  "mac_like mac = (mac \<noteq> [] \<and> list_all (\<lambda>c. \<not> byte_space c \<and> c \<noteq> CHR ''S'') mac)"

lemma machine_id_line:
  assumes "mac_like mac"
  shows "machine_id_match (machine_id_text mac) = Some mac" "\<not> ping_search k (machine_id_text mac)"
proof -
  let ?s = "''ALAD.machine_id='' @ mac @ [nl_byte]"
  have "nl_byte \<noteq> CHR ''S''" by (simp add: nl_byte_def)
  then have S: "CHR ''S'' \<notin> set ?s" using assms by (auto simp: mac_like_def list_all_iff)
  have "byte_space nl_byte" by (simp add: byte_space_def nl_byte_def)
  moreover have "\<forall>c \<in> set mac. \<not> byte_space c" using assms by (simp add: mac_like_def list_all_iff)
  ultimately have take: "takeWhile (\<lambda>c. \<not> byte_space c) (mac @ [nl_byte]) = mac"
    by (simp add: takeWhile_append2)
  have "machine_id_match (machine_id_text mac) = id_at (CHR ''S'' # ?s)"
    using machine_id_none[OF S] by (simp add: machine_id_text_def nl_byte_def)
  also have "\<dots> = Some mac"
    using take assms by (simp add: id_at_def salad_word_def nl_byte_def mac_like_def)
  finally show "machine_id_match (machine_id_text mac) = Some mac" .
  show "\<not> ping_search k (machine_id_text mac)"
    using ping_none[OF S, of k] by (simp add: machine_id_text_def salad_word_def nl_byte_def)
qed

text \<open>
  The handshake on the serial cable: SALAD answers the ping with exactly the line the script accepts,
  and once the script has written its identifier the console belongs to this machine.
\<close>

theorem console_handshake:
  assumes "env_ok e" "mac_like mac" "ke_decode e mac = Inr mac"
  shows "\<exists>st. serial_recv e (ping_text @ machine_id_text mac) (ConsoleStream_init SerialConsole n) = (Inr (), st) \<and>
    ping_exit_code (st_sent st) = 0 \<and> st_machine_id st = Some mac \<and> st_line_buffer st = []"
proof -
  let ?s0 = "ConsoleStream_init SerialConsole n"
  let ?s1 = "?s0\<lparr>st_sent := pong\<rparr>"
  have nl: "nl_byte \<notin> set ''SALAD.ping''" "nl_byte \<notin> set (''SALAD.machine_id='' @ mac)"
    using assms(2) by (auto simp: nl_byte_def mac_like_def list_all_iff byte_space_def)
  have k: "st_kind ?s0 = SerialConsole" "st_line_buffer ?s0 = []" "st_sent ?s0 = []" by (simp_all add: ConsoleStream_init_def)
  have "serial_recv e ([] @ [nl_byte]) ?s0 = (Inr (), ?s0)"
    using ping_lines(1,2) serial_line[OF assms(1), of "[]" ?s0] by (simp add: k line_fun_def ConsoleStream_init_def)
  then have "serial_recv e ping_text ?s0 = serial_recv e (''SALAD.ping'' @ [nl_byte]) ?s0"
    using serial_recv_append[of e "[nl_byte]" ?s0 "''SALAD.ping'' @ [nl_byte]"] by (simp add: ping_text_def)
  also have "\<dots> = (Inr (), ?s1)"
    unfolding serial_line[OF assms(1) nl(1)]
    using ping_lines(3,4) by (simp add: line_fun_def ConsoleStream_init_def)
  finally have ping: "serial_recv e ping_text ?s0 = (Inr (), ?s1)" .
  have "serial_recv e (machine_id_text mac) ?s1 =
      (Inr (), (line_fun e (machine_id_text mac) ?s1)\<lparr>st_line_buffer := []\<rparr>)"
    using serial_line[OF assms(1) nl(2), of ?s1] by (simp add: machine_id_text_def k)
  moreover have "line_fun e (machine_id_text mac) ?s1 = ?s1\<lparr>st_machine_id := Some mac\<rparr>"
    using machine_id_line[OF assms(2)] assms(3) by (simp add: line_fun_def)
  ultimately show ?thesis
    using serial_recv_append[of e ping_text ?s0 "machine_id_text mac"] ping
    by (simp add: ping_exit_code_def pong_def)
qed

theorem console_handshake_witness:
  "\<exists>st. serial_recv example_salad_env (ping_text @ machine_id_text ''10:62:e5:04:39:89'') (ConsoleStream_init SerialConsole ''ttyUSB0'') = (Inr (), st) \<and>
     st_machine_id st = Some ''10:62:e5:04:39:89''"
proof -
  have "env_ok example_salad_env" by (simp add: env_ok_def example_salad_env_def)
  moreover have "mac_like ''10:62:e5:04:39:89''" by code_simp
  moreover have "ke_decode example_salad_env ''10:62:e5:04:39:89'' = Inr ''10:62:e5:04:39:89''" by (simp add: example_salad_env_def)
  ultimately show ?thesis using console_handshake[of example_salad_env "''10:62:e5:04:39:89''" "''ttyUSB0''"] by blast
qed

end
