(* ===== verification/Vt_Traces.thy ===== *)
theory Vt_Traces
  imports Complex_Main Json "HOL-Library.Multiset"
begin

text \<open>
  The traces of the trace runner (\<open>valvetraces/__init__.py\<close>): what the website knows of a trace, which
  traces are selected for a run, the script that replays one, the caching of traces in MinIO, the
  objects of the website that are looked up or created, and the enrollment of new traces. The
  website, the storage and the tools that read traces are parameters; the regular expressions of a
  tag filter are predicates.
\<close>

section \<open>Python texts\<close>

text \<open>\<open>s.find(t)\<close>, with \<open>-1\<close> when \<open>t\<close> does not occur.\<close>

fun str_find :: "string \<Rightarrow> string \<Rightarrow> int" where
  "str_find t [] = (if t = [] then 0 else -1)"
| "str_find t (c # s) =
     (if prefix t (c # s) then 0 else let i = str_find t s in if i < 0 then -1 else i + 1)"

text \<open>\<open>s.replace(t, r)\<close> for a text \<open>t\<close> that is not empty.\<close>

function str_replace :: "string \<Rightarrow> string \<Rightarrow> string \<Rightarrow> string" where
  "str_replace t r s =
     (case s of
        [] \<Rightarrow> []
      | c # s' \<Rightarrow> if t \<noteq> [] \<and> prefix t s then r @ str_replace t r (drop (length t) s) else c # str_replace t r s')"
  by pat_completeness auto
termination
  by (relation "measure (\<lambda>(t, r, s). length s)") (auto simp: length_greater_0_conv)

declare str_replace.simps [simp del]

definition newline :: string where
  "newline = [CHR 0x0A]"

section \<open>Traces\<close>

record Trace =
  tr_id :: int
  tr_filename :: "string option"
  tr_metadata :: json
  tr_obsolete :: bool
  tr_frames_to_capture :: "(string, json) dict"
  tr_graphics_api :: "string option"
  tr_tracing_tool :: "string option"
  tr_url :: "string option"
  tr_file_size :: int

text \<open>\<open>SanitizedFieldsMixin.from_api\<close>: the fields the class has, in the order they came.\<close>

definition sanitized_kwargs :: "string list \<Rightarrow> (string, json) dict \<Rightarrow> (string, json) dict" where
  "sanitized_kwargs valid_fields kwargs = filter (\<lambda>(k, v). k \<in> set valid_fields) kwargs"

text \<open>\<open>list(self.metadata.get('machine_tags', []))\<close>, empty when that fails.\<close>

definition machine_tags :: "Trace \<Rightarrow> json list" where
  "machine_tags t =
     (case tr_metadata t of
        JObj kvs \<Rightarrow>
          (case dict_get kvs ''machine_tags'' of
             None \<Rightarrow> []
           | Some (JList xs) \<Rightarrow> xs
           | Some (JStr s) \<Rightarrow> map (\<lambda>c. JStr [c]) s
           | Some (JObj m) \<Rightarrow> map JStr (dict_keys m)
           | Some _ \<Rightarrow> [])
      | _ \<Rightarrow> [])"

text \<open>Some tag matches; a tag that is no text makes the regular expression raise.\<close>

fun tag_found :: "(string \<Rightarrow> bool) \<Rightarrow> json list \<Rightarrow> bool res" where
  "tag_found wanted [] = Inr False"
| "tag_found wanted (j # js) =
     (case j of JStr s \<Rightarrow> if wanted s then Inr True else tag_found wanted js | _ \<Rightarrow> Inl TypeError)"

fun matches_tags :: "Trace \<Rightarrow> (string \<Rightarrow> bool) list \<Rightarrow> bool res" where
  "matches_tags t [] = Inr True"
| "matches_tags t (w # ws) = res_bind (tag_found w (machine_tags t)) (\<lambda>found. if found then matches_tags t ws else Inr False)"

definition filename_to_frame_id :: "Trace \<Rightarrow> string \<Rightarrow> string res" where
  "filename_to_frame_id t filename =
     (if tr_tracing_tool t = Some ''apitrace'' then res_bind (py_int filename) (\<lambda>i. Inr (show_int i))
      else if tr_tracing_tool t = Some ''gfxrecon'' then
        res_bind (py_int (last (str_split CHR ''_'' filename))) (\<lambda>i. Inr (show_int i))
      else Inl (ValueError (''Unknown tracing tool '' @ [CHR 0x27] @ (case tr_tracing_tool t of None \<Rightarrow> ''None'' | Some x \<Rightarrow> x) @ [CHR 0x27])))"

definition none_str :: "string option \<Rightarrow> string" where
  "none_str x = (case x of None \<Rightarrow> ''None'' | Some s \<Rightarrow> s)"

definition quoted :: "string \<Rightarrow> string" where
  "quoted s = CHR 0x22 # s @ [CHR 0x22]"

definition trace_cmdline :: "Trace \<Rightarrow> string \<Rightarrow> string" where
  "trace_cmdline t trace_file_path =
     (let frames = str_join '','' (dict_keys (tr_frames_to_capture t)) in
      if tr_tracing_tool t = Some ''apitrace'' then
        (if tr_graphics_api t = Some ''OpenGL'' then ''apitrace'' else ''apitrace.exe'') @
        '' replay --headless --snapshot='' @ frames @ '' --snapshot-prefix='' @ quoted ''$D/'' @ '' '' @ quoted trace_file_path
      else if tr_tracing_tool t = Some ''gfxrecon'' then
        ''gfxrecon-replay --screenshot-prefix '' @ quoted ''$D/'' @ '' --screenshots '' @ frames @ '' -m rebind '' @ quoted trace_file_path
      else ''/bin/false'')"

definition date_cmd :: string where
  "date_cmd = ''date -u +'' @ [CHR 0x27] @ ''%F %H:%M:%S'' @ [CHR 0x27]"

definition exec_script :: "Trace \<Rightarrow> string \<Rightarrow> string" where
  "exec_script t trace_file_path =
     (let name = none_str (tr_filename t); frames = str_join '','' (dict_keys (tr_frames_to_capture t)) in
      concat (map (\<lambda>l. l @ newline)
        [''#!/bin/sh'', ''set -u'', [],
         ''log() {'', ''echo '' @ quoted (''INFO $('' @ date_cmd @ '') $@''), ''}'', [],
         ''D=$(dirname '' @ quoted (''$(readlink -f '' @ quoted ''$0'' @ '')'') @ '')'', [],
         ''if [ -e '' @ quoted ''$D/.started'' @ '' ]; then'', ''log '' @ quoted (''Already attempted to run '' @ name), ''exit 0'', ''fi'', [],
         date_cmd @ '' > '' @ quoted ''$D/.started'', [],
         ''log '' @ quoted (''Replaying frames ('' @ frames @ '') from '' @ name @ '' ...''),
         ''set -x'', trace_cmdline t trace_file_path @ '' > '' @ quoted ''$D/exec.log'' @ '' 2>&1'', ''retval=$?'', ''set +x'', [],
         ''log '' @ quoted (''Finished replay for '' @ name), [],
         ''cat <<EOF  > '' @ quoted ''$D/.done'', ''$('' @ date_cmd @ '')'', ''$retval'', ''EOF'']))"

section \<open>Selecting traces\<close>

text \<open>The filter of \<open>Client.list_traces\<close>.\<close>

definition list_traces :: "string list option \<Rightarrow> Trace list \<Rightarrow> Trace list" where
  "list_traces gfx_apis ts =
     filter (\<lambda>t. case gfx_apis of
       None \<Rightarrow> True
     | Some apis \<Rightarrow> (case tr_graphics_api t of None \<Rightarrow> False | Some a \<Rightarrow> a \<in> set apis)) ts"

text \<open>The loop of \<open>traces_under_gb\<close>; a finite float times a power of two is a rational number.\<close>

fun take_under :: "rat \<Rightarrow> int \<Rightarrow> Trace list \<Rightarrow> Trace list" where
  "take_under max_bytes taken [] = []"
| "take_under max_bytes taken (t # ts) =
     (let taken' = taken + tr_file_size t
      in if of_int taken' \<ge> max_bytes then [] else t # take_under max_bytes taken' ts)"

definition traces_under_gb :: "Trace list \<Rightarrow> rat \<Rightarrow> Trace list" where
  "traces_under_gb ts gb = take_under (gb * 1024 ^ 3) 0 (sort_key tr_file_size ts)"

definition gfx_api_names :: "(string, string) dict" where
  "gfx_api_names =
     [(''gl'', ''OpenGL''), (''vk'', ''Vulkan''), (''dx9'', ''DX9''), (''dx10'', ''DX10''), (''dx11'', ''DX11''), (''dx12'', ''DX12'')]"

text \<open>The option \<open>--gfx-apis\<close>; an error of the argument parser is a \<^const>\<open>ValueError\<close> here.\<close>

fun gfx_apis_of :: "string list \<Rightarrow> string list \<Rightarrow> string list option res" where
  "gfx_apis_of acc [] = Inr (Some acc)"
| "gfx_apis_of acc (a # as) =
     (if a = ''all'' then Inr None
      else case dict_get gfx_api_names a of
             Some name \<Rightarrow> gfx_apis_of (List.insert name acc) as
           | None \<Rightarrow> Inl (ValueError (''The GFX API '' @ [CHR 0x27] @ a @ [CHR 0x27] @ '' is unknown. Valid options are: [all,'' @
                        str_join '','' (dict_keys gfx_api_names) @ ''].'')))"

definition gfx_apis_to_list :: "string option \<Rightarrow> string list option res" where
  "gfx_apis_to_list apis = (case apis of None \<Rightarrow> Inr None | Some s \<Rightarrow> gfx_apis_of [] (map str_strip (str_split CHR '','' s)))"

section \<open>Names of jobs, folders and objects\<close>

definition job_id :: "(string, string) dict \<Rightarrow> string" where
  "job_id env = (case dict_get env ''CI_JOB_ID'' of Some i \<Rightarrow> ''job-'' @ i | None \<Rightarrow> ''untitled'')"

definition trace_name :: "Trace \<Rightarrow> string" where
  "trace_name t = show_int (tr_id t) @ ''-'' @ none_str (tr_filename t)"

definition unsafe_chars :: string where
  "unsafe_chars = CHR 0x5C # ''/:*?<>| '' @ [CHR 0x27]"

definition str_to_safe_filename :: "string \<Rightarrow> string" where
  "str_to_safe_filename s = filter (\<lambda>c. c \<notin> set unsafe_chars) s"

definition generate_job_results_folder_name :: "(string, string) dict \<Rightarrow> string" where
  "generate_job_results_folder_name env =
     (case dict_get env ''CI_JOB_NAME'' of Some n \<Rightarrow> str_to_safe_filename n @ ''-results'' | None \<Rightarrow> ''results'')"

section \<open>Caching traces\<close>

text \<open>The storage: whether the bucket exists, the size of an object if there is one, and uploading an URL's contents.\<close>

record 'w trace_store =
  ts_bucket_exists :: "('w, bool) act"
  ts_stat_object :: "string \<Rightarrow> ('w, int option) act"
  ts_fetch_and_put :: "string \<Rightarrow> string option \<Rightarrow> ('w, unit) act"

definition object_exists :: "'w trace_store \<Rightarrow> string \<Rightarrow> int \<Rightarrow> ('w, bool) act" where
  "object_exists ms name expected_size =
     act_bind (ts_bucket_exists ms) (\<lambda>b.
       if \<not> b then act_raise AssertionError
       else act_bind (ts_stat_object ms name) (\<lambda>st.
         act_return (case st of None \<Rightarrow> False | Some n \<Rightarrow> \<not> (expected_size > 0 \<and> n \<noteq> expected_size))))"

text \<open>The result is whether the bucket was there; the script exits if it was not.\<close>

definition cache_all_traces_to_local_minio :: "'w trace_store \<Rightarrow> Trace list \<Rightarrow> ('w, bool) act" where
  "cache_all_traces_to_local_minio ms traces =
     act_bind (ts_bucket_exists ms) (\<lambda>b.
       if \<not> b then act_return False
       else act_bind
         (act_iter (\<lambda>t. act_bind (object_exists ms (trace_name t) (tr_file_size t)) (\<lambda>there.
            if there then act_return () else ts_fetch_and_put ms (trace_name t) (tr_url t))) traces)
         (\<lambda>_. act_return True))"

section \<open>Objects of the website\<close>

datatype BlobType = UNKNOWN | TRACE | FRAME

definition BlobType_from_str :: "string option \<Rightarrow> BlobType" where
  "BlobType_from_str label =
     (case label of
        None \<Rightarrow> UNKNOWN
      | Some l \<Rightarrow> if str_lower l = ''trace'' then TRACE else if str_lower l = ''frameoutput'' then FRAME else UNKNOWN)"

record Blob =
  bl_new :: bool
  bl_upload :: "(json \<times> json) option"
  bl_signed_id :: json
  bl_record_type :: BlobType
  bl_record :: json

text \<open>\<open>d.get(k)\<close>, where a missing key and \<open>null\<close> are the same.\<close>

definition json_opt :: "(string, json) dict \<Rightarrow> string \<Rightarrow> json option" where
  "json_opt d k = (case dict_get d k of None \<Rightarrow> None | Some JNull \<Rightarrow> None | Some j \<Rightarrow> Some j)"

definition Blob_init :: "(string, json) dict \<Rightarrow> bool \<Rightarrow> Blob res" where
  "Blob_init d is_new =
     res_bind
       (case json_opt d ''direct_upload'' of
          None \<Rightarrow> Inr None
        | Some (JObj u) \<Rightarrow>
            (case (json_opt u ''url'', json_opt u ''headers'') of
               (None, _) \<Rightarrow> Inl (ValueError (''The URL is missing from the '' @ [CHR 0x27] @ ''direct_upload'' @ [CHR 0x27] @ '' dict''))
             | (_, None) \<Rightarrow> Inl (ValueError (''The headers are missing from the '' @ [CHR 0x27] @ ''direct_upload'' @ [CHR 0x27] @ '' dict''))
             | (Some url, Some headers) \<Rightarrow> Inr (Some (url, headers)))
        | Some _ \<Rightarrow> Inl AttributeError) (\<lambda>up.
     case json_opt d ''signed_id'' of
       None \<Rightarrow> Inl (ValueError ''The signed_id is missing from the blob-creation response'')
     | Some sid \<Rightarrow>
         res_bind (case json_opt d ''record_type'' of None \<Rightarrow> Inr None | Some (JStr s) \<Rightarrow> Inr (Some s) | Some _ \<Rightarrow> Inl AttributeError) (\<lambda>label.
           let rt = BlobType_from_str label
           in Inr \<lparr>bl_new = is_new, bl_upload = up, bl_signed_id = sid, bl_record_type = rt,
                   bl_record = (if \<not> is_new \<and> rt \<noteq> UNKNOWN then dict_get_or d ''record'' JNull else JNull)\<rparr>))"

text \<open>
  \<open>project_get_or_create\<close> and \<open>commit_get_or_create\<close>: try to create the object; when the website
  answers with something that has no identifier, look for it in the list of objects.
\<close>

definition get_or_create ::
  "('w, (string, json) dict) act \<Rightarrow> ('w, (string, json) dict list) act \<Rightarrow> ((string, json) dict \<Rightarrow> bool) \<Rightarrow> string \<Rightarrow> ('w, (string, json) dict) act" where
  "get_or_create post listing is_wanted msg =
     act_bind post (\<lambda>r.
       if dict_get r ''id'' \<noteq> None then act_return r
       else act_bind listing (\<lambda>objs.
         case find is_wanted objs of Some x \<Rightarrow> act_return x | None \<Rightarrow> act_raise (ValueError msg)))"

definition project_get_or_create ::
  "(string \<Rightarrow> ('w, (string, json) dict) act) \<Rightarrow> ('w, (string, json) dict list) act \<Rightarrow> string \<Rightarrow> ('w, (string, json) dict) act" where
  "project_get_or_create post projects name =
     get_or_create (post name) projects (\<lambda>p. dict_get p ''name'' = Some (JStr name)) ''Failed to create or find the wanted project''"

definition commit_get_or_create ::
  "(json \<Rightarrow> string \<Rightarrow> ('w, (string, json) dict) act) \<Rightarrow> ('w, (string, json) dict list) act \<Rightarrow> json \<Rightarrow> string \<Rightarrow> ('w, (string, json) dict) act" where
  "commit_get_or_create post commits project_id version =
     get_or_create (post project_id version) commits
       (\<lambda>c. dict_get c ''project_id'' = Some project_id \<and> dict_get c ''version'' = Some (JStr version)) ''Failed to create or find the wanted object''"

section \<open>Enrolling traces\<close>

record TraceInfo =
  ti_api :: "string option"
  ti_vendor_id :: "int option"
  ti_device_id :: "int option"

text \<open>\<open>pciid\<close> of the class in \<open>enroll_traces\<close>: \<open>hex\<close> raises on what is no number.\<close>

definition TraceInfo_pciid :: "TraceInfo \<Rightarrow> string res" where
  "TraceInfo_pciid ti =
     (case (ti_vendor_id ti, ti_device_id ti) of
        (Some v, Some d) \<Rightarrow> Inr (py_hex v @ '':'' @ py_hex d)
      | _ \<Rightarrow> Inl TypeError)"

text \<open>The loop over the output of \<open>apitrace dump\<close>: the API, and the line that describes the device.\<close>

definition line_api :: "string \<Rightarrow> string option" where
  "line_api line =
     (if str_find ''IDirect3D9::CreateDevice'' line > 0 \<or> str_find ''IDirect3D9Ex::CreateDevice'' line > 0 then Some ''DX9''
      else if str_find ''D3D10CreateDevice'' line > 0 then Some ''DX10''
      else if str_find ''D3D11CreateDevice'' line > 0 then Some ''DX11''
      else if str_find ''D3D12CreateDevice::CreateDevice'' line > 0 then Some ''DX12''
      else if str_find ''glSwapBuffers'' line > 0 then Some ''OpenGL''
      else None)"

fun scan_dump :: "string option \<Rightarrow> string option \<Rightarrow> string list \<Rightarrow> string option \<times> string option" where
  "scan_dump api desc [] = (api, desc)"
| "scan_dump api desc (line # ls) =
     (let (api', desc') =
        (case line_api line of
           Some a \<Rightarrow> (Some a, desc)
         | None \<Rightarrow> if str_find ''VendorId'' line > 0 then (api, Some line) else (api, desc))
      in if api' \<noteq> None \<and> desc' \<noteq> None then (api', desc') else scan_dump api' desc' ls)"

definition id_text :: "string \<Rightarrow> string \<Rightarrow> string" where
  "id_text key part = str_strip (str_replace ''='' [] (str_replace key [] part))"

text \<open>The last part of the line that has the key; an empty text is as good as none.\<close>

definition desc_field :: "string \<Rightarrow> string \<Rightarrow> string list \<Rightarrow> string option" where
  "desc_field pattern key parts =
     fold (\<lambda>part v. if str_find pattern part > 0 then Some (id_text key part) else v) parts None"

definition id_value :: "string option \<Rightarrow> int option res" where
  "id_value v =
     (case v of None \<Rightarrow> Inr None | Some s \<Rightarrow> if s = [] then Inr None else res_bind (py_int s) (\<lambda>i. Inr (Some i)))"

definition parse_apitrace :: "string list \<Rightarrow> TraceInfo res" where
  "parse_apitrace dump =
     (let (api, desc) = scan_dump None None dump;
          parts = (case desc of None \<Rightarrow> [] | Some l \<Rightarrow> if l = [] then [] else str_split CHR '','' l)
      in res_bind (id_value (desc_field ''VendorId'' ''VendorId'' parts)) (\<lambda>v.
         res_bind (id_value (desc_field ''DeviceId = '' ''DeviceId'' parts)) (\<lambda>d.
           Inr \<lparr>ti_api = api, ti_vendor_id = v, ti_device_id = d\<rparr>)))"

text \<open>\<open>parse_gfxrecon\<close>, on the lines of \<open>gfxrecon-info\<close>.\<close>

definition info_value :: "string \<Rightarrow> string \<Rightarrow> int res" where
  "info_value key line = py_int (str_strip (str_replace key [] line))"

fun scan_info :: "string list \<Rightarrow> TraceInfo \<Rightarrow> TraceInfo res" where
  "scan_info [] ti = Inr ti"
| "scan_info (line # ls) ti =
     (if str_find ''Device ID:'' line > 0 then
        res_bind (info_value ''Device ID:'' line) (\<lambda>d. scan_info ls (ti\<lparr>ti_device_id := Some d\<rparr>))
      else if str_find ''Vendor ID:'' line > 0 then
        res_bind (info_value ''Vendor ID:'' line) (\<lambda>v. scan_info ls (ti\<lparr>ti_vendor_id := Some v\<rparr>))
      else scan_info ls ti)"

definition parse_gfxrecon :: "string list \<Rightarrow> TraceInfo res" where
  "parse_gfxrecon lines = scan_info lines \<lparr>ti_api = Some ''Vulkan'', ti_vendor_id = None, ti_device_id = None\<rparr>"

text \<open>
  What the enrollment of one trace depends on: downloading it, the two tools, and the identifiers the
  website gives to a graphics API and to a GPU. The result is the fields that are sent.
\<close>

record 'w enroll_env =
  ee_download :: "Trace \<Rightarrow> ('w, string) act"
  ee_apitrace_dump :: "string \<Rightarrow> ('w, string list) act"
  ee_gfxrecon_info :: "string \<Rightarrow> ('w, string list) act"
  ee_api_id :: "string \<Rightarrow> ('w, json) act"
  ee_gpu_id :: "string \<Rightarrow> ('w, json) act"
  ee_update :: "int \<Rightarrow> (string \<times> json) list \<Rightarrow> ('w, unit) act"

definition enroll_fields :: "'w enroll_env \<Rightarrow> TraceInfo \<Rightarrow> ('w, (string \<times> json) list) act" where
  "enroll_fields e ti =
     act_bind (act_lift (TraceInfo_pciid ti)) (\<lambda>pciid.
     act_bind (case ti_api ti of
         Some a \<Rightarrow> if a = [] then act_return [] else act_bind (ee_api_id e a) (\<lambda>i. act_return [(''graphics_api_id'', i)])
       | None \<Rightarrow> act_return []) (\<lambda>f1.
     act_bind (ee_gpu_id e pciid) (\<lambda>i. act_return (f1 @ [(''gpu_id'', i)]))))"

definition enroll_trace :: "'w enroll_env \<Rightarrow> Trace \<Rightarrow> ('w, unit) act" where
  "enroll_trace e t =
     (if tr_tracing_tool t \<notin> {Some ''apitrace'', Some ''gfxrecon''} then act_raise (ValueError ''Unknown tracing tool '')
      else act_bind (ee_download e t) (\<lambda>path.
           act_bind (ee_apitrace_dump e path) (\<lambda>dump.
           act_bind (act_lift (parse_apitrace dump)) (\<lambda>ti.
           act_bind (enroll_fields e ti) (\<lambda>fs.
             ee_update e (tr_id t) fs)))))"

text \<open>A trace whose enrollment fails is skipped.\<close>

definition enroll_traces :: "'w enroll_env \<Rightarrow> Trace list \<Rightarrow> ('w, unit) act" where
  "enroll_traces e ts = act_iter (\<lambda>t. act_catch (enroll_trace e t) (\<lambda>_. act_return ())) ts"

section \<open>As many traces as fit\<close>

text \<open>Among all choices of \<open>n\<close> elements, the first \<open>n\<close> of the sorted list have the smallest sum.\<close>

lemma sum_smallest:
  fixes zs :: "int list"
  assumes "sorted zs" "mset ys \<subseteq># mset zs"
  shows "sum_list (take (length ys) zs) \<le> sum_list ys"
  using assms
proof (induction zs arbitrary: ys)
  case (Cons z zs)
  show ?case
  proof (cases ys)
    case ys: (Cons y0 ys0)
    define y where "y = (if z \<in> set ys then z else y0)"
    have y: "y \<in> set ys" "z \<le> y"
      using Cons.prems ys by (auto simp: y_def dest: mset_subset_eqD)
    have less: "mset ys - {#z#} \<subseteq># mset zs" using Cons.prems(2) by (simp add: subset_eq_diff_conv)
    have "mset (remove1 y ys) \<subseteq># mset zs"
    proof (cases "z \<in> set ys")
      case True
      then show ?thesis using less by (simp add: y_def)
    next
      case False
      then have "mset ys \<subseteq># mset zs" using less by (simp add: diff_single_trivial)
      then show ?thesis by (metis diff_subset_eq_self mset_remove1 subset_mset.dual_order.trans)
    qed
    then have "sum_list (take (length (remove1 y ys)) zs) \<le> sum_list (remove1 y ys)"
      using Cons.prems(1) by (intro Cons.IH) simp_all
    moreover have "sum_list ys = y + sum_list (remove1 y ys)" using y(1) by (metis sum_list_map_remove1 list.map_ident)
    moreover have "length ys = Suc (length (remove1 y ys))" using y(1) length_pos_if_in_set[of y ys] by (simp only: length_remove1 if_True) simp
    ultimately show ?thesis using y(2) by simp
  qed simp
qed simp

text \<open>The loop takes a prefix: all of the list, or up to the first trace that reaches the limit.\<close>

lemma take_under_prefix:
  "take_under m taken ts = take (length (take_under m taken ts)) ts"
  by (induction ts arbitrary: taken) (simp_all add: Let_def)

lemma take_under_sum:
  "take_under m taken ts \<noteq> [] \<Longrightarrow> of_int (taken + sum_list (map tr_file_size (take_under m taken ts))) < m"
proof (induction ts arbitrary: taken)
  case (Cons t ts)
  then show ?case
    using Cons.IH[of "taken + tr_file_size t"]
    by (cases "take_under m (taken + tr_file_size t) ts = []") (auto simp: Let_def add.assoc split: if_splits)
qed simp

lemma take_under_full:
  "length (take_under m taken ts) < length ts \<Longrightarrow>
   m \<le> of_int (taken + sum_list (map tr_file_size (take (Suc (length (take_under m taken ts))) ts)))"
proof (induction ts arbitrary: taken)
  case (Cons t ts)
  then show ?case
    using Cons.IH[of "taken + tr_file_size t"] by (auto simp: Let_def add.assoc split: if_splits)
qed simp

text \<open>
  C34. The selection keeps its promise: traces of the list, in total smaller than the limit, and no
  choice of traces of the list that is smaller than the limit has more of them.
\<close>

theorem traces_under_gb_optimal:
  assumes "\<forall>t \<in> set ts. 0 \<le> tr_file_size t"
  shows "mset (traces_under_gb ts gb) \<subseteq># mset ts \<and>
    (traces_under_gb ts gb = [] \<or> of_int (sum_list (map tr_file_size (traces_under_gb ts gb))) < gb * 1024 ^ 3) \<and>
    \<not> (\<exists>cs. mset cs \<subseteq># mset ts \<and> of_int (sum_list (map tr_file_size cs)) < gb * 1024 ^ 3 \<and> length (traces_under_gb ts gb) < length cs)"
proof -
  let ?m = "gb * 1024 ^ 3" and ?zs = "sort_key tr_file_size ts" and ?sel = "traces_under_gb ts gb"
  have sel: "?sel = take_under ?m 0 ?zs" by (simp add: traces_under_gb_def)
  have "mset ?sel \<subseteq># mset ?zs" unfolding sel by (subst take_under_prefix) (metis append_take_drop_id mset_append mset_subset_eq_add_left)
  then have 1: "mset ?sel \<subseteq># mset ts" by simp
  have 2: "?sel = [] \<or> of_int (sum_list (map tr_file_size ?sel)) < ?m" using take_under_sum[of ?m 0 ?zs] sel by auto
  have "\<not> (of_int (sum_list (map tr_file_size cs)) < ?m)" if cs: "mset cs \<subseteq># mset ts" "length ?sel < length cs" for cs
  proof -
    let ?n = "Suc (length ?sel)"
    have "length cs \<le> length ts" using size_mset_mono[OF cs(1)] by simp
    then have "?m \<le> of_int (sum_list (map tr_file_size (take ?n ?zs)))" using take_under_full[of ?m 0 ?zs] cs(2) sel by simp
    also have "\<dots> \<le> of_int (sum_list (map tr_file_size (take (length cs) ?zs)))"
    proof -
      have "take (length cs) ?zs = take ?n ?zs @ drop ?n (take (length cs) ?zs)" using cs(2) by (metis append_take_drop_id min.absorb1 Suc_leI take_take)
      moreover have "0 \<le> sum_list (map tr_file_size (drop ?n (take (length cs) ?zs)))"
        using assms by (intro sum_list_nonneg) (auto dest!: in_set_dropD in_set_takeD)
      ultimately show ?thesis by (metis (no_types, lifting) le_add_same_cancel1 map_append of_int_le_iff sum_list.append)
    qed
    also have "\<dots> \<le> of_int (sum_list (map tr_file_size cs))"
    proof -
      have "mset (map tr_file_size cs) \<subseteq># mset (map tr_file_size ?zs)" using cs(1) by (simp add: image_mset_subseteq_mono)
      from sum_smallest[OF _ this] show ?thesis by (simp add: take_map)
    qed
    finally show ?thesis by simp
  qed
  then show ?thesis using 1 2 by blast
qed

definition sized_trace :: "int \<Rightarrow> int \<Rightarrow> Trace" where
  "sized_trace i n =
     \<lparr>tr_id = i, tr_filename = Some ''game.trace'', tr_metadata = JObj [], tr_obsolete = False, tr_frames_to_capture = [(''42'', JObj [])],
      tr_graphics_api = Some ''OpenGL'', tr_tracing_tool = Some ''apitrace'', tr_url = None, tr_file_size = n\<rparr>"

definition example_traces :: "Trace list" where
  "example_traces = [sized_trace 1 2147483648, sized_trace 2 1000, sized_trace 3 1073741824]"

theorem traces_under_gb_optimal_witness:
  "map tr_id (traces_under_gb example_traces 2) = [2, 3] \<and>
   \<not> (\<exists>cs. mset cs \<subseteq># mset example_traces \<and> of_int (sum_list (map tr_file_size cs)) < (2 :: rat) * 1024 ^ 3 \<and> 2 < length cs)"
proof -
  have "\<forall>t \<in> set example_traces. 0 \<le> tr_file_size t" by (simp add: example_traces_def sized_trace_def)
  note opt = traces_under_gb_optimal[OF this, of 2]
  have sel: "traces_under_gb example_traces 2 = [sized_trace 2 1000, sized_trace 3 1073741824]"
    by (simp add: traces_under_gb_def example_traces_def sized_trace_def)
  show ?thesis using opt unfolding sel by (simp add: sized_trace_def numeral_2_eq_2)
qed

section \<open>The tool that is never asked\<close>

text \<open>
  The information on a gfxrecon trace is read from the output of apitrace, like that of any other
  trace: what \<open>gfxrecon-info\<close> would report has no influence on the enrollment.
\<close>

lemma enroll_ignores_gfxrecon: "enroll_traces (e\<lparr>ee_gfxrecon_info := f\<rparr>) ts = enroll_traces e ts"
  by (simp add: enroll_traces_def enroll_trace_def enroll_fields_def cong: if_cong option.case_cong)

text \<open>A trace whose dump does not name both the vendor and the device is not updated.\<close>

lemma enroll_needs_ids:
  assumes "parse_apitrace dump = Inr ti" "ti_vendor_id ti = None \<or> ti_device_id ti = None"
  shows "enroll_fields e ti w = (Inl TypeError, w)"
  using assms(2) by (auto simp: enroll_fields_def TraceInfo_pciid_def split: option.splits)

end
