(* ===== verification/Vt_Drivers.thy ===== *)
theory Vt_Drivers
  imports Vt_Traces Gfxinfo
begin

text \<open>
  Which driver replayed a trace (\<open>GpuDriver\<close> and \<open>GfxInfo\<close> of \<open>valvetraces/__init__.py\<close>, and the
  properties of \<open>Report.TraceExec\<close> that read its log): the output of \<open>glxinfo\<close>, the file written by
  \<open>gfxinfo\<close>, and the lines that libGL and DXVK leave in a log. Regular expressions are translated
  to scanners; a line is without its newline.
\<close>

section \<open>Drivers\<close>

record GpuDriver =
  gd_name :: "string option"
  gd_version :: "string option"
  gd_branch :: "string option"
  gd_commit :: "string option"

definition merge_field :: "string option \<Rightarrow> string option \<Rightarrow> string option" where
  "merge_field a b =
     (if a = b then a
      else case (a, b) of
             (None, Some _) \<Rightarrow> b
           | (Some _, None) \<Rightarrow> a
           | (Some x, Some y) \<Rightarrow>
               if length x > 0 \<and> length y = 0 then a else if length x = 0 \<and> length y > 0 then b else a
           | (None, None) \<Rightarrow> None)"

definition GpuDriver_merge :: "GpuDriver \<Rightarrow> GpuDriver \<Rightarrow> GpuDriver" where
  "GpuDriver_merge a b =
     \<lparr>gd_name = merge_field (gd_name a) (gd_name b), gd_version = merge_field (gd_version a) (gd_version b),
      gd_branch = merge_field (gd_branch a) (gd_branch b), gd_commit = merge_field (gd_commit a) (gd_commit b)\<rparr>"

section \<open>The output of glxinfo\<close>

text \<open>One or more digits.\<close>

definition scan_digits :: "string \<Rightarrow> (string \<times> string) option" where
  "scan_digits s = (let d = takeWhile is_digit s in if d = [] then None else Some (d, dropWhile is_digit s))"

definition one_digit :: "string \<Rightarrow> string option" where
  "one_digit s = (case s of c # r \<Rightarrow> if is_digit c then Some r else None | [] \<Rightarrow> None)"

text \<open>\<open>\d\.\d\<close>, the version of OpenGL.\<close>

definition gl_version :: "string \<Rightarrow> string option" where
  "gl_version s = Option.bind (one_digit s) (\<lambda>r. Option.bind (expect ''.'' r) one_digit)"

text \<open>\<open>\d+\.\d+\.\d+\<close>, in its three parts.\<close>

definition scan_version :: "string \<Rightarrow> ((string \<times> string \<times> string) \<times> string) option" where
  "scan_version s =
     Option.bind (scan_digits s) (\<lambda>(a, r). Option.bind (expect ''.'' r) (\<lambda>r.
     Option.bind (scan_digits r) (\<lambda>(b, r). Option.bind (expect ''.'' r) (\<lambda>r.
     Option.bind (scan_digits r) (\<lambda>(c, r). Some ((a, b, c), r))))))"

definition lower_alnum :: "char \<Rightarrow> bool" where
  "lower_alnum c = (is_digit c \<or> (let n = (of_char c :: nat) in 97 \<le> n \<and> n \<le> 122))"

text \<open>\<open>(-devel \(git-([a-z0-9]+)\))?$\<close>: the commit, if there is one.\<close>

definition devel_suffix :: "string \<Rightarrow> string option option" where
  "devel_suffix s =
     (if s = [] then Some None
      else Option.bind (expect ''-devel (git-'' s) (\<lambda>r.
             let h = takeWhile lower_alnum r
             in if h \<noteq> [] \<and> dropWhile lower_alnum r = '')'' then Some (Some h) else None))"

definition profile_prefix :: string where
  "profile_prefix = ''OpenGL core profile version string: ''"

definition mesa_profile :: "string \<Rightarrow> ((string \<times> string \<times> string) \<times> string option) option" where
  "mesa_profile line =
     Option.bind (expect profile_prefix line) (\<lambda>r. Option.bind (gl_version r) (\<lambda>r.
     Option.bind (expect '' (Core Profile) Mesa '' r) (\<lambda>r.
     Option.bind (scan_version r) (\<lambda>(v, r). map_option (\<lambda>c. (v, c)) (devel_suffix r)))))"

definition amd_profile :: "string \<Rightarrow> string option" where
  "amd_profile line =
     Option.bind (expect profile_prefix line) (\<lambda>r. Option.bind (gl_version r) (\<lambda>r. Option.bind (expect ''.'' r) (\<lambda>r.
     Option.bind (scan_digits r) (\<lambda>(v, r). if r = '' Core Profile Context'' then Some v else None))))"

record glx_state =
  gx_vendor :: "string option"
  gx_driver :: "string option"
  gx_branch :: "string option"
  gx_version :: "string option"
  gx_git_version :: "string option"

definition version_text :: "string \<times> string \<times> string \<Rightarrow> string" where
  "version_text v = (case v of (a, b, c) \<Rightarrow> a @ ''.'' @ b @ ''.'' @ c)"

definition glx_line :: "glx_state \<Rightarrow> string \<Rightarrow> glx_state" where
  "glx_line s line =
     (case expect ''OpenGL vendor string: '' line of
        Some v \<Rightarrow>
          s\<lparr>gx_vendor := Some v,
            gx_driver := (if v = ''AMD'' then Some ''radeonsi'' else if v = ''Advanced Micro Devices, Inc.'' then Some ''amdgpu'' else gx_driver s)\<rparr>
      | None \<Rightarrow>
          (case expect ''OpenGL renderer string: '' line of
             Some r \<Rightarrow>
               if r = ''zink'' then s\<lparr>gx_driver := Some ''zink''\<rparr>
               else if gx_driver s = None then s\<lparr>gx_driver := Some (''unknown ('' @ none_str (gx_vendor s) @ '' / '' @ r @ '')'')\<rparr>
               else s
           | None \<Rightarrow>
               (case mesa_profile line of
                  Some ((a, b, c), git) \<Rightarrow>
                    s\<lparr>gx_version := Some (version_text (a, b, c)), gx_git_version := git, gx_branch := Some (a @ ''.'' @ b @ ''.y'')\<rparr>
                | None \<Rightarrow> (case amd_profile line of Some v \<Rightarrow> s\<lparr>gx_version := Some v\<rparr> | None \<Rightarrow> s))))"

definition truthy :: "string option \<Rightarrow> bool" where
  "truthy x = (case x of None \<Rightarrow> False | Some s \<Rightarrow> s \<noteq> [])"

definition GpuDriver_from_glxinfo :: "string list \<Rightarrow> GpuDriver option" where
  "GpuDriver_from_glxinfo lines =
     (let s = foldl glx_line \<lparr>gx_vendor = None, gx_driver = None, gx_branch = None, gx_version = None, gx_git_version = None\<rparr> lines
      in if truthy (gx_driver s) \<and> truthy (gx_version s)
         then Some \<lparr>gd_name = gx_driver s, gd_version = gx_version s, gd_branch = gx_branch s, gd_commit = gx_git_version s\<rparr> else None)"

section \<open>The file of gfxinfo\<close>

text \<open>What \<open>output_gpu_info\<close> of gfxinfo writes; the tags are a set, in any order.\<close>

record vk_fields =
  vf_vram_size_gib :: string
  vf_gtt_size_gib :: string
  vf_mesa_version :: "string option"
  vf_mesa_git_version :: "string option"
  vf_device_name :: "string option"
  vf_device_type :: "string option"
  vf_api_version :: "string option"
  vf_driver_name :: "string option"
  vf_driver_info :: "string option"

definition opt_field :: "string \<Rightarrow> string option \<Rightarrow> (string \<times> json) list" where
  "opt_field k x = (case x of None \<Rightarrow> [] | Some s \<Rightarrow> [(k, JStr s)])"

definition output_gpu_info :: "string list \<Rightarrow> json \<Rightarrow> vk_fields option \<Rightarrow> (string, json) dict" where
  "output_gpu_info ts structured info =
     [(''tags'', JList (map JStr ts)), (''structured_tags'', structured)] @
     (case info of
        None \<Rightarrow> []
      | Some v \<Rightarrow>
          [(''vk:vram_size_gib'', JStr (vf_vram_size_gib v)), (''vk:gtt_size_gib'', JStr (vf_gtt_size_gib v))] @
          opt_field ''mesa:version'' (vf_mesa_version v) @ opt_field ''mesa:git:version'' (vf_mesa_git_version v) @
          opt_field ''vk:device:name'' (vf_device_name v) @ opt_field ''vk:device:type'' (vf_device_type v) @
          opt_field ''vk:api:version'' (vf_api_version v) @ opt_field ''vk:driver:name'' (vf_driver_name v) @
          opt_field ''vk:driver:info'' (vf_driver_info v))"

record GfxInfo =
  gi_fields :: "(string, json) dict"
  gi_machine_tags :: "json list"

text \<open>\<open>fields.get('tags', {})\<close> is only iterated over.\<close>

definition GfxInfo_init :: "(string, json) dict \<Rightarrow> GfxInfo res" where
  "GfxInfo_init kvs =
     (case dict_get kvs ''tags'' of
        None \<Rightarrow> Inr \<lparr>gi_fields = kvs, gi_machine_tags = []\<rparr>
      | Some (JList ts) \<Rightarrow> Inr \<lparr>gi_fields = kvs, gi_machine_tags = ts\<rparr>
      | Some _ \<Rightarrow> Inl TypeError)"

definition text_field :: "GfxInfo \<Rightarrow> string \<Rightarrow> string option" where
  "text_field g k = (case dict_get (gi_fields g) k of Some (JStr s) \<Rightarrow> Some s | _ \<Rightarrow> None)"

definition radv_branch_from_version :: "string \<Rightarrow> string option" where
  "radv_branch_from_version version =
     (case str_split CHR ''.'' version of
        [a, b, c] \<Rightarrow> if b = ''99'' then Some ''main'' else Some (''v'' @ a @ ''.'' @ b @ ''.y'')
      | _ \<Rightarrow> None)"

text \<open>A Mesa version that is there but is no text has no \<open>split\<close>.\<close>

definition vk_driver :: "GfxInfo \<Rightarrow> GpuDriver res" where
  "vk_driver g =
     (let name = text_field g ''vk:driver:name'';
          name' = (if name = Some ''AMD open-source driver'' then Some ''amdvlk''
                   else if name = Some ''AMD proprietary driver'' then Some ''amdgpu-pro'' else name)
      in case dict_get (gi_fields g) ''mesa:version'' of
           Some (JStr v) \<Rightarrow>
             Inr \<lparr>gd_name = name', gd_version = Some v, gd_branch = radv_branch_from_version v, gd_commit = text_field g ''mesa:git:version''\<rparr>
         | Some _ \<Rightarrow> Inl AttributeError
         | None \<Rightarrow> Inr \<lparr>gd_name = name', gd_version = text_field g ''vk:driver:info'', gd_branch = None, gd_commit = None\<rparr>)"

text \<open>The rest of the first tag that starts with a prefix.\<close>

fun tag_value :: "string \<Rightarrow> json list \<Rightarrow> string option res" where
  "tag_value p [] = Inr None"
| "tag_value p (j # js) =
     (case j of JStr t \<Rightarrow> if str_startswith t p then Inr (Some (drop (length p) t)) else tag_value p js | _ \<Rightarrow> Inl AttributeError)"

definition gpu_codename :: "GfxInfo \<Rightarrow> string option res" where
  "gpu_codename g = tag_value ''amdgpu:codename:'' (gi_machine_tags g)"

definition gpu_pciid :: "GfxInfo \<Rightarrow> string option res" where
  "gpu_pciid g = tag_value ''amdgpu:pciid:'' (gi_machine_tags g)"

definition field_or_null :: "GfxInfo \<Rightarrow> string \<Rightarrow> json" where
  "field_or_null g k = dict_get_or (gi_fields g) k JNull"

definition all_fields :: "GfxInfo \<Rightarrow> json" where
  "all_fields g =
     JObj [(''machine_tags'', JList (gi_machine_tags g)),
           (''driver'', JObj [(''name'', field_or_null g ''vk:driver:name''), (''info'', field_or_null g ''vk:driver:info''),
                              (''mesa_version'', field_or_null g ''mesa:version''), (''mesa_git_version'', field_or_null g ''mesa:git:version'')]),
           (''device'', JObj [(''name'', field_or_null g ''vk:device:name''), (''type'', field_or_null g ''vk:device:type'')]),
           (''memory'', JObj [(''vram_size_gib'', field_or_null g ''vk:vram_size_gib''), (''gtt_size_gib'', field_or_null g ''vk:gtt_size_gib'')])]"

section \<open>The log of a replay\<close>

definition sep_char :: "char \<Rightarrow> bool" where
  "sep_char c = (c = CHR '':'' \<or> py_isspace c)"

text \<open>\<open>[\:\s]+(.+)$\<close>: the separators are greedy, but leave one character for the group.\<close>

definition after_seps :: "string \<Rightarrow> string option" where
  "after_seps s =
     (let run = takeWhile sep_char s; r = dropWhile sep_char s
      in if run = [] then None
         else if r \<noteq> [] then Some r
         else if length run \<ge> 2 then Some [last run] else None)"

text \<open>\<open>[\:\s]+([\d\.]+)$\<close>\<close>

definition version_after_seps :: "string \<Rightarrow> string option" where
  "version_after_seps s =
     (let r = dropWhile sep_char s
      in if takeWhile sep_char s \<noteq> [] \<and> r \<noteq> [] \<and> list_all (\<lambda>c. is_digit c \<or> c = CHR ''.'') r then Some r else None)"

text \<open>\<open>^.*key\<close> followed by a scanner: the last occurrence of the key for which it succeeds.\<close>

fun last_match :: "string \<Rightarrow> (string \<Rightarrow> string option) \<Rightarrow> string \<Rightarrow> string option" where
  "last_match key f [] = Option.bind (expect key []) f"
| "last_match key f (c # s) =
     (case last_match key f s of Some v \<Rightarrow> Some v | None \<Rightarrow> Option.bind (expect key (c # s)) f)"

definition device_name_match :: "string \<Rightarrow> string option" where
  "device_name_match line = last_match ''Device name'' after_seps line"

definition driver_version_match :: "string \<Rightarrow> string option" where
  "driver_version_match line = last_match ''Driver version'' version_after_seps line"

definition dxvk_name :: "string \<Rightarrow> string option \<Rightarrow> string option" where
  "dxvk_name device_name old =
     (if str_startswith device_name ''AMD RADV'' then Some ''radv''
      else if suffix ''AMD GPU'' device_name then Some ''amdvlk/gpu-pro'' else old)"

definition dxvk_line :: "GpuDriver \<Rightarrow> string \<Rightarrow> GpuDriver" where
  "dxvk_line d line =
     (let d1 = (case device_name_match line of Some n \<Rightarrow> d\<lparr>gd_name := dxvk_name n (gd_name d)\<rparr> | None \<Rightarrow> d)
      in case driver_version_match line of
           Some v \<Rightarrow> d1\<lparr>gd_version := Some v,
                       gd_branch := (if gd_name d1 = Some ''radv'' then radv_branch_from_version v else Some ''main'')\<rparr>
         | None \<Rightarrow> d1)"

definition no_driver :: GpuDriver where
  "no_driver = \<lparr>gd_name = None, gd_version = None, gd_branch = None, gd_commit = None\<rparr>"

text \<open>\<open>logs\<close> are the lines of the log, if there is one.\<close>

definition dxvk_reported_gpu_driver :: "string list option \<Rightarrow> GpuDriver option" where
  "dxvk_reported_gpu_driver logs = map_option (foldl dxvk_line no_driver) logs"

definition word_char :: "char \<Rightarrow> bool" where
  "word_char c =
     (let n = (of_char c :: nat) in
      (48 \<le> n \<and> n \<le> 57) \<or> (65 \<le> n \<and> n \<le> 90) \<or> (97 \<le> n \<and> n \<le> 122) \<or> n = 95 \<or>
      n \<in> set [170, 178, 179, 181, 185, 186, 188, 189, 190] \<or> (192 \<le> n \<and> n \<noteq> 215 \<and> n \<noteq> 247))"

text \<open>\<open>(\w+)_dri.so\)$\<close>, where the dot is any character.\<close>

definition dri_name :: "string \<Rightarrow> string option" where
  "dri_name s =
     (let n = length s - 8; x = take n s; tl8 = drop n s
      in if length s > 8 \<and> list_all word_char x \<and> take 4 tl8 = ''_dri'' \<and> drop 5 tl8 = ''so)'' then Some x else None)"

definition libgl_match :: "string \<Rightarrow> string option" where
  "libgl_match line = Option.bind (expect ''libGL: MESA-LOADER: dlopen(/usr/lib/dri/'' line) dri_name"

fun first_match :: "(string \<Rightarrow> string option) \<Rightarrow> string list \<Rightarrow> string option" where
  "first_match f [] = None"
| "first_match f (l # ls) = (case f l of Some v \<Rightarrow> Some v | None \<Rightarrow> first_match f ls)"

definition libgl_driver :: "string list option \<Rightarrow> string option" where
  "libgl_driver logs = Option.bind logs (first_match libgl_match)"

text \<open>
  \<open>TraceExec.gpu_driver\<close>. A driver that libGL names and glxinfo does not would be made without the
  branch, which the class requires; and an object is true whatever is in it.
\<close>

definition exec_gpu_driver :: "GpuDriver option \<Rightarrow> GfxInfo \<Rightarrow> Trace \<Rightarrow> string list option \<Rightarrow> GpuDriver option res" where
  "exec_gpu_driver glxinfo_drv gi t logs =
     (if truthy (libgl_driver logs) then
        (case glxinfo_drv of
           None \<Rightarrow> Inl AttributeError
         | Some d \<Rightarrow> if gd_name d = libgl_driver logs then Inr (Some d) else Inl TypeError)
      else case dxvk_reported_gpu_driver logs of
             Some d \<Rightarrow> res_bind (vk_driver gi) (\<lambda>v. Inr (Some (GpuDriver_merge v d)))
           | None \<Rightarrow>
               if tr_graphics_api t = Some ''OpenGL'' then Inr glxinfo_drv
               else res_bind (vk_driver gi) (\<lambda>v. Inr (Some v)))"

section \<open>Merging\<close>

lemma merge_field_simps:
  "merge_field a a = a" "merge_field None b = b" "merge_field a None = a"
  by (auto simp: merge_field_def split: option.splits)

lemma merge_field_assoc: "merge_field (merge_field a b) c = merge_field a (merge_field b c)"
  by (cases a; cases b; cases c) (auto simp: merge_field_def)

lemma merge_field_fills: "truthy a \<or> truthy b \<Longrightarrow> truthy (merge_field a b)"
  by (cases a; cases b) (auto simp: merge_field_def truthy_def)

text \<open>
  Merging what several sources know of a driver is independent of how the sources are grouped, a
  source that knows nothing changes nothing, and a field that one of them knows is known afterwards.
\<close>

lemma merge_drivers:
  "GpuDriver_merge (GpuDriver_merge a b) c = GpuDriver_merge a (GpuDriver_merge b c)"
  "GpuDriver_merge no_driver a = a" "GpuDriver_merge a no_driver = a" "GpuDriver_merge a a = a"
  "truthy (gd_version a) \<or> truthy (gd_version b) \<Longrightarrow> truthy (gd_version (GpuDriver_merge a b))"
  by (simp_all add: GpuDriver_merge_def merge_field_assoc no_driver_def merge_field_simps merge_field_fills)

section \<open>From gfxinfo to the report\<close>

lemma tag_value_unique:
  assumes "p @ x \<in> set ts" "\<forall>t \<in> set ts. prefix p t \<longrightarrow> t = p @ x"
  shows "tag_value p (map JStr ts) = Inr (Some x)"
  using assms by (induction ts) auto

definition amd_tag_set :: "string \<Rightarrow> string \<Rightarrow> string set \<Rightarrow> bool" where
  "amd_tag_set pciid c T \<longleftrightarrow>
     ''amdgpu:pciid:'' @ pciid \<in> T \<and> (\<forall>t \<in> T. prefix ''amdgpu:pciid:'' t \<longrightarrow> t = ''amdgpu:pciid:'' @ pciid) \<and>
     ''amdgpu:codename:'' @ c \<in> T \<and> (\<forall>t \<in> T. prefix ''amdgpu:codename:'' t \<longrightarrow> t = ''amdgpu:codename:'' @ c)"

lemma amdgpu_tag_set:
  assumes "amdgpu_tags g = Inr ts" "codename g = Inr c"
  shows "amd_tag_set (pciid_text (ag_vendor_id g) (ag_product_id g)) c (set ts)"
proof -
  obtain f d a v where d: "codename g = Inr d" and ts: "[''amdgpu:pciid:'' @ pciid_text (ag_vendor_id g) (ag_product_id g),
      ''amdgpu:family:'' @ show_opt f, ''amdgpu:codename:'' @ d, ''amdgpu:architecture:'' @ show_opt a, ''amdgpu:gfxversion:'' @ show_opt v] @
    (if is_APU g then [''amdgpu:APU''] else []) @ (if has_experimental_support g then [''amdgpu:EXP_HW_SUPPORT''] else []) = ts"
    using assms(1) unfolding amdgpu_tags_def res_bind_Inr_iff sum.inject by (elim exE conjE) (rule that)
  have "d = c" using d assms(2) by simp
  note ts = ts[symmetric, unfolded this]
  have "list_all (\<lambda>t. prefix ''amdgpu:pciid:'' t \<longrightarrow> t = ''amdgpu:pciid:'' @ pciid_text (ag_vendor_id g) (ag_product_id g)) ts"
    unfolding ts by simp
  moreover have "list_all (\<lambda>t. prefix ''amdgpu:codename:'' t \<longrightarrow> t = ''amdgpu:codename:'' @ c) ts"
    unfolding ts by simp
  moreover have "''amdgpu:pciid:'' @ pciid_text (ag_vendor_id g) (ag_product_id g) \<in> set ts" "''amdgpu:codename:'' @ c \<in> set ts"
    unfolding ts by simp_all
  ultimately show ?thesis unfolding amd_tag_set_def list_all_iff by (intro conjI)
qed


definition renoir :: AMDGPU where
  "renoir =
     \<lparr>ag_vendor_id = 0x1002, ag_product_id = 0x1636, ag_revision = 0, ag_marketing_name = None, is_APU = True, is_Mobility = False,
      has_experimental_support = False, amdgpu_codename = Some ''RENOIR''\<rparr>"

lemma renoir_tags: "\<exists>ts c. amdgpu_tags renoir = Inr ts \<and> codename renoir = Inr c"
proof -
  have "is_ok (family renoir)" "is_ok (codename renoir)" "is_ok (architecture renoir)" "is_ok (gfx_version renoir)"
    by code_simp+
  then obtain f c a v where "family renoir = Inr f" "codename renoir = Inr c" "architecture renoir = Inr a" "gfx_version renoir = Inr v"
    unfolding is_ok_iff by (elim exE) (rule that)
  then show ?thesis by (intro exI conjI) (simp_all only: amdgpu_tags_def res_bind_simps)
qed


section \<open>The driver that is reported\<close>

text \<open>
  The guess by the graphics API is never made for a trace that left a log: without a line of libGL,
  the driver is the Vulkan driver, for an OpenGL trace too, and what glxinfo found is not used.
\<close>

theorem log_hides_opengl_driver:
  assumes "first_match libgl_match ls = None" "vk_driver gi = Inr v"
  shows "exec_gpu_driver glx gi t (Some ls) = Inr (Some (GpuDriver_merge v (foldl dxvk_line no_driver ls)))"
  using assms by (simp add: exec_gpu_driver_def libgl_driver_def truthy_def dxvk_reported_gpu_driver_def)

text \<open>A driver that libGL loaded and glxinfo does not know cannot be reported.\<close>

lemma unknown_libgl_driver_fails:
  assumes "libgl_driver logs = Some n" "n \<noteq> []" "gd_name d \<noteq> Some n"
  shows "exec_gpu_driver (Some d) gi t logs = Inl TypeError"
  using assms by (simp add: exec_gpu_driver_def truthy_def)

text \<open>The documented output of glxinfo for Zink is not recognised as such.\<close>

definition zink_glxinfo :: "string list" where
  "zink_glxinfo =
     [''OpenGL vendor string: Collabora Ltd'', ''OpenGL renderer string: zink (Unknown AMD GPU)'',
      ''OpenGL core profile version string: 4.6 (Core Profile) Mesa 21.3.5'']"

lemma zink_not_recognised:
  "map_option gd_name (GpuDriver_from_glxinfo zink_glxinfo) = Some (Some ''unknown (Collabora Ltd / zink (Unknown AMD GPU))'')"
  by code_simp

end
