(* ===== verification/Vt_Exec.thy ===== *)
theory Vt_Exec
  imports Vt_Drivers
begin

text \<open>
  The verdict on the replay of one trace (\<open>Report.TraceExec\<close> of \<open>valvetraces/__init__.py\<close> and what
  it rests on): the folder a replay leaves behind, the compatibility reports that apply to the
  versions under test, and which frames are acceptable. A git repository is its HEAD and a walker
  over its commits, as libgit2 provides it. The explanations that go with a verdict are constructors
  here, not texts.
\<close>

section \<open>Repositories and the reports that apply\<close>

text \<open>\<open>gr_walk\<close> hides the given commits and their ancestors; each commit comes with its parents.\<close>

record GitRepo =
  gr_name :: string
  gr_path :: string
  gr_head :: string
  gr_walk :: "string list \<Rightarrow> (string \<times> string list) list"

definition find_first_accessible_commits_from_head :: "GitRepo \<Rightarrow> string list \<Rightarrow> string list" where
  "find_first_accessible_commits_from_head repo oids =
     (if gr_head repo \<in> set oids then [gr_head repo]
      else remdups (filter (\<lambda>p. p \<in> set oids) (concat (map snd (gr_walk repo oids)))))"

record TraceCompatibility =
  tc_id :: int
  tc_trace_id :: int
  tc_commit_id :: int
  tc_version :: string
  tc_project :: string
  tc_gpu_id :: int
  tc_is_working :: bool
  tc_agreement_count :: int

text \<open>A key of a dictionary that is a repository is never equal to one that is a text.\<close>

datatype report_key = KRepo string string | KName string

definition repo_key :: "GitRepo \<Rightarrow> report_key" where
  "repo_key r = KRepo (gr_name r) (gr_path r)"

text \<open>The commits with a report, by repository; a later report on the same commit replaces the earlier one.\<close>

definition add_reachable ::
  "(string, GitRepo) dict \<Rightarrow> TraceCompatibility \<Rightarrow> (report_key, GitRepo \<times> (string, TraceCompatibility) dict) dict \<Rightarrow>
   (report_key, GitRepo \<times> (string, TraceCompatibility) dict) dict" where
  "add_reachable deps tc d =
     (case dict_get deps (tc_project tc) of
        None \<Rightarrow> d
      | Some repo \<Rightarrow>
          dict_set (repo_key repo) (repo, dict_set (tc_version tc) tc (case dict_get d (repo_key repo) of None \<Rightarrow> [] | Some (_, m) \<Rightarrow> m)) d)"

definition reachable_commits :: "(string, GitRepo) dict \<Rightarrow> TraceCompatibility list \<Rightarrow> (report_key, GitRepo \<times> (string, TraceCompatibility) dict) dict" where
  "reachable_commits deps tcs = fold (add_reachable deps) tcs []"

text \<open>
  The reports that apply, by repository. A repository without any is not a key, since the default is
  only created when a report is appended.
\<close>

definition applicable_compatibility_reports ::
  "(string, GitRepo) dict \<Rightarrow> TraceCompatibility list \<Rightarrow> (report_key, TraceCompatibility list) dict" where
  "applicable_compatibility_reports deps tcs =
     filter (\<lambda>(k, l). l \<noteq> [])
       (map (\<lambda>(k, repo, commits).
          (k, concat (map (\<lambda>c. case dict_get commits c of None \<Rightarrow> [] | Some tc \<Rightarrow> [tc])
                (find_first_accessible_commits_from_head repo (dict_keys commits)))))
        (reachable_commits deps tcs))"

definition all_reports :: "(report_key, TraceCompatibility list) dict \<Rightarrow> TraceCompatibility list" where
  "all_reports d = concat (dict_values d)"

definition lowest_compatibity_agreement_count :: "(report_key, TraceCompatibility list) dict \<Rightarrow> int" where
  "lowest_compatibity_agreement_count d =
     (if all_reports d = [] then 0 else Min (set (map tc_agreement_count (all_reports d))))"

definition MIN_ACCEPTABLE_AGREEMENT_COUNT :: int where
  "MIN_ACCEPTABLE_AGREEMENT_COUNT = 20"

definition expected_to_work :: "(report_key, TraceCompatibility list) dict \<Rightarrow> bool" where
  "expected_to_work d =
     (all_reports d \<noteq> [] \<and> list_all tc_is_working (all_reports d) \<and>
      lowest_compatibity_agreement_count d > MIN_ACCEPTABLE_AGREEMENT_COUNT)"

section \<open>Frames\<close>

record DedupedFrameOutput =
  df_id :: int
  df_url :: string
  df_is_acceptable :: "bool option"
  found_in_release_code_run :: bool
  outputs_count_for_gpu :: int

text \<open>\<open>DedupedFrameOutput.__post_init__\<close>: the count of the first GPU of the list.\<close>

definition outputs_count :: "(string, json) dict list option \<Rightarrow> json res" where
  "outputs_count gpus =
     (case gpus of None \<Rightarrow> Inl TypeError | Some [] \<Rightarrow> Inl IndexError | Some (g # _) \<Rightarrow> Inr (dict_get_or g ''frame_outputs_count'' (JInt 0)))"

record FrameOutput =
  fo_frame_outputs_id :: json
  fo_deduped_id :: json
  fo_blob_id :: json
  fo_is_acceptable :: json

text \<open>
  \<open>TraceExecFrameOutput.__post_init__\<close>: what is known of the frame. Without any information on the
  deduplicated frame, it is not acceptable; with a \<open>null\<close> it was not assessed.
\<close>

definition FrameOutput_init :: "(string, json) dict \<Rightarrow> FrameOutput res" where
  "FrameOutput_init d =
     res_bind (case dict_get d ''deduped_frame_output'' of None \<Rightarrow> Inr [] | Some (JObj x) \<Rightarrow> Inr x | Some _ \<Rightarrow> Inl AttributeError) (\<lambda>x.
       Inr \<lparr>fo_frame_outputs_id = dict_get_or d ''id'' JNull, fo_deduped_id = dict_get_or x ''id'' JNull,
            fo_blob_id = dict_get_or x ''blob_id'' JNull, fo_is_acceptable = dict_get_or x ''is_acceptable'' (JBool False)\<rparr>)"

definition deduped_frame_output :: "DedupedFrameOutput list \<Rightarrow> FrameOutput \<Rightarrow> DedupedFrameOutput option" where
  "deduped_frame_output stats fo = find (\<lambda>d. JInt (df_id d) = fo_deduped_id fo) stats"

definition unstable_output_for_gpu :: "DedupedFrameOutput list \<Rightarrow> DedupedFrameOutput list" where
  "unstable_output_for_gpu stats = filter (\<lambda>d. found_in_release_code_run d \<and> outputs_count_for_gpu d < 20) stats"

definition trace_has_stable_output_for_gpu :: "DedupedFrameOutput list \<Rightarrow> bool" where
  "trace_has_stable_output_for_gpu stats = (length (unstable_output_for_gpu stats) = 0)"

datatype frame_reason =
    Bug_no_deduped_frame
  | Found_in_released_code
  | Output_is_unstable "int list"
  | Needs_review
  | Marked_acceptable
  | Known_unacceptable
  | Missing_from_upload
  | Not_uploaded
  | Missing_but_expected
  | Missing_not_expected

text \<open>Only \<open>None\<close> is an open question; any other value is taken for its truth.\<close>

definition json_truthy :: "json \<Rightarrow> bool" where
  "json_truthy j =
     (case j of JNull \<Rightarrow> False | JBool b \<Rightarrow> b | JInt i \<Rightarrow> i \<noteq> 0 | JFloat f \<Rightarrow> \<not> list_all (\<lambda>c. c \<in> set ''-0.'') (takeWhile (\<lambda>c. c \<notin> set ''eE'') f)
      | JStr s \<Rightarrow> s \<noteq> [] | JList xs \<Rightarrow> xs \<noteq> [] | JObj kvs \<Rightarrow> kvs \<noteq> [])"

definition acceptability :: "DedupedFrameOutput list \<Rightarrow> FrameOutput \<Rightarrow> bool \<times> frame_reason" where
  "acceptability stats fo =
     (if fo_is_acceptable fo = JNull then
        (case deduped_frame_output stats fo of
           None \<Rightarrow> (False, Bug_no_deduped_frame)
         | Some d \<Rightarrow>
             if found_in_release_code_run d then (True, Found_in_released_code)
             else if \<not> trace_has_stable_output_for_gpu stats then (True, Output_is_unstable (map df_id (unstable_output_for_gpu stats)))
             else (False, Needs_review))
      else if json_truthy (fo_is_acceptable fo) then (True, Marked_acceptable)
      else (True, Known_unacceptable))"

section \<open>The folder of a replay\<close>

text \<open>
  \<open>datetime.strptime(s, '%Y-%m-%d %H:%M:%S')\<close> in microseconds since the first day of year 1: fields
  of one or two digits, except for the year, and any white space for the space.
\<close>

definition scan_field :: "nat \<Rightarrow> nat \<Rightarrow> nat \<Rightarrow> nat \<Rightarrow> string \<Rightarrow> (int \<times> string) option" where
  "scan_field min_len max_len lo hi s =
     (let d = takeWhile is_digit s in
      if min_len \<le> length d \<and> length d \<le> max_len then
        (case read_base 10 d of
           None \<Rightarrow> None
         | Some n \<Rightarrow> if lo \<le> n \<and> n \<le> hi then Some (int n, dropWhile is_digit s) else None)
      else None)"

text \<open>\<open>%d\<close> may also be a space and one digit.\<close>

definition scan_day :: "string \<Rightarrow> (int \<times> string) option" where
  "scan_day s =
     (case s of c # r \<Rightarrow> if c = CHR '' '' then scan_field 1 1 1 9 r else scan_field 1 2 1 31 s | [] \<Rightarrow> None)"

definition skip_spaces :: "string \<Rightarrow> string option" where
  "skip_spaces s = (if takeWhile py_isspace s = [] then None else Some (dropWhile py_isspace s))"

definition is_leap :: "int \<Rightarrow> bool" where
  "is_leap y = (y mod 4 = 0 \<and> (y mod 100 \<noteq> 0 \<or> y mod 400 = 0))"

definition days_in_month :: "int \<Rightarrow> int \<Rightarrow> int" where
  "days_in_month y m = (if m = 2 then (if is_leap y then 29 else 28) else if m \<in> set [4, 6, 9, 11] then 30 else 31)"

definition days_before_year :: "int \<Rightarrow> int" where
  "days_before_year y = (let p = y - 1 in p * 365 + p div 4 - p div 100 + p div 400)"

definition toordinal :: "int \<Rightarrow> int \<Rightarrow> int \<Rightarrow> int" where
  "toordinal y m d = days_before_year y + sum_list (map (days_in_month y) [1..m - 1]) + d"

definition scan_date :: "string \<Rightarrow> ((int \<times> int \<times> int) \<times> string) option" where
  "scan_date s =
     Option.bind (scan_field 4 4 0 9999 s) (\<lambda>(y, r). Option.bind (expect ''-'' r) (\<lambda>r.
     Option.bind (scan_field 1 2 1 12 r) (\<lambda>(m, r). Option.bind (expect ''-'' r) (\<lambda>r.
     Option.bind (scan_day r) (\<lambda>(d, r). Some ((y, m, d), r))))))"

definition scan_clock :: "string \<Rightarrow> (int \<times> int \<times> int) option" where
  "scan_clock s =
     Option.bind (scan_field 1 2 0 23 s) (\<lambda>(h, r). Option.bind (expect '':'' r) (\<lambda>r.
     Option.bind (scan_field 1 2 0 59 r) (\<lambda>(mi, r). Option.bind (expect '':'' r) (\<lambda>r.
     Option.bind (scan_field 1 2 0 61 r) (\<lambda>(sec, r). if r = [] then Some (h, mi, sec) else None)))))"

definition strptime :: "string \<Rightarrow> time res" where
  "strptime s =
     (case Option.bind (scan_date s) (\<lambda>(ymd, r). Option.bind (skip_spaces r) (\<lambda>r. map_option (\<lambda>hms. (ymd, hms)) (scan_clock r))) of
        None \<Rightarrow> Inl (ValueError ''time data does not match format'')
      | Some ((y, m, d), (h, mi, sec)) \<Rightarrow>
          if y < 1 \<or> d > days_in_month y m \<or> sec > 59 then Inl (ValueError ''out of range'')
          else Inr ((((toordinal y m d * 24 + h) * 60 + mi) * 60 + sec) * 1000000))"

record TraceExec =
  te_trace :: Trace
  te_start_time :: "time option"
  te_end_time :: "time option"
  te_retcode :: "int option"
  te_logs :: "string list option"
  te_found_frames :: "(string, string) dict"
  te_upload_report :: "(string, FrameOutput) dict option"

definition TraceExec_new :: "Trace \<Rightarrow> TraceExec" where
  "TraceExec_new t =
     \<lparr>te_trace = t, te_start_time = None, te_end_time = None, te_retcode = None, te_logs = None, te_found_frames = [], te_upload_report = None\<rparr>"

definition line_at :: "nat \<Rightarrow> string list \<Rightarrow> string res" where
  "line_at i ls = (if i < length ls then Inr (ls ! i) else Inl IndexError)"

text \<open>\<open>Path(name).stem\<close>\<close>

definition path_stem :: "string \<Rightarrow> string" where
  "path_stem name =
     (let ext = takeWhile (\<lambda>c. c \<noteq> CHR ''.'') (rev name); i = length name - length ext - 1
      in if CHR ''.'' \<in> set name \<and> 0 < i \<and> ext \<noteq> [] then take i name else name)"

text \<open>A file of the folder: its name, its path and its lines.\<close>

record dir_entry =
  de_name :: string
  de_path :: string
  de_lines :: "string list"

definition scan_entry :: "dir_entry \<Rightarrow> TraceExec \<Rightarrow> TraceExec res" where
  "scan_entry en te =
     (if de_name en = ''.started'' then
        res_bind (line_at 0 (de_lines en)) (\<lambda>l. res_bind (strptime (str_strip l)) (\<lambda>t. Inr (te\<lparr>te_start_time := Some t\<rparr>)))
      else if de_name en = ''.done'' then
        res_bind (line_at 0 (de_lines en)) (\<lambda>l. res_bind (strptime (str_strip l)) (\<lambda>t.
        res_bind (line_at 1 (de_lines en)) (\<lambda>l. res_bind (py_int (str_strip l)) (\<lambda>rc.
          Inr (te\<lparr>te_end_time := Some t, te_retcode := Some rc\<rparr>)))))
      else if suffix ''.log'' (de_name en) then Inr (te\<lparr>te_logs := Some (de_lines en)\<rparr>)
      else if suffix ''.png'' (de_name en) \<or> suffix ''.bmp'' (de_name en) then
        (case filename_to_frame_id (te_trace te) (path_stem (de_name en)) of
           Inr fid \<Rightarrow> Inr (te\<lparr>te_found_frames := dict_set fid (de_path en) (te_found_frames te)\<rparr>)
         | Inl _ \<Rightarrow> Inr te)
      else Inr te)"

fun scan_folder :: "dir_entry list \<Rightarrow> TraceExec \<Rightarrow> TraceExec res" where
  "scan_folder [] te = Inr te"
| "scan_folder (en # ens) te = res_bind (scan_entry en te) (scan_folder ens)"

definition TraceExec_init :: "Trace \<Rightarrow> dir_entry list \<Rightarrow> TraceExec res" where
  "TraceExec_init t ens = scan_folder ens (TraceExec_new t)"

definition exec_runtime :: "TraceExec \<Rightarrow> time res" where
  "exec_runtime te =
     (case te_end_time te of
        None \<Rightarrow> Inr 0
      | Some e \<Rightarrow> (case te_start_time te of None \<Rightarrow> Inl TypeError | Some s \<Rightarrow> Inr (e - s)))"

section \<open>Verdicts\<close>

record Frame =
  fr_frame_id :: string
  fr_file_path :: "string option"
  fr_is_acceptable :: bool
  fr_reason :: frame_reason

text \<open>\<open>stats\<close> are the statistics of a frame on this GPU, \<open>expected\<close> whether the trace is expected to work.\<close>

definition exec_frame :: "(FrameOutput \<Rightarrow> DedupedFrameOutput list) \<Rightarrow> bool \<Rightarrow> TraceExec \<Rightarrow> string \<Rightarrow> Frame" where
  "exec_frame stats expected te fid =
     (let path = dict_get (te_found_frames te) fid;
          (ok, why) =
            (if truthy path then
               (case te_upload_report te of
                  Some up \<Rightarrow> (case dict_get up fid of Some fo \<Rightarrow> acceptability (stats fo) fo | None \<Rightarrow> (False, Missing_from_upload))
                | None \<Rightarrow> (False, Not_uploaded))
             else if expected then (False, Missing_but_expected)
             else (True, Missing_not_expected))
      in \<lparr>fr_frame_id = fid, fr_file_path = path, fr_is_acceptable = ok, fr_reason = why\<rparr>)"

definition exec_frames :: "(FrameOutput \<Rightarrow> DedupedFrameOutput list) \<Rightarrow> bool \<Rightarrow> TraceExec \<Rightarrow> Frame list" where
  "exec_frames stats expected te = map (exec_frame stats expected te) (dict_keys (tr_frames_to_capture (te_trace te)))"

definition generated_all_wanted_frames :: "TraceExec \<Rightarrow> bool" where
  "generated_all_wanted_frames te = (set (dict_keys (tr_frames_to_capture (te_trace te))) = set (dict_keys (te_found_frames te)))"

definition all_frames_acceptable :: "Frame list \<Rightarrow> bool" where
  "all_frames_acceptable fs = list_all fr_is_acceptable fs"

definition had_successful_execution :: "TraceExec \<Rightarrow> bool" where
  "had_successful_execution te = (te_retcode te = Some 0 \<and> generated_all_wanted_frames te)"

definition exec_is_success :: "bool \<Rightarrow> TraceExec \<Rightarrow> bool" where
  "exec_is_success expected te = (had_successful_execution te \<or> \<not> expected)"

section \<open>The newest reports count\<close>

text \<open>A commit is reached from another along its parents; every commit reaches itself.\<close>

abbreviation parent_of :: "(string \<Rightarrow> string list) \<Rightarrow> string \<Rightarrow> string \<Rightarrow> bool" where
  "parent_of parents \<equiv> \<lambda>a b. b \<in> set (parents a)"

abbreviation reaches :: "(string \<Rightarrow> string list) \<Rightarrow> string \<Rightarrow> string \<Rightarrow> bool" where
  "reaches parents \<equiv> (parent_of parents)\<^sup>*\<^sup>*"

text \<open>
  What libgit2 promises of a walker: it visits the commits that HEAD reaches and that none of the
  hidden commits reaches. Hiding a commit that does not exist hides nothing else.
\<close>

definition walker_ok :: "(string \<Rightarrow> string list) \<Rightarrow> GitRepo \<Rightarrow> bool" where
  "walker_ok parents repo \<longleftrightarrow>
     (\<forall>oids. set (gr_walk repo oids) = {(c, parents c) |c. reaches parents (gr_head repo) c \<and> \<not> (\<exists>h \<in> set oids. reaches parents h c)})"

lemma first_accessible_iff:
  assumes "walker_ok parents repo" "gr_head repo \<notin> set oids"
  shows "c \<in> set (find_first_accessible_commits_from_head repo oids) \<longleftrightarrow>
    c \<in> set oids \<and> (\<exists>p. reaches parents (gr_head repo) p \<and> \<not> (\<exists>h \<in> set oids. reaches parents h p) \<and> c \<in> set (parents p))"
proof -
  have "set (concat (map snd (gr_walk repo oids))) =
      {c. \<exists>p. reaches parents (gr_head repo) p \<and> \<not> (\<exists>h \<in> set oids. reaches parents h p) \<and> c \<in> set (parents p)}"
    using assms(1) unfolding walker_ok_def by auto
  then show ?thesis using assms(2) by (auto simp: find_first_accessible_commits_from_head_def)
qed

definition acyclic_history :: "(string \<Rightarrow> string list) \<Rightarrow> bool" where
  "acyclic_history parents \<longleftrightarrow> (\<forall>c. \<not> (parent_of parents)\<^sup>+\<^sup>+ c c)"

lemma accessible_reported:
  assumes "walker_ok parents repo" "c \<in> set (find_first_accessible_commits_from_head repo oids)"
  shows "c \<in> set oids \<and> reaches parents (gr_head repo) c"
proof (cases "gr_head repo \<in> set oids")
  case True
  then show ?thesis using assms(2) by (simp add: find_first_accessible_commits_from_head_def)
next
  case False
  from assms(2) obtain p where "c \<in> set oids" "reaches parents (gr_head repo) p" "c \<in> set (parents p)"
    unfolding first_accessible_iff[OF assms(1) False] by blast
  then show ?thesis using rtranclp.rtrancl_into_rtrancl[of "parent_of parents" "gr_head repo" p c] by simp
qed

lemma newest_accessible:
  assumes "walker_ok parents repo" "acyclic_history parents"
    and "c \<in> set oids" "reaches parents (gr_head repo) c" "\<not> (\<exists>h \<in> set oids. h \<noteq> c \<and> reaches parents h c)"
  shows "c \<in> set (find_first_accessible_commits_from_head repo oids)"
proof (cases "gr_head repo \<in> set oids")
  case True
  then have "gr_head repo = c" using assms(4,5) by blast
  then show ?thesis using True by (simp add: find_first_accessible_commits_from_head_def)
next
  case False
  then have "gr_head repo \<noteq> c" using assms(3) by blast
  with assms(4) obtain p where p: "reaches parents (gr_head repo) p" "c \<in> set (parents p)"
    by (cases rule: rtranclp.cases) simp_all
  have "\<not> reaches parents h p" if h: "h \<in> set oids" for h
  proof
    assume hp: "reaches parents h p"
    then have "(parent_of parents)\<^sup>+\<^sup>+ h c" using p(2) by (rule rtranclp_into_tranclp1)
    moreover from this have "h = c" using assms(5) h by (meson tranclp_into_rtranclp)
    ultimately show False using assms(2) by (simp add: acyclic_history_def)
  qed
  then show ?thesis unfolding first_accessible_iff[OF assms(1) False] using assms(3) p by blast
qed


text \<open>
  One report on a commit that is newer than HEAD makes all the others disappear: the commit hides
  HEAD and everything below it from the walker.
\<close>

theorem newer_report_hides_all:
  assumes "walker_ok parents repo" "h \<in> set oids" "reaches parents h (gr_head repo)" "gr_head repo \<notin> set oids"
  shows "find_first_accessible_commits_from_head repo oids = []"
proof -
  have "reaches parents h p" if "reaches parents (gr_head repo) p" for p
    using assms(3) that by (rule rtranclp_trans)
  then have "set (find_first_accessible_commits_from_head repo oids) = {}"
    unfolding set_eq_iff first_accessible_iff[OF assms(1,4)] using assms(2) by blast
  then show ?thesis by simp
qed

text \<open>A history of three commits, the last of which is checked out.\<close>

definition chain_parents :: "string \<Rightarrow> string list" where
  "chain_parents c = (if c = ''3'' then [''2''] else if c = ''2'' then [''1''] else [])"

definition chain_below :: "string \<Rightarrow> string list" where
  "chain_below c = (if c = ''3'' then [''3'', ''2'', ''1''] else if c = ''2'' then [''2'', ''1''] else [c])"

definition chain_repo :: "string \<Rightarrow> GitRepo" where
  "chain_repo head =
     \<lparr>gr_name = ''Mesa'', gr_path = ''/mesa'', gr_head = head,
      gr_walk = (\<lambda>oids. map (\<lambda>c. (c, chain_parents c)) (filter (\<lambda>c. \<not> list_ex (\<lambda>h. c \<in> set (chain_below h)) oids) (chain_below head)))\<rparr>"

lemma chain_reaches: "reaches chain_parents a b \<longleftrightarrow> b \<in> set (chain_below a)"
proof
  show "reaches chain_parents a b \<Longrightarrow> b \<in> set (chain_below a)"
    by (induction rule: rtranclp_induct) (auto simp: chain_below_def chain_parents_def split: if_splits)
  have step: "reaches chain_parents ''3'' ''2''" "reaches chain_parents ''2'' ''1''"
    by (auto simp: chain_parents_def)
  then have "reaches chain_parents ''3'' ''1''" by (rule rtranclp_trans)
  then show "b \<in> set (chain_below a) \<Longrightarrow> reaches chain_parents a b"
    using step by (auto simp: chain_below_def split: if_splits)
qed

lemma chain_ok: "walker_ok chain_parents (chain_repo head)"
  unfolding walker_ok_def chain_reaches by (auto simp: chain_repo_def list_ex_iff)

lemma chain_acyclic: "acyclic_history chain_parents"
  unfolding acyclic_history_def
proof (intro allI notI)
  fix a
  assume "(parent_of chain_parents)\<^sup>+\<^sup>+ a a"
  then obtain b where "b \<in> set (chain_parents a)" "reaches chain_parents b a" using tranclpD by metis
  then show False unfolding chain_reaches by (auto simp: chain_parents_def chain_below_def split: if_splits)
qed


theorem newer_report_hides_all_witness:
  "find_first_accessible_commits_from_head (chain_repo ''2'') [''1'', ''3''] = []"
  by (rule newer_report_hides_all[OF chain_ok, of "''3''"]) (simp_all add: chain_reaches chain_repo_def chain_below_def)

section \<open>Frames without information\<close>

text \<open>
  A frame is rejected only as long as nobody assessed it. A response of the website without
  information on the frame counts as an assessment, and the frame is accepted.
\<close>

lemma rejected_iff_open:
  "fst (acceptability stats fo) \<longleftrightarrow> fo_is_acceptable fo \<noteq> JNull \<or>
     (\<exists>d. deduped_frame_output stats fo = Some d \<and> (found_in_release_code_run d \<or> \<not> trace_has_stable_output_for_gpu stats))"
  by (simp add: acceptability_def split: option.split)

lemma missing_information_accepted:
  "\<exists>fo. FrameOutput_init [] = Inr fo \<and> acceptability stats fo = (True, Known_unacceptable)"
  by (simp add: FrameOutput_init_def acceptability_def json_truthy_def dict_get_or_def)

end
