(* ===== verification/Vt_Report.thy ===== *)
theory Vt_Report
  imports Vt_Exec
begin

text \<open>
  The report on a run of traces (\<open>Report\<close>, \<open>run_job\<close> and \<open>report_results\<close> of
  \<open>valvetraces/__init__.py\<close>): the folders of a run and the traces they belong to, the verdict on the
  run and its JUnit file, and the upload to the website. The website is a record of operations; the
  uploads that the code spreads over processes are done one after the other.
\<close>

section \<open>The folders of a run\<close>

text \<open>\<open>args.traces_db\<close> and the job folder are joined with names that are relative paths.\<close>

definition join_path :: "string \<Rightarrow> string \<Rightarrow> string" where
  "join_path a b =
     (if b \<noteq> [] \<and> hd b = CHR ''/'' then b else if a = [] \<or> last a = CHR ''/'' then a @ b else a @ ''/'' @ b)"

text \<open>The folder of a trace in the job folder.\<close>

definition trace_folder :: "Trace \<Rightarrow> string" where
  "trace_folder t = path_stem (trace_name t)"

definition valve_entrypoint :: "nat \<Rightarrow> string" where
  "valve_entrypoint n =
     concat (map (\<lambda>l. l @ newline)
       [''#!/bin/sh'', [], ''# Sanity checks'', ''wine --version'', ''vulkaninfo > vulkaninfo 2>&1'', ''glxinfo > glxinfo 2>&1'',
        ''gfxinfo > gfxinfo.json'', ''lspci -nn > lspci'', [], ''# Run all the traces'', ''i=0'', ''for trace in **/exec.sh; do'',
        ''    i=$((i+1))'', ''    echo -e '' @ [CHR 0x22], ''[$i/'' @ show_nat n @ ''] Executing $trace'' @ [CHR 0x22],
        ''    (cd '' @ [CHR 0x22, CHR 0x60] @ ''dirname '' @ quoted ''$trace'' @ [CHR 0x60, CHR 0x22] @ ''; sh ./exec.sh)'', ''done'', [],
        ''echo '' @ quoted ''The execution is finished. Exiting!''])"

text \<open>The files that \<open>run_job\<close> writes into its folder, with their contents.\<close>

definition run_job_files :: "(string, string) dict \<Rightarrow> string \<Rightarrow> string \<Rightarrow> Trace list \<Rightarrow> (string \<times> string) list" where
  "run_job_files env traces_db job_folder ts =
     [(join_path job_folder (job_id env @ ''.job''), [])] @
     map (\<lambda>t. (join_path job_folder (trace_folder t) @ ''/exec.sh'', exec_script t (join_path traces_db (trace_name t)))) ts @
     [(job_folder @ ''/valvetraces-run.sh'', valve_entrypoint (length ts))]"

text \<open>The traces of a run: those of the wanted APIs, as many as fit.\<close>

definition traces_to_run :: "string list option \<Rightarrow> rat option \<Rightarrow> Trace list \<Rightarrow> Trace list" where
  "traces_to_run gfx_apis max_gb ts =
     (let l = list_traces gfx_apis ts in case max_gb of None \<Rightarrow> l | Some gb \<Rightarrow> traces_under_gb l gb)"

text \<open>\<open>Report.__init__\<close>: the trace that a folder belongs to.\<close>

definition traces_by_id :: "Trace list \<Rightarrow> (string, Trace) dict" where
  "traces_by_id ts = fold (\<lambda>t. dict_set (show_int (tr_id t)) t) ts []"

definition folder_trace :: "Trace list \<Rightarrow> string \<Rightarrow> Trace option" where
  "folder_trace ts name =
     (case dict_get (traces_by_id ts) (hd (str_split CHR ''-'' name)) of
        Some t \<Rightarrow> if str_startswith (trace_name t) name then Some t else None
      | None \<Rightarrow> None)"

fun scan_results :: "Trace list \<Rightarrow> (string \<times> dir_entry list) list \<Rightarrow> TraceExec list res" where
  "scan_results ts [] = Inr []"
| "scan_results ts ((name, ens) # dirs) =
     (case folder_trace ts name of
        None \<Rightarrow> scan_results ts dirs
      | Some t \<Rightarrow> res_bind (TraceExec_init t ens) (\<lambda>te. res_bind (scan_results ts dirs) (\<lambda>tes. Inr (te # tes))))"

section \<open>The report\<close>

text \<open>
  What a report is made of: the repositories under test, the compatibility reports by trace, the
  statistics of the frames, the outputs of glxinfo and gfxinfo, and the replays.
\<close>

record Report =
  rp_run_name :: string
  rp_dependencies :: "(string, GitRepo) dict"
  rp_compat :: "int \<Rightarrow> TraceCompatibility list"
  rp_stats :: "FrameOutput \<Rightarrow> DedupedFrameOutput list"
  rp_glxinfo_drv :: "GpuDriver option"
  rp_gfxinfo :: "GfxInfo option"
  rp_trace_execs :: "TraceExec list"

definition squoted :: "string \<Rightarrow> string" where
  "squoted s = CHR 0x27 # s @ [CHR 0x27]"

definition report_errors :: "Report \<Rightarrow> string list" where
  "report_errors rp =
     (if rp_gfxinfo rp = None then [''No valid '' @ squoted ''gfxinfo.json'' @ '' file found or some required fields are missing''] else []) @
     (if rp_glxinfo_drv rp = None then [''No valid '' @ squoted ''glxinfo'' @ '' file found or couldn'' @ [CHR 0x27] @ ''t parse some fields''] else [])"

definition report_is_valid :: "Report \<Rightarrow> bool" where
  "report_is_valid rp = (length (report_errors rp) = 0)"

definition exec_reports :: "Report \<Rightarrow> TraceExec \<Rightarrow> (report_key, TraceCompatibility list) dict" where
  "exec_reports rp te = applicable_compatibility_reports (rp_dependencies rp) (rp_compat rp (tr_id (te_trace te)))"

definition exec_expected :: "Report \<Rightarrow> TraceExec \<Rightarrow> bool" where
  "exec_expected rp te = expected_to_work (exec_reports rp te)"

definition report_frames :: "Report \<Rightarrow> TraceExec \<Rightarrow> Frame list" where
  "report_frames rp te = exec_frames (rp_stats rp) (exec_expected rp te) te"

definition all_frames :: "Report \<Rightarrow> Frame list" where
  "all_frames rp = concat (map (report_frames rp) (rp_trace_execs rp))"

definition all_unacceptable_frames :: "Report \<Rightarrow> Frame list" where
  "all_unacceptable_frames rp = filter (\<lambda>f. \<not> fr_is_acceptable f) (all_frames rp)"

fun execs_succeed :: "Report \<Rightarrow> TraceExec list \<Rightarrow> bool" where
  "execs_succeed rp [] = True"
| "execs_succeed rp (te # tes) =
     (if \<not> had_successful_execution te \<and> exec_expected rp te then False
      else if \<not> all_frames_acceptable (report_frames rp te) then False
      else execs_succeed rp tes)"

definition report_is_success :: "Report \<Rightarrow> bool" where
  "report_is_success rp = execs_succeed rp (rp_trace_execs rp)"

section \<open>The JUnit file\<close>

text \<open>
  A test case with the message of its failure, which is a text for an execution and the reason for a
  frame, and the file attached to it.
\<close>

record testcase =
  jc_id :: string
  jc_failure :: "(string + frame_reason) option"
  jc_attachment :: "string option"

definition jc_failed :: "testcase \<Rightarrow> bool" where
  "jc_failed c = (jc_failure c \<noteq> None)"

record testsuite =
  js_id :: string
  js_tests :: nat
  js_failures :: nat
  js_cases :: "testcase list"

record junit =
  ju_id :: string
  ju_tests :: nat
  ju_failures :: nat
  ju_suites :: "testsuite list"

definition exec_failure_message :: "TraceExec \<Rightarrow> string" where
  "exec_failure_message te =
     (case te_retcode te of
        None \<Rightarrow> ''ERROR: The trace execution failed to complete.''
      | Some rc \<Rightarrow> ''ERROR: The trace execution'' @ [CHR 0x27] @ ''s exit code was '' @ show_int rc @ ''.'') @
     (if generated_all_wanted_frames te then [] else '' Some frames are missing.'')"

definition exec_case :: "Report \<Rightarrow> string \<Rightarrow> TraceExec \<Rightarrow> testcase" where
  "exec_case rp ts_id te =
     \<lparr>jc_id = ts_id @ ''-execution'',
      jc_failure = (if \<not> had_successful_execution te \<and> exec_expected rp te then Some (Inl (exec_failure_message te)) else None),
      jc_attachment = None\<rparr>"

definition frame_case :: "string \<Rightarrow> Frame \<Rightarrow> testcase" where
  "frame_case ts_id f =
     \<lparr>jc_id = ts_id @ ''-'' @ fr_frame_id f, jc_failure = (if fr_is_acceptable f then None else Some (Inr (fr_reason f))),
      jc_attachment = (if truthy (fr_file_path f) then fr_file_path f else None)\<rparr>"

definition exec_suite :: "Report \<Rightarrow> string \<Rightarrow> TraceExec \<Rightarrow> testsuite" where
  "exec_suite rp run_id te =
     (let ts_id = run_id @ ''-'' @ none_str (tr_filename (te_trace te));
          frames = report_frames rp te;
          failed_frames = filter (\<lambda>f. \<not> fr_is_acceptable f) frames
      in \<lparr>js_id = ts_id, js_tests = 1 + length frames,
          js_failures = (if exec_is_success (exec_expected rp te) te then 0 else 1) + length failed_frames,
          js_cases = exec_case rp ts_id te # map (frame_case ts_id) frames\<rparr>)"

definition generate_junit_result :: "Report \<Rightarrow> string \<Rightarrow> junit" where
  "generate_junit_result rp cn =
     (let run_id = rp_run_name rp @ ''-'' @ cn
      in \<lparr>ju_id = run_id, ju_tests = length (all_frames rp), ju_failures = length (all_unacceptable_frames rp),
          ju_suites = map (exec_suite rp run_id) (rp_trace_execs rp)\<rparr>)"

section \<open>The upload\<close>

definition get_env_var_or_fail :: "(string, string) dict \<Rightarrow> string \<Rightarrow> string res" where
  "get_env_var_or_fail env k =
     (case dict_get env k of
        Some v \<Rightarrow> Inr v
      | None \<Rightarrow> Inl (ValueError (''The environment variable `'' @ k @ ''` is missing'')))"

text \<open>\<open>re.match(r'(staging/)?\d{2}\.\d|main', branch)\<close>\<close>

definition release_version :: "string \<Rightarrow> bool" where
  "release_version s =
     (case s of a # b # c # d # _ \<Rightarrow> is_digit a \<and> is_digit b \<and> c = CHR ''.'' \<and> is_digit d | _ \<Rightarrow> False)"

definition mesa_release_branch :: "string \<Rightarrow> bool" where
  "mesa_release_branch branch =
     ((case expect ''staging/'' branch of Some r \<Rightarrow> release_version r | None \<Rightarrow> False) \<or> release_version branch \<or> str_startswith branch ''main'')"

definition is_postmerge_job :: "(string, string) dict \<Rightarrow> bool res" where
  "is_postmerge_job env =
     res_bind (get_env_var_or_fail env ''CI_PROJECT_PATH'') (\<lambda>project.
     res_bind (get_env_var_or_fail env ''CI_COMMIT_BRANCH'') (\<lambda>branch.
       Inr (if dict_get env ''CI_MERGE_REQUEST_ID'' \<noteq> None then False
            else if project \<in> set [''tanty/mesa-valve-ci'', ''mesa/mesa''] then mesa_release_branch branch
            else if project \<in> set [''mupuf/dxvk-ci''] then branch = ''master''
            else False)))"

text \<open>
  Calling a dataclass with keyword arguments: an argument that is no field raises, and so does a
  field without default that gets no argument.
\<close>

definition dataclass_call :: "(string \<times> bool) list \<Rightarrow> (string, json) dict \<Rightarrow> (string, json) dict res" where
  "dataclass_call class_fields kwargs =
     (if list_all (\<lambda>k. k \<in> set (map fst class_fields)) (dict_keys kwargs) \<and>
         list_all (\<lambda>(f, has_default). has_default \<or> dict_get kwargs f \<noteq> None) class_fields
      then Inr kwargs else Inl TypeError)"

definition JobTimeline_fields :: "(string \<times> bool) list" where
  "JobTimeline_fields = [(''project'', False), (''branch'', False), (''project_url'', False), (''base_url_for_commits'', False)]"

definition job_timeline :: "(string, string) dict \<Rightarrow> (string, json) dict res" where
  "job_timeline env =
     res_bind (get_env_var_or_fail env ''CI_PROJECT_PATH'') (\<lambda>project.
     res_bind (get_env_var_or_fail env ''CI_COMMIT_BRANCH'') (\<lambda>branch.
     res_bind (get_env_var_or_fail env ''CI_PROJECT_URL'') (\<lambda>url.
       dataclass_call JobTimeline_fields
         [(''project'', JStr project), (''branch'', JStr branch), (''project_url'', JStr (url @ ''/-/tree/'' @ branch)),
          (''base_url_for_commits'', JStr (url @ ''/-/commit/'')),
          (''url_pattern_for_filing_issue'', JStr (url @ ''/-/issues/new?issue[title]=%{title}&issue[description]=%{description}''))])))"

text \<open>
  The website, and the existing executions of a job: the trace, the driver and the frames. The driver
  of an execution is what the website sent, a dictionary and no \<open>GpuDriver\<close>.
\<close>

record uploaded_exec =
  ue_trace_id :: int
  ue_driver :: json
  ue_frames :: "(string, FrameOutput) dict"

record 'w website =
  ws_job :: "string \<Rightarrow> (string, json) dict \<Rightarrow> bool \<Rightarrow> string \<Rightarrow> ('w, int) act"
  ws_trace_execs :: "int \<Rightarrow> string option \<Rightarrow> ('w, uploaded_exec list) act"
  ws_upload_frame :: "string \<Rightarrow> ('w, json) act"
  ws_upload_logs :: "string list \<Rightarrow> ('w, json) act"
  ws_report_exec :: "int \<Rightarrow> TraceExec \<Rightarrow> string option \<Rightarrow> (string, json) dict \<Rightarrow> json option \<Rightarrow> time \<Rightarrow> GpuDriver option \<Rightarrow> ('w, (string, FrameOutput) dict) act"
  ws_project :: "string \<Rightarrow> ('w, json) act"
  ws_commit :: "json \<Rightarrow> string \<Rightarrow> ('w, json) act"
  ws_gpu_id :: "('w, json) act"
  ws_report_compat :: "json \<Rightarrow> int \<Rightarrow> json \<Rightarrow> bool \<Rightarrow> ('w, bool) act"

text \<open>
  The compatibility reports of \<open>TraceExec.upload\<close>, for one repository. The reports that apply are
  looked up by the name of the project, and an existing report would be asked for its \<open>commit_id\<close>.
\<close>

definition report_dependency :: "'w website \<Rightarrow> Report \<Rightarrow> TraceExec \<Rightarrow> string \<times> GitRepo \<Rightarrow> ('w, unit) act" where
  "report_dependency ws rp te dep =
     (let (project_name, repo) = dep; ok = had_successful_execution te in
      case dict_get (exec_reports rp te) (KName project_name) of
        Some reports \<Rightarrow>
          if exec_expected rp te = ok then act_iter (\<lambda>_. act_raise AttributeError) reports
          else act_bind (ws_project ws project_name) (\<lambda>p. act_bind (ws_commit ws p (gr_head repo)) (\<lambda>c.
               act_bind (ws_gpu_id ws) (\<lambda>g. act_bind (ws_report_compat ws c (tr_id (te_trace te)) g ok) (\<lambda>_. act_return ()))))
      | None \<Rightarrow>
          act_bind (ws_project ws project_name) (\<lambda>p. act_bind (ws_commit ws p (gr_head repo)) (\<lambda>c.
          act_bind (ws_gpu_id ws) (\<lambda>g. act_bind (ws_report_compat ws c (tr_id (te_trace te)) g ok) (\<lambda>_. act_return ())))))"

definition exec_driver :: "Report \<Rightarrow> TraceExec \<Rightarrow> GpuDriver option res" where
  "exec_driver rp te =
     (case rp_gfxinfo rp of
        None \<Rightarrow> Inl AttributeError
      | Some gi \<Rightarrow> exec_gpu_driver (rp_glxinfo_drv rp) gi (te_trace te) (te_logs te))"

definition report_pciid :: "Report \<Rightarrow> string option res" where
  "report_pciid rp = (case rp_gfxinfo rp of None \<Rightarrow> Inl AttributeError | Some gi \<Rightarrow> gpu_pciid gi)"

text \<open>
  The execution is known as uploaded as soon as the website accepted it: a failure of the
  compatibility reports is printed by the caller and changes nothing.
\<close>

definition exec_upload :: "'w website \<Rightarrow> Report \<Rightarrow> int \<Rightarrow> (string, json) dict \<Rightarrow> json option \<Rightarrow> TraceExec \<Rightarrow> ('w, TraceExec) act" where
  "exec_upload ws rp job frame_blobs logs_blob te =
     act_bind (act_lift (report_pciid rp)) (\<lambda>pciid.
     act_bind (act_lift (exec_runtime te)) (\<lambda>rt.
     act_bind (act_lift (exec_driver rp te)) (\<lambda>drv.
     act_bind (ws_report_exec ws job te pciid frame_blobs logs_blob rt drv) (\<lambda>frames.
       let te' = te\<lparr>te_upload_report := Some frames\<rparr>
       in act_catch (act_bind (act_iter (report_dependency ws rp te') (rp_dependencies rp)) (\<lambda>_. act_return te'))
            (\<lambda>_. act_return te')))))"

text \<open>
  A replay that was uploaded before, for the same driver, is not uploaded again. A \<open>GpuDriver\<close> is
  not equal to a dictionary, whatever is in it.
\<close>

definition driver_equals :: "GpuDriver option \<Rightarrow> json \<Rightarrow> bool" where
  "driver_equals drv j = (case drv of None \<Rightarrow> j = JNull | Some _ \<Rightarrow> False)"

definition mark_uploaded :: "Report \<Rightarrow> uploaded_exec list \<Rightarrow> TraceExec \<Rightarrow> TraceExec res" where
  "mark_uploaded rp existing te =
     (let mine = filter (\<lambda>u. ue_trace_id u = tr_id (te_trace te)) existing in
      if mine = [] then Inr te
      else res_bind (exec_driver rp te) (\<lambda>drv.
             Inr (fold (\<lambda>u te. if driver_equals drv (ue_driver u) then te\<lparr>te_upload_report := Some (ue_frames u)\<rparr> else te) mine te)))"

fun upload_frames :: "'w website \<Rightarrow> (string \<times> string) list \<Rightarrow> ('w, (string, json) dict) act" where
  "upload_frames ws [] = act_return []"
| "upload_frames ws ((fid, path) # fs) =
     act_bind (ws_upload_frame ws path) (\<lambda>b. act_bind (upload_frames ws fs) (\<lambda>bs. act_return ((fid, b) # bs)))"

text \<open>One replay; when anything fails it is left as it was, and the upload goes on.\<close>

definition upload_exec :: "'w website \<Rightarrow> Report \<Rightarrow> int \<Rightarrow> TraceExec \<Rightarrow> ('w, TraceExec) act" where
  "upload_exec ws rp job te =
     (if te_upload_report te \<noteq> None then act_return te
      else act_catch
        (act_bind (upload_frames ws (te_found_frames te)) (\<lambda>blobs.
         act_bind (case te_logs te of None \<Rightarrow> act_return None | Some ls \<Rightarrow> act_bind (ws_upload_logs ws ls) (\<lambda>b. act_return (Some b))) (\<lambda>logs.
           exec_upload ws rp job blobs logs te)))
        (\<lambda>_. act_return te))"

fun upload_execs :: "'w website \<Rightarrow> Report \<Rightarrow> int \<Rightarrow> TraceExec list \<Rightarrow> ('w, TraceExec list) act" where
  "upload_execs ws rp job [] = act_return []"
| "upload_execs ws rp job (te # tes) =
     act_bind (upload_exec ws rp job te) (\<lambda>te'. act_bind (upload_execs ws rp job tes) (\<lambda>tes'. act_return (te' # tes')))"

definition report_upload :: "'w website \<Rightarrow> (string, string) dict \<Rightarrow> Report \<Rightarrow> ('w, Report) act" where
  "report_upload ws env rp =
     act_bind (act_lift (job_timeline env)) (\<lambda>tl.
     act_bind (act_lift (is_postmerge_job env)) (\<lambda>released.
     act_bind (act_lift (get_env_var_or_fail env ''CI_COMMIT_SHORT_SHA'')) (\<lambda>version.
     act_bind (ws_job ws (rp_run_name rp) tl released version) (\<lambda>job.
     act_bind (act_lift (report_pciid rp)) (\<lambda>pciid.
     act_bind (ws_trace_execs ws job pciid) (\<lambda>existing.
     act_bind (act_lift (res_map_list (mark_uploaded rp existing) (rp_trace_execs rp))) (\<lambda>tes.
     act_bind (upload_execs ws rp job tes) (\<lambda>tes'.
       act_return (rp\<lparr>rp_trace_execs := tes'\<rparr>)))))))))"

text \<open>The exit code of \<open>report_results\<close>, and the JUnit file if it gets that far.\<close>

definition report_results :: "'w website \<Rightarrow> (string, string) dict \<Rightarrow> Report \<Rightarrow> ('w, int \<times> junit option) act" where
  "report_results ws env rp =
     (if \<not> report_is_valid rp then act_return (1, None)
      else act_bind (act_lift (is_postmerge_job env)) (\<lambda>_.
           act_bind (report_upload ws env rp) (\<lambda>rp'.
           act_bind (act_lift (res_map_list exec_runtime (rp_trace_execs rp'))) (\<lambda>_.
           act_bind (act_lift (case rp_gfxinfo rp' of None \<Rightarrow> Inl AttributeError | Some gi \<Rightarrow> gpu_codename gi)) (\<lambda>cn.
             act_return (if report_is_success rp' then 0 else 1, Some (generate_junit_result rp' (none_str cn))))))))"

section \<open>A folder belongs to its trace\<close>

lemma takeWhile_shorter: "x \<in> set xs \<Longrightarrow> \<not> P x \<Longrightarrow> length (takeWhile P xs) < length xs"
  by (induction xs) auto

text \<open>The stem keeps everything up to the last dot.\<close>

lemma path_stem_prefix:
  assumes "CHR ''.'' \<notin> set p" "p \<noteq> []"
  shows "\<exists>q. path_stem (p @ s) = p @ q \<and> prefix q s"
proof (cases "CHR ''.'' \<in> set s")
  case False
  then show ?thesis using assms by (auto simp: path_stem_def Let_def)
next
  case True
  let ?ext = "takeWhile (\<lambda>c. c \<noteq> CHR ''.'') (rev s)"
  have ext: "takeWhile (\<lambda>c. c \<noteq> CHR ''.'') (rev (p @ s)) = ?ext"
    using True by (simp add: takeWhile_append1)
  have "length ?ext < length s" using True takeWhile_shorter[of "CHR ''.''" "rev s" "\<lambda>c. c \<noteq> CHR ''.''"] by simp
  then have "take (length (p @ s) - length ?ext - 1) (p @ s) = p @ take (length s - length ?ext - 1) s" by simp
  then have "path_stem (p @ s) = p @ s \<or> path_stem (p @ s) = p @ take (length s - length ?ext - 1) s"
    unfolding path_stem_def Let_def ext by (simp split: if_splits)
  then show ?thesis by (auto intro: take_is_prefix)
qed

lemma show_nat_no_sep: "CHR ''-'' \<notin> set (show_nat n)" "CHR ''.'' \<notin> set (show_nat n)"
proof -
  have "\<forall>c \<in> set (show_nat n). is_digit c" by (rule show_nat_digits)
  moreover have "\<not> is_digit CHR ''-''" "\<not> is_digit CHR ''.''" by (simp_all add: is_digit_def)
  ultimately show "CHR ''-'' \<notin> set (show_nat n)" "CHR ''.'' \<notin> set (show_nat n)" by blast+
qed

lemma trace_folder_form:
  assumes "0 \<le> tr_id t"
  shows "\<exists>q. trace_folder t = show_int (tr_id t) @ CHR ''-'' # q \<and> prefix (trace_folder t) (trace_name t)"
proof -
  let ?p = "show_int (tr_id t) @ ''-''"
  have "CHR ''.'' \<notin> set ?p" using assms show_nat_no_sep(2) by (simp add: show_int_def)
  from path_stem_prefix[OF this, of "none_str (tr_filename t)"]
  obtain q where q: "path_stem (?p @ none_str (tr_filename t)) = ?p @ q" "prefix q (none_str (tr_filename t))" by auto
  have "trace_name t = ?p @ none_str (tr_filename t)" by (simp add: trace_name_def)
  then have "trace_folder t = ?p @ q" "prefix (trace_folder t) (trace_name t)"
    using q by (simp_all add: trace_folder_def)
  then show ?thesis by simp
qed

lemma show_int_inj_nonneg: "0 \<le> i \<Longrightarrow> 0 \<le> j \<Longrightarrow> show_int i = show_int j \<longleftrightarrow> i = j"
  by (auto simp: show_int_def)

lemma fold_traces_get:
  assumes "distinct (map (\<lambda>t. show_int (tr_id t)) ts)"
  shows "dict_get (fold (\<lambda>t. dict_set (show_int (tr_id t)) t) ts d) k =
    (case find (\<lambda>t. show_int (tr_id t) = k) ts of Some t \<Rightarrow> Some t | None \<Rightarrow> dict_get d k)"
  using assms
proof (induction ts arbitrary: d)
  case (Cons t ts)
  have "find (\<lambda>u. show_int (tr_id u) = show_int (tr_id t)) ts = None"
    using Cons.prems by (auto simp: find_None_iff image_iff)
  then show ?case using Cons by (auto split: option.splits)
qed simp



section \<open>The JUnit file tells the verdict\<close>

lemma suite_failures: "js_failures (exec_suite rp i te) = length (filter jc_failed (js_cases (exec_suite rp i te)))"
  by (simp add: exec_suite_def exec_case_def exec_is_success_def Let_def filter_map comp_def frame_case_def jc_failed_def)

lemma suite_tests: "js_tests (exec_suite rp i te) = length (js_cases (exec_suite rp i te))"
  by (simp add: exec_suite_def Let_def)

lemma suite_passes:
  "js_failures (exec_suite rp i te) = 0 \<longleftrightarrow>
     \<not> (\<not> had_successful_execution te \<and> exec_expected rp te) \<and> all_frames_acceptable (report_frames rp te)"
  by (auto simp: exec_suite_def exec_is_success_def Let_def all_frames_acceptable_def list_all_iff filter_empty_conv)

lemma execs_succeed_iff: "execs_succeed rp tes \<longleftrightarrow> sum_list (map (\<lambda>te. js_failures (exec_suite rp i te)) tes) = 0"
  by (induction tes) (auto simp: suite_passes)

text \<open>
  C37. The exit code and the JUnit file agree: the run is a success exactly if no suite of the file counts a
  failure, and every suite counts as many tests and failures as it lists.
\<close>

theorem junit_tells_verdict:
  "(report_is_success rp \<longleftrightarrow> sum_list (map js_failures (ju_suites (generate_junit_result rp cn))) = 0) \<and>
   map js_failures (ju_suites (generate_junit_result rp cn)) =
     map (\<lambda>s. length (filter jc_failed (js_cases s))) (ju_suites (generate_junit_result rp cn)) \<and>
   map js_tests (ju_suites (generate_junit_result rp cn)) = map (\<lambda>s. length (js_cases s)) (ju_suites (generate_junit_result rp cn))"
  by (simp add: generate_junit_result_def Let_def report_is_success_def comp_def suite_failures[symmetric] suite_tests
      execs_succeed_iff[of rp _ "rp_run_name rp @ ''-'' @ cn"])

text \<open>The totals of the file leave out the executions, failed or not.\<close>

lemma junit_totals_omit_executions:
  "sum_list (map js_tests (ju_suites (generate_junit_result rp cn))) = ju_tests (generate_junit_result rp cn) + length (rp_trace_execs rp) \<and>
   sum_list (map js_failures (ju_suites (generate_junit_result rp cn))) =
     ju_failures (generate_junit_result rp cn) +
     length (filter (\<lambda>te. \<not> had_successful_execution te \<and> exec_expected rp te) (rp_trace_execs rp))"
proof -
  have "sum_list (map (\<lambda>te. js_tests (exec_suite rp i te)) tes) = length (concat (map (report_frames rp) tes)) + length tes" for i tes
    by (induction tes) (simp_all add: exec_suite_def Let_def)
  moreover have "sum_list (map (\<lambda>te. js_failures (exec_suite rp i te)) tes) =
      length (filter (\<lambda>f. \<not> fr_is_acceptable f) (concat (map (report_frames rp) tes))) +
      length (filter (\<lambda>te. \<not> had_successful_execution te \<and> exec_expected rp te) tes)" for i tes
    by (induction tes) (auto simp: exec_suite_def exec_is_success_def Let_def)
  ultimately show ?thesis
    by (simp add: generate_junit_result_def Let_def comp_def all_unacceptable_frames_def all_frames_def)
qed

section \<open>The upload that cannot work\<close>

lemma job_timeline_raises: "\<exists>x. job_timeline env = Inl x"
proof -
  have "dataclass_call JobTimeline_fields
      [(''project'', a), (''branch'', b), (''project_url'', c), (''base_url_for_commits'', d), (''url_pattern_for_filing_issue'', f)] = Inl TypeError"
    for a b c d f
    by (simp add: dataclass_call_def JobTimeline_fields_def)
  then show ?thesis
    unfolding job_timeline_def res_bind_def get_env_var_or_fail_def by (auto split: option.splits)
qed

text \<open>
  C36. Reporting a run never succeeds. The description of the job is given a field that its class does not
  have, so that the upload raises before the website is contacted at all, whatever the
  environment and the results are; the exit code is never 0, and no JUnit file is written.
\<close>

theorem report_never_succeeds:
  "(\<exists>x. report_upload ws env rp w = (Inl x, w)) \<and>
   (report_results ws env rp w = (Inr (1, None), w) \<or> (\<exists>x. report_results ws env rp w = (Inl x, w)))"
proof -
  obtain x where x: "job_timeline env = Inl x" using job_timeline_raises by blast
  then have up: "report_upload ws env rp w = (Inl x, w)" by (simp add: report_upload_def)
  moreover have "report_results ws env rp w = (Inr (1, None), w) \<or> (\<exists>x. report_results ws env rp w = (Inl x, w))"
  proof (cases "report_is_valid rp")
    case True
    then show ?thesis using up
      by (cases "is_postmerge_job env") (simp_all add: report_results_def act_bind_def act_lift_def)
  next
    case False
    then show ?thesis by (simp add: report_results_def act_return_def)
  qed
  ultimately show ?thesis by blast
qed

text \<open>
  If it did, no existing compatibility report would ever be used again: they are kept by repository
  and looked up by name.
\<close>

lemma reports_never_reused: "dict_get (exec_reports rp te) (KName n) = None"
proof -
  have keys: "KName n \<notin> fst ` set (fold (add_reachable deps) tcs d)" if "KName n \<notin> fst ` set d" for deps tcs d
    using that
  proof (induction tcs arbitrary: d)
    case (Cons tc tcs)
    have "KName n \<notin> fst ` set (add_reachable deps tc d)"
      using Cons.prems by (simp add: add_reachable_def repo_key_def split: option.split)
    then show ?case using Cons.IH by simp
  qed simp
  have "KName n \<notin> fst ` set (exec_reports rp te)"
    using keys[of "[]"] by (force simp: exec_reports_def applicable_compatibility_reports_def reachable_commits_def)
  then show ?thesis by (simp add: dict_get_None_iff)
qed

text \<open>And a replay that was uploaded before would be uploaded again.\<close>

lemma uploaded_never_recognised:
  assumes "exec_driver rp te = Inr (Some d)"
  shows "mark_uploaded rp existing te = Inr te"
proof -
  have "fold (\<lambda>u te. if driver_equals (Some d) (ue_driver u) then f u te else te) us te = te" for us and f :: "uploaded_exec \<Rightarrow> TraceExec \<Rightarrow> TraceExec"
    by (induction us) (simp_all add: driver_equals_def)
  then show ?thesis using assms by (simp add: mark_uploaded_def Let_def cong: if_cong)
qed

end
