(* ===== verification/Dashboard.thy ===== *)
theory Dashboard
  imports Job_Request
begin

text \<open>
  The dashboard of a gateway (\<open>ansible/roles/dashboard/files/bin/dashboard.py\<close>): it lists the ports
  of the PDUs and the machines behind them from the REST interface of \<^theory_text>\<open>App\<close>, offers a button per port
  according to the state shown, and posts the request of the button that is pressed. What the library
  \<open>urwid\<close> draws is a value: rows of texts and buttons.
\<close>

section \<open>Outside\<close>

text \<open>
  \<open>urlopen\<close> gives a body or the reason of an \<open>URLError\<close>, an HTTP error included; other exceptions
  are raised. The directories of \<open>/sys\<close> and the commands of the shell are asked through the state, too.
  The last field is Python's \<open>str\<close> on JSON values that are no texts and integers.
\<close>

record 'w dash_env =
  de_get :: "string \<Rightarrow> ('w, string + string) act"
  de_post :: "string \<Rightarrow> string option \<Rightarrow> ('w, string + string) act"
  de_isdir :: "string \<Rightarrow> ('w, bool) act"
  de_read :: "string \<Rightarrow> ('w, string) act"
  de_getoutput :: "string \<Rightarrow> ('w, string) act"
  de_services :: "string list"
  de_str :: "json \<Rightarrow> string"

definition dash_host :: string where
  "dash_host = ''http://localhost''"

definition networking_list :: "string list" where
  "networking_list = [''private'', ''wg0'']"

section \<open>Networking and services\<close>

text \<open>A line of text with its colour. Formats such as \<open>{nic: <8}\<close> pad on the right.\<close>

type_synonym coloured = "string \<times> string"

definition pad_right :: "nat \<Rightarrow> string \<Rightarrow> string" where
  "pad_right n s = s @ replicate (n - length s) CHR '' ''"

definition ip_command :: "string \<Rightarrow> string" where
  "ip_command nic =
     ''ip a show '' @ nic @ '' | grep -e '' @ [CHR 0x27] @ ''inet'' @ [CHR 0x5C] @ ''s'' @ [CHR 0x27] @
     '' |tr -s '' @ [CHR 0x27] @ '' '' @ [CHR 0x27] @ '' | cut -d'' @ [CHR 0x27] @ '' '' @ [CHR 0x27] @ '' -f3''"

definition nic_colour :: "string \<Rightarrow> string \<times> string" where
  "nic_colour status =
     (if status = ''unknown'' then (''???'', ''yellow'') else if status = ''up'' then (status, ''green'') else (status, ''brown''))"

definition nic_line :: "'w dash_env \<Rightarrow> string \<Rightarrow> ('w, coloured) act" where
  "nic_line e nic =
     (let sysfs = ''/sys/class/net/'' @ nic in
      act_bind (de_isdir e sysfs) (\<lambda>there.
        if \<not> there then act_return ('' '' @ nic @ '' does not exist!'', ''red'')
        else
          act_bind (de_read e (sysfs @ ''/operstate'')) (\<lambda>raw.
          act_bind (de_getoutput e (ip_command nic)) (\<lambda>ip.
            let (status, colour) = nic_colour (str_strip raw)
            in act_return ('' '' @ pad_right 8 nic @ '' '' @ pad_right 4 status @ '' '' @ ip, colour)))))"

definition networking_data :: "'w dash_env \<Rightarrow> ('w, coloured list) act" where
  "networking_data e = act_map_list (nic_line e) networking_list"

text \<open>A service is given as its name, or as its name and the status to expect of it.\<close>

definition split_service :: "string \<Rightarrow> (string \<times> string) res" where
  "split_service serv =
     (if CHR '':'' \<in> set serv
      then (case str_split CHR '':'' serv of
              [name, expected] \<Rightarrow> Inr (name, expected)
            | _ \<Rightarrow> Inl (ValueError ''too many values to unpack (expected 2)''))
      else Inr (serv, ''active''))"

definition service_text :: "string \<Rightarrow> string \<Rightarrow> string \<Rightarrow> coloured" where
  "service_text serv expected status =
     (let (shown, colour) =
        (if status = ''activating'' then (status, ''yellow'') else if status = expected then (''OK'', ''green'') else (status, ''red''))
      in ('' '' @ pad_right 18 serv @ '' '' @ shown, colour))"

definition service_line :: "'w dash_env \<Rightarrow> string \<Rightarrow> ('w, coloured) act" where
  "service_line e serv =
     act_bind (de_getoutput e (''systemctl is-active '' @ serv)) (\<lambda>status.
     act_bind (act_lift (split_service serv)) (\<lambda>(name, expected).
       act_return (service_text name expected status)))"

definition services_data :: "'w dash_env \<Rightarrow> ('w, coloured list) act" where
  "services_data e = act_map_list (service_line e) (de_services e)"

section \<open>Fetching PDUs and machines\<close>

text \<open>
  The ports shown for a PDU. Ports from the REST interface have texts as keys, the rows made for
  machines without port have numbers. A listing of another shape is kept as it came.
\<close>

datatype shown_ports = Ports "(json, json) dict" | NoPorts json

type_synonym dashboard = "(string, shown_ports) dict"

definition as_ports :: "json \<Rightarrow> shown_ports" where
  "as_ports j = (case j of JObj kvs \<Rightarrow> Ports (map (\<lambda>(k, v). (JStr k, v)) kvs) | _ \<Rightarrow> NoPorts j)"

definition json_contains :: "string \<Rightarrow> json \<Rightarrow> bool res" where
  "json_contains k j =
     (case j of JObj kvs \<Rightarrow> Inr (k \<in> set (dict_keys kvs)) | JList xs \<Rightarrow> Inr (JStr k \<in> set xs)
      | JStr s \<Rightarrow> Inr (sublist k s) | _ \<Rightarrow> Inl TypeError)"

definition json_members :: "json \<Rightarrow> (string, json) dict res" where
  "json_members j = (case j of JObj kvs \<Rightarrow> Inr kvs | _ \<Rightarrow> Inl AttributeError)"

text \<open>One of the two requests: the listing, or the message that \<open>fetch_pdus_machines\<close> returns instead.\<close>

definition listing_of :: "string \<Rightarrow> string \<Rightarrow> (string + (string, json) dict) res" where
  "listing_of what body =
     res_bind (json_loads body) (\<lambda>j.
       if \<not> py_truthy j then Inr (Inl (''error reading '' @ what))
       else res_bind (json_contains what j) (\<lambda>there.
         if \<not> there then Inr (Inl (''error reading '' @ what))
         else res_bind (res_bind (json_index what j) json_members) (\<lambda>kvs. Inr (Inr kvs))))"

definition fetch_listing :: "'w dash_env \<Rightarrow> string \<Rightarrow> ('w, string + (string, json) dict) act" where
  "fetch_listing e what =
     act_bind (de_get e (dash_host @ ''/api/v1/'' @ what)) (\<lambda>r.
       case r of
         Inl reason \<Rightarrow> act_return (Inl (''urllib error requesting '' @ what @ '': '' @ reason))
       | Inr body \<Rightarrow> act_lift (listing_of what body))"

fun list_pdus :: "(string, json) dict \<Rightarrow> dashboard \<Rightarrow> dashboard res" where
  "list_pdus [] dash = Inr dash"
| "list_pdus ((pdu_name, entry) # rest) dash =
     res_bind (json_index ''ports'' entry) (\<lambda>ports. list_pdus rest (dict_set pdu_name (as_ports ports) dash))"

text \<open>\<open>dashboard[name][port_id].update(machine)\<close>\<close>

definition update_dict :: "json \<Rightarrow> json \<Rightarrow> json res" where
  "update_dict entry machine =
     (case (entry, machine) of
        (JObj kvs, JObj new) \<Rightarrow> Inr (JObj (fold (\<lambda>(k, v). dict_set k v) new kvs))
      | (JObj _, _) \<Rightarrow> Inl TypeError
      | _ \<Rightarrow> Inl AttributeError)"

definition update_port :: "json \<Rightarrow> json \<Rightarrow> shown_ports \<Rightarrow> shown_ports res" where
  "update_port pid machine ports =
     (case ports of
        Ports ps \<Rightarrow>
          if \<not> hashable pid then Inl TypeError
          else (case dict_get ps pid of
                  None \<Rightarrow> Inl KeyError
                | Some entry \<Rightarrow> res_bind (update_dict entry machine) (\<lambda>entry'. Inr (Ports (dict_set pid entry' ps))))
      | NoPorts j \<Rightarrow>
          (case (j, pid) of
             (JList xs, JInt i) \<Rightarrow>
               let n = int (length xs); k = nat (if i < 0 then i + n else i)
               in if i < - n \<or> n \<le> i then Inl IndexError
                  else res_bind (update_dict (xs ! k) machine) (\<lambda>entry'. Inr (NoPorts (JList (xs[k := entry']))))
           | _ \<Rightarrow> Inl TypeError))"

definition place_on_port :: "json \<Rightarrow> json \<Rightarrow> json \<Rightarrow> dashboard \<Rightarrow> dashboard res" where
  "place_on_port name pid machine dash =
     (if \<not> hashable name then Inl TypeError
      else case name of
        JStr n \<Rightarrow>
          (case dict_get dash n of
             None \<Rightarrow> Inl KeyError
           | Some ports \<Rightarrow> res_bind (update_port pid machine ports) (\<lambda>ports'. Inr (dict_set n ports' dash)))
      | _ \<Rightarrow> Inl KeyError)"

text \<open>One round of the loop over the machines: on its port, or among those that wait for a configuration.\<close>

definition place_machine :: "json \<Rightarrow> dashboard \<times> json list \<Rightarrow> (dashboard \<times> json list) res" where
  "place_machine machine d =
     res_bind (res_bind (json_index ''pdu'' machine) (json_index ''name'')) (\<lambda>name.
     res_bind (res_bind (json_index ''pdu'' machine) (json_index ''port_id'')) (\<lambda>pid.
       if name = JNull \<or> pid = JNull
       then res_bind (json_index ''ip_address'' machine) (\<lambda>ip.
            res_bind (json_index ''mac_address'' machine) (\<lambda>mac.
              Inr (fst d, snd d @ [JObj [(''ip_address'', ip), (''mac_address'', mac)]])))
       else res_bind (place_on_port name pid machine (fst d)) (\<lambda>dash. Inr (dash, snd d))))"

fun place_machines :: "json list \<Rightarrow> dashboard \<times> json list \<Rightarrow> (dashboard \<times> json list) res" where
  "place_machines [] d = Inr d"
| "place_machines (m # ms) d = res_bind (place_machine m d) (place_machines ms)"

definition unknown_pdu :: string where
  "unknown_pdu = ''Unknown, fix your configuration file manually''"

definition add_waiting :: "dashboard \<times> json list \<Rightarrow> dashboard" where
  "add_waiting d =
     (if snd d = [] then fst d
      else dict_set unknown_pdu (Ports (zip (map (\<lambda>i. JInt (100 + int i)) [0..<length (snd d)]) (snd d))) (fst d))"

definition fetch_pdus_machines :: "'w dash_env \<Rightarrow> ('w, dashboard \<times> string) act" where
  "fetch_pdus_machines e =
     act_bind (fetch_listing e ''pdus'') (\<lambda>pdus.
       case pdus of
         Inl msg \<Rightarrow> act_return ([], msg)
       | Inr pdus \<Rightarrow>
           act_bind (act_lift (list_pdus pdus [])) (\<lambda>dash.
           act_bind (fetch_listing e ''machines'') (\<lambda>machines.
             case machines of
               Inl msg \<Rightarrow> act_return ([], msg)
             | Inr machines \<Rightarrow>
                 act_bind (act_lift (place_machines (dict_values machines) (dash, []))) (\<lambda>d. act_return (add_waiting d, [])))))"

section \<open>The view\<close>

datatype dash_action = DISCOVER | RETIRE | ACTIVATE | CANCEL

definition action_label :: "dash_action \<Rightarrow> string" where
  "action_label a =
     (case a of DISCOVER \<Rightarrow> ''DISCOVER'' | RETIRE \<Rightarrow> ''RETIRE'' | ACTIVATE \<Rightarrow> ''ACTIVATE'' | CANCEL \<Rightarrow> ''CANCEL'')"

record button_data =
  bd_pdu :: string
  bd_port :: json
  bd_mac_address :: json

record dash_row =
  row_port :: string
  row_state :: string
  row_name :: json
  row_button :: "(dash_action \<times> button_data) option"

definition dash_str :: "'w dash_env \<Rightarrow> json \<Rightarrow> string" where
  "dash_str e j = (case j of JStr s \<Rightarrow> s | JInt i \<Rightarrow> show_int i | JNull \<Rightarrow> ''None'' | _ \<Rightarrow> de_str e j)"

definition state_text :: "'w dash_env \<Rightarrow> json \<Rightarrow> json \<Rightarrow> string res" where
  "state_text e machine st =
     (if st = JStr ''TRAINING'' then
        res_bind (res_bind (json_get ''training'' machine) (json_get ''boot_loop_counts'')) (\<lambda>counts.
        res_bind (res_bind (json_get ''training'' machine) (json_get ''current_loop_count'')) (\<lambda>cur.
          Inr (dash_str e st @ '' '' @ dash_str e cur @ ''/'' @ dash_str e counts)))
      else Inr (dash_str e st))"

definition offered_action :: "json \<Rightarrow> json \<Rightarrow> dash_action option" where
  "offered_action st retired =
     (if st = JStr ''OFF'' then Some DISCOVER
      else if st = JStr ''IDLE'' \<and> \<not> py_truthy retired then Some RETIRE
      else if py_truthy retired then Some ACTIVATE
      else if st = JStr ''RUNNING'' then Some CANCEL
      else None)"

definition port_row :: "'w dash_env \<Rightarrow> string \<Rightarrow> json \<Rightarrow> json \<Rightarrow> dash_row res" where
  "port_row e pdu_name num machine =
     res_bind (json_get ''state'' machine) (\<lambda>st.
     res_bind (state_text e machine st) (\<lambda>stext.
     res_bind (json_get_or ''full_name'' (JStr []) machine) (\<lambda>name.
     res_bind (json_get ''mac_address'' machine) (\<lambda>mac.
     res_bind (json_get ''is_retired'' machine) (\<lambda>retired.
       Inr \<lparr>row_port = '' Port '' @ dash_str e num @ '':'', row_state = stext, row_name = name,
            row_button = map_option (\<lambda>a. (a, \<lparr>bd_pdu = pdu_name, bd_port = num, bd_mac_address = mac\<rparr>)) (offered_action st retired)\<rparr>)))))"

definition pdu_rows :: "'w dash_env \<Rightarrow> string \<Rightarrow> shown_ports \<Rightarrow> (string \<times> dash_row list) res" where
  "pdu_rows e pdu_name ports =
     (case ports of
        NoPorts _ \<Rightarrow> Inl AttributeError
      | Ports ps \<Rightarrow> res_bind (res_map_list (\<lambda>(num, machine). port_row e pdu_name num machine) ps) (\<lambda>rows.
          Inr (''PDU name : '' @ pdu_name, rows)))"

datatype pdus_box = Farm "(string \<times> dash_row list) list" | Problem string

record dash_view =
  vw_box :: pdus_box
  vw_networking :: "coloured list"
  vw_services :: "coloured list"
  vw_footer :: string

text \<open>The dashboard's own state: the line at the bottom, and whether the last view had rows.\<close>

record 'w dash_state =
  ds_footer_line :: string
  ds_machines_box :: bool
  ds_world :: 'w

definition on_world :: "('w, 'a) act \<Rightarrow> ('w dash_state, 'a) act" where
  "on_world m s = (let (r, w) = m (ds_world s) in (r, s\<lparr>ds_world := w\<rparr>))"

definition setup_view :: "'w dash_env \<Rightarrow> ('w dash_state, dash_view) act" where
  "setup_view e =
     act_bind (on_world (fetch_pdus_machines e)) (\<lambda>(dash, msg).
     act_bind
       (if dash \<noteq> [] then
          act_bind (act_lift (res_map_list (\<lambda>(name, ports). pdu_rows e name ports) dash)) (\<lambda>rows.
          act_bind (act_modify (\<lambda>s. s\<lparr>ds_machines_box := True\<rparr>)) (\<lambda>_. act_return (Farm rows)))
        else act_bind (act_modify (\<lambda>s. s\<lparr>ds_machines_box := False\<rparr>)) (\<lambda>_. act_return (Problem msg))) (\<lambda>box.
     act_bind (on_world (networking_data e)) (\<lambda>net.
     act_bind (on_world (services_data e)) (\<lambda>ser.
     act_bind (act_get ds_footer_line) (\<lambda>footer.
       act_return \<lparr>vw_box = box, vw_networking = net, vw_services = ser, vw_footer = footer\<rparr>)))))"

text \<open>The alarm that redraws the view every second puts the focus back if there are rows to focus on.\<close>

definition refresh :: "'w dash_env \<Rightarrow> nat \<Rightarrow> ('w dash_state, dash_view \<times> nat option) act" where
  "refresh e focus =
     act_bind (setup_view e) (\<lambda>v.
     act_bind (act_get ds_machines_box) (\<lambda>rows. act_return (v, if rows then Some focus else None)))"

definition quits :: "string \<Rightarrow> bool" where
  "quits key \<longleftrightarrow> key \<in> set [''q'', ''Q'']"

section \<open>Buttons\<close>

definition post_request :: "'w dash_env \<Rightarrow> string \<Rightarrow> string option \<Rightarrow> ('w, string) act" where
  "post_request e url data =
     act_bind (de_post e url (if data = Some [] then None else data)) (\<lambda>r.
       case r of
         Inr body \<Rightarrow> act_return body
       | Inl reason \<Rightarrow> act_return
           (if data = None then ''There was some unexpected issue ('' @ reason @ '')''
            else ''There is a discovery process running already ('' @ reason @ '')''))"

definition machine_url :: "'w dash_env \<Rightarrow> json \<Rightarrow> string \<Rightarrow> string" where
  "machine_url e mac verb = dash_host @ ''/api/v1/machine/'' @ dash_str e mac @ ''/'' @ verb"

definition press_request :: "'w dash_env \<Rightarrow> dash_action \<Rightarrow> button_data \<Rightarrow> string \<times> string option" where
  "press_request e a d =
     (case a of
        DISCOVER \<Rightarrow> (dash_host @ ''/api/v1/machine/discover'', Some (json_dumps (JObj [(''pdu'', JStr (bd_pdu d)), (''port_id'', bd_port d)])))
      | RETIRE \<Rightarrow> (machine_url e (bd_mac_address d) ''retire'', None)
      | ACTIVATE \<Rightarrow> (machine_url e (bd_mac_address d) ''activate'', None)
      | CANCEL \<Rightarrow> (machine_url e (bd_mac_address d) ''cancel_job'', None))"

definition button_press :: "'w dash_env \<Rightarrow> dash_action \<Rightarrow> button_data \<Rightarrow> ('w dash_state, unit) act" where
  "button_press e a d =
     (let (url, data) = press_request e a d in
      act_bind (on_world (post_request e url data)) (\<lambda>message.
        act_modify (\<lambda>s. s\<lparr>ds_footer_line := '' '' @ action_label a @ '': '' @ message\<rparr>)))"

section \<open>The dashboard on the REST interface\<close>

text \<open>
  The outside world is now the REST interface of the same gateway: \<open>rest_serve\<close> routes the requests of
  the dashboard to the handlers of \<^theory_text>\<open>App\<close>, and an error status arrives as the reason of an
  \<open>HTTPError\<close>.
\<close>

definition http_reason :: "int \<Rightarrow> string" where
  "http_reason code = (if code = 400 then ''BAD REQUEST'' else if code = 404 then ''NOT FOUND'' else ''INTERNAL SERVER ERROR'')"

definition rest_answer :: "response \<Rightarrow> string + string" where
  "rest_answer r = (if fst r = 200 then Inr (json_dumps (snd r)) else Inl (http_reason (fst r)))"

definition rest_get :: "('g, 'd) app_env \<Rightarrow> string \<Rightarrow> (('g, 'w, 'd) app, string + string) act" where
  "rest_get e url s =
     (let (r, s') =
        (if url = dash_host @ ''/api/v1/pdus'' then handle_request e (get_pdus_list e) s
         else if url = dash_host @ ''/api/v1/machines'' then handle_request e (get_machine_list e) s
         else ((404, JNull), s))
      in (Inr (rest_answer r), s'))"

definition rest_post :: "('g, 'd) app_env \<Rightarrow> string \<Rightarrow> string option \<Rightarrow> (('g, 'w, 'd) app, string + string) act" where
  "rest_post e url data s =
     (let (r, s') =
        (case str_split CHR ''/'' url of
           [scheme, [], host, ''api'', ''v1'', ''machine'', verb] \<Rightarrow>
             (case (verb = ''discover'', data) of
                (True, Some body) \<Rightarrow>
                  handle_request e (act_bind (act_lift (res_bind (json_loads body) json_members)) (discover_machine e POST)) s
              | _ \<Rightarrow> ((400, JNull), s))
         | [scheme, [], host, ''api'', ''v1'', ''machine'', mac, verb] \<Rightarrow>
             (if verb = ''retire'' then handle_request e (retire_activate_machine e mac Retire) s
              else if verb = ''activate'' then handle_request e (retire_activate_machine e mac Activate) s
              else if verb = ''cancel_job'' then handle_request e (cancel_job_machine mac) s
              else ((404, JNull), s))
         | _ \<Rightarrow> ((404, JNull), s))
      in (Inr (rest_answer r), s'))"

text \<open>A farm whose dashboard runs on its REST interface; networking and services are constant.\<close>

definition rest_dash :: "('g, 'd) app_env \<Rightarrow> ('g, 'w, 'd) app dash_env" where
  "rest_dash e =
     \<lparr>de_get = rest_get e, de_post = rest_post e, de_isdir = (\<lambda>_. act_return False), de_read = (\<lambda>_. act_return []),
      de_getoutput = (\<lambda>_. act_return []), de_services = [], de_str = ae_str e\<rparr>"

definition offers :: "(string \<times> dash_row list) list \<Rightarrow> dash_action \<Rightarrow> button_data \<Rightarrow> bool" where
  "offers rows a d \<longleftrightarrow> list_ex (\<lambda>(heading, rs). list_ex (\<lambda>r. row_button r = Some (a, d)) rs) rows"

section \<open>What a listing contains\<close>

lemma res_map_list_Inr: "res_map_list f xs = Inr ys \<Longrightarrow> list_all2 (\<lambda>x y. f x = Inr y) xs ys"
  by (induction xs arbitrary: ys) (auto simp: res_bind_Inr_iff)

lemma act_map_list_Inr:
  "act_map_list f xs s = (Inr ys, s') \<Longrightarrow> list_all2 (\<lambda>x y. \<exists>t t'. f x t = (Inr y, t')) xs ys"
proof (induction xs arbitrary: ys s)
  case (Cons x xs)
  from Cons.prems obtain y t zs where "f x s = (Inr y, t)" "act_map_list f xs t = (Inr zs, s')" "ys = y # zs"
    by (auto simp: act_bind_eq_Inr act_return_def)
  then show ?case using Cons.IH by blast
qed (simp add: act_return_def)

lemma show_int_not_None: "show_int i \<noteq> ''None''"
proof
  assume "show_int i = ''None''"
  then have "CHR ''N'' \<in> set (show_int i)" by simp
  moreover have "CHR ''N'' \<notin> set (show_nat n)" for n using show_nat_digits[of n] by (auto simp: is_digit_def)
  ultimately show False by (simp add: show_int_def split: if_splits)
qed

text \<open>The ports of every listed PDU: an object whose keys are numbers.\<close>

definition port_listing :: "json \<Rightarrow> bool" where
  "port_listing j \<longleftrightarrow> (\<exists>ps. j = JObj [(''ports'', JObj ps)] \<and> dict_ok ps \<and> fst ` set ps \<subseteq> range show_int)"

lemma fold_dict_set_keys: "fst ` set (fold (\<lambda>(k, v). dict_set k v) kvs d) = fst ` set kvs \<union> fst ` set d"
  by (induction kvs arbitrary: d) (auto split: prod.splits)

lemma fold_dict_set_ok: "dict_ok d \<Longrightarrow> dict_ok (fold (\<lambda>(k, v). dict_set k v) kvs d)"
  by (induction kvs arbitrary: d) (auto split: prod.splits)

lemma encode_pdu_listing:
  assumes "encode_pdu e name ports s = (Inr j, s')"
  shows "port_listing j"
proof -
  obtain kvs t where kvs: "act_map_list (\<lambda>p. act_bind (encode_port e name p) (\<lambda>j. act_return (show_int (port_id p), j))) ports s = (Inr kvs, t)"
    and j: "j = JObj [(''ports'', JObj (fold (\<lambda>(k, v). dict_set k v) kvs []))]"
    using assms by (auto simp: encode_pdu_def act_bind_eq_Inr act_return_def)
  have "list_all2 (\<lambda>p kv. fst kv \<in> range show_int) ports kvs"
    by (rule list_all2_mono[OF act_map_list_Inr[OF kvs]]) (auto simp: act_bind_eq_Inr act_return_def)
  then have "fst (kvs ! i) \<in> range show_int" if "i < length kvs" for i
    using that by (simp add: list_all2_conv_all_nth)
  then have "fst ` set kvs \<subseteq> range show_int"
    by (intro image_subsetI) (metis in_set_conv_nth)
  then show ?thesis unfolding j port_listing_def
    by (intro exI[of _ "fold (\<lambda>(k, v). dict_set k v) kvs []"] conjI) (simp_all add: fold_dict_set_ok fold_dict_set_keys)
qed

lemma pdus_listing:
  assumes "get_pdus_list e s = (Inr r, s')"
  shows "\<exists>kvs. r = (200, JObj [(''pdus'', JObj kvs)]) \<and> (\<forall>kv \<in> set kvs. port_listing (snd kv))"
proof -
  obtain pdus kvs t where kvs: "act_map_list (\<lambda>(name, ports). act_bind (encode_pdu e name ports) (\<lambda>j. act_return (name, j))) pdus t = (Inr kvs, s')"
    and r: "r = (200, JObj [(''pdus'', JObj kvs)])"
    using assms by (auto simp: get_pdus_list_def act_bind_eq_Inr act_return_def)
  have "list_all2 (\<lambda>x kv. port_listing (snd kv)) pdus kvs"
    by (rule list_all2_mono[OF act_map_list_Inr[OF kvs]])
      (auto simp: act_bind_eq_Inr act_return_def split: prod.splits intro: encode_pdu_listing)
  then have "port_listing (snd (kvs ! i))" if "i < length kvs" for i
    using that by (simp add: list_all2_conv_all_nth)
  then show ?thesis using r by (intro exI[of _ kvs] conjI ballI) (metis in_set_conv_nth)+
qed

text \<open>Listing the PDUs asks their ports and changes nothing else.\<close>

definition same_mars :: "('g, 'w, 'd) app \<Rightarrow> ('g, 'w, 'd) app \<Rightarrow> bool" where
  "same_mars s s' \<longleftrightarrow> ap_mars s' = ap_mars s \<and> ap_executors s' = ap_executors s"

interpretation mrs: act_preorder same_mars
  by unfold_locales (auto simp: same_mars_def)

lemma mars_map_list: "(\<And>x. act_within same_mars (f x)) \<Longrightarrow> act_within same_mars (act_map_list f xs)"
  by (induction xs) (auto intro!: mrs.within_intros)

lemma encode_pdu_mars: "act_within same_mars (encode_pdu e name ports)"
  unfolding encode_pdu_def encode_port_def
  by (intro mrs.within_intros mars_map_list) (simp add: act_within_def on_pdu_def same_mars_def split: prod.split)

lemma pdus_list_mars: "act_within same_mars (get_pdus_list e)"
  unfolding get_pdus_list_def
  by (intro mrs.within_intros mars_map_list) (auto intro!: mrs.within_intros encode_pdu_mars split: prod.splits)

text \<open>What the dashboard needs of a machine's entry.\<close>

definition machine_json :: "json \<Rightarrow> bool" where
  "machine_json j \<longleftrightarrow> (\<exists>kvs st. j = JObj kvs \<and> dict_ok kvs \<and> dict_get kvs ''state'' = Some (JStr (MachineState_name st)))"

lemma encode_machine_json:
  assumes "encode_machine e s m = Inr j"
  shows "machine_json j" "json_index ''pdu'' j = Inr (JObj [(''name'', opt_json (pdu (o_dut (the_dut (ap_mars s) (m_dut m))))),
    (''port_id'', opt_json (pdu_port_id (o_dut (the_dut (ap_mars s) (m_dut m)))))])"
proof -
  obtain ex where "dict_get (ap_executors s) (o_mac (the_dut (ap_mars s) (m_dut m))) = Some ex"
    using assms by (cases "dict_get (ap_executors s) (o_mac (the_dut (ap_mars s) (m_dut m)))") (auto simp: encode_machine_def Let_def)
  note j = assms[unfolded encode_machine_def Let_def this option.case sum.inject, symmetric]
  show "machine_json j" unfolding j machine_json_def by (intro exI[of _ "ex_state ex"] exI conjI, rule refl, simp, simp)
  show "json_index ''pdu'' j = Inr (JObj [(''name'', opt_json (pdu (o_dut (the_dut (ap_mars s) (m_dut m))))),
    (''port_id'', opt_json (pdu_port_id (o_dut (the_dut (ap_mars s) (m_dut m)))))])"
    unfolding j by (simp add: json_index_def)
qed

section \<open>Machines on their ports\<close>

lemma update_dict_machine: "update_dict entry j = Inr v \<Longrightarrow> machine_json j \<Longrightarrow> json_get ''state'' v = json_get ''state'' j"
  by (auto simp: update_dict_def machine_json_def json_get_def fold_dict_set_get split: json.splits)

definition has_machine_state :: "json \<Rightarrow> bool" where
  "has_machine_state v \<longleftrightarrow> (\<exists>st. json_get ''state'' v = Inr (JStr (MachineState_name st)))"

lemma machine_has_state: "machine_json j \<Longrightarrow> has_machine_state j"
  by (auto simp: machine_json_def has_machine_state_def json_get_def)

lemma not_off: "has_machine_state v \<Longrightarrow> json_get ''state'' v \<noteq> Inr (JStr ''OFF'')"
proof -
  have "MachineState_name st \<noteq> ''OFF''" for st by (cases st) (simp_all add: MachineState_name_def)
  assume "has_machine_state v"
  then obtain st where st: "json_get ''state'' v = Inr (JStr (MachineState_name st))" unfolding has_machine_state_def by blast
  show "json_get ''state'' v \<noteq> Inr (JStr ''OFF'')"
    unfolding st sum.inject json.inject by (rule \<open>MachineState_name st \<noteq> ''OFF''\<close>)
qed

text \<open>A port whose row shows a machine.\<close>

definition occupied :: "string \<Rightarrow> json \<Rightarrow> dashboard \<Rightarrow> bool" where
  "occupied n p dash \<longleftrightarrow> (\<exists>ps v. dict_get dash n = Some (Ports ps) \<and> dict_get ps p = Some v \<and> has_machine_state v)"

lemma update_port_result:
  assumes "update_port p j ports = Inr ports'" "machine_json j"
  shows "(\<exists>ps v. ports = Ports ps \<and> ports' = Ports (dict_set p v ps) \<and> has_machine_state v \<and> dict_get ps p \<noteq> None) \<or>
    (\<exists>x y. ports = NoPorts x \<and> ports' = NoPorts y)"
proof (cases ports)
  case (Ports ps)
  then obtain entry v where "dict_get ps p = Some entry" "update_dict entry j = Inr v" "ports' = Ports (dict_set p v ps)"
    using assms(1) by (auto simp: update_port_def res_bind_Inr_iff split: if_splits option.splits)
  moreover from this(2) have "has_machine_state v"
    using update_dict_machine machine_has_state assms(2) by (simp add: has_machine_state_def)
  ultimately show ?thesis using Ports by blast
next
  case (NoPorts x)
  then show ?thesis using assms(1)
    by (auto simp: update_port_def res_bind_Inr_iff Let_def split: json.splits if_splits)
qed

lemma place_on_port_result:
  assumes "place_on_port name p j dash = Inr dash'"
  shows "\<exists>n ports ports'. name = JStr n \<and> dict_get dash n = Some ports \<and> update_port p j ports = Inr ports' \<and> dash' = dict_set n ports' dash"
  using assms by (auto simp: place_on_port_def res_bind_Inr_iff split: if_splits json.splits option.splits)

lemma place_on_port_occupies:
  assumes "place_on_port name p j dash = Inr dash'" "machine_json j"
  shows "occupied n q dash \<Longrightarrow> occupied n q dash'"
    and "name = JStr m \<Longrightarrow> (\<forall>ports. dict_get dash m = Some ports \<longrightarrow> (\<exists>ps. ports = Ports ps)) \<Longrightarrow> occupied m p dash'"
proof -
  obtain k ports ports' where k: "name = JStr k" "dict_get dash k = Some ports" "update_port p j ports = Inr ports'" "dash' = dict_set k ports' dash"
    using place_on_port_result[OF assms(1)] by blast
  note up = update_port_result[OF k(3) assms(2)]
  show "occupied n q dash \<Longrightarrow> occupied n q dash'"
    using up k(2,4) by (auto simp: occupied_def)
  show "name = JStr m \<Longrightarrow> (\<forall>ports. dict_get dash m = Some ports \<longrightarrow> (\<exists>ps. ports = Ports ps)) \<Longrightarrow> occupied m p dash'"
    using up k by (auto simp: occupied_def)
qed

text \<open>Every PDU of the dashboard has numbered ports, each shown once.\<close>

definition dash_ok :: "dashboard \<Rightarrow> bool" where
  "dash_ok dash \<longleftrightarrow> dict_ok dash \<and>
     (\<forall>n ports. dict_get dash n = Some ports \<longrightarrow> (\<exists>ps. ports = Ports ps \<and> dict_ok ps \<and> fst ` set ps \<subseteq> range (\<lambda>i. JStr (show_int i))))"

lemma dash_ok_set:
  assumes "dash_ok dash" "dict_ok ps" "fst ` set ps \<subseteq> range (\<lambda>i. JStr (show_int i))"
  shows "dash_ok (dict_set n (Ports ps) dash)"
  using assms by (simp add: dash_ok_def)

lemma place_on_port_ok:
  assumes "place_on_port name p j dash = Inr dash'" "machine_json j" "dash_ok dash"
  shows "dash_ok dash'"
proof -
  obtain k ports ports' where k: "dict_get dash k = Some ports" "update_port p j ports = Inr ports'" "dash' = dict_set k ports' dash"
    using place_on_port_result[OF assms(1)] by blast
  obtain ps where ps: "ports = Ports ps" "dict_ok ps" "fst ` set ps \<subseteq> range (\<lambda>i. JStr (show_int i))"
    using assms(3) k(1) unfolding dash_ok_def by blast
  obtain v where v: "ports' = Ports (dict_set p v ps)" "dict_get ps p \<noteq> None"
    using update_port_result[OF k(2) assms(2)] ps(1) by auto
  then have "p \<in> fst ` set ps" by (simp add: dict_get_None_iff)
  then have "fst ` set (dict_set p v ps) \<subseteq> range (\<lambda>i. JStr (show_int i))"
    using ps(3) unfolding dict_keys_set by blast
  then show ?thesis unfolding k(3) v(1) by (intro dash_ok_set assms(3) dict_ok_set ps(2))
qed

lemma list_pdus_ok:
  "list_pdus kvs dash = Inr dash' \<Longrightarrow> \<forall>kv \<in> set kvs. port_listing (snd kv) \<Longrightarrow> dash_ok dash \<Longrightarrow> dash_ok dash'"
proof (induction kvs arbitrary: dash)
  case (Cons kv kvs)
  obtain n entry where kv: "kv = (n, entry)" by (cases kv)
  then obtain ps where ps: "entry = JObj [(''ports'', JObj ps)]" "dict_ok ps" "fst ` set ps \<subseteq> range show_int"
    using Cons.prems(2) by (auto simp: port_listing_def)
  let ?ps = "map (\<lambda>(k, v). (JStr k, v)) ps"
  have keys: "map fst ?ps = map JStr (map fst ps)" by (simp add: comp_def split_def)
  have "list_pdus kvs (dict_set n (Ports ?ps) dash) = Inr dash'"
    using Cons.prems(1) by (simp add: kv ps(1) json_index_def as_ports_def)
  moreover have "dict_ok ?ps" unfolding keys using ps(2) by (simp add: distinct_map inj_on_def)
  moreover have "fst ` set ?ps = JStr ` fst ` set ps" by (force simp: image_iff)
  then have "fst ` set ?ps \<subseteq> range (\<lambda>i. JStr (show_int i))" using ps(3) by auto
  ultimately have "dash_ok (dict_set n (Ports ?ps) dash)" "list_pdus kvs (dict_set n (Ports ?ps) dash) = Inr dash'"
    using Cons.prems(3) by (metis dash_ok_set)+
  moreover have "\<forall>kv \<in> set kvs. port_listing (snd kv)" using Cons.prems(2) by simp
  ultimately show ?case by (intro Cons.IH)
qed simp

text \<open>The same for the loop over the machines.\<close>

lemma place_machine_cases:
  assumes "place_machine j d = Inr d'"
  shows "(\<exists>name p pdu. json_index ''pdu'' j = Inr pdu \<and> json_index ''name'' pdu = Inr name \<and> json_index ''port_id'' pdu = Inr p \<and>
      name \<noteq> JNull \<and> p \<noteq> JNull \<and> place_on_port name p j (fst d) = Inr (fst d') \<and> snd d' = snd d) \<or>
    (\<exists>name p pdu ip mac. json_index ''pdu'' j = Inr pdu \<and> json_index ''name'' pdu = Inr name \<and> json_index ''port_id'' pdu = Inr p \<and>
      (name = JNull \<or> p = JNull) \<and> fst d' = fst d \<and> snd d' = snd d @ [JObj [(''ip_address'', ip), (''mac_address'', mac)]])"
  using assms unfolding place_machine_def
  by (auto simp: res_bind_Inr_iff split: if_splits)

lemma place_machine_keeps:
  assumes "place_machine j d = Inr d'" "machine_json j"
  shows "dash_ok (fst d) \<Longrightarrow> dash_ok (fst d')" "occupied n p (fst d) \<Longrightarrow> occupied n p (fst d')"
  using place_machine_cases[OF assms(1)] place_on_port_ok[OF _ assms(2)] place_on_port_occupies(1)[OF _ assms(2)] by metis+

lemma place_machines_keep:
  assumes "place_machines js d = Inr d'" "\<forall>j \<in> set js. machine_json j"
  shows "dash_ok (fst d) \<Longrightarrow> dash_ok (fst d')" "occupied n p (fst d) \<Longrightarrow> occupied n p (fst d')"
  using assms
proof (induction js arbitrary: d)
  case (Cons j js)
  {
    case 1
    then obtain d1 where "place_machine j d = Inr d1" "place_machines js d1 = Inr d'" by (auto simp: res_bind_Inr_iff)
    then show ?case using 1(1,3) Cons.IH(1)[of d1] place_machine_keeps(1)[of j d d1] by simp
  next
    case 2
    then obtain d1 where "place_machine j d = Inr d1" "place_machines js d1 = Inr d'" by (auto simp: res_bind_Inr_iff)
    then show ?case using 2(1,3) Cons.IH(2)[of d1] place_machine_keeps(2)[of j d d1 n p] by simp
  }
qed simp_all

lemma place_machines_occupy:
  assumes "place_machines js d = Inr d'" "\<forall>j \<in> set js. machine_json j" "dash_ok (fst d)"
    and "j \<in> set js" "json_index ''pdu'' j = Inr (JObj [(''name'', JStr n), (''port_id'', JStr p)])"
  shows "occupied n (JStr p) (fst d')"
  using assms(1-4)
proof (induction js arbitrary: d)
  case (Cons i js)
  obtain d1 where d1: "place_machine i d = Inr d1" "place_machines js d1 = Inr d'"
    using Cons.prems(1) by (auto simp: res_bind_Inr_iff)
  have i: "machine_json i" using Cons.prems(2) by simp
  show ?case
  proof (cases "i = j")
    case True
    have "place_on_port (JStr n) (JStr p) j (fst d) = Inr (fst d1)"
      using place_machine_cases[OF d1(1)] assms(5) True by (auto simp: json_index_def)
    moreover have "\<forall>ports. dict_get (fst d) n = Some ports \<longrightarrow> (\<exists>ps. ports = Ports ps)"
      using Cons.prems(3) unfolding dash_ok_def by blast
    ultimately have "occupied n (JStr p) (fst d1)" using place_on_port_occupies(2) i True by blast
    then show ?thesis using place_machines_keep(2)[OF d1(2)] Cons.prems(2) by simp
  next
    case False
    then show ?thesis using Cons.prems place_machine_keeps(1)[OF d1(1) i] by (intro Cons.IH[OF d1(2)]) simp_all
  qed
qed simp

lemma discover_when_off: "offered_action st retired = Some DISCOVER \<Longrightarrow> st = JStr ''OFF''"
  by (simp add: offered_action_def split: if_splits)

lemma discover_row:
  assumes "port_row e n num v = Inr r" "row_button r = Some (DISCOVER, b)"
  shows "json_get ''state'' v = Inr (JStr ''OFF'') \<and> bd_pdu b = n \<and> bd_port b = num"
proof -
  obtain st mac retired where st: "json_get ''state'' v = Inr st"
    and r: "row_button r = map_option (\<lambda>a. (a, \<lparr>bd_pdu = n, bd_port = num, bd_mac_address = mac\<rparr>)) (offered_action st retired)"
    using assms(1) unfolding port_row_def res_bind_Inr_iff
    by (elim exE conjE) (simp only: sum.inject, rule that, assumption, erule subst, simp only: dash_row.select_convs)
  obtain a where a: "offered_action st retired = Some a" "(a, \<lparr>bd_pdu = n, bd_port = num, bd_mac_address = mac\<rparr>) = (DISCOVER, b)"
    using r assms(2) by (cases "offered_action st retired") simp_all
  have "a = DISCOVER" "b = \<lparr>bd_pdu = n, bd_port = num, bd_mac_address = mac\<rparr>" using a(2) by simp_all
  then show ?thesis using discover_when_off a(1) st by simp
qed

lemma res_map_list_mem: "res_map_list f xs = Inr ys \<Longrightarrow> y \<in> set ys \<Longrightarrow> \<exists>x \<in> set xs. f x = Inr y"
  by (induction xs arbitrary: ys) (auto simp: res_bind_Inr_iff)

text \<open>A row that offers a discovery is one of a listed port without a machine.\<close>
lemma offers_discovery:
  assumes "res_map_list (\<lambda>(name, ports). pdu_rows e name ports) dash = Inr rows" "offers rows DISCOVER b"
  shows "\<exists>ps v. (bd_pdu b, Ports ps) \<in> set dash \<and> (bd_port b, v) \<in> set ps \<and> json_get ''state'' v = Inr (JStr ''OFF'')"
proof -
  obtain heading rs r where r: "(heading, rs) \<in> set rows" "r \<in> set rs" "row_button r = Some (DISCOVER, b)"
    using assms(2) by (auto simp: offers_def list_ex_iff)
  obtain name ports where np: "(name, ports) \<in> set dash" "pdu_rows e name ports = Inr (heading, rs)"
    using res_map_list_mem[OF assms(1) r(1)] by (auto split: prod.splits)
  obtain ps where ps: "ports = Ports ps" "res_map_list (\<lambda>(num, machine). port_row e name num machine) ps = Inr rs"
    using np(2) by (auto simp: pdu_rows_def res_bind_Inr_iff split: shown_ports.splits)
  obtain num v where v: "(num, v) \<in> set ps" "port_row e name num v = Inr r"
    using res_map_list_mem[OF ps(2) r(2)] by (auto split: prod.splits)
  show ?thesis using discover_row[OF v(2) r(3)] np(1) v(1) unfolding ps(1) by blast
qed

section \<open>Discoveries are only offered on free ports\<close>

text \<open>
  The registry as a synchronisation leaves it: machines and database are linked, and every DUT of the
  database has its machine.
\<close>

definition covered :: "'g mars \<Rightarrow> bool" where
  "covered m \<longleftrightarrow> linked m \<and> dict_ok (mr_machines m) \<and> set (dict_keys (mr_machines m)) = set (dict_keys (duts_at m (mr_db m)))"

lemma linked_mac: "linked m \<Longrightarrow> dict_get (mr_machines m) mac = Some x \<Longrightarrow> o_mac (the_dut m (m_dut x)) = mac"
proof -
  assume l: "linked m" and x: "dict_get (mr_machines m) mac = Some x"
  have "dict_get (duts_at m (mr_db m)) mac = Some (m_dut x)" using l x unfolding linked_def by blast
  then have "m_dut x < length (mr_store m) \<and> mac_at m (m_dut x) = mac" using l unfolding linked_def by blast
  then show ?thesis by (metis nth_map)
qed

definition listed :: "('g, 'd) app_env \<Rightarrow> ('g, 'w, 'd) app \<Rightarrow> machine \<Rightarrow> string \<times> json \<Rightarrow> bool" where
  "listed e s m kv \<longleftrightarrow> encode_machine e s m = Inr (snd kv) \<and> fst kv = o_mac (the_dut (ap_mars s) (m_dut m))"

lemma listed_map:
  "res_map_list (\<lambda>m. res_bind (encode_machine e s m) (\<lambda>j. Inr (o_mac (the_dut (ap_mars s) (m_dut m)), j))) ms = Inr kvs \<Longrightarrow>
   list_all2 (listed e s) ms kvs"
  by (induction ms arbitrary: kvs) (auto simp: res_bind_Inr_iff listed_def)

lemma machine_list_result:
  assumes "get_machine_list e s = (Inr (200, mj), s')"
  shows "\<exists>kvs. list_all2 (listed e s) (dict_values (mr_machines (ap_mars s))) kvs \<and>
    mj = JObj [(''machines'', JObj (fold (\<lambda>(k, v). dict_set k v) kvs []))]"
proof (cases "res_map_list (\<lambda>m. res_bind (encode_machine e s m) (\<lambda>j. Inr (o_mac (the_dut (ap_mars s) (m_dut m)), j)))
    (dict_values (mr_machines (ap_mars s)))")
  case (Inl x)
  then show ?thesis using assms by (simp add: get_machine_list_def)
next
  case (Inr kvs)
  then have "mj = JObj [(''machines'', JObj (fold (\<lambda>(k, v). dict_set k v) kvs []))]"
    using assms by (simp add: get_machine_list_def act_return_def)
  then show ?thesis using listed_map[OF Inr] by blast
qed

lemma machine_listing:
  assumes "get_machine_list e s = (Inr (200, mj), s')" "covered (ap_mars s)"
  shows "\<exists>kvs. mj = JObj [(''machines'', JObj kvs)] \<and> (\<forall>kv \<in> set kvs. machine_json (snd kv)) \<and>
    (\<forall>m \<in> set (dict_values (mr_machines (ap_mars s))). \<exists>kv \<in> set kvs. encode_machine e s m = Inr (snd kv))"
proof -
  obtain kvs where pair: "list_all2 (listed e s) (dict_values (mr_machines (ap_mars s))) kvs"
    and mj: "mj = JObj [(''machines'', JObj (fold (\<lambda>(k, v). dict_set k v) kvs []))]"
    using machine_list_result[OF assms(1)] by blast
  have l: "linked (ap_mars s)" and d: "dict_ok (mr_machines (ap_mars s))" using assms(2) unfolding covered_def by blast+
  have len: "length kvs = length (mr_machines (ap_mars s))" using list_all2_lengthD[OF pair] by simp
  have keys: "map fst kvs = dict_keys (mr_machines (ap_mars s))"
  proof (rule nth_equalityI)
    fix i
    assume "i < length (map fst kvs)"
    then have i: "i < length (mr_machines (ap_mars s))" using len by simp
    obtain mac m where mm: "mr_machines (ap_mars s) ! i = (mac, m)" by fastforce
    then have "dict_get (mr_machines (ap_mars s)) mac = Some m" using i d by (metis dict_ok_mem nth_mem)
    from linked_mac[OF l this] show "map fst kvs ! i = dict_keys (mr_machines (ap_mars s)) ! i"
      using pair i mm len by (simp add: list_all2_conv_all_nth listed_def)
  qed (simp add: len)
  then have same: "fold (\<lambda>(k, v). dict_set k v) kvs [] = kvs" using d fold_dict_set_distinct[of kvs "[]"] by simp
  have enc: "encode_machine e s (snd (mr_machines (ap_mars s) ! i)) = Inr (snd (kvs ! i))" if "i < length kvs" for i
    using pair that len by (simp add: list_all2_conv_all_nth listed_def)
  show ?thesis
  proof (intro exI[of _ kvs] conjI ballI)
    show "mj = JObj [(''machines'', JObj kvs)]" unfolding mj same ..
    fix kv
    assume "kv \<in> set kvs"
    then obtain i where i: "i < length kvs" "kvs ! i = kv" unfolding in_set_conv_nth by blast
    from encode_machine_json(1)[OF enc[OF i(1)]] show "machine_json (snd kv)" unfolding i(2) .
  next
    fix m
    assume "m \<in> set (dict_values (mr_machines (ap_mars s)))"
    then obtain i where i: "i < length kvs" "snd (mr_machines (ap_mars s) ! i) = m"
      unfolding in_set_conv_nth length_map len by auto
    then show "\<exists>kv \<in> set kvs. encode_machine e s m = Inr (snd kv)" using enc[OF i(1)] by (intro bexI[of _ "kvs ! i"]) simp_all
  qed
qed

text \<open>A DUT that is assigned to a port has a machine whose entry names this port.\<close>

lemma assigned_machine:
  assumes "covered m" "port_is_assigned e n (JStr k) m" "k \<noteq> ''None''"
  shows "\<exists>x \<in> set (dict_values (mr_machines m)). pdu (o_dut (the_dut m (m_dut x))) = Some n \<and> pdu_port_id (o_dut (the_dut m (m_dut x))) = Some k"
proof -
  obtain a where a: "a \<in> set (dict_values (db_duts (the_db m (mr_db m))))" "pdu (o_dut (the_dut m a)) = Some n"
      "str_opt (pdu_port_id (o_dut (the_dut m a))) = k"
    using assms(2) by (auto simp: port_is_assigned_def list_ex_iff duts_of_def py_str_def)
  have l: "linked m" and keys: "set (dict_keys (mr_machines m)) = set (dict_keys (duts_at m (mr_db m)))"
    using assms(1) unfolding covered_def by blast+
  have here: "mr_db m < length (mr_dbs m)" using l unfolding linked_def by blast
  obtain mac where mac: "(mac, a) \<in> set (db_duts (the_db m (mr_db m)))" using a(1) by auto
  have at: "duts_at m (mr_db m) = db_duts (the_db m (mr_db m))" using here by simp
  have ok: "dict_ok (duts_at m (mr_db m))" using l unfolding linked_def by blast
  then have da: "dict_get (duts_at m (mr_db m)) mac = Some a" using mac dict_ok_mem unfolding at by metis
  then have "mac \<in> set (dict_keys (duts_at m (mr_db m)))" using dict_get_mem[OF da] unfolding at by force
  then obtain x where x: "dict_get (mr_machines m) mac = Some x"
    using keys dict_get_None_iff[of "mr_machines m" mac] by (metis list.set_map not_None_eq)
  then have "dict_get (duts_at m (mr_db m)) mac = Some (m_dut x)" using l unfolding linked_def by blast
  then have "m_dut x = a" using da by simp
  moreover have "pdu_port_id (o_dut (the_dut m a)) = Some k"
    using a(3) assms(3) by (simp add: str_opt_def split: option.splits)
  moreover have "x \<in> set (dict_values (mr_machines m))" using dict_get_mem[OF x] by force
  ultimately show ?thesis using a(2) by (intro bexI[of _ x]) simp_all
qed

text \<open>What the dashboard reads when the REST interface answers both of its requests.\<close>

lemma listing_of_dumps:
  assumes "json_ok (JObj [(what, JObj kvs)])"
  shows "listing_of what (json_dumps (JObj [(what, JObj kvs)])) = Inr (Inr kvs)"
  unfolding listing_of_def json_loads_dumps[OF assms]
  by (simp add: py_truthy_def json_contains_def json_index_def json_members_def)

lemma fetch_pdus:
  assumes "get_pdus_list ae s = (Inr (200, JObj [(''pdus'', JObj kvs)]), s')" "json_ok (JObj [(''pdus'', JObj kvs)])"
  shows "fetch_listing (rest_dash ae) ''pdus'' s = (Inr (Inr kvs), s')"
proof -
  have "rest_get ae (dash_host @ ''/api/v1/pdus'') s = (Inr (Inr (json_dumps (JObj [(''pdus'', JObj kvs)]))), s')"
    using assms(1) by (simp add: rest_get_def handle_request_def rest_answer_def del: json_dumps.simps)
  then show ?thesis using listing_of_dumps[OF assms(2)]
    by (simp add: fetch_listing_def act_bind_def act_lift_def rest_dash_def del: json_dumps.simps)
qed

lemma fetch_machines:
  assumes "get_machine_list ae s = (Inr (200, JObj [(''machines'', JObj kvs)]), s')" "json_ok (JObj [(''machines'', JObj kvs)])"
  shows "fetch_listing (rest_dash ae) ''machines'' s = (Inr (Inr kvs), s')"
proof -
  have "rest_get ae (dash_host @ ''/api/v1/machines'') s = (Inr (Inr (json_dumps (JObj [(''machines'', JObj kvs)]))), s')"
    using assms(1) by (simp add: rest_get_def handle_request_def rest_answer_def dash_host_def del: json_dumps.simps)
  then show ?thesis using listing_of_dumps[OF assms(2)]
    by (simp add: fetch_listing_def act_bind_def act_lift_def rest_dash_def del: json_dumps.simps)
qed

definition shown :: "(string, json) dict \<Rightarrow> (string, json) dict \<Rightarrow> dashboard res" where
  "shown pkvs mkvs =
     res_bind (list_pdus pkvs []) (\<lambda>dash0. res_bind (place_machines (dict_values mkvs) (dash0, [])) (\<lambda>d. Inr (add_waiting d)))"

lemma fetch_result:
  assumes "fetch_listing e ''pdus'' s = (Inr (Inr pkvs), s1)" "fetch_listing e ''machines'' s1 = (Inr (Inr mkvs), s2)"
  shows "\<exists>w. fetch_pdus_machines e s = (res_bind (shown pkvs mkvs) (\<lambda>dash. Inr (dash, [])), w)"
proof (cases "list_pdus pkvs []")
  case (Inl x)
  then show ?thesis using assms(1) by (simp add: fetch_pdus_machines_def act_bind_def act_lift_def shown_def)
next
  case (Inr dash0)
  then show ?thesis using assms
    by (cases "place_machines (dict_values mkvs) (dash0, [])")
      (simp_all add: fetch_pdus_machines_def act_bind_def act_lift_def act_return_def shown_def)
qed

lemma setup_rows:
  assumes "setup_view e ds = (Inr v, ds')" "vw_box v = Farm rows"
  shows "\<exists>dash msg w. fetch_pdus_machines e (ds_world ds) = (Inr (dash, msg), w) \<and>
    res_map_list (\<lambda>(name, ports). pdu_rows e name ports) dash = Inr rows"
proof -
  obtain dash msg ds1 where f: "on_world (fetch_pdus_machines e) ds = (Inr (dash, msg), ds1)"
    using assms(1) unfolding setup_view_def act_bind_eq_Inr by (elim exE conjE) (metis prod.collapse)
  then have fw: "fetch_pdus_machines e (ds_world ds) = (Inr (dash, msg), ds_world ds1)"
    by (auto simp: on_world_def split: prod.splits)
  show ?thesis
  proof (cases "dash = []")
    case True
    then show ?thesis using assms f by (auto simp: setup_view_def act_bind_eq_Inr act_return_def act_modify_def act_get_def)
  next
    case False
    then have "res_map_list (\<lambda>(name, ports). pdu_rows e name ports) dash = Inr rows"
      using assms f by (auto simp: setup_view_def act_bind_eq_Inr act_return_def act_modify_def act_get_def act_lift_def)
    then show ?thesis using fw by blast
  qed
qed

text \<open>The rows of machines that wait for a configuration never offer a discovery.\<close>

lemma waiting_rows:
  assumes "place_machines js d = Inr d'" "\<forall>w \<in> set (snd d). json_get ''state'' w = Inr JNull"
  shows "\<forall>w \<in> set (snd d'). json_get ''state'' w = Inr JNull"
  using assms
proof (induction js arbitrary: d)
  case (Cons j js)
  obtain d1 where d1: "place_machine j d = Inr d1" "place_machines js d1 = Inr d'"
    using Cons.prems(1) by (auto simp: res_bind_Inr_iff)
  have "snd d1 = snd d \<or> (\<exists>ip mac. snd d1 = snd d @ [JObj [(''ip_address'', ip), (''mac_address'', mac)]])"
    using place_machine_cases[OF d1(1)] by blast
  moreover have "json_get ''state'' (JObj [(''ip_address'', ip), (''mac_address'', mac)]) = Inr JNull" for ip mac
    by (simp add: json_get_def)
  ultimately have "\<forall>w \<in> set (snd d1). json_get ''state'' w = Inr JNull" using Cons.prems(2) by auto
  then show ?case by (rule Cons.IH[OF d1(2)])
qed simp

lemma off_row_listed:
  assumes "(n, Ports ps) \<in> set (add_waiting d)" "(p, v) \<in> set ps" "json_get ''state'' v = Inr (JStr ''OFF'')"
    and "\<forall>w \<in> set (snd d). json_get ''state'' w = Inr JNull" "dash_ok (fst d)"
  shows "dict_get (fst d) n = Some (Ports ps)"
proof -
  have ok: "dict_ok (fst d)" using assms(5) unfolding dash_ok_def by blast
  have "dict_ok (add_waiting d)" using ok by (simp add: add_waiting_def)
  then have g: "dict_get (add_waiting d) n = Some (Ports ps)" using assms(1) by (rule dict_ok_mem)
  have "v \<notin> set (snd d)"
  proof
    assume "v \<in> set (snd d)"
    then have "json_get ''state'' v = Inr JNull" using assms(4) by blast
    then show False using assms(3) by simp
  qed
  then have "Ports ps \<noteq> Ports (zip xs (snd d))" for xs using assms(2) set_zip_rightD by fastforce
  then show ?thesis using g by (auto simp: add_waiting_def split: if_splits)
qed

text \<open>
  C40. The dashboard offers a discovery only where none can hurt: if the REST interface serves a synchronised
  farm, every \<open>DISCOVER\<close> button is for a port that no DUT of the database is assigned to, so the
  button never powers the machine of somebody else.
\<close>

theorem discovery_offered_on_free_ports:
  fixes ds :: "('g, 'w, 'd) app dash_state"
  assumes "covered (ap_mars (ds_world ds))"
    and "get_pdus_list ae (ds_world ds) = (Inr (200, pj), s1)" "get_machine_list ae s1 = (Inr (200, mj), s2)" "json_ok pj" "json_ok mj"
    and "setup_view (rest_dash ae) ds = (Inr v, ds')" "vw_box v = Farm rows" "offers rows DISCOVER b"
  shows "\<not> port_is_assigned ae (bd_pdu b) (bd_port b) (ap_mars (ds_world ds))"
proof
  let ?m = "ap_mars (ds_world ds)" and ?e = "rest_dash ae :: ('g, 'w, 'd) app dash_env"
  assume assigned: "port_is_assigned ae (bd_pdu b) (bd_port b) ?m"
  have m1: "ap_mars s1 = ?m" using mrs.withinD[OF pdus_list_mars, of "ds_world ds" ae] assms(2) by (simp add: same_mars_def)
  obtain pkvs where pk: "pj = JObj [(''pdus'', JObj pkvs)]" "\<forall>kv \<in> set pkvs. port_listing (snd kv)"
    using pdus_listing[OF assms(2)] by auto
  obtain mkvs where mk: "mj = JObj [(''machines'', JObj mkvs)]" "\<forall>kv \<in> set mkvs. machine_json (snd kv)"
      "\<forall>m \<in> set (dict_values (mr_machines ?m)). \<exists>kv \<in> set mkvs. encode_machine ae s1 m = Inr (snd kv)"
    using machine_listing[OF assms(3)] assms(1) unfolding m1 by blast
  note fp = fetch_pdus[OF assms(2)[unfolded pk(1)] assms(4)[unfolded pk(1)]]
  note fm = fetch_machines[OF assms(3)[unfolded mk(1)] assms(5)[unfolded mk(1)]]
  obtain dash msg w where f: "fetch_pdus_machines ?e (ds_world ds) = (Inr (dash, msg), w)"
      and rows: "res_map_list (\<lambda>(name, ports). pdu_rows ?e name ports) dash = Inr rows"
    using setup_rows[OF assms(6,7)] by (elim exE conjE) (rule that)
  have "shown pkvs mkvs = Inr dash" using fetch_result[OF fp fm] f by (cases "shown pkvs mkvs") auto
  then obtain dash0 d where d: "list_pdus pkvs [] = Inr dash0" "place_machines (dict_values mkvs) (dash0, []) = Inr d" "dash = add_waiting d"
    by (auto simp: shown_def res_bind_Inr_iff)
  have ok0: "dash_ok dash0" by (rule list_pdus_ok[OF d(1) pk(2)]) (simp add: dash_ok_def)
  have mj: "\<forall>j \<in> set (dict_values mkvs). machine_json j" using mk(2) by simp
  have okd: "dash_ok (fst d)" using place_machines_keep(1)[OF d(2) mj] ok0 by simp
  have wait: "\<forall>w \<in> set (snd d). json_get ''state'' w = Inr JNull" using waiting_rows[OF d(2)] by simp
  obtain ps x where off: "(bd_pdu b, Ports ps) \<in> set dash" "(bd_port b, x) \<in> set ps" "json_get ''state'' x = Inr (JStr ''OFF'')"
    using offers_discovery[OF rows assms(8)] by blast
  note get = off_row_listed[OF off(1)[unfolded d(3)] off(2,3) wait okd]
  have ps: "dict_ok ps" "fst ` set ps \<subseteq> range (\<lambda>i. JStr (show_int i))" using okd get unfolding dash_ok_def by blast+
  then obtain i where port: "bd_port b = JStr (show_int i)" using off(2) by force
  obtain y where y: "y \<in> set (dict_values (mr_machines ?m))" "pdu (o_dut (the_dut ?m (m_dut y))) = Some (bd_pdu b)"
      "pdu_port_id (o_dut (the_dut ?m (m_dut y))) = Some (show_int i)"
    using assigned_machine[OF assms(1) assigned[unfolded port] show_int_not_None] by blast
  obtain kv where kv: "kv \<in> set mkvs" "encode_machine ae s1 y = Inr (snd kv)" using mk(3) y(1) by blast
  have idx: "json_index ''pdu'' (snd kv) = Inr (JObj [(''name'', JStr (bd_pdu b)), (''port_id'', JStr (show_int i))])"
    using encode_machine_json(2)[OF kv(2)] unfolding m1 y(2,3) by (simp add: opt_json_def)
  have "snd kv \<in> set (dict_values mkvs)" using kv(1) by simp
  from place_machines_occupy[OF d(2) mj _ this idx] ok0 have "occupied (bd_pdu b) (bd_port b) (fst d)"
    unfolding port by simp
  then obtain x' where "dict_get ps (bd_port b) = Some x'" "has_machine_state x'"
    using get by (auto simp: occupied_def)
  moreover have "dict_get ps (bd_port b) = Some x" using dict_ok_mem[OF ps(1) off(2)] .
  ultimately show False using not_off off(3) by simp
qed

text \<open>A PDU with two ports, the second of which is that of the farm's machine.\<close>

definition example_dashboard :: "(string set, unit, vpdu) app dash_state" where
  "example_dashboard = \<lparr>ds_footer_line = [], ds_machines_box = False, ds_world = example_app\<rparr>"

definition free_button :: button_data where
  "free_button = \<lparr>bd_pdu = ''PDU'', bd_port = JStr ''0'', bd_mac_address = JNull\<rparr>"

definition example_port :: json where
  "example_port = JObj [(''label'', JNull), (''min_off_time'', JInt 5000000), (''state'', JStr ''OFF'')]"

definition example_ports :: "(string, json) dict" where
  "example_ports = [(''PDU'', JObj [(''ports'', JObj [(''0'', example_port), (''1'', example_port)])])]"

definition example_machines :: "(string, json) dict" where
  "example_machines = [(''10:62:e5:04:39:89'', JObj
     [(''state'', JStr ''IDLE''), (''ready_for_service'', JBool False), (''has_pdu_assigned'', JBool True),
      (''local_tty_device'', JStr ''ttyS0''), (''tags'', JList [JStr ''amd'']), (''base_name'', JStr ''amdgpu''),
      (''full_name'', JStr ''farm-amdgpu-1''), (''mac_address'', JStr ''10:62:e5:04:39:89''), (''ip_address'', JStr ''10.42.0.10''),
      (''is_retired'', JBool False),
      (''training'', JObj [(''is_active'', JBool False), (''is_registered'', JBool False), (''boot_loop_counts'', JInt 3),
         (''qualifying_rate'', JInt 2), (''current_loop_count'', JInt 0), (''statuses'', JObj [])]),
      (''pdu'', JObj [(''name'', JStr ''PDU''), (''port_id'', JStr ''1'')])])]"

definition after_pdus :: "(string set, unit, vpdu) app" where
  "after_pdus = snd (get_pdus_list two_ports_env example_app)"

lemma example_listings:
  "get_pdus_list two_ports_env example_app = (Inr (200, JObj [(''pdus'', JObj example_ports)]), after_pdus)"
  "get_machine_list two_ports_env after_pdus = (Inr (200, JObj [(''machines'', JObj example_machines)]), snd (get_machine_list two_ports_env after_pdus))"
proof -
  have "fst (get_pdus_list two_ports_env example_app) = Inr (200, JObj [(''pdus'', JObj example_ports)])" by code_simp
  then show "get_pdus_list two_ports_env example_app = (Inr (200, JObj [(''pdus'', JObj example_ports)]), after_pdus)"
    unfolding after_pdus_def by (metis prod.collapse)
  have "fst (get_machine_list two_ports_env after_pdus) = Inr (200, JObj [(''machines'', JObj example_machines)])" by code_simp
  then show "get_machine_list two_ports_env after_pdus =
      (Inr (200, JObj [(''machines'', JObj example_machines)]), snd (get_machine_list two_ports_env after_pdus))"
    by (metis prod.collapse)
qed

lemma example_listings_ok: "json_ok (JObj [(''pdus'', JObj example_ports)])" "json_ok (JObj [(''machines'', JObj example_machines)])"
  by code_simp+

lemma example_covered: "covered example_synced"
proof -
  have "dict_ok (mr_machines example_synced)"
    "dict_keys (mr_machines example_synced) = dict_keys (duts_at example_synced (mr_db example_synced))" by code_simp+
  then show ?thesis using example_linked by (simp add: covered_def)
qed

lemma setup_view_rows:
  assumes "e = rest_dash ae" "fetch_pdus_machines e (ds_world ds) = (Inr (dash, msg), w)" "dash \<noteq> []"
    and "res_map_list (\<lambda>(name, ports). pdu_rows e name ports) dash = Inr rows"
  shows "\<exists>v ds'. setup_view e ds = (Inr v, ds') \<and> vw_box v = Farm rows"
proof -
  have "\<exists>net. \<forall>s. on_world (networking_data e) s = (Inr net, s)"
    by (simp add: networking_data_def networking_list_def nic_line_def assms(1) rest_dash_def on_world_def act_bind_def act_return_def)
  moreover have "on_world (services_data e) s = (Inr [], s)" for s
    by (simp add: services_data_def assms(1) rest_dash_def on_world_def act_return_def)
  ultimately show ?thesis using assms(2-)
    by (auto simp: setup_view_def on_world_def[of "fetch_pdus_machines _"] act_bind_def act_lift_def act_modify_def act_return_def act_get_def)
qed

definition shown_offer :: "dashboard res \<Rightarrow> bool" where
  "shown_offer r =
     (case res_bind r (res_map_list (\<lambda>(name, ports). pdu_rows (rest_dash two_ports_env :: (string set, unit, vpdu) app dash_env) name ports)) of
        Inr rows \<Rightarrow> offers rows DISCOVER free_button | Inl _ \<Rightarrow> False)"

theorem discovery_offered_on_free_ports_witness:
  "\<not> port_is_assigned two_ports_env ''PDU'' (JStr ''0'') (ap_mars (ds_world example_dashboard))"
proof -
  let ?e = "rest_dash two_ports_env :: (string set, unit, vpdu) app dash_env"
  have world: "ds_world example_dashboard = example_app" and mars: "ap_mars example_app = example_synced"
    by (simp_all add: example_dashboard_def example_app_def)
  have "shown_offer (shown example_ports example_machines)" by code_simp
  then obtain dash rows where sh: "shown example_ports example_machines = Inr dash"
      and rows: "res_map_list (\<lambda>(name, ports). pdu_rows ?e name ports) dash = Inr rows" "offers rows DISCOVER free_button"
    by (auto simp: shown_offer_def res_bind_def split: sum.splits)
  have "dash \<noteq> []" using rows by (auto simp: offers_def)
  obtain w where "fetch_pdus_machines ?e example_app = (Inr (dash, []), w)"
    using fetch_result[OF fetch_pdus[OF example_listings(1) example_listings_ok(1)] fetch_machines[OF example_listings(2) example_listings_ok(2)]]
    unfolding sh by auto
  from setup_view_rows[OF refl this[folded world] \<open>dash \<noteq> []\<close> rows(1)] obtain v ds'
    where v: "setup_view ?e example_dashboard = (Inr v, ds')" "vw_box v = Farm rows" by blast
  show ?thesis
    using discovery_offered_on_free_ports[OF _ _ example_listings(2) example_listings_ok v rows(2), unfolded world mars, OF example_covered example_listings(1)]
    by (simp add: free_button_def mars world)
qed

lemma lift_bind: "act_bind (act_lift (Inr x)) f = f x"
  by (rule ext) simp

text \<open>Pressing the button asks the REST interface for a discovery of exactly this port.\<close>

lemma press_discover:
  assumes "json_ok (bd_port b)"
  shows "rest_post ae (fst (press_request e DISCOVER b)) (snd (press_request e DISCOVER b)) s =
    (let (r, s') = handle_request ae (discover_machine ae POST [(''pdu'', JStr (bd_pdu b)), (''port_id'', bd_port b)]) s
     in (Inr (rest_answer r), s'))"
proof -
  have ok: "json_ok (JObj [(''pdu'', JStr (bd_pdu b)), (''port_id'', bd_port b)])" using assms by simp
  have url: "str_split CHR ''/'' (dash_host @ ''/api/v1/machine/discover'') =
      [''http:'', [], ''localhost'', ''api'', ''v1'', ''machine'', ''discover'']" by code_simp
  show ?thesis
    by (simp add: press_request_def rest_post_def url json_loads_dumps[OF ok] json_members_def lift_bind del: json_dumps.simps json_ok.simps)
qed

section \<open>Where the dashboard fails\<close>

text \<open>
  A machine whose PDU or port is not listed takes the whole dashboard down: \<open>setup_view\<close> raises a
  \<open>KeyError\<close>, at the start and at every refresh.
\<close>

lemma unlisted_port_fails:
  assumes "fetch_listing e ''pdus'' s = (Inr (Inr pkvs), s1)" "fetch_listing e ''machines'' s1 = (Inr (Inr [(mac, JObj kvs)]), s2)"
    and "list_pdus pkvs [] = Inr dash" "dict_get dash n = None"
    and "dict_get kvs ''pdu'' = Some (JObj [(''name'', JStr n), (''port_id'', JStr p)])"
  shows "\<exists>w. fetch_pdus_machines e s = (Inl KeyError, w)"
  using assms by (simp add: fetch_pdus_machines_def act_bind_def act_lift_def place_machine_def json_index_def place_on_port_def hashable_def)

text \<open>A service that is expected to be in another state is asked for under a name that includes this state.\<close>

lemma expected_state_in_unit_name:
  "service_line e ''wg:inactive'' s =
     act_bind (de_getoutput e ''systemctl is-active wg:inactive'') (\<lambda>status. act_return (service_text ''wg'' ''inactive'' status)) s"
  by (simp add: service_line_def split_service_def act_bind_def act_lift_def split: prod.splits sum.splits)

text \<open>A job on a retired machine cannot be cancelled from the dashboard.\<close>

lemma retired_job_not_cancelled: "py_truthy retired \<Longrightarrow> offered_action (JStr ''RUNNING'') retired = Some ACTIVATE"
  by (simp add: offered_action_def)

end
