(* ===== verification/Gfxinfo_Vulkan.thy ===== *)
theory Gfxinfo_Vulkan
  imports Vt_Drivers
begin

text \<open>
  What gfxinfo reads through the Vulkan library (\<open>gfxinfo_vulkan.py\<close>, \<open>__main__.py\<close>): opening a device,
  the version of Mesa in its driver's information, and the fields that \<open>output_gpu_info\<close> writes
  from it for the trace replay to read.
\<close>

unbundle bit_operations_syntax

section \<open>Opening a device\<close>

text \<open>
  What the library reports of a device. The properties of the driver are only asked for if the instance
  supports the extension; otherwise the attribute does not exist, which is \<open>None\<close> here.
\<close>

record vk_properties =
  vp_device :: "int \<times> int"
  vp_device_name :: string
  vp_device_type :: int
  vp_api_version :: int

record vk_driver_properties =
  vd_driver_info :: string
  vd_driver_name :: string
  vd_conformance :: "int \<times> int \<times> int \<times> int"

record VulkanInfo =
  vi_properties :: vk_properties
  vi_memory :: vk_memory
  vi_extensions :: "(string \<times> int) list"
  vi_driver :: "vk_driver_properties option"

record vk_physical_device =
  pd_properties :: vk_properties
  pd_memory :: vk_memory
  pd_extensions :: "(string \<times> int) list"
  pd_driver :: vk_driver_properties

datatype instance_result = Instance_created | Extension_not_present | Incompatible_driver | Instance_error

text \<open>
  The library: whether it could be imported, what creating an instance with or without the extension gives,
  and the devices, unless asking for them raises. Printing is left out.
\<close>

record vk_library =
  vl_imported :: bool
  vl_create :: "bool \<Rightarrow> instance_result"
  vl_devices :: "vk_physical_device list option"

text \<open>The state is the number of instances that exist.\<close>

definition destroy_instance :: "(nat, unit) act" where
  "destroy_instance = act_modify (\<lambda>n. n - 1)"

definition get_vk_instance :: "vk_library \<Rightarrow> bool \<Rightarrow> (nat, instance_result) act" where
  "get_vk_instance l with_extension =
     (if vl_create l with_extension = Instance_created then act_bind (act_modify Suc) (\<lambda>_. act_return Instance_created)
      else act_return (vl_create l with_extension))"

definition VulkanInfo_init :: "vk_physical_device \<Rightarrow> bool \<Rightarrow> (nat, VulkanInfo) act" where
  "VulkanInfo_init d properties_2_supported =
     act_bind destroy_instance (\<lambda>_.
       act_return \<lparr>vi_properties = pd_properties d, vi_memory = pd_memory d, vi_extensions = pd_extensions d,
                   vi_driver = (if properties_2_supported then Some (pd_driver d) else None)\<rparr>)"

definition open_device :: "vk_library \<Rightarrow> nat \<Rightarrow> bool \<Rightarrow> (nat, VulkanInfo option) act" where
  "open_device l device_index supported =
     (case vl_devices l of
        None \<Rightarrow> act_bind destroy_instance (\<lambda>_. act_return None)
      | Some ds \<Rightarrow>
          if ds = [] \<or> device_index + 1 > length ds
          then act_bind destroy_instance (\<lambda>_. act_return None)
          else act_bind (VulkanInfo_init (ds ! device_index) supported) (\<lambda>i. act_return (Some i)))"

definition VulkanInfo_construct :: "vk_library \<Rightarrow> nat \<Rightarrow> (nat, VulkanInfo option) act" where
  "VulkanInfo_construct l device_index =
     (if \<not> vl_imported l then act_return None
      else
        act_bind (get_vk_instance l True) (\<lambda>r.
          case r of
            Instance_created \<Rightarrow> open_device l device_index True
          | Extension_not_present \<Rightarrow>
              act_bind (get_vk_instance l False) (\<lambda>r'.
                if r' = Instance_created then open_device l device_index False else act_return None)
          | _ \<Rightarrow> act_return None))"

section \<open>Properties of the device and of the driver\<close>

definition driver_info :: "VulkanInfo \<Rightarrow> string res" where
  "driver_info i = (case vi_driver i of None \<Rightarrow> Inl AttributeError | Some d \<Rightarrow> Inr (vd_driver_info d))"

definition vk_driver_name :: "VulkanInfo \<Rightarrow> string res" where
  "vk_driver_name i = (case vi_driver i of None \<Rightarrow> Inl AttributeError | Some d \<Rightarrow> Inr (vd_driver_name d))"

definition conformance_version :: "VulkanInfo \<Rightarrow> string res" where
  "conformance_version i =
     (case vi_driver i of
        None \<Rightarrow> Inl AttributeError
      | Some d \<Rightarrow> (case vd_conformance d of (major, minor, subminor, patch) \<Rightarrow>
          Inr (show_int major @ ''.'' @ show_int minor @ ''.'' @ show_int subminor @ ''.'' @ show_int patch)))"

text \<open>The names of the device types, by the numbers of the Vulkan specification.\<close>

definition device_type_name :: "VulkanInfo \<Rightarrow> string res" where
  "device_type_name i =
     (case dict_get [(0, ''OTHER''), (1, ''INTEGRATED''), (2, ''DISCRETE''), (3, ''VIRTUAL''), (4, ''CPU'')] (vp_device_type (vi_properties i)) of
        None \<Rightarrow> Inl (ValueError ''not a valid VulkanDeviceType'')
      | Some n \<Rightarrow> Inr n)"

section \<open>The version of Mesa\<close>

text \<open>
  \<open>re.search\<close> with the pattern \<open>Mesa [\w\.\d -]+\b\<close>: the first place where the text starts with \<open>Mesa\<close> and
  the longest non-empty run of the class has a prefix that ends at a word boundary; the longest such prefix
  is the version.
\<close>

fun re_search :: "(string \<Rightarrow> string option) \<Rightarrow> string \<Rightarrow> string option" where
  "re_search f [] = f []"
| "re_search f (c # s) = (case f (c # s) of Some v \<Rightarrow> Some v | None \<Rightarrow> re_search f s)"

definition version_char :: "char \<Rightarrow> bool" where
  "version_char c \<longleftrightarrow> word_char c \<or> c \<in> set ''. -''"

definition word_boundary :: "string \<Rightarrow> nat \<Rightarrow> bool" where
  "word_boundary s n \<longleftrightarrow> (0 < n \<and> word_char (s ! (n - 1))) \<noteq> (n < length s \<and> word_char (s ! n))"

fun longest_bounded :: "string \<Rightarrow> nat \<Rightarrow> nat option" where
  "longest_bounded s 0 = None"
| "longest_bounded s (Suc n) = (if word_boundary s (Suc n) then Some (Suc n) else longest_bounded s n)"

definition version_at :: "string \<Rightarrow> string option" where
  "version_at s =
     Option.bind (expect ''Mesa '' s) (\<lambda>t. map_option (\<lambda>n. take n t) (longest_bounded t (length (takeWhile version_char t))))"

definition hash_char :: "char \<Rightarrow> bool" where
  "hash_char c = (let n = (of_char c :: nat) in (48 \<le> n \<and> n \<le> 57) \<or> (97 \<le> n \<and> n \<le> 122))"

text \<open>
  The pattern \<open>Mesa [\w\.\d -]+ \(git-([\da-z]+)\)\<close>. The class has the space but no parenthesis, so that
  the run before the parenthesis ends in a space, and has something before it.
\<close>

definition hash_at :: "string \<Rightarrow> string option" where
  "hash_at s =
     Option.bind (expect ''Mesa '' s) (\<lambda>t.
       let r = takeWhile version_char t in
       if length r < 2 \<or> last r \<noteq> CHR '' '' then None
       else Option.bind (expect ''(git-'' (drop (length r) t)) (\<lambda>u.
         let h = takeWhile hash_char u in
         if h \<noteq> [] \<and> take 1 (drop (length h) u) = '')'' then Some h else None))"

definition mesa_version :: "VulkanInfo \<Rightarrow> string option res" where
  "mesa_version i = res_bind (driver_info i) (\<lambda>x. Inr (re_search version_at x))"

definition mesa_git_version :: "VulkanInfo \<Rightarrow> string option res" where
  "mesa_git_version i = res_bind (driver_info i) (\<lambda>x. Inr (re_search hash_at x))"

section \<open>The fields of the output\<close>

text \<open>
  \<open>'%.2f' % GiB_size\<close>: hundredths of 2^30 bytes, rounded half to even, which is exact for sizes
  below 2^53 bytes.
\<close>

definition two_digits :: "int \<Rightarrow> string" where
  "two_digits n = (if n < 10 then ''0'' else []) @ show_int n"

definition gib_text :: "int \<Rightarrow> string" where
  "gib_text bytes =
     (let n = bytes * 100; q = n div 2 ^ 30; r = n mod 2 ^ 30;
          q' = (if 2 ^ 29 < r \<or> (r = 2 ^ 29 \<and> odd q) then q + 1 else q)
      in show_int (q' div 100) @ ''.'' @ two_digits (q' mod 100))"

definition vk_fields_of :: "VulkanInfo \<Rightarrow> vk_fields res" where
  "vk_fields_of i =
     res_bind (find_heap 1 (Some (vi_memory i))) (\<lambda>vram.
     res_bind (find_heap 6 (Some (vi_memory i))) (\<lambda>gtt.
     res_bind (mesa_version i) (\<lambda>version.
     res_bind (mesa_git_version i) (\<lambda>git.
     res_bind (device_type_name i) (\<lambda>dtype.
     res_bind (vk_driver_name i) (\<lambda>name.
     res_bind (driver_info i) (\<lambda>inf.
       Inr \<lparr>vf_vram_size_gib = gib_text (vh_size vram), vf_gtt_size_gib = gib_text (vh_size gtt), vf_mesa_version = version,
            vf_mesa_git_version = git, vf_device_name = Some (vp_device_name (vi_properties i)), vf_device_type = Some dtype,
            vf_api_version = api_version (Some (vp_api_version (vi_properties i))), vf_driver_name = Some name,
            vf_driver_info = Some inf\<rparr>)))))))"

section \<open>No instance is left behind\<close>

text \<open>However the attempt ends, there are as many instances as before.\<close>

lemma open_device_destroys: "snd (open_device l k b n) = n - 1"
  by (simp add: open_device_def destroy_instance_def VulkanInfo_init_def act_modify_def act_return_def act_bind_def split: option.split)

lemma get_vk_instance_run:
  "get_vk_instance l b n = (Inr (vl_create l b), if vl_create l b = Instance_created then Suc n else n)"
  by (simp add: get_vk_instance_def act_return_def)

lemma construct_leaves_no_instance: "snd (VulkanInfo_construct l k n) = n"
proof -
  have "snd (open_device l k b (Suc n)) = n" for b by (simp add: open_device_destroys)
  then show ?thesis
    by (cases "vl_create l True"; cases "vl_create l False")
      (simp_all add: VulkanInfo_construct_def act_bind_def get_vk_instance_run act_return_def)
qed

text \<open>
  A device is described even without the extension that its driver's properties need, but nothing can be
  written about it: the attribute that every property of the driver reads was never set.
\<close>

lemma no_extension_no_driver:
  assumes "VulkanInfo_construct l k n = (Inr (Some i), n')" "vl_create l True = Extension_not_present"
  shows "vi_driver i = None"
  using assms
  by (auto simp: VulkanInfo_construct_def get_vk_instance_run open_device_def destroy_instance_def VulkanInfo_init_def
      act_bind_def act_modify_def act_return_def split: if_splits option.splits)

lemma no_extension_no_output:
  assumes "VulkanInfo_construct l k n = (Inr (Some i), n')" "vl_create l True = Extension_not_present"
    and "is_ok (heaps (Some (vi_memory i)))"
  shows "vk_fields_of i = Inl AttributeError"
  using no_extension_no_driver[OF assms(1,2)] assms(3)
  by (auto simp: vk_fields_of_def find_heap_def mesa_version_def driver_info_def is_ok_iff)

section \<open>The version that Mesa prints is the version that is reported\<close>

lemma version_char_simps: "version_char CHR '' ''" "\<not> version_char CHR ''(''" "\<not> word_char CHR '' ''" "\<not> word_char CHR ''(''"
  "\<not> hash_char CHR '')''"
  by (simp_all add: version_char_def word_char_def hash_char_def Let_def)

lemma takeWhile_run: "list_all P v \<Longrightarrow> \<not> P c \<Longrightarrow> takeWhile P (v @ c # t) = v"
  by (induction v) auto

definition is_version :: "string \<Rightarrow> bool" where
  "is_version v \<longleftrightarrow> v \<noteq> [] \<and> list_all version_char v \<and> word_char (last v)"

definition is_hash :: "string \<Rightarrow> bool" where
  "is_hash h \<longleftrightarrow> h \<noteq> [] \<and> list_all hash_char h"

lemma bounded_end: "is_version v \<Longrightarrow> t = [] \<or> \<not> word_char (hd t) \<Longrightarrow> word_boundary (v @ t) (length v)"
  by (cases t) (auto simp: is_version_def word_boundary_def nth_append last_conv_nth)

lemma longest_bounded_end: "v \<noteq> [] \<Longrightarrow> word_boundary s (length v) \<Longrightarrow> longest_bounded s (length v) = Some (length v)"
  by (cases v) simp_all

text \<open>Mesa prints its version alone or with the commit it was built from.\<close>

definition mesa_text :: "string \<Rightarrow> string \<Rightarrow> string" where
  "mesa_text v h = ''Mesa '' @ v @ '' (git-'' @ h @ '')''"

lemma version_of_mesa_text:
  assumes "is_version v" "is_hash h"
  shows "re_search version_at (mesa_text v h) = Some v"
proof -
  let ?t = "v @ '' (git-'' @ h @ '')''"
  have tw: "takeWhile version_char ?t = v @ '' ''"
    using takeWhile_run[of version_char "v @ '' ''" "CHR ''(''" "''git-'' @ h @ '')''"] assms(1)
    by (simp add: is_version_def version_char_simps)
  have "\<not> word_boundary ?t (Suc (length v))"
    by (simp add: word_boundary_def nth_append version_char_simps)
  moreover have "word_boundary ?t (length v)" by (rule bounded_end[OF assms(1)]) (simp add: version_char_simps)
  moreover have "v \<noteq> []" using assms(1) by (simp add: is_version_def)
  ultimately have "longest_bounded ?t (length (takeWhile version_char ?t)) = Some (length v)"
    using longest_bounded_end[of v ?t] unfolding tw by simp
  then have "version_at (mesa_text v h) = Some v" by (simp add: version_at_def mesa_text_def expect_def)
  then show ?thesis by (cases "mesa_text v h") (simp_all add: mesa_text_def)
qed

lemma hash_of_mesa_text:
  assumes "is_version v" "is_hash h"
  shows "re_search hash_at (mesa_text v h) = Some h"
proof -
  let ?t = "v @ '' (git-'' @ h @ '')''"
  have tw: "takeWhile version_char ?t = v @ '' ''"
    using takeWhile_run[of version_char "v @ '' ''" "CHR ''(''" "''git-'' @ h @ '')''"] assms(1)
    by (simp add: is_version_def version_char_simps)
  have th: "takeWhile hash_char (h @ '')'') = h"
    using takeWhile_run[of hash_char h "CHR '')''" "[]"] assms(2) by (simp add: is_hash_def version_char_simps)
  have "2 \<le> length (v @ '' '')" using assms(1) by (cases v) (simp_all add: is_version_def)
  moreover have "h \<noteq> []" using assms(2) by (simp add: is_hash_def)
  moreover have "drop (length (v @ '' '')) ?t = ''(git-'' @ h @ '')''" by simp
  moreover have "v \<noteq> []" using assms(1) by (simp add: is_version_def)
  ultimately have "hash_at (mesa_text v h) = Some h"
    by (simp add: hash_at_def mesa_text_def expect_def tw[simplified] th Let_def)
  then show ?thesis by (cases "mesa_text v h") (simp_all add: mesa_text_def)
qed

text \<open>
  From the driver to the report: the version and the commit in what Mesa says of itself reach the
  driver that a trace replay is reported with, through the output of gfxinfo.
\<close>

theorem mesa_version_reported:
  assumes "vi_driver i = Some d" "vd_driver_info d = mesa_text v h" "is_version v" "is_hash h" "vk_fields_of i = Inr f"
    and "GfxInfo_init (output_gpu_info ts structured (Some f)) = Inr g"
  shows "\<exists>drv. vk_driver g = Inr drv \<and> gd_version drv = Some v \<and> gd_commit drv = Some h"
proof -
  have "mesa_version i = Inr (Some v)" "mesa_git_version i = Inr (Some h)"
    using assms(1-2) version_of_mesa_text[OF assms(3,4)] hash_of_mesa_text[OF assms(3,4)]
    by (simp_all add: mesa_version_def mesa_git_version_def driver_info_def)
  then have f: "vf_mesa_version f = Some v" "vf_mesa_git_version f = Some h"
    using assms(5) by (auto simp: vk_fields_of_def res_bind_Inr_iff)
  have g: "gi_fields g = output_gpu_info ts structured (Some f)" using assms(6) by (auto simp: GfxInfo_init_def output_gpu_info_def)
  have "dict_get (gi_fields g) ''mesa:version'' = Some (JStr v)" "dict_get (gi_fields g) ''mesa:git:version'' = Some (JStr h)"
    unfolding g by (simp_all add: output_gpu_info_def opt_field_def f)
  then show ?thesis by (simp add: vk_driver_def text_field_def Let_def)
qed

definition renoir_info :: VulkanInfo where
  "renoir_info =
     \<lparr>vi_properties = \<lparr>vp_device = (0x1002, 0x1636), vp_device_name = ''AMD RENOIR'', vp_device_type = 1, vp_api_version = 0x402000\<rparr>,
      vi_memory = \<lparr>vk_heap_count = 0, vk_heaps = [], vk_types = []\<rparr>, vi_extensions = [],
      vi_driver = Some \<lparr>vd_driver_info = mesa_text ''22.1.0-devel'' ''5d8c659678'', vd_driver_name = ''radv'', vd_conformance = (1, 2, 7, 1)\<rparr>\<rparr>"

theorem mesa_version_reported_witness:
  "\<exists>f g drv. vk_fields_of renoir_info = Inr f \<and> GfxInfo_init (output_gpu_info [''amdgpu''] JNull (Some f)) = Inr g \<and>
    vk_driver g = Inr drv \<and> gd_version drv = Some ''22.1.0-devel'' \<and> gd_commit drv = Some ''5d8c659678''"
proof -
  have "is_ok (vk_fields_of renoir_info)" by code_simp
  then obtain f where f: "vk_fields_of renoir_info = Inr f" by (auto simp: is_ok_iff)
  have g: "\<exists>g. GfxInfo_init (output_gpu_info [''amdgpu''] JNull (Some f)) = Inr g" by (simp add: GfxInfo_init_def output_gpu_info_def)
  then obtain g where g: "GfxInfo_init (output_gpu_info [''amdgpu''] JNull (Some f)) = Inr g" by blast
  have "is_version ''22.1.0-devel''" "is_hash ''5d8c659678''" by code_simp+
  then show ?thesis using mesa_version_reported[OF _ _ _ _ f g, of _ "''22.1.0-devel''" "''5d8c659678''"] f g
    by (simp add: renoir_info_def)
qed

end
