(* ===== verification/Spec2Isabelle.thy ===== *)
theory Spec2Isabelle
  imports PDU_SNMP Client Ipxe_Server Machine_Registration Vt_Report Dashboard Gfxinfo_Vulkan
begin

text \<open>
  A verification library for valve-infra, the software of a farm of test machines (DUTs) that runs
  jobs on bare hardware. A gateway powers the machines through PDUs, boots them over the
  network, reads their serial consoles and reports the result of every job to the client that
  submitted it.

  \<^bold>\<open>The program and the theories.\<close> Paths are relative to \<open>src/\<close>; \<open>server/\<close> abbreviates
  \<open>executor/server/src/valve_gfx_ci/executor/server/\<close>.

  \<^item> \<open>CI_Prelude\<close>, \<open>Py_Strings\<close>, \<open>Json\<close>, \<open>Wire_Codecs\<close>: what the sources use of Python. Exceptions are
    the values of \<open>py_exc\<close>, a fallible call has type \<open>'a res\<close>, a stateful call is an action
    \<open>('s, 'a) act\<close> whose state survives an exception. The locale \<open>act_preorder\<close> is the interface of
    frame arguments: a reflexive and transitive relation on states that is closed under the
    combinators; the components interpret it on what they leave untouched. Strings, line
    splitting, numbers in a base, JSON with its round trip, base85 and UTF-8, dates.
  \<^item> \<open>PDU\<close>, \<open>VPDU\<close>, \<open>PDU_SNMP\<close> (\<open>server/pdu/\<close>, \<open>ansible/roles/vpdu/files/vpdu.py\<close>): PDU ports with
    their minimal off time over any driver that meets the locale \<open>pdu_driver\<close>, which the dummy
    driver and the virtual PDU with its wire protocol interpret; SNMP drivers and the factory.
  \<^item> \<open>Message\<close> (\<open>server/message.py\<close>): framing and payloads of the messages to the client, and the
    receive loop with its segments.
  \<^item> \<open>Job_Timeouts\<close>, \<open>Job_Patterns\<close>, \<open>Job_Desc\<close> (\<open>server/job.py\<close>, \<open>config.py\<close>): timeouts with
    retries, console patterns and watchdogs, job descriptions and deployments.
  \<^item> \<open>Job_Console\<close> (\<open>server/executor.py\<close>, \<open>JobConsole\<close>): the state machine between the serial console
    service and the client, with the line buffer in front of the patterns.
  \<^item> \<open>Minio\<close> (\<open>server/minioclient.py\<close>, \<open>JobBucket\<close>): policies, buckets, credentials and groups.
  \<^item> \<open>Sergent_Hartman\<close> (\<open>server/executor.py\<close>): the training of machines that are not in service.
  \<^item> \<open>Executor\<close>, \<open>Boot_Bound\<close>, \<open>Executor_Main\<close> (\<open>server/executor.py\<close>, \<open>Executor\<close>): the execution of a job
    as a transition system of the executor's thread and the console's thread, the bound on the
    number of boots, and the main loop with the hand-over of jobs from the REST thread.
  \<^item> \<open>Boots\<close> (\<open>server/boots.py\<close>): MAC addresses, the hosts file of dnsmasq, boot scripts.
  \<^item> \<open>Gitlab_Runner\<close>, \<open>Mars\<close> (\<open>server/gitlab.py\<close>, \<open>mars.py\<close>): runner tokens; the machine registration
    service. The objects that Python shares between the database, the machines and the REST
    interface are cells of an explicit store, so that a change through one is seen by the others.
  \<^item> \<open>App\<close>, \<open>Job_Request\<close> (\<open>server/app.py\<close>): the REST interface. \<open>App\<close> has the routes for machines, PDUs,
    discovery, retirement and cancellation, \<open>Job_Request\<close> the submission of jobs.
  \<^item> \<open>Client\<close> (\<open>executor/client/src/valve_gfx_ci/executor/client/client.py\<close>): the client.
  \<^item> \<open>Salad\<close> (\<open>salad/src/valve_gfx_ci/salad/\<close>): the serial console service.
  \<^item> \<open>Gfxinfo\<close>, \<open>Gfxinfo_Vulkan\<close> (\<open>gfxinfo/src/valve_gfx_ci/gfxinfo/\<close>): the identification of GPUs, which
    gives machines the tags that jobs select them by, and what is read of the driver through Vulkan.
  \<^item> \<open>Machine_Registration\<close> (\<open>machine_registration/machine_registration.py\<close>): the tool that runs on a
    machine, describes it to the REST interface and looks for its serial console.
  \<^item> \<open>Ipxe_Server\<close> (\<open>ipxe-boot-server/app.py\<close>): the server that gateways boot from, with its
    one-time secrets; the locale \<open>secret_store\<close> is what its routes rely on.
  \<^item> \<open>Dashboard\<close> (\<open>ansible/roles/dashboard/files/bin/dashboard.py\<close>): the listing of ports and machines
    with the buttons of the operators, run on the REST interface of \<open>App\<close>.
  \<^item> \<open>Vt_Traces\<close>, \<open>Vt_Drivers\<close>, \<open>Vt_Exec\<close>, \<open>Vt_Report\<close> (\<open>valvetraces/src/valve_gfx_ci/valvetraces/\<close>): the
    program that jobs run to replay traces of games: the traces, their selection and
    enrollment; drivers as logs, glxinfo and gfxinfo name them; executions, frames and
    the compatibility reports of a git history; running, judging and reporting.

  \<^bold>\<open>How the parts interact.\<close> A client sends a request (\<open>Client.client_request\<close>) that the REST
  interface parses (\<open>Job_Request.JobRequest_parse\<close>); it checks the groups against MinIO, chooses an
  idle machine among those that \<open>Mars\<close> keeps, and hands the job to that machine's executor
  (\<open>Executor_Main.start_job\<close>). The executor cuts and restores power through a \<open>PDUPort\<close>, serves the boot
  script through \<open>Boots\<close>, and follows the console through \<open>Job_Console\<close>, whose bytes come from
  \<open>Salad\<close> and go to the client as \<open>Message\<close>s, which \<open>Client.forward_io\<close> shows. New machines boot the
  registration tool, whose request is made of what \<open>Gfxinfo\<close> found and is answered by \<open>App\<close>, and
  which greets the console service in the words that \<open>Salad.process_input_line\<close> waits for. Trace
  replays read the \<open>gfxinfo\<close> of the machine they run on.

  \<^bold>\<open>What is shown.\<close>
  \<^item> Results: the status of a job is the stated function of its console log, however the log is cut into
    reads; explanations, console bytes and status reach the client unchanged and in order;
    requests of the client are understood by the server as they were meant.
  \<^item> Power and boots: a machine is off outside of its boots, a port is never turned on before its
    minimal off time has passed, and the number of boots of a job is bounded by its timeouts' retries.
  \<^item> Hand-over: only one job runs on a machine at a time, a waiting executor gets the job, an
    accepted job is queued on an idle, active machine with the wanted tags, and a retired machine is
    never chosen; the dashboard offers discoveries on free ports only.
  \<^item> Registration: after a synchronisation the machines are those of the file, share their objects
    with the database and write changes through to the file; a machine that registers again cannot
    change what its administrators decided; a discovery only takes a free port.
  \<^item> Access: the policy of a job's owner grants exactly its own bucket from its own addresses, groups are
    only granted to members, and failures leave no users behind; no client of the serial console
    service sees the console of another machine.
  \<^item> New machines and gateways: a machine that registered passes the later check against what was
    registered; a secret of the boot server is handed out at most once, as a refinement of
    the history of requests.
  \<^item> Trace replay: as many traces as fit are selected; the newest reports that apply to the checked out
    commit are found; results are attributed to the traces that were run; the JUnit
    file and the exit code agree.
  \<^item> Formats: messages, payloads, MAC addresses, DHCP hosts and the driver's table are read back as
    written.
  \<^item> Failures: some theorems state what the code does where it does not do what it means to:
    frames in three segments, a job handed over too late, a console without client, and others.

  \<^bold>\<open>Bounds and fuel.\<close> Loops over data are structural or have a termination proof. Loops that wait
  for the outside (threads, the client, the registration service) are step functions or
  transition systems run on sequences of events of any length, so nothing is cut off; liveness
  theorems state the steps they need. The JSON reader recurses on fuel one more than the length of its
  input, which the round trip shows to be enough. Characters are code points below 256.

  \<^bold>\<open>Parameters.\<close> Regular expressions of jobs, YAML and pydantic, SNMP, MinIO, GitLab, Vulkan, git, Backblaze,
  sockets, clocks and random numbers are arguments of the definitions that use them. Where a
  theorem needs something of them it is a hypothesis, and its witness instantiates them.

  \<^bold>\<open>Not modelled.\<close> Starting processes, threads and web servers (\<open>run\<close> functions, command lines,
  signal handlers, logging) and helper scripts; the qemu processes behind the virtual PDU; what
  \<open>urwid\<close> makes of the dashboard's rows; downloads and uploads of \<open>valvetraces\<close> beyond the requests they make; tests,
  containers, Ansible roles and build files. The client's copy of \<open>message.py\<close> is identical to the
  server's, which \<open>Message\<close> models.
\<close>

end
